(* ===== verification/Prelude.thy ===== *)
theory Prelude
  imports Main "HOL-Library.Word"
begin

text \<open>
  What every component of the firmware model shares: the machine integers and return codes of
  the C code, C strings, the functions of \<open>ctype.h\<close>, \<open>string.h\<close> and \<open>stdlib.h\<close> that the
  sources call, decimal formatting as \<open>snprintk\<close> performs it, and generic lemmas about them.

  Conventions.  \<open>uint8_t\<close>, \<open>uint16_t\<close>, \<open>uint32_t\<close> and \<open>int64_t\<close> values are words of their
  width.  \<open>size_t\<close> values are lengths of objects in memory and are natural numbers.  A
  NUL-terminated \<open>char\<close> array is the HOL string of its characters up to the terminator; a
  \<open>char\<close> pointer that may be NULL is an option.  An \<open>int\<close> that carries an error number is
  a value of type \<open>rc\<close>.
\<close>

section \<open>Integers and return codes\<close>

type_synonym u8 = "8 word"
type_synonym u16 = "16 word"
type_synonym u32 = "32 word"
type_synonym s64 = "64 word"

text \<open>
  The sources return 0 or a negated error number.  Only the distinctness of the error numbers
  matters to the code, so they are constructors; a number the sources never name is
  \<open>EOTHER\<close>.
\<close>

datatype errno =
    EINVAL | ENOENT | ERANGE | EMSGSIZE | EALREADY | EBUSY | ENOTCONN | ENOTSUP
  | EACCES | EAGAIN | ENOMEM | ENODEV | EOTHER int

datatype rc = RC_OK | RC_ERR errno

section \<open>Collections of facts\<close>

named_theorems c_string "facts about C strings and the ctype functions"
named_theorems sys_frame "which parts of the state an operation leaves alone"

section \<open>Characters: ctype.h in the C locale\<close>

abbreviation NUL :: char where "NUL \<equiv> CHR 0x00"
abbreviation CR :: char where "CR \<equiv> CHR 0x0D"
abbreviation LF :: char where "LF \<equiv> CHR 0x0A"

definition c_isspace :: "char \<Rightarrow> bool" where
  "c_isspace c = (let n = (of_char c :: nat) in n = 32 \<or> (9 \<le> n \<and> n \<le> 13))"

definition c_isdigit :: "char \<Rightarrow> bool" where
  "c_isdigit c = (let n = (of_char c :: nat) in 48 \<le> n \<and> n \<le> 57)"

definition c_isxdigit :: "char \<Rightarrow> bool" where
  "c_isxdigit c = (let n = (of_char c :: nat) in
     (48 \<le> n \<and> n \<le> 57) \<or> (65 \<le> n \<and> n \<le> 70) \<or> (97 \<le> n \<and> n \<le> 102))"

definition c_toupper :: "char \<Rightarrow> char" where
  "c_toupper c = (let n = (of_char c :: nat) in
     if 97 \<le> n \<and> n \<le> 122 then char_of (n - 32) else c)"

definition c_tolower :: "char \<Rightarrow> char" where
  "c_tolower c = (let n = (of_char c :: nat) in
     if 65 \<le> n \<and> n \<le> 90 then char_of (n + 32) else c)"

text \<open>Bytes and characters: the casts \<open>(char)\<close> and \<open>(unsigned char)\<close>.\<close>

definition char_of_u8 :: "u8 \<Rightarrow> char" where
  "char_of_u8 b = char_of (unat b)"

definition u8_of_char :: "char \<Rightarrow> u8" where
  "u8_of_char c = word_of_nat (of_char c)"

definition bytes_of :: "string \<Rightarrow> u8 list" where
  "bytes_of s = map u8_of_char s"

definition chars_of :: "u8 list \<Rightarrow> string" where
  "chars_of bs = map char_of_u8 bs"

lemma unat_lt: "unat (w :: 'a :: len word) < 2 ^ LENGTH('a)"
  by (rule unsigned_less)

lemma of_char_lt_256 [simp]: "(of_char c :: nat) < 256"
proof -
  have "(of_char c :: nat) mod 256 < 256" by simp
  then show ?thesis by simp
qed

lemma unat_u8_of_char [simp]: "unat (u8_of_char c) = of_char c"
proof -
  have "unat (u8_of_char c) = of_char c mod 256"
    by (simp add: u8_of_char_def unat_of_nat)
  then show ?thesis by simp
qed

lemma char_of_u8_of_char [simp]: "char_of_u8 (u8_of_char c) = c"
  by (simp add: char_of_u8_def)

lemma u8_of_char_of_u8 [simp]: "u8_of_char (char_of_u8 b) = b"
proof -
  have "unat b < 256" using unat_lt [of b] by simp
  then show ?thesis
    by (simp add: char_of_u8_def u8_of_char_def)
qed

lemma chars_of_bytes_of [simp]: "chars_of (bytes_of s) = s"
  by (simp add: chars_of_def bytes_of_def comp_def)

lemma bytes_of_chars_of [simp]: "bytes_of (chars_of bs) = bs"
  by (simp add: chars_of_def bytes_of_def comp_def)

lemma length_bytes_of [simp]: "length (bytes_of s) = length s"
  by (simp add: bytes_of_def)

lemma length_chars_of [simp]: "length (chars_of s) = length s"
  by (simp add: chars_of_def)

lemma bytes_of_append [simp]: "bytes_of (s @ t) = bytes_of s @ bytes_of t"
  by (simp add: bytes_of_def)

lemma c_toupper_idem [c_string, simp]: "c_toupper (c_toupper c) = c_toupper c"
  by (auto simp: c_toupper_def Let_def)

lemma c_tolower_idem [c_string, simp]: "c_tolower (c_tolower c) = c_tolower c"
  by (auto simp: c_tolower_def Let_def)

lemma c_toupper_tolower [c_string]: "c_toupper (c_tolower c) = c_toupper c"
  by (auto simp: c_toupper_def c_tolower_def Let_def)

lemma c_tolower_toupper [c_string]: "c_tolower (c_toupper c) = c_tolower c"
  by (auto simp: c_toupper_def c_tolower_def Let_def)

lemma c_isxdigit_toupper [c_string, simp]: "c_isxdigit (c_toupper c) = c_isxdigit c"
  by (auto simp: c_toupper_def c_isxdigit_def Let_def)

lemma c_isxdigit_tolower [c_string, simp]: "c_isxdigit (c_tolower c) = c_isxdigit c"
  by (auto simp: c_tolower_def c_isxdigit_def Let_def)

lemma xdigit_not_space [c_string]: "c_isxdigit c \<Longrightarrow> \<not> c_isspace c"
  by (auto simp: c_isxdigit_def c_isspace_def Let_def)

lemma digit_not_space [c_string]: "c_isdigit c \<Longrightarrow> \<not> c_isspace c"
  by (auto simp: c_isdigit_def c_isspace_def Let_def)

section \<open>C strings\<close>

text \<open>The string held by a \<open>char\<close> array: its characters up to the first NUL.\<close>

definition cstr :: "char list \<Rightarrow> string" where
  "cstr buf = takeWhile (\<lambda>c. c \<noteq> NUL) buf"

text \<open>
  \<open>snprintk(buf, n, ...)\<close> with a positive \<open>n\<close> stores at most \<open>n - 1\<close> characters of the
  formatted text and a terminator.
\<close>

definition snprintk :: "nat \<Rightarrow> string \<Rightarrow> string" where
  "snprintk n text = take (n - 1) text"

lemma snprintk_fits [c_string]: "length text < n \<Longrightarrow> snprintk n text = text"
  by (simp add: snprintk_def)

lemma length_snprintk: "0 < n \<Longrightarrow> length (snprintk n text) < n"
  by (auto simp: snprintk_def)

lemma cstr_no_NUL [c_string]: "NUL \<notin> set s \<Longrightarrow> cstr s = s"
  by (induction s) (auto simp: cstr_def)

lemma cstr_append_NUL [c_string]: "NUL \<notin> set s \<Longrightarrow> cstr (s @ NUL # t) = s"
  by (induction s) (auto simp: cstr_def)

lemma NUL_notin_cstr [c_string, simp]: "NUL \<notin> set (cstr s)"
  by (auto simp: cstr_def dest: set_takeWhileD)

lemma length_cstr_le: "length (cstr s) \<le> length s"
  by (simp add: cstr_def length_takeWhile_le)

text \<open>
  The loop \<open>while (len > start && isspace(text[len - 1])) len--\<close>, which both the UUID and the
  command-line trimming run.
\<close>

fun rtrim_len :: "string \<Rightarrow> nat \<Rightarrow> nat \<Rightarrow> nat" where
  "rtrim_len text start 0 = 0"
| "rtrim_len text start (Suc n) =
     (if start < Suc n \<and> c_isspace (text ! n) then rtrim_len text start n else Suc n)"

lemma rtrim_len_le: "rtrim_len text start n \<le> n"
  by (induction n) auto

lemma rtrim_len_ge: "start \<le> n \<Longrightarrow> start \<le> rtrim_len text start n"
  by (induction n) auto

lemma rtrim_len_spaces:
  "rtrim_len text start n \<le> i \<Longrightarrow> i < n \<Longrightarrow> c_isspace (text ! i)"
  by (induction n) (auto split: if_splits simp: less_Suc_eq)

lemma rtrim_len_last:
  "start < rtrim_len text start n \<Longrightarrow> \<not> c_isspace (text ! (rtrim_len text start n - 1))"
  by (induction n) (auto split: if_splits)

lemma rtrim_len_snoc_space:
  "start \<le> length s \<Longrightarrow> c_isspace c \<Longrightarrow>
     rtrim_len (s @ [c]) start (length (s @ [c])) = rtrim_len s start (length s)"
proof -
  have *: "n \<le> length s \<Longrightarrow> rtrim_len (s @ [c]) start n = rtrim_len s start n" for n
    by (induction n) (auto simp: nth_append)
  show "start \<le> length s \<Longrightarrow> c_isspace c \<Longrightarrow> ?thesis"
    by (auto simp: * nth_append)
qed

lemma rtrim_len_id:
  "s = [] \<or> \<not> c_isspace (last s) \<Longrightarrow> rtrim_len s start (length s) = length s"
  by (cases s rule: rev_cases) (auto simp: nth_append)

text \<open>Trimming on the right, as a function of the string.\<close>

definition rtrim :: "string \<Rightarrow> string" where
  "rtrim s = rev (dropWhile c_isspace (rev s))"

lemma take_rtrim_len: "take (rtrim_len s 0 (length s)) s = rtrim s"
proof (induction s rule: rev_induct)
  case Nil
  then show ?case by (simp add: rtrim_def)
next
  case (snoc c s)
  show ?case
  proof (cases "c_isspace c")
    case True
    then have "rtrim_len (s @ [c]) 0 (length (s @ [c])) = rtrim_len s 0 (length s)"
      by (rule rtrim_len_snoc_space [OF le0])
    with snoc True rtrim_len_le [of s 0 "length s"] show ?thesis
      by (simp add: rtrim_def)
  next
    case False
    then have "rtrim_len (s @ [c]) 0 (length (s @ [c])) = length (s @ [c])"
      by (intro rtrim_len_id) simp
    with False show ?thesis by (simp add: rtrim_def)
  qed
qed

lemma length_rtrim: "length (rtrim s) = rtrim_len s 0 (length s)"
  using take_rtrim_len [of s] rtrim_len_le [of s 0 "length s"]
  by (metis length_take min.absorb2)

lemma rtrim_no_space [c_string]: "s = [] \<or> \<not> c_isspace (last s) \<Longrightarrow> rtrim s = s"
  by (cases s rule: rev_cases) (auto simp: rtrim_def)

section \<open>Decimal numbers\<close>

text \<open>\<open>%u\<close> and \<open>%d\<close>.\<close>

fun fmt_u :: "nat \<Rightarrow> string" where
  "fmt_u n = (if n < 10 then [char_of (48 + n)] else fmt_u (n div 10) @ [char_of (48 + n mod 10)])"

declare fmt_u.simps [simp del]

definition fmt_d :: "int \<Rightarrow> string" where
  "fmt_d i = (if i < 0 then CHR ''-'' # fmt_u (nat (- i)) else fmt_u (nat i))"

text \<open>The number a string of decimal digits stands for.\<close>

definition dec_value :: "string \<Rightarrow> nat" where
  "dec_value ds = foldl (\<lambda>a c. 10 * a + (of_char c - 48)) 0 ds"

text \<open>
  \<open>strtoul(text, &end, 10)\<close> of the standard library with the 32-bit \<open>unsigned long\<close> of the
  target: leading white space, an optional sign, decimal digits; a negated result wraps, a value
  out of range gives \<open>ULONG_MAX\<close>.  \<open>None\<close> is "no conversion" (\<open>end == text\<close>); otherwise the
  second component is the string at \<open>end\<close>.
\<close>

definition c_strtoul10 :: "string \<Rightarrow> (u32 \<times> string) option" where
  "c_strtoul10 text =
     (let s = dropWhile c_isspace text;
          neg = (s \<noteq> [] \<and> hd s = CHR ''-'');
          t = (if s \<noteq> [] \<and> (hd s = CHR ''-'' \<or> hd s = CHR ''+'') then tl s else s);
          ds = takeWhile c_isdigit t;
          n = dec_value ds
      in if ds = [] then None
         else Some (if 4294967295 < n then - 1
                    else if neg then - word_of_nat n else word_of_nat n,
                    dropWhile c_isdigit t))"

lemma fmt_u_nonempty [simp]: "fmt_u n \<noteq> []"
  by (subst fmt_u.simps) simp

lemma fmt_u_digits: "\<forall>c \<in> set (fmt_u n). c_isdigit c"
proof (induction n rule: fmt_u.induct)
  case (1 n)
  show ?case
  proof (cases "n < 10")
    case True
    then show ?thesis by (subst fmt_u.simps) (simp add: c_isdigit_def Let_def)
  next
    case False
    with "1.IH" have "\<forall>c \<in> set (fmt_u (n div 10)). c_isdigit c" by simp
    moreover have "c_isdigit (char_of (48 + n mod 10))"
      by (simp add: c_isdigit_def Let_def)
    ultimately show ?thesis using False by (subst fmt_u.simps) simp
  qed
qed

lemma dec_value_snoc: "dec_value (ds @ [c]) = 10 * dec_value ds + (of_char c - 48)"
  by (simp add: dec_value_def)

lemma dec_value_fmt_u [simp]: "dec_value (fmt_u n) = n"
proof (induction n rule: fmt_u.induct)
  case (1 n)
  show ?case
  proof (cases "n < 10")
    case True
    then show ?thesis by (subst fmt_u.simps) (simp add: dec_value_def)
  next
    case False
    with "1.IH" have "dec_value (fmt_u (n div 10)) = n div 10" by simp
    with False show ?thesis
      by (subst fmt_u.simps) (simp add: dec_value_snoc)
  qed
qed

lemma length_fmt_u: "n < 10 ^ Suc k \<Longrightarrow> length (fmt_u n) \<le> Suc k"
proof (induction k arbitrary: n)
  case 0
  then show ?case by (subst fmt_u.simps) simp
next
  case (Suc k)
  show ?case
  proof (cases "n < 10")
    case True
    then show ?thesis by (subst fmt_u.simps) simp
  next
    case False
    from Suc.prems have "n div 10 < 10 ^ Suc k" by simp
    then have "length (fmt_u (n div 10)) \<le> Suc k" by (rule Suc.IH)
    with False show ?thesis by (subst fmt_u.simps) simp
  qed
qed

lemma digit_char_facts:
  assumes "c_isdigit c"
  shows "c \<noteq> NUL" "c \<noteq> CR" "c \<noteq> LF" "c \<noteq> CHR '',''" "c \<noteq> CHR ''-''" "c \<noteq> CHR ''+''"
  using assms by (auto simp: c_isdigit_def Let_def)

lemma fmt_u_u8: "length (fmt_u (unat (w :: u8))) \<le> 3"
  using length_fmt_u [of "unat w" 2] unat_lt [of w] by simp

lemma fmt_u_u16: "length (fmt_u (unat (w :: u16))) \<le> 5"
  using length_fmt_u [of "unat w" 4] unat_lt [of w] by simp

lemma fmt_u_u32: "length (fmt_u (unat (w :: u32))) \<le> 10"
  using length_fmt_u [of "unat w" 9] unat_lt [of w] by simp

lemma strtoul_fmt_u:
  assumes "n \<le> 4294967295" and rest: "rest = [] \<or> \<not> c_isdigit (hd rest)"
  shows "c_strtoul10 (fmt_u n @ rest) = Some (word_of_nat n, rest)"
proof -
  obtain c cs where f: "fmt_u n = c # cs" by (cases "fmt_u n") auto
  have dig: "\<forall>x \<in> set (c # cs). c_isdigit x" using fmt_u_digits [of n] f by simp
  then have c: "c_isdigit c" by simp
  have tw: "takeWhile c_isdigit (fmt_u n @ rest) = fmt_u n"
    using dig rest f by (cases rest) (auto simp: takeWhile_append)
  have dw: "dropWhile c_isdigit (fmt_u n @ rest) = rest"
    using dig rest f by (cases rest) (auto simp: dropWhile_append)
  show ?thesis
    using c digit_char_facts [OF c] assms(1) tw dw f dec_value_fmt_u [of n]
    by (simp add: c_strtoul10_def Let_def digit_not_space del: dec_value_fmt_u)
qed

section \<open>Integers in memory\<close>

text \<open>
  The object representation of a \<open>uint16_t\<close> and a \<open>bool\<close> on the little-endian target, and what
  is left in the object when a call stores the first bytes of it.
\<close>

definition u16_bytes :: "u16 \<Rightarrow> u8 list" where
  "u16_bytes w = [ucast w, ucast (drop_bit 8 w)]"

definition u16_of_bytes :: "u8 list \<Rightarrow> u16" where
  "u16_of_bytes bs = (case bs of b0 # b1 # _ \<Rightarrow> or (push_bit 8 (ucast b1)) (ucast b0) | _ \<Rightarrow> 0)"

definition overwrite_u16 :: "u16 \<Rightarrow> u8 list \<Rightarrow> u16" where
  "overwrite_u16 old bs = u16_of_bytes (take 2 bs @ drop (length (take 2 bs)) (u16_bytes old))"

definition bool_bytes :: "bool \<Rightarrow> u8 list" where
  "bool_bytes b = [if b then 1 else 0]"

definition overwrite_bool :: "bool \<Rightarrow> u8 list \<Rightarrow> bool" where
  "overwrite_bool old bs = (case bs of [] \<Rightarrow> old | b # _ \<Rightarrow> b \<noteq> 0)"

lemma u16_of_bytes_bytes [simp]: "u16_of_bytes (u16_bytes w) = w"
  by (rule bit_word_eqI) (auto simp: u16_of_bytes_def u16_bytes_def bit_simps)

lemma length_u16_bytes [simp]: "length (u16_bytes w) = 2"
  by (simp add: u16_bytes_def)

lemma overwrite_u16_full [simp]: "overwrite_u16 old (u16_bytes w) = w"
  by (simp add: overwrite_u16_def)

lemma overwrite_bool_full [simp]: "overwrite_bool old (bool_bytes b) = b"
  by (simp add: overwrite_bool_def bool_bytes_def)

end
