(* ===== verification/App_Common.thy ===== *)
theory App_Common
  imports Prelude
begin

text \<open>
  The model of \<open>app_common.h\<close> and \<open>app_common.c\<close>: the structures the components
  exchange, UUID normalisation and comparison, the mapping between Bluetooth and AT address
  types, and the printable-ASCII test.  An output buffer is a result: \<open>None\<close> is the return value
  \<open>false\<close> with the buffer untouched, \<open>Some t\<close> is \<open>true\<close> with \<open>t\<close> stored.
  The locale \<open>uuid_normalizer\<close> is the contract the other components rely on.
\<close>

section \<open>Structures (app_common.h)\<close>

definition BLE_HOST_UUID_STR_LEN :: nat where "BLE_HOST_UUID_STR_LEN = 37"
definition BLE_HOST_NAME_MAX_LEN :: nat where "BLE_HOST_NAME_MAX_LEN = 32"
definition BLE_HOST_SCAN_FILTER_MAX_LEN :: nat where "BLE_HOST_SCAN_FILTER_MAX_LEN = 32"
definition BLE_HOST_SEND_MAX_LEN :: nat where "BLE_HOST_SEND_MAX_LEN = 256"

record ble_profile =
  service_uuid :: string
  notify_uuid :: string
  write_uuid :: string

record ble_host_config =
  active_profile :: ble_profile
  cfg_mtu :: u16
  conn_interval_min :: u16
  conn_interval_max :: u16
  cfg_latency :: u16
  cfg_timeout :: u16
  auto_mtu :: bool
  auto_subscribe :: bool
  prefer_2m_phy :: bool
  prefer_dle :: bool
  allow_data_mode :: bool
  stream_guard_time_ms :: u16

record ble_host_status =
  st_connected :: bool
  st_ready :: bool
  st_mac :: string
  conn_count :: u8
  st_data_len :: u16

record ble_stream_stats =
  bytes_host_to_ble :: u32
  bytes_ble_to_host :: u32
  write_ops :: u32
  notify_ops :: u32
  usb_backpressure_count :: u32
  max_host_to_ble_depth :: u32
  max_ble_to_host_depth :: u32
  enter_data_mode_count :: u32
  unexpected_disconnect_count :: u32

section \<open>UUID text\<close>

definition is_hex_text :: "string \<Rightarrow> nat \<Rightarrow> bool" where
  "is_hex_text text len = list_all c_isxdigit (take len (text @ [NUL]))"

definition normalize_uuid16 :: "string \<Rightarrow> nat \<Rightarrow> string option" where
  "normalize_uuid16 text output_len =
     (let prefixed = 2 \<le> length text \<and> text ! 0 = CHR ''0'' \<and>
                     (text ! 1 = CHR ''x'' \<or> text ! 1 = CHR ''X'');
          offset = (if prefixed then 2 else 0);
          len = length text - offset;
          digits = take 4 (drop offset text)
      in if len \<noteq> 4 \<or> \<not> is_hex_text (drop offset text) len \<or> output_len < 7 then None
         else Some (snprintk output_len (''0x'' @ map c_toupper digits)))"

definition uuid128_format :: "string \<Rightarrow> string" where
  "uuid128_format h =
     take 8 h @ ''-'' @ take 4 (drop 8 h) @ ''-'' @ take 4 (drop 12 h) @ ''-'' @
     take 4 (drop 16 h) @ ''-'' @ take 12 (drop 20 h)"

definition normalize_uuid128_from_hex32 :: "string \<Rightarrow> nat \<Rightarrow> string option" where
  "normalize_uuid128_from_hex32 hex32 output_len =
     (if length hex32 \<noteq> 32 \<or> \<not> is_hex_text hex32 32 \<or> output_len < 37 then None
      else Some (snprintk output_len (uuid128_format (map c_tolower hex32))))"

text \<open>The loop that collects the digits into \<open>compact\<close>.\<close>

fun compact_loop :: "string \<Rightarrow> string \<Rightarrow> string option" where
  "compact_loop compact [] = Some compact"
| "compact_loop compact (ch # rest) =
     (if ch = CHR ''-'' then compact_loop compact rest
      else if \<not> c_isxdigit ch \<or> 32 \<le> length compact then None
      else compact_loop (compact @ [ch]) rest)"

definition ble_host_normalize_uuid :: "string option \<Rightarrow> nat \<Rightarrow> string option" where
  "ble_host_normalize_uuid inp output_len =
     (case inp of
        None \<Rightarrow> None
      | Some input0 \<Rightarrow>
          if output_len = 0 then None
          else let input = dropWhile c_isspace input0;
                   len = rtrim_len input 0 (length input)
               in if len = 0 then None
                  else case (if len \<le> 6 then normalize_uuid16 input output_len else None) of
                         Some out \<Rightarrow> Some out
                       | None \<Rightarrow>
                           (case compact_loop [] (take len input) of
                              None \<Rightarrow> None
                            | Some compact \<Rightarrow>
                                if length compact \<noteq> 32 then None
                                else normalize_uuid128_from_hex32 compact output_len))"

definition ble_host_uuid_equals :: "string option \<Rightarrow> string option \<Rightarrow> bool" where
  "ble_host_uuid_equals lhs rhs =
     (case ble_host_normalize_uuid lhs BLE_HOST_UUID_STR_LEN of
        None \<Rightarrow> False
      | Some lhs_norm \<Rightarrow>
          (case ble_host_normalize_uuid rhs BLE_HOST_UUID_STR_LEN of
             None \<Rightarrow> False
           | Some rhs_norm \<Rightarrow> lhs_norm = rhs_norm))"

text \<open>
  \<open>bt_uuid_to_str\<close> is a parameter: the text it stores for a UUID in a buffer of a given size.
\<close>

definition ble_host_format_uuid_from_bt ::
  "('u \<Rightarrow> nat \<Rightarrow> string) \<Rightarrow> 'u option \<Rightarrow> nat \<Rightarrow> string option" where
  "ble_host_format_uuid_from_bt bt_uuid_to_str uuid output_len =
     (case uuid of
        None \<Rightarrow> None
      | Some u \<Rightarrow>
          if output_len = 0 then None
          else let raw = bt_uuid_to_str u BLE_HOST_UUID_STR_LEN
               in case ble_host_normalize_uuid (Some raw) output_len of
                    Some out \<Rightarrow> Some out
                  | None \<Rightarrow> Some (snprintk output_len raw))"

section \<open>Address types and text payloads\<close>

definition BT_ADDR_LE_PUBLIC :: u8 where "BT_ADDR_LE_PUBLIC = 0"
definition BT_ADDR_LE_RANDOM :: u8 where "BT_ADDR_LE_RANDOM = 1"
definition BT_ADDR_LE_PUBLIC_ID :: u8 where "BT_ADDR_LE_PUBLIC_ID = 2"
definition BT_ADDR_LE_RANDOM_ID :: u8 where "BT_ADDR_LE_RANDOM_ID = 3"

definition ble_host_addr_type_to_wlt :: "u8 \<Rightarrow> u8" where
  "ble_host_addr_type_to_wlt bt_addr_type =
     (if bt_addr_type = BT_ADDR_LE_PUBLIC then 0
      else if bt_addr_type = BT_ADDR_LE_RANDOM then 1
      else if bt_addr_type = BT_ADDR_LE_PUBLIC_ID then 2
      else if bt_addr_type = BT_ADDR_LE_RANDOM_ID then 3
      else 1)"

definition ble_host_addr_type_from_wlt :: "u8 \<Rightarrow> u8 option" where
  "ble_host_addr_type_from_wlt wlt_addr_type =
     (if wlt_addr_type = 0 then Some BT_ADDR_LE_PUBLIC
      else if wlt_addr_type = 1 then Some BT_ADDR_LE_RANDOM
      else if wlt_addr_type = 2 then Some BT_ADDR_LE_PUBLIC_ID
      else if wlt_addr_type = 3 then Some BT_ADDR_LE_RANDOM_ID
      else None)"

fun printable_loop :: "u8 list \<Rightarrow> bool" where
  "printable_loop [] = True"
| "printable_loop (b # bs) = (if b < 0x20 \<or> 0x7e < b then False else printable_loop bs)"

text \<open>The array is the list of its \<open>len\<close> bytes; \<open>None\<close> is a NULL pointer.\<close>

definition ble_host_is_printable_ascii :: "u8 list option \<Rightarrow> bool" where
  "ble_host_is_printable_ascii data =
     (case data of None \<Rightarrow> False | Some bs \<Rightarrow> printable_loop bs)"

section \<open>What the UUID functions compute\<close>

lemma compact_loop_spec:
  "compact_loop acc s =
     (if list_all (\<lambda>c. c = CHR ''-'' \<or> c_isxdigit c) s \<and>
         (length acc + length (filter (\<lambda>c. c \<noteq> CHR ''-'') s) \<le> 32 \<or>
          filter (\<lambda>c. c \<noteq> CHR ''-'') s = [])
      then Some (acc @ filter (\<lambda>c. c \<noteq> CHR ''-'') s) else None)"
  by (induction acc s rule: compact_loop.induct) auto

lemma is_hex_text_exact [c_string]:
  "n = length text \<Longrightarrow> is_hex_text text n = list_all c_isxdigit text"
  by (simp add: is_hex_text_def)

text \<open>
  The abstract meaning of a UUID text, stated without the code's loops and buffers: four hex
  digits with an optional \<open>0x\<close> prefix (no white space behind them) are a 16-bit UUID; otherwise
  32 hex digits with dashes anywhere, white space trimmed on both sides, are a 128-bit one.
\<close>

datatype uuid_value = Uuid16 string | Uuid128 string

definition strip_0x :: "string \<Rightarrow> string" where
  "strip_0x l = (if take 2 l = ''0x'' \<or> take 2 l = ''0X'' then drop 2 l else l)"

definition uuid_denotes :: "string \<Rightarrow> uuid_value option" where
  "uuid_denotes s =
     (let l = dropWhile c_isspace s; d4 = strip_0x l; d32 = filter (\<lambda>c. c \<noteq> CHR ''-'') (rtrim l)
      in if length d4 = 4 \<and> list_all c_isxdigit d4 then Some (Uuid16 (map c_toupper d4))
         else if length d32 = 32 \<and> list_all c_isxdigit d32
              then Some (Uuid128 (map c_tolower d32))
         else None)"

fun uuid_text :: "uuid_value \<Rightarrow> string" where
  "uuid_text (Uuid16 d) = ''0x'' @ d"
| "uuid_text (Uuid128 h) = uuid128_format h"

text \<open>The values \<open>uuid_denotes\<close> yields: digits of the right number and case.\<close>

fun uuid_wf :: "uuid_value \<Rightarrow> bool" where
  "uuid_wf (Uuid16 d) = (length d = 4 \<and> list_all c_isxdigit d \<and> map c_toupper d = d)"
| "uuid_wf (Uuid128 h) = (length h = 32 \<and> list_all c_isxdigit h \<and> map c_tolower h = h)"

lemma list_all_isxdigit_map [c_string, simp]:
  "list_all c_isxdigit (map c_toupper s) = list_all c_isxdigit s"
  "list_all c_isxdigit (map c_tolower s) = list_all c_isxdigit s"
  by (simp_all add: list_all_iff)

lemma map_case_idem [c_string, simp]:
  "map c_toupper (map c_toupper s) = map c_toupper s"
  "map c_tolower (map c_tolower s) = map c_tolower s"
  by (simp_all add: comp_def)

lemma take2_eq: "(take 2 l = [a, b]) = (2 \<le> length l \<and> l ! 0 = a \<and> l ! 1 = b)"
proof (cases l)
  case (Cons x xs)
  then show ?thesis by (cases xs) (auto simp: numeral_2_eq_2)
qed simp

lemma strip_0x_drop:
  "strip_0x l = drop (if 2 \<le> length l \<and> l ! 0 = CHR ''0'' \<and>
                         (l ! 1 = CHR ''x'' \<or> l ! 1 = CHR ''X'') then 2 else 0) l"
  by (auto simp: strip_0x_def take2_eq)

lemma normalize_uuid16_eq:
  "normalize_uuid16 l n =
     (if length (strip_0x l) = 4 \<and> list_all c_isxdigit (strip_0x l) \<and> 7 \<le> n
      then Some (''0x'' @ map c_toupper (strip_0x l)) else None)"
proof -
  define k :: nat where "k = (if 2 \<le> length l \<and> l ! 0 = CHR ''0'' \<and>
     (l ! 1 = CHR ''x'' \<or> l ! 1 = CHR ''X'') then 2 else 0)"
  have s: "strip_0x l = drop k l"
    unfolding strip_0x_drop k_def by (rule refl)
  have "normalize_uuid16 l n =
     (if length l - k \<noteq> 4 \<or> \<not> is_hex_text (drop k l) (length l - k) \<or> n < 7 then None
      else Some (snprintk n (''0x'' @ map c_toupper (take 4 (drop k l)))))"
    unfolding normalize_uuid16_def Let_def k_def by (rule refl)
  then show ?thesis
    by (auto simp: s is_hex_text_exact snprintk_fits)
qed

lemma length_uuid128_format: "length h = 32 \<Longrightarrow> length (uuid128_format h) = 36"
  by (simp add: uuid128_format_def)

lemma filter_id_xdigit: "list_all c_isxdigit s \<Longrightarrow> filter (\<lambda>c. c \<noteq> CHR ''-'') s = s"
  by (induction s) (auto simp: c_isxdigit_def)

lemma list_all_take_drop: "list_all P s \<Longrightarrow> list_all P (take k (drop m s))"
  by (auto simp: list_all_iff dest!: in_set_takeD in_set_dropD)

lemma filter_uuid128_format:
  assumes "length h = 32" and "list_all c_isxdigit h"
  shows "filter (\<lambda>c. c \<noteq> CHR ''-'') (uuid128_format h) = h"
proof -
  have part: "filter (\<lambda>c. c \<noteq> CHR ''-'') (take k (drop m h)) = take k (drop m h)" for k m
    by (rule filter_id_xdigit [OF list_all_take_drop [OF assms(2)]])
  have part0: "filter (\<lambda>c. c \<noteq> CHR ''-'') (take k h) = take k h" for k
    using part [of k 0] by simp
  have "filter (\<lambda>c. c \<noteq> CHR ''-'') (uuid128_format h) =
        take 8 h @ take 4 (drop 8 h) @ take 4 (drop 12 h) @ take 4 (drop 16 h) @ take 12 (drop 20 h)"
    by (simp add: uuid128_format_def part part0)
  also have "\<dots> = take 32 h"
    using take_add [of 8 24 h] take_add [of 4 20 "drop 8 h"] take_add [of 4 16 "drop 12 h"]
      take_add [of 4 12 "drop 16 h"] by simp
  finally show ?thesis using assms(1) by simp
qed

lemma xdigit_or_dash_facts:
  "c_isxdigit c \<or> c = CHR ''-'' \<Longrightarrow>
     \<not> c_isspace c \<and> c \<noteq> NUL \<and> c \<noteq> CHR '','' \<and> c \<noteq> CR \<and> c \<noteq> LF"
  by (auto simp: c_isxdigit_def c_isspace_def Let_def)

lemma set_uuid128_format:
  "list_all c_isxdigit h \<Longrightarrow> c \<in> set (uuid128_format h) \<Longrightarrow> c_isxdigit c \<or> c = CHR ''-''"
  by (auto simp: uuid128_format_def list_all_iff dest!: in_set_takeD in_set_dropD)

lemma compact_loop_rtrim:
  "(case compact_loop [] s of None \<Rightarrow> None
    | Some compact \<Rightarrow> if length compact \<noteq> 32 then None
                       else normalize_uuid128_from_hex32 compact n) =
   (let d = filter (\<lambda>c. c \<noteq> CHR ''-'') s
    in if length d = 32 \<and> list_all c_isxdigit d \<and> 37 \<le> n
       then Some (uuid128_format (map c_tolower d)) else None)"
proof -
  have "list_all (\<lambda>c. c = CHR ''-'' \<or> c_isxdigit c) s =
        list_all c_isxdigit (filter (\<lambda>c. c \<noteq> CHR ''-'') s)"
    by (induction s) auto
  then show ?thesis
    by (auto simp: compact_loop_spec normalize_uuid128_from_hex32_def Let_def
        is_hex_text_exact snprintk_fits length_uuid128_format)
qed

lemma strip_0x_hex4_length:
  "length (strip_0x l) = 4 \<Longrightarrow> length l \<le> 6"
  by (auto simp: strip_0x_def split: if_splits)

lemma strip_0x_hex4_nonspace:
  assumes "length (strip_0x l) = 4" "list_all c_isxdigit (strip_0x l)"
  shows "l \<noteq> [] \<and> \<not> c_isspace (last l)"
proof -
  have "l \<noteq> []" using assms(1) by (auto simp: strip_0x_def)
  moreover have "last l = last (strip_0x l)"
    using assms(1) by (auto simp: strip_0x_def last_drop split: if_splits)
  moreover have "c_isxdigit (last (strip_0x l))"
    using assms by (auto simp: list_all_iff intro!: last_in_set)
  ultimately show ?thesis by (simp add: xdigit_not_space)
qed

lemma filter_dash_short: "length s \<le> 6 \<Longrightarrow> length (filter (\<lambda>c. c \<noteq> CHR ''-'') s) \<noteq> 32"
  using length_filter_le [of "\<lambda>c. c \<noteq> CHR ''-''" s] by linarith

text \<open>The whole function, for every size of the output buffer.\<close>

lemma normalize_uuid_full:
  "ble_host_normalize_uuid (Some s) n =
     (case uuid_denotes s of
        None \<Rightarrow> None
      | Some v \<Rightarrow> if length (uuid_text v) < n then Some (uuid_text v) else None)"
proof (cases "n = 0")
  case True
  then show ?thesis by (simp add: ble_host_normalize_uuid_def split: option.split)
next
  case False
  define l where "l = dropWhile c_isspace s"
  define d4 where "d4 = strip_0x l"
  have len: "rtrim_len l 0 (length l) = length (rtrim l)" by (simp add: length_rtrim)
  have eq: "ble_host_normalize_uuid (Some s) n =
     (if rtrim l = [] then None
      else case (if length (rtrim l) \<le> 6 then normalize_uuid16 l n else None) of
             Some out \<Rightarrow> Some out
           | None \<Rightarrow>
               (let d = filter (\<lambda>c. c \<noteq> CHR ''-'') (rtrim l)
                in if length d = 32 \<and> list_all c_isxdigit d \<and> 37 \<le> n
                   then Some (uuid128_format (map c_tolower d)) else None))"
    using False take_rtrim_len [of l]
    by (simp add: ble_host_normalize_uuid_def l_def [symmetric] len compact_loop_rtrim
        cong: option.case_cong)
  show ?thesis
  proof (cases "length d4 = 4 \<and> list_all c_isxdigit d4")
    case True
    then have "l \<noteq> [] \<and> \<not> c_isspace (last l)" and "length l \<le> 6"
      using strip_0x_hex4_nonspace strip_0x_hex4_length unfolding d4_def by auto
    then have "rtrim l = l" by (simp add: rtrim_no_space)
    then show ?thesis
      using True \<open>length l \<le> 6\<close> \<open>l \<noteq> [] \<and> _\<close> filter_dash_short [of l]
      by (simp add: eq normalize_uuid16_eq uuid_denotes_def l_def [symmetric]
          d4_def [symmetric] Let_def)
  next
    case False
    then show ?thesis
      by (auto simp: eq normalize_uuid16_eq uuid_denotes_def l_def [symmetric]
          d4_def [symmetric] Let_def length_uuid128_format)
  qed
qed

lemma uuid_denotes_wf: "uuid_denotes s = Some v \<Longrightarrow> uuid_wf v"
  by (auto simp: uuid_denotes_def Let_def split: if_splits)

lemma length_uuid_text: "uuid_wf v \<Longrightarrow> length (uuid_text v) < 37"
  by (cases v) (auto simp: length_uuid128_format)

lemma uuid_text_chars:
  assumes "uuid_wf v" and "c \<in> set (uuid_text v)"
  shows "c_isxdigit c \<or> c = CHR ''-'' \<or> c = CHR ''x''"
proof (cases v)
  case (Uuid16 d)
  have "c_isxdigit CHR ''0''" by (simp add: c_isxdigit_def)
  with Uuid16 assms show ?thesis by (auto simp: list_all_iff)
next
  case (Uuid128 h)
  then have "c \<in> set (uuid128_format h)" "list_all c_isxdigit h" using assms by simp_all
  then show ?thesis using set_uuid128_format by blast
qed

lemma uuid_text_space_free:
  assumes "uuid_wf v" and "c \<in> set (uuid_text v)"
  shows "\<not> c_isspace c \<and> c \<noteq> NUL \<and> c \<noteq> CHR '',''"
  using uuid_text_chars [OF assms]
  by (auto simp: c_isxdigit_def c_isspace_def Let_def)

lemma dropWhile_space_free: "\<forall>c \<in> set s. \<not> c_isspace c \<Longrightarrow> dropWhile c_isspace s = s"
  by (cases s) auto

lemma uuid_denotes_text: "uuid_wf v \<Longrightarrow> uuid_denotes (uuid_text v) = Some v"
proof -
  assume wf: "uuid_wf v"
  have l: "dropWhile c_isspace (uuid_text v) = uuid_text v"
    using uuid_text_space_free [OF wf] by (intro dropWhile_space_free) blast
  show ?thesis
  proof (cases v)
    case (Uuid16 d)
    then show ?thesis using wf l
      by (simp add: uuid_denotes_def strip_0x_def Let_def)
  next
    case (Uuid128 h)
    have "uuid_text v \<noteq> []" using wf Uuid128 length_uuid128_format [of h] by auto
    then have "rtrim (uuid_text v) = uuid_text v"
      using uuid_text_space_free [OF wf] by (intro rtrim_no_space) auto
    moreover have "length (strip_0x (uuid128_format h)) \<noteq> 4"
      using wf Uuid128 strip_0x_hex4_length [of "uuid128_format h"] length_uuid128_format [of h]
      by auto
    ultimately show ?thesis using wf l Uuid128
      by (simp add: uuid_denotes_def Let_def filter_uuid128_format)
  qed
qed

lemma uuid_text_inject: "uuid_wf v \<Longrightarrow> uuid_wf w \<Longrightarrow> uuid_text v = uuid_text w \<Longrightarrow> v = w"
  by (metis uuid_denotes_text option.inject)

section \<open>The contract the other components rely on\<close>

text \<open>
  A normaliser of UUID texts: what it returns fits the UUID buffers, is a fixed point, and holds
  no character that the AT line format gives a meaning to.
\<close>

locale uuid_normalizer =
  fixes norm :: "string \<Rightarrow> string option"
  assumes norm_fixed: "norm s = Some t \<Longrightarrow> norm t = Some t"
    and norm_length: "norm s = Some t \<Longrightarrow> length t < BLE_HOST_UUID_STR_LEN"
    and norm_clean: "norm s = Some t \<Longrightarrow> c \<in> set t \<Longrightarrow> \<not> c_isspace c \<and> c \<noteq> NUL \<and> c \<noteq> CHR '',''"
begin

definition normal :: "string \<Rightarrow> bool" where
  "normal t \<longleftrightarrow> norm t = Some t"

definition same :: "string \<Rightarrow> string \<Rightarrow> bool" where
  "same a b \<longleftrightarrow> norm a \<noteq> None \<and> norm a = norm b"

lemma normal_norm: "norm s = Some t \<Longrightarrow> normal t"
  by (simp add: normal_def norm_fixed)

lemma normal_stored: "normal t \<Longrightarrow> snprintk BLE_HOST_UUID_STR_LEN t = t"
  by (simp add: normal_def norm_length snprintk_fits)

lemma same_sym: "same a b \<Longrightarrow> same b a"
  by (metis same_def)

lemma same_trans: "same a b \<Longrightarrow> same b c \<Longrightarrow> same a c"
  by (metis same_def)

lemma same_norm: "norm a = Some t \<Longrightarrow> same a t"
  by (simp add: same_def norm_fixed)

lemma same_normal_eq: "normal s \<Longrightarrow> normal t \<Longrightarrow> same s t \<longleftrightarrow> s = t"
  by (auto simp: normal_def same_def)

end

interpretation uuid: uuid_normalizer
  "\<lambda>s. ble_host_normalize_uuid (Some s) BLE_HOST_UUID_STR_LEN"
proof
  fix s t
  assume h: "ble_host_normalize_uuid (Some s) BLE_HOST_UUID_STR_LEN = Some t"
  then obtain v where v: "uuid_denotes s = Some v" "t = uuid_text v"
    and len: "length t < BLE_HOST_UUID_STR_LEN"
    by (auto simp: normalize_uuid_full split: option.splits if_splits)
  from v have wf: "uuid_wf v" by (simp add: uuid_denotes_wf)
  show "ble_host_normalize_uuid (Some t) BLE_HOST_UUID_STR_LEN = Some t"
    using v wf len by (simp add: normalize_uuid_full uuid_denotes_text)
  show "length t < BLE_HOST_UUID_STR_LEN" by (rule len)
  show "\<not> c_isspace c \<and> c \<noteq> NUL \<and> c \<noteq> CHR '',''" if "c \<in> set t" for c
    using uuid_text_space_free [OF wf] that v by simp
qed

lemma uuid_equals_same: "ble_host_uuid_equals (Some a) (Some b) = uuid.same a b"
  by (auto simp: ble_host_uuid_equals_def uuid.same_def split: option.split)

lemma uuid_denotes_leading: "c_isspace c \<Longrightarrow> uuid_denotes (c # s) = uuid_denotes s"
  by (simp add: uuid_denotes_def)

lemma uuid_denotes_trailing:
  assumes den: "uuid_denotes s = Some v" and sp: "c_isspace c"
  shows "uuid_denotes (s @ [c]) = (case v of Uuid16 _ \<Rightarrow> None | Uuid128 _ \<Rightarrow> Some v)"
proof -
  define l where "l = dropWhile c_isspace s"
  have "\<not> (\<forall>x \<in> set s. c_isspace x)"
  proof
    assume "\<forall>x \<in> set s. c_isspace x"
    then have "dropWhile c_isspace s = []" by simp
    with den show False by (simp add: uuid_denotes_def strip_0x_def rtrim_def Let_def)
  qed
  then have l': "dropWhile c_isspace (s @ [c]) = l @ [c]"
    unfolding l_def by (auto simp: dropWhile_append)
  have rt: "rtrim (l @ [c]) = rtrim l" using sp by (simp add: rtrim_def)
  have short: "length l \<le> 6 \<Longrightarrow> length (filter (\<lambda>c. c \<noteq> CHR ''-'') (rtrim l)) \<noteq> 32"
    using filter_dash_short [of "rtrim l"] rtrim_len_le [of l 0 "length l"]
    by (simp add: length_rtrim)
  have not16: "\<not> (length (strip_0x (l @ [c])) = 4 \<and> list_all c_isxdigit (strip_0x (l @ [c])))"
    using strip_0x_hex4_nonspace [of "l @ [c]"] sp by auto
  show ?thesis
  proof (cases v)
    case (Uuid16 d)
    then have "length (strip_0x l) = 4"
      using den by (auto simp: uuid_denotes_def l_def [symmetric] Let_def split: if_splits)
    then have "length l \<le> 6" by (rule strip_0x_hex4_length)
    then show ?thesis
      using Uuid16 short not16 by (simp add: uuid_denotes_def l' rt Let_def)
  next
    case (Uuid128 h)
    then show ?thesis
      using den not16 by (auto simp: uuid_denotes_def l' rt l_def [symmetric] Let_def split: if_splits)
  qed
qed

section \<open>Properties\<close>

text \<open>
  C10: UUID normalisation meets its specification for every input and every buffer size: a text
  that denotes a UUID gives that UUID's canonical text if the text and its terminator fit the
  buffer, and every other text is refused.
\<close>

theorem normalize_uuid_correct:
  "ble_host_normalize_uuid (Some s) n =
     (case uuid_denotes s of
        None \<Rightarrow> None
      | Some v \<Rightarrow> if length (uuid_text v) < n then Some (uuid_text v) else None)"
  by (rule normalize_uuid_full)

text \<open>
  C11: Normalisation is idempotent: what it stores fits the buffer, is accepted again unchanged,
  and contains no white space, comma or terminator, so it survives storage in the settings, the
  three-argument line of AT+SETSVCUUID and the comma-separated reply to AT+GETSVCUUID.
\<close>

theorem normalize_uuid_roundtrip:
  assumes "ble_host_normalize_uuid (Some s) n = Some t"
  shows "length t < n \<and> ble_host_normalize_uuid (Some t) n = Some t \<and>
         (\<forall>c \<in> set t. \<not> c_isspace c \<and> c \<noteq> NUL \<and> c \<noteq> CHR '','')"
proof -
  obtain v where v: "uuid_denotes s = Some v" "t = uuid_text v" "length t < n"
    using assms by (auto simp: normalize_uuid_full split: option.splits if_splits)
  have "uuid_wf v" using v(1) by (rule uuid_denotes_wf)
  then show ?thesis
    using v uuid_text_space_free by (auto simp: normalize_uuid_full uuid_denotes_text)
qed

theorem normalize_uuid_roundtrip_witness:
  "ble_host_normalize_uuid (Some '' 0xfFf0'') 37 = Some ''0xFFF0'' \<and>
   ble_host_normalize_uuid (Some ''0xFFF0'') 37 = Some ''0xFFF0''"
proof -
  have h: "ble_host_normalize_uuid (Some '' 0xfFf0'') 37 = Some ''0xFFF0''" by code_simp
  show ?thesis using normalize_uuid_roundtrip [OF h] h by blast
qed

text \<open>
  C12: Two texts compare equal exactly when both denote a UUID and denote the same one: case, the
  0x prefix, dashes and leading white space never matter, and a malformed text equals nothing,
  not even itself.
\<close>

theorem uuid_equals_denotes:
  "ble_host_uuid_equals (Some a) (Some b) \<longleftrightarrow>
     (\<exists>v. uuid_denotes a = Some v \<and> uuid_denotes b = Some v)"
proof -
  have "ble_host_normalize_uuid (Some s) BLE_HOST_UUID_STR_LEN = map_option uuid_text (uuid_denotes s)"
    for s
    using length_uuid_text [OF uuid_denotes_wf [of s]]
    by (auto simp: normalize_uuid_full BLE_HOST_UUID_STR_LEN_def split: option.split)
  then show ?thesis
    by (auto simp: ble_host_uuid_equals_def split: option.splits
        dest: uuid_denotes_wf intro: uuid_text_inject)
qed

text \<open>
  White space behind a UUID is trimmed for the 128-bit form only: appending a white-space
  character to a 16-bit UUID text makes it invalid, while the same white space in front of it or
  behind a 128-bit text is ignored.
\<close>

theorem uuid16_trailing_space:
  assumes "uuid_denotes s = Some v" and "c_isspace c"
  shows "ble_host_normalize_uuid (Some (s @ [c])) n =
           (case v of Uuid16 _ \<Rightarrow> None | Uuid128 _ \<Rightarrow> ble_host_normalize_uuid (Some s) n) \<and>
         ble_host_normalize_uuid (Some (c # s)) n = ble_host_normalize_uuid (Some s) n"
  using assms by (simp add: normalize_uuid_full uuid_denotes_trailing uuid_denotes_leading
      split: uuid_value.split)

theorem uuid16_trailing_space_witness:
  "ble_host_normalize_uuid (Some ''FFF0 '') 37 = None \<and>
   ble_host_normalize_uuid (Some '' FFF0'') 37 = Some ''0xFFF0''"
proof -
  have d: "uuid_denotes ''FFF0'' = Some (Uuid16 ''FFF0'')" by code_simp
  have sp: "c_isspace (CHR '' '')" by code_simp
  have n: "ble_host_normalize_uuid (Some ''FFF0'') 37 = Some ''0xFFF0''" by code_simp
  show ?thesis using uuid16_trailing_space [OF d sp, of 37] n by simp
qed

end
