(* ===== verification/Settings.thy ===== *)
theory Settings
  imports App_Common
begin

text \<open>
  The model of \<open>settings.c\<close>: the configuration object \<open>g_config\<close>, the handler through which
  the settings subsystem loads stored values into it, and the update operations that validate,
  assign and persist.  The settings subsystem itself is a parameter (\<open>settings_api\<close>) over an
  abstract world \<open>'w\<close>.
\<close>

section \<open>The settings subsystem\<close>

text \<open>What \<open>read_cb\<close> does with a buffer of a given size: fail, or store some bytes.\<close>

datatype read_result = RD_ERR errno | RD_OK "u8 list"

text \<open>One stored value as it is passed to the handler: its name below the subtree, its length.\<close>

record settings_entry =
  ent_name :: string
  ent_len :: nat
  ent_read :: "nat \<Rightarrow> read_result"

record 'w settings_api =
  settings_subsys_init :: "'w \<Rightarrow> rc \<times> 'w"
  settings_load_subtree :: "string \<Rightarrow> 'w \<Rightarrow> settings_entry list \<times> rc \<times> 'w"
  settings_save_one :: "string \<Rightarrow> u8 list \<Rightarrow> 'w \<Rightarrow> rc \<times> 'w"
  settings_name_steq :: "string \<Rightarrow> string \<Rightarrow> bool"

definition SETTINGS_ROOT :: string where "SETTINGS_ROOT = ''ble_at_host''"

text \<open>The keys: the root, a slash and the name the handler compares with.\<close>

definition settings_key :: "string \<Rightarrow> string" where
  "settings_key name = SETTINGS_ROOT @ ''/'' @ name"

definition g_config_init :: ble_host_config where
  "g_config_init =
     \<lparr> active_profile = \<lparr> service_uuid = ''0xFFF0'', notify_uuid = ''0xFFF1'',
                          write_uuid = ''0xFFF2'' \<rparr>,
       cfg_mtu = 259, conn_interval_min = 6, conn_interval_max = 9,
       cfg_latency = 0, cfg_timeout = 400,
       auto_mtu = True, auto_subscribe = True, prefer_2m_phy = True, prefer_dle = True,
       allow_data_mode = True, stream_guard_time_ms = 1000 \<rparr>"

section \<open>Loading: the set handler\<close>

text \<open>
  The body shared by the three UUID branches, up to the call of the normaliser: \<open>text\<close> is an
  uninitialised local array of 37 characters (\<open>uninit\<close>), \<open>read_cb\<close> stores into it and the
  code puts the terminator at \<open>len\<close>.  \<open>Inl\<close> is an error return.
\<close>

definition read_uuid_text ::
  "nat \<Rightarrow> (nat \<Rightarrow> read_result) \<Rightarrow> char list \<Rightarrow> rc + string" where
  "read_uuid_text len read_cb uninit =
     (if len = 0 \<or> BLE_HOST_UUID_STR_LEN \<le> len then Inl (RC_ERR EINVAL)
      else case read_cb len of
             RD_ERR e \<Rightarrow> Inl (RC_ERR e)
           | RD_OK bs \<Rightarrow>
               let text = chars_of bs @ drop (length bs) uninit
               in Inr (cstr (text[len := NUL])))"

text \<open>\<open>ble_host_normalize_uuid(text, dst, sizeof(dst)) ? 0 : -EINVAL\<close> with its store.\<close>

definition load_uuid ::
  "(string \<Rightarrow> ble_profile \<Rightarrow> ble_profile) \<Rightarrow> rc + string \<Rightarrow> ble_host_config
     \<Rightarrow> rc \<times> ble_host_config" where
  "load_uuid store r cfg =
     (case r of
        Inl rc \<Rightarrow> (rc, cfg)
      | Inr text \<Rightarrow>
          (case ble_host_normalize_uuid (Some text) BLE_HOST_UUID_STR_LEN of
             None \<Rightarrow> (RC_ERR EINVAL, cfg)
           | Some t \<Rightarrow> (RC_OK, cfg\<lparr>active_profile := store t (active_profile cfg)\<rparr>)))"

text \<open>\<open>read_cb(cb_arg, &field, sizeof(field)) >= 0 ? 0 : -EINVAL\<close> with its store.\<close>

definition load_scalar ::
  "read_result \<Rightarrow> (u8 list \<Rightarrow> ble_host_config) \<Rightarrow> ble_host_config \<Rightarrow> rc \<times> ble_host_config" where
  "load_scalar r store cfg =
     (case r of RD_ERR e \<Rightarrow> (RC_ERR EINVAL, cfg) | RD_OK bs \<Rightarrow> (RC_OK, store bs))"

definition settings_handle_set ::
  "'w settings_api \<Rightarrow> char list \<Rightarrow> settings_entry \<Rightarrow> ble_host_config \<Rightarrow> rc \<times> ble_host_config" where
  "settings_handle_set api uninit ent cfg =
     (let name = ent_name ent; len = ent_len ent; read_cb = ent_read ent;
          steq = settings_name_steq api name
      in if steq ''profile/service_uuid'' then
           load_uuid (\<lambda>t p. p\<lparr>service_uuid := t\<rparr>) (read_uuid_text len read_cb uninit) cfg
         else if steq ''profile/notify_uuid'' then
           load_uuid (\<lambda>t p. p\<lparr>notify_uuid := t\<rparr>) (read_uuid_text len read_cb uninit) cfg
         else if steq ''profile/write_uuid'' then
           load_uuid (\<lambda>t p. p\<lparr>write_uuid := t\<rparr>) (read_uuid_text len read_cb uninit) cfg
         else if steq ''mtu'' then
           load_scalar (read_cb 2) (\<lambda>bs. cfg\<lparr>cfg_mtu := overwrite_u16 (cfg_mtu cfg) bs\<rparr>) cfg
         else if steq ''conn_interval_min'' then
           load_scalar (read_cb 2)
             (\<lambda>bs. cfg\<lparr>conn_interval_min := overwrite_u16 (conn_interval_min cfg) bs\<rparr>) cfg
         else if steq ''conn_interval_max'' then
           load_scalar (read_cb 2)
             (\<lambda>bs. cfg\<lparr>conn_interval_max := overwrite_u16 (conn_interval_max cfg) bs\<rparr>) cfg
         else if steq ''latency'' then
           load_scalar (read_cb 2) (\<lambda>bs. cfg\<lparr>cfg_latency := overwrite_u16 (cfg_latency cfg) bs\<rparr>) cfg
         else if steq ''timeout'' then
           load_scalar (read_cb 2) (\<lambda>bs. cfg\<lparr>cfg_timeout := overwrite_u16 (cfg_timeout cfg) bs\<rparr>) cfg
         else if steq ''auto_mtu'' then
           load_scalar (read_cb 1) (\<lambda>bs. cfg\<lparr>auto_mtu := overwrite_bool (auto_mtu cfg) bs\<rparr>) cfg
         else if steq ''auto_subscribe'' then
           load_scalar (read_cb 1)
             (\<lambda>bs. cfg\<lparr>auto_subscribe := overwrite_bool (auto_subscribe cfg) bs\<rparr>) cfg
         else if steq ''prefer_2m_phy'' then
           load_scalar (read_cb 1)
             (\<lambda>bs. cfg\<lparr>prefer_2m_phy := overwrite_bool (prefer_2m_phy cfg) bs\<rparr>) cfg
         else if steq ''prefer_dle'' then
           load_scalar (read_cb 1) (\<lambda>bs. cfg\<lparr>prefer_dle := overwrite_bool (prefer_dle cfg) bs\<rparr>) cfg
         else if steq ''allow_data_mode'' then
           load_scalar (read_cb 1)
             (\<lambda>bs. cfg\<lparr>allow_data_mode := overwrite_bool (allow_data_mode cfg) bs\<rparr>) cfg
         else if steq ''stream_guard_time_ms'' then
           load_scalar (read_cb 2)
             (\<lambda>bs. cfg\<lparr>stream_guard_time_ms := overwrite_u16 (stream_guard_time_ms cfg) bs\<rparr>) cfg
         else (RC_ERR ENOENT, cfg))"

text \<open>
  The subsystem calls the handler back from within \<open>settings_load_subtree\<close>.  Which entries it
  passes, in which order and how often, is the parameter's choice: they are the first component of
  its result, and the only way in which the call touches \<open>g_config\<close> is the handler itself.
\<close>

definition ble_host_settings_init ::
  "'w settings_api \<Rightarrow> char list \<Rightarrow> ble_host_config \<times> 'w \<Rightarrow> rc \<times> ble_host_config \<times> 'w" where
  "ble_host_settings_init api uninit s =
     (let (cfg, w) = s; (err, w1) = settings_subsys_init api w
      in if err \<noteq> RC_OK then (err, cfg, w1)
         else let (entries, err2, w2) = settings_load_subtree api SETTINGS_ROOT w1;
                  cfg2 = fold (\<lambda>ent c. snd (settings_handle_set api uninit ent c)) entries cfg
              in if err2 \<noteq> RC_OK then (err2, cfg2, w2) else (RC_OK, cfg2, w2))"

section \<open>Updating\<close>

definition conn_params_valid :: "u16 \<Rightarrow> u16 \<Rightarrow> u16 \<Rightarrow> u16 \<Rightarrow> bool" where
  "conn_params_valid min_interval max_interval latency timeout =
     (if min_interval < 6 \<or> 800 < min_interval then False
      else if max_interval < 6 \<or> 800 < max_interval \<or> max_interval < min_interval then False
      else if timeout = 0 then False
      else True)"

text \<open>Saving a sequence of keys: the first error stops it and is returned.\<close>

fun save_all :: "'w settings_api \<Rightarrow> (string \<times> u8 list) list \<Rightarrow> 'w \<Rightarrow> rc \<times> 'w" where
  "save_all api [] w = (RC_OK, w)"
| "save_all api ((key, value) # rest) w =
     (let (err, w1) = settings_save_one api (settings_key key) value w
      in if err \<noteq> RC_OK then (err, w1) else save_all api rest w1)"

definition ble_host_settings_update_profile ::
  "'w settings_api \<Rightarrow> string \<Rightarrow> string \<Rightarrow> string \<Rightarrow> ble_host_config \<times> 'w
     \<Rightarrow> rc \<times> ble_host_config \<times> 'w" where
  "ble_host_settings_update_profile api service notify write s =
     (let (cfg, w) = s
      in case (ble_host_normalize_uuid (Some service) BLE_HOST_UUID_STR_LEN,
               ble_host_normalize_uuid (Some notify) BLE_HOST_UUID_STR_LEN,
               ble_host_normalize_uuid (Some write) BLE_HOST_UUID_STR_LEN) of
           (Some service_norm, Some notify_norm, Some write_norm) \<Rightarrow>
             let p = \<lparr> service_uuid = snprintk BLE_HOST_UUID_STR_LEN service_norm,
                       notify_uuid = snprintk BLE_HOST_UUID_STR_LEN notify_norm,
                       write_uuid = snprintk BLE_HOST_UUID_STR_LEN write_norm \<rparr>;
                 cfg1 = cfg\<lparr>active_profile := p\<rparr>;
                 (err, w1) = save_all api
                   [(''profile/service_uuid'', bytes_of (service_uuid p)),
                    (''profile/notify_uuid'', bytes_of (notify_uuid p)),
                    (''profile/write_uuid'', bytes_of (write_uuid p))] w
             in (err, cfg1, w1)
         | _ \<Rightarrow> (RC_ERR EINVAL, cfg, w))"

definition ble_host_settings_update_mtu ::
  "'w settings_api \<Rightarrow> u16 \<Rightarrow> ble_host_config \<times> 'w \<Rightarrow> rc \<times> ble_host_config \<times> 'w" where
  "ble_host_settings_update_mtu api mtu s =
     (let (cfg, w) = s
      in if mtu < 23 \<or> 259 < mtu then (RC_ERR EINVAL, cfg, w)
         else let cfg1 = cfg\<lparr>cfg_mtu := mtu\<rparr>;
                  (err, w1) = save_all api [(''mtu'', u16_bytes (cfg_mtu cfg1))] w
              in (err, cfg1, w1))"

definition ble_host_settings_update_conn_params ::
  "'w settings_api \<Rightarrow> u16 \<Rightarrow> u16 \<Rightarrow> u16 \<Rightarrow> u16 \<Rightarrow> ble_host_config \<times> 'w
     \<Rightarrow> rc \<times> ble_host_config \<times> 'w" where
  "ble_host_settings_update_conn_params api min_interval max_interval latency timeout s =
     (let (cfg, w) = s
      in if \<not> conn_params_valid min_interval max_interval latency timeout then
           (RC_ERR EINVAL, cfg, w)
         else let cfg1 = cfg\<lparr>conn_interval_min := min_interval, conn_interval_max := max_interval,
                             cfg_latency := latency, cfg_timeout := timeout\<rparr>;
                  (err, w1) = save_all api
                    [(''conn_interval_min'', u16_bytes min_interval),
                     (''conn_interval_max'', u16_bytes max_interval),
                     (''latency'', u16_bytes latency),
                     (''timeout'', u16_bytes timeout)] w
              in (err, cfg1, w1))"

section \<open>Well-formed profiles\<close>

text \<open>Every stored profile UUID is a text the normaliser returned.\<close>

definition profile_ok :: "ble_profile \<Rightarrow> bool" where
  "profile_ok p \<longleftrightarrow> uuid.normal (service_uuid p) \<and> uuid.normal (notify_uuid p) \<and>
     uuid.normal (write_uuid p)"

definition config_ok :: "ble_host_config \<Rightarrow> bool" where
  "config_ok cfg \<longleftrightarrow> profile_ok (active_profile cfg)"

lemma config_ok_update [simp]:
  "config_ok (cfg\<lparr>cfg_mtu := m\<rparr>) = config_ok cfg"
  "config_ok (cfg\<lparr>conn_interval_min := m\<rparr>) = config_ok cfg"
  "config_ok (cfg\<lparr>conn_interval_max := m\<rparr>) = config_ok cfg"
  "config_ok (cfg\<lparr>cfg_latency := m\<rparr>) = config_ok cfg"
  "config_ok (cfg\<lparr>cfg_timeout := m\<rparr>) = config_ok cfg"
  "config_ok (cfg\<lparr>auto_mtu := b\<rparr>) = config_ok cfg"
  "config_ok (cfg\<lparr>auto_subscribe := b\<rparr>) = config_ok cfg"
  "config_ok (cfg\<lparr>prefer_2m_phy := b\<rparr>) = config_ok cfg"
  "config_ok (cfg\<lparr>prefer_dle := b\<rparr>) = config_ok cfg"
  "config_ok (cfg\<lparr>allow_data_mode := b\<rparr>) = config_ok cfg"
  "config_ok (cfg\<lparr>stream_guard_time_ms := m\<rparr>) = config_ok cfg"
  "config_ok (cfg\<lparr>active_profile := p\<rparr>) = profile_ok p"
  by (simp_all add: config_ok_def)

lemma profile_ok_field [intro]:
  "profile_ok p \<Longrightarrow> uuid.normal t \<Longrightarrow> profile_ok (p\<lparr>service_uuid := t\<rparr>)"
  "profile_ok p \<Longrightarrow> uuid.normal t \<Longrightarrow> profile_ok (p\<lparr>notify_uuid := t\<rparr>)"
  "profile_ok p \<Longrightarrow> uuid.normal t \<Longrightarrow> profile_ok (p\<lparr>write_uuid := t\<rparr>)"
  by (simp_all add: profile_ok_def)

lemma load_uuid_ok:
  assumes "config_ok cfg"
    and "\<And>p t. profile_ok p \<Longrightarrow> uuid.normal t \<Longrightarrow> profile_ok (store t p)"
  shows "config_ok (snd (load_uuid store r cfg))"
  using assms
  by (auto simp: load_uuid_def config_ok_def split: sum.split option.split
      dest: uuid.normal_norm)

lemma load_scalar_ok:
  "config_ok cfg \<Longrightarrow> (\<And>bs. config_ok (store bs)) \<Longrightarrow> config_ok (snd (load_scalar r store cfg))"
  by (auto simp: load_scalar_def split: read_result.split)

lemma settings_handle_set_ok:
  "config_ok cfg \<Longrightarrow> config_ok (snd (settings_handle_set api uninit ent cfg))"
  unfolding settings_handle_set_def Let_def
  by (simp add: load_uuid_ok load_scalar_ok profile_ok_field)

lemma load_entries_ok:
  "config_ok cfg \<Longrightarrow> config_ok (fold (\<lambda>ent c. snd (settings_handle_set api uninit ent c)) es cfg)"
  by (induction es arbitrary: cfg) (auto intro: settings_handle_set_ok)

lemma g_config_init_ok: "config_ok g_config_init"
proof -
  have "uuid.normal ''0xFFF0''" "uuid.normal ''0xFFF1''" "uuid.normal ''0xFFF2''"
    unfolding uuid.normal_def by code_simp+
  then show ?thesis by (simp add: config_ok_def profile_ok_def g_config_init_def)
qed

lemma ble_host_settings_init_ok:
  "config_ok cfg \<Longrightarrow> ble_host_settings_init api uninit (cfg, w) = (err, cfg', w') \<Longrightarrow> config_ok cfg'"
  by (auto simp: ble_host_settings_init_def Let_def load_entries_ok
      split: prod.splits if_splits)

text \<open>The three updates, as functions of the arguments: which they refuse and what they store.\<close>

lemma update_profile_cases:
  "ble_host_settings_update_profile api service notify write (cfg, w) =
     (case (uuid_denotes service, uuid_denotes notify, uuid_denotes write) of
        (Some a, Some b, Some c) \<Rightarrow>
          let (err, w1) = save_all api
                [(''profile/service_uuid'', bytes_of (uuid_text a)),
                 (''profile/notify_uuid'', bytes_of (uuid_text b)),
                 (''profile/write_uuid'', bytes_of (uuid_text c))] w
          in (err, cfg\<lparr>active_profile := \<lparr> service_uuid = uuid_text a,
                 notify_uuid = uuid_text b, write_uuid = uuid_text c \<rparr>\<rparr>, w1)
      | _ \<Rightarrow> (RC_ERR EINVAL, cfg, w))"
proof -
  have n: "ble_host_normalize_uuid (Some s) BLE_HOST_UUID_STR_LEN = map_option uuid_text (uuid_denotes s)"
    for s
    using length_uuid_text [OF uuid_denotes_wf [of s]]
    by (auto simp: normalize_uuid_full BLE_HOST_UUID_STR_LEN_def split: option.split)
  have f: "uuid_denotes s = Some v \<Longrightarrow> snprintk BLE_HOST_UUID_STR_LEN (uuid_text v) = uuid_text v"
    for s v
    using length_uuid_text [OF uuid_denotes_wf [of s v]]
    by (simp add: snprintk_fits BLE_HOST_UUID_STR_LEN_def)
  show ?thesis
    by (auto simp: ble_host_settings_update_profile_def n f Let_def simp del: save_all.simps
        split: option.split)
qed

lemma uuid_denotes_normal: "uuid_denotes s = Some v \<Longrightarrow> uuid.normal (uuid_text v)"
  using uuid_denotes_wf [of s v] length_uuid_text [of v] unfolding uuid.normal_def
  by (simp add: normalize_uuid_full uuid_denotes_text BLE_HOST_UUID_STR_LEN_def)

lemma update_profile_ok:
  "config_ok cfg \<Longrightarrow>
     ble_host_settings_update_profile api service notify write (cfg, w) = (err, cfg', w') \<Longrightarrow>
     config_ok cfg'"
  by (auto simp: update_profile_cases Let_def profile_ok_def uuid_denotes_normal
      split: option.splits prod.splits)

lemma update_mtu_ok:
  "config_ok cfg \<Longrightarrow> ble_host_settings_update_mtu api m (cfg, w) = (err, cfg', w') \<Longrightarrow> config_ok cfg'"
  by (auto simp: ble_host_settings_update_mtu_def Let_def split: prod.splits if_splits)

lemma update_conn_params_ok:
  "config_ok cfg \<Longrightarrow>
     ble_host_settings_update_conn_params api mn mx la ti (cfg, w) = (err, cfg', w') \<Longrightarrow> config_ok cfg'"
  by (auto simp: ble_host_settings_update_conn_params_def Let_def split: prod.splits if_splits)

section \<open>Persistence\<close>

text \<open>
  What the code relies on in the settings subsystem, as its documentation states it: a successful
  save stores the value under its key, initialisation keeps what is stored, loading hands over
  each stored value of the subtree once with its length and a \<open>read_cb\<close> that copies it, and
  \<open>settings_name_steq\<close> tells the program's own names apart.
\<close>

definition setting_names :: "string list" where
  "setting_names =
     [''profile/service_uuid'', ''profile/notify_uuid'', ''profile/write_uuid'', ''mtu'',
      ''conn_interval_min'', ''conn_interval_max'', ''latency'', ''timeout'', ''auto_mtu'',
      ''auto_subscribe'', ''prefer_2m_phy'', ''prefer_dle'', ''allow_data_mode'',
      ''stream_guard_time_ms'']"

definition saved_entry :: "string \<Rightarrow> u8 list \<Rightarrow> settings_entry" where
  "saved_entry name bs =
     \<lparr>ent_name = name, ent_len = length bs, ent_read = (\<lambda>n. RD_OK (take n bs))\<rparr>"

definition steq_exact :: "'w settings_api \<Rightarrow> bool" where
  "steq_exact api \<longleftrightarrow>
     (\<forall>a \<in> set setting_names. \<forall>b \<in> set setting_names. settings_name_steq api a b = (a = b))"

definition settings_store :: "'w settings_api \<Rightarrow> ('w \<Rightarrow> string \<Rightarrow> u8 list option) \<Rightarrow> bool" where
  "settings_store api stored \<longleftrightarrow>
     steq_exact api \<and>
     (\<forall>k v w w'. settings_save_one api k v w = (RC_OK, w') \<longrightarrow> stored w' = (stored w)(k \<mapsto> v)) \<and>
     (\<forall>w w'. settings_subsys_init api w = (RC_OK, w') \<longrightarrow> stored w' = stored w) \<and>
     (\<forall>w es w'. settings_load_subtree api SETTINGS_ROOT w = (es, RC_OK, w') \<longrightarrow>
        distinct (map ent_name es) \<and> set (map ent_name es) \<subseteq> set setting_names \<and>
        (\<forall>n \<in> set setting_names. \<forall>v.
           stored w (settings_key n) = Some v \<longrightarrow> saved_entry n v \<in> set es))"

lemma settings_key_inject [simp]: "settings_key a = settings_key b \<longleftrightarrow> a = b"
  by (simp add: settings_key_def)

lemma load_uuid_frame:
  "(\<And>t p. g (store t p) = g p) \<Longrightarrow>
     g (active_profile (snd (load_uuid store r cfg))) = g (active_profile cfg)"
  by (auto simp: load_uuid_def split: sum.split option.split)

lemma load_uuid_scalar_frame:
  "(\<And>p. f (cfg\<lparr>active_profile := p\<rparr>) = f cfg) \<Longrightarrow> f (snd (load_uuid store r cfg)) = f cfg"
  by (auto simp: load_uuid_def split: sum.split option.split)

lemma load_scalar_frame:
  "(\<And>bs. f (store bs) = f cfg) \<Longrightarrow> f (snd (load_scalar r store cfg)) = f cfg"
  by (auto simp: load_scalar_def split: read_result.split)

lemma load_scalar_OK [simp]: "load_scalar (RD_OK bs) store cfg = (RC_OK, store bs)"
  by (simp add: load_scalar_def)

lemma steq_exactD:
  "steq_exact api \<Longrightarrow> n \<in> set setting_names \<Longrightarrow>
     list_all (\<lambda>m. settings_name_steq api n m = (n = m)) setting_names"
  by (simp add: steq_exact_def list_all_iff)

text \<open>An entry changes at most the field it is named after.\<close>

lemma settings_handle_set_frame:
  assumes "steq_exact api" and "ent_name e \<in> set setting_names"
  shows "ent_name e \<noteq> ''profile/service_uuid'' \<Longrightarrow>
      service_uuid (active_profile (snd (settings_handle_set api u e cfg))) = service_uuid (active_profile cfg)"
    and "ent_name e \<noteq> ''profile/notify_uuid'' \<Longrightarrow>
      notify_uuid (active_profile (snd (settings_handle_set api u e cfg))) = notify_uuid (active_profile cfg)"
    and "ent_name e \<noteq> ''profile/write_uuid'' \<Longrightarrow>
      write_uuid (active_profile (snd (settings_handle_set api u e cfg))) = write_uuid (active_profile cfg)"
    and "ent_name e \<noteq> ''mtu'' \<Longrightarrow> cfg_mtu (snd (settings_handle_set api u e cfg)) = cfg_mtu cfg"
    and "ent_name e \<noteq> ''conn_interval_min'' \<Longrightarrow>
      conn_interval_min (snd (settings_handle_set api u e cfg)) = conn_interval_min cfg"
    and "ent_name e \<noteq> ''conn_interval_max'' \<Longrightarrow>
      conn_interval_max (snd (settings_handle_set api u e cfg)) = conn_interval_max cfg"
    and "ent_name e \<noteq> ''latency'' \<Longrightarrow> cfg_latency (snd (settings_handle_set api u e cfg)) = cfg_latency cfg"
    and "ent_name e \<noteq> ''timeout'' \<Longrightarrow> cfg_timeout (snd (settings_handle_set api u e cfg)) = cfg_timeout cfg"
  using steq_exactD [OF assms] unfolding settings_handle_set_def Let_def setting_names_def
  by (simp_all add: load_uuid_frame load_uuid_scalar_frame load_scalar_frame)

text \<open>Loading a field delivers the value stored for it.\<close>

lemma load_entries_field:
  assumes frame: "\<And>e cfg. e \<in> set es \<Longrightarrow> ent_name e \<noteq> n \<Longrightarrow>
                     f (snd (settings_handle_set api u e cfg)) = f cfg"
    and hit: "\<And>cfg. f (snd (settings_handle_set api u (saved_entry n v) cfg)) = x"
    and "distinct (map ent_name es)" and "saved_entry n v \<in> set es"
  shows "f (fold (\<lambda>ent c. snd (settings_handle_set api u ent c)) es cfg) = x"
proof -
  have name: "ent_name (saved_entry n v) = n" by (simp add: saved_entry_def)
  obtain ys zs where es: "es = ys @ saved_entry n v # zs"
    using assms(4) by (meson split_list)
  have others: "e \<in> set ys \<or> e \<in> set zs \<Longrightarrow> ent_name e \<noteq> n" for e
    using assms(3) es name by (auto simp: rev_image_eqI)
  have skip: "(\<And>e. e \<in> set ds \<Longrightarrow> e \<in> set es \<and> ent_name e \<noteq> n) \<Longrightarrow>
      f (fold (\<lambda>ent c. snd (settings_handle_set api u ent c)) ds c) = f c" for ds c
    by (induction ds arbitrary: c) (simp_all add: frame)
  show ?thesis
    using others by (simp add: es skip hit)
qed

lemma read_uuid_text_saved:
  assumes "t \<noteq> []" and "length t < BLE_HOST_UUID_STR_LEN" and "NUL \<notin> set t"
    and "length u = BLE_HOST_UUID_STR_LEN"
  shows "read_uuid_text (length t) (\<lambda>n. RD_OK (take n (bytes_of t))) u = Inr t"
proof -
  have "(t @ drop (length t) u)[length t := NUL] = t @ NUL # drop (Suc (length t)) u"
    using assms(2,4) by (simp add: list_update_append Cons_nth_drop_Suc [symmetric])
  then show ?thesis
    using assms by (simp add: read_uuid_text_def cstr_append_NUL)
qed

lemma uuid_normal_facts:
  assumes "uuid.normal t"
  shows "t \<noteq> []" "length t < BLE_HOST_UUID_STR_LEN" "NUL \<notin> set t"
    "ble_host_normalize_uuid (Some t) BLE_HOST_UUID_STR_LEN = Some t"
proof -
  have n: "ble_host_normalize_uuid (Some t) BLE_HOST_UUID_STR_LEN = Some t"
    using assms by (simp add: uuid.normal_def)
  show "ble_host_normalize_uuid (Some t) BLE_HOST_UUID_STR_LEN = Some t" by (rule n)
  show "length t < BLE_HOST_UUID_STR_LEN" by (rule uuid.norm_length [OF n])
  show "NUL \<notin> set t" using uuid.norm_clean [OF n] by auto
  have "ble_host_normalize_uuid (Some []) BLE_HOST_UUID_STR_LEN = None" by code_simp
  then show "t \<noteq> []" using n by auto
qed

lemma load_uuid_saved:
  assumes "uuid.normal t" and "length u = BLE_HOST_UUID_STR_LEN"
  shows "load_uuid store (read_uuid_text (length t) (\<lambda>n. RD_OK (take n (bytes_of t))) u) cfg =
     (RC_OK, cfg\<lparr>active_profile := store t (active_profile cfg)\<rparr>)"
  using uuid_normal_facts [OF assms(1)] assms(2) by (simp add: read_uuid_text_saved load_uuid_def)

text \<open>Each persisted field is recovered by the handler from its saved representation.\<close>

lemma settings_handle_set_saved:
  assumes "steq_exact api"
  shows "uuid.normal t \<Longrightarrow> length u = BLE_HOST_UUID_STR_LEN \<Longrightarrow>
      service_uuid (active_profile (snd (settings_handle_set api u
        (saved_entry ''profile/service_uuid'' (bytes_of t)) cfg))) = t"
    and "uuid.normal t \<Longrightarrow> length u = BLE_HOST_UUID_STR_LEN \<Longrightarrow>
      notify_uuid (active_profile (snd (settings_handle_set api u
        (saved_entry ''profile/notify_uuid'' (bytes_of t)) cfg))) = t"
    and "uuid.normal t \<Longrightarrow> length u = BLE_HOST_UUID_STR_LEN \<Longrightarrow>
      write_uuid (active_profile (snd (settings_handle_set api u
        (saved_entry ''profile/write_uuid'' (bytes_of t)) cfg))) = t"
    and "cfg_mtu (snd (settings_handle_set api u (saved_entry ''mtu'' (u16_bytes m)) cfg)) = m"
    and "conn_interval_min (snd (settings_handle_set api u
        (saved_entry ''conn_interval_min'' (u16_bytes m)) cfg)) = m"
    and "conn_interval_max (snd (settings_handle_set api u
        (saved_entry ''conn_interval_max'' (u16_bytes m)) cfg)) = m"
    and "cfg_latency (snd (settings_handle_set api u (saved_entry ''latency'' (u16_bytes m)) cfg)) = m"
    and "cfg_timeout (snd (settings_handle_set api u (saved_entry ''timeout'' (u16_bytes m)) cfg)) = m"
proof -
  note D = steq_exactD [OF assms, unfolded setting_names_def, simplified]
  note defs = settings_handle_set_def saved_entry_def Let_def load_uuid_saved
  show "uuid.normal t \<Longrightarrow> length u = BLE_HOST_UUID_STR_LEN \<Longrightarrow>
      service_uuid (active_profile (snd (settings_handle_set api u
        (saved_entry ''profile/service_uuid'' (bytes_of t)) cfg))) = t"
    using D [of "''profile/service_uuid''"] by (simp add: defs)
  show "uuid.normal t \<Longrightarrow> length u = BLE_HOST_UUID_STR_LEN \<Longrightarrow>
      notify_uuid (active_profile (snd (settings_handle_set api u
        (saved_entry ''profile/notify_uuid'' (bytes_of t)) cfg))) = t"
    using D [of "''profile/notify_uuid''"] by (simp add: defs)
  show "uuid.normal t \<Longrightarrow> length u = BLE_HOST_UUID_STR_LEN \<Longrightarrow>
      write_uuid (active_profile (snd (settings_handle_set api u
        (saved_entry ''profile/write_uuid'' (bytes_of t)) cfg))) = t"
    using D [of "''profile/write_uuid''"] by (simp add: defs)
  show "cfg_mtu (snd (settings_handle_set api u (saved_entry ''mtu'' (u16_bytes m)) cfg)) = m"
    using D [of "''mtu''"] by (simp add: defs)
  show "conn_interval_min (snd (settings_handle_set api u
        (saved_entry ''conn_interval_min'' (u16_bytes m)) cfg)) = m"
    using D [of "''conn_interval_min''"] by (simp add: defs)
  show "conn_interval_max (snd (settings_handle_set api u
        (saved_entry ''conn_interval_max'' (u16_bytes m)) cfg)) = m"
    using D [of "''conn_interval_max''"] by (simp add: defs)
  show "cfg_latency (snd (settings_handle_set api u (saved_entry ''latency'' (u16_bytes m)) cfg)) = m"
    using D [of "''latency''"] by (simp add: defs)
  show "cfg_timeout (snd (settings_handle_set api u (saved_entry ''timeout'' (u16_bytes m)) cfg)) = m"
    using D [of "''timeout''"] by (simp add: defs)
qed

lemma save_all_stored:
  assumes "settings_store api stored" and "distinct (map fst kvs)"
    and "save_all api kvs w = (RC_OK, w')"
  shows "(\<forall>(k, v) \<in> set kvs. stored w' (settings_key k) = Some v) \<and>
         (\<forall>k. k \<notin> set (map fst kvs) \<longrightarrow> stored w' (settings_key k) = stored w (settings_key k))"
  using assms(2,3)
proof (induction kvs arbitrary: w)
  case Nil
  then show ?case by simp
next
  case (Cons kv kvs)
  obtain k v where kv: "kv = (k, v)" by (cases kv)
  obtain e w1 where s1: "settings_save_one api (settings_key k) v w = (e, w1)"
    by (cases "settings_save_one api (settings_key k) v w")
  with Cons.prems(2) kv have e: "e = RC_OK" and rest: "save_all api kvs w1 = (RC_OK, w')"
    by (auto split: if_splits)
  have st1: "stored w1 = (stored w)(settings_key k \<mapsto> v)"
    using assms(1) s1 e by (auto simp: settings_store_def)
  have IH: "(\<forall>(k, v) \<in> set kvs. stored w' (settings_key k) = Some v) \<and>
      (\<forall>k. k \<notin> set (map fst kvs) \<longrightarrow> stored w' (settings_key k) = stored w1 (settings_key k))"
    using Cons.IH [OF _ rest] Cons.prems(1) by simp
  have "k \<notin> set (map fst kvs)" using Cons.prems(1) kv by simp
  with IH st1 have "stored w' (settings_key k) = Some v" by simp
  with IH st1 kv show ?case by auto
qed

lemma settings_store_load:
  assumes "settings_store api stored" "settings_load_subtree api SETTINGS_ROOT w = (es, RC_OK, w')"
  shows "distinct (map ent_name es)" "set (map ent_name es) \<subseteq> set setting_names"
    "n \<in> set setting_names \<Longrightarrow> stored w (settings_key n) = Some v \<Longrightarrow> saved_entry n v \<in> set es"
  using assms unfolding settings_store_def by blast+

lemma settings_init_field:
  assumes store: "settings_store api stored"
    and init: "ble_host_settings_init api u (cfg, w) = (RC_OK, cfg', w')"
    and n: "n \<in> set setting_names" "stored w (settings_key n) = Some v"
    and frame: "\<And>e c. ent_name e \<in> set setting_names \<Longrightarrow> ent_name e \<noteq> n \<Longrightarrow>
                   f (snd (settings_handle_set api u e c)) = f c"
    and hit: "\<And>c. f (snd (settings_handle_set api u (saved_entry n v) c)) = x"
  shows "f cfg' = x"
proof -
  obtain w1 es w2 where w1: "settings_subsys_init api w = (RC_OK, w1)"
    and load: "settings_load_subtree api SETTINGS_ROOT w1 = (es, RC_OK, w2)"
    and cfg': "cfg' = fold (\<lambda>ent c. snd (settings_handle_set api u ent c)) es cfg"
    using init by (auto simp: ble_host_settings_init_def Let_def split: prod.splits if_splits)
  have "stored w1 = stored w" using store w1 by (auto simp: settings_store_def)
  then have es: "distinct (map ent_name es)" "set (map ent_name es) \<subseteq> set setting_names"
      "saved_entry n v \<in> set es"
    using settings_store_load [OF store load] n by auto
  show ?thesis unfolding cfg'
    by (rule load_entries_field [where f = f and n = n and v = v])
      (use es hit in \<open>auto intro: frame\<close>)
qed

text \<open>A store that satisfies these laws: the world is the map from keys to values.\<close>

definition map_settings_api :: "(string \<Rightarrow> u8 list option) settings_api" where
  "map_settings_api =
     \<lparr> settings_subsys_init = (\<lambda>w. (RC_OK, w)),
       settings_load_subtree = (\<lambda>root w.
         (map (\<lambda>n. saved_entry n (the (w (settings_key n))))
            (filter (\<lambda>n. w (settings_key n) \<noteq> None) setting_names), RC_OK, w)),
       settings_save_one = (\<lambda>k v w. (RC_OK, w(k \<mapsto> v))),
       settings_name_steq = (\<lambda>a b. a = b) \<rparr>"

lemma map_settings_store: "settings_store map_settings_api (\<lambda>w. w)"
proof -
  have d: "distinct setting_names" by (simp add: setting_names_def)
  have nm: "ent_name (saved_entry n v) = n" for n v by (simp add: saved_entry_def)
  have c: "map ent_name (map (\<lambda>n. saved_entry n (the (w (settings_key n)))) ns) = ns"
    for w :: "string \<Rightarrow> u8 list option" and ns
    by (simp add: nm comp_def)
  show ?thesis
    unfolding settings_store_def
  proof (intro conjI allI impI ballI)
    show "steq_exact map_settings_api" by (simp add: steq_exact_def map_settings_api_def)
  next
    fix w w' :: "string \<Rightarrow> u8 list option" and es
    assume "settings_load_subtree map_settings_api SETTINGS_ROOT w = (es, RC_OK, w')"
    then have es: "es = map (\<lambda>n. saved_entry n (the (w (settings_key n))))
        (filter (\<lambda>n. w (settings_key n) \<noteq> None) setting_names)"
      by (auto simp: map_settings_api_def)
    show "distinct (map ent_name es)" and "set (map ent_name es) \<subseteq> set setting_names"
      unfolding es c using d by auto
    fix n v
    assume "n \<in> set setting_names" "w (settings_key n) = Some v"
    then show "saved_entry n v \<in> set es" unfolding es by force
  qed (auto simp: map_settings_api_def)
qed

section \<open>Properties\<close>

text \<open>
  Every configuration that \<open>g_config\<close> can hold: its initial value, and what any call of the loader's
  handler, of \<open>ble_host_settings_init\<close> or of an update operation makes of a configuration it can hold,
  with any arguments and whatever the settings subsystem does.
\<close>

inductive config_reach :: "'w settings_api \<Rightarrow> ble_host_config \<Rightarrow> bool" for api where
  start: "config_reach api g_config_init"
| handle: "config_reach api cfg \<Longrightarrow> settings_handle_set api uninit ent cfg = (rc, cfg') \<Longrightarrow> config_reach api cfg'"
| load: "config_reach api cfg \<Longrightarrow> ble_host_settings_init api uninit (cfg, w) = (rc, cfg', w') \<Longrightarrow> config_reach api cfg'"
| profile: "config_reach api cfg \<Longrightarrow>
     ble_host_settings_update_profile api service notify write (cfg, w) = (rc, cfg', w') \<Longrightarrow> config_reach api cfg'"
| mtu: "config_reach api cfg \<Longrightarrow> ble_host_settings_update_mtu api m (cfg, w) = (rc, cfg', w') \<Longrightarrow> config_reach api cfg'"
| conn_params: "config_reach api cfg \<Longrightarrow>
     ble_host_settings_update_conn_params api mn mx la ti (cfg, w) = (rc, cfg', w') \<Longrightarrow> config_reach api cfg'"

text \<open>
  C15: The profile invariant.  In the initial configuration and in every one that loads and updates
  can lead to, whatever bytes the settings subsystem hands to the loader, whatever the
  uninitialised buffer holds and whatever arguments the update operations get, the three UUIDs of
  the active profile are texts in normal form: the normaliser returns each of them unchanged.
\<close>

theorem profile_invariant:
  assumes "config_reach api cfg" "t \<in> {service_uuid (active_profile cfg), notify_uuid (active_profile cfg), write_uuid (active_profile cfg)}"
  shows "ble_host_normalize_uuid (Some t) BLE_HOST_UUID_STR_LEN = Some t"
proof -
  have "config_ok cfg" using assms(1)
  proof (induction rule: config_reach.induct)
    case start
    show ?case by (rule g_config_init_ok)
  next
    case (handle cfg uninit ent rc cfg')
    then show ?case using settings_handle_set_ok [of cfg api uninit ent] by simp
  qed (blast intro: ble_host_settings_init_ok update_profile_ok update_mtu_ok update_conn_params_ok)+
  then show ?thesis using assms(2) by (auto simp: config_ok_def profile_ok_def uuid.normal_def)
qed

theorem profile_invariant_witness:
  "ble_host_normalize_uuid (Some (write_uuid (active_profile (snd (settings_handle_set map_settings_api (replicate 37 NUL)
     (saved_entry ''profile/write_uuid'' [0x46, 0, 0xFF]) g_config_init))))) 37 =
   Some (write_uuid (active_profile (snd (settings_handle_set map_settings_api (replicate 37 NUL)
     (saved_entry ''profile/write_uuid'' [0x46, 0, 0xFF]) g_config_init))))"
proof -
  obtain rc cfg where r: "settings_handle_set map_settings_api (replicate 37 NUL)
     (saved_entry ''profile/write_uuid'' [0x46, 0, 0xFF]) g_config_init = (rc, cfg)" by (meson surj_pair)
  have "config_reach map_settings_api cfg" by (rule config_reach.handle [OF config_reach.start r])
  from profile_invariant [OF this, of "write_uuid (active_profile cfg)"] show ?thesis
    by (simp add: r BLE_HOST_UUID_STR_LEN_def)
qed

lemma stored_profile:
  assumes store: "settings_store api stored"
    and upd: "ble_host_settings_update_profile api service notify write (cfg, w) = (RC_OK, cfg1, w1)"
  shows "profile_ok (active_profile cfg1) \<and>
    stored w1 (settings_key ''profile/service_uuid'') = Some (bytes_of (service_uuid (active_profile cfg1))) \<and>
    stored w1 (settings_key ''profile/notify_uuid'') = Some (bytes_of (notify_uuid (active_profile cfg1))) \<and>
    stored w1 (settings_key ''profile/write_uuid'') = Some (bytes_of (write_uuid (active_profile cfg1)))"
proof -
  obtain a b c where d: "uuid_denotes service = Some a" "uuid_denotes notify = Some b"
      "uuid_denotes write = Some c"
    and s: "save_all api [(''profile/service_uuid'', bytes_of (uuid_text a)),
        (''profile/notify_uuid'', bytes_of (uuid_text b)),
        (''profile/write_uuid'', bytes_of (uuid_text c))] w = (RC_OK, w1)"
    and p: "active_profile cfg1 = \<lparr> service_uuid = uuid_text a, notify_uuid = uuid_text b,
        write_uuid = uuid_text c \<rparr>"
    using upd by (auto simp: update_profile_cases Let_def simp del: save_all.simps
        split: option.splits prod.splits)
  show ?thesis
    using save_all_stored [OF store _ s] d by (simp add: p profile_ok_def uuid_denotes_normal)
qed

text \<open>
  C13: A profile that was accepted and saved survives a restart: loading the settings afterwards,
  into any configuration and whatever the loader's buffer held, restores exactly the three UUIDs.
\<close>

theorem profile_persists:
  assumes store: "settings_store api stored"
    and upd: "ble_host_settings_update_profile api service notify write (cfg, w) = (RC_OK, cfg1, w1)"
    and init: "ble_host_settings_init api uninit (cfg0, w1) = (RC_OK, cfg2, w2)"
    and buf: "length uninit = BLE_HOST_UUID_STR_LEN"
  shows "active_profile cfg2 = active_profile cfg1"
proof -
  have ex: "steq_exact api" using store by (simp add: settings_store_def)
  note st = stored_profile [OF store upd]
  note fr = settings_handle_set_frame [OF ex] and hit = settings_handle_set_saved [OF ex]
  have n: "''profile/service_uuid'' \<in> set setting_names" "''profile/notify_uuid'' \<in> set setting_names"
      "''profile/write_uuid'' \<in> set setting_names"
    by (simp_all add: setting_names_def)
  have "service_uuid (active_profile cfg2) = service_uuid (active_profile cfg1)"
    by (rule settings_init_field [OF store init n(1), where f = "\<lambda>c. service_uuid (active_profile c)"])
      (use st fr hit buf in \<open>auto simp: profile_ok_def\<close>)
  moreover have "notify_uuid (active_profile cfg2) = notify_uuid (active_profile cfg1)"
    by (rule settings_init_field [OF store init n(2), where f = "\<lambda>c. notify_uuid (active_profile c)"])
      (use st fr hit buf in \<open>auto simp: profile_ok_def\<close>)
  moreover have "write_uuid (active_profile cfg2) = write_uuid (active_profile cfg1)"
    by (rule settings_init_field [OF store init n(3), where f = "\<lambda>c. write_uuid (active_profile c)"])
      (use st fr hit buf in \<open>auto simp: profile_ok_def\<close>)
  ultimately show ?thesis by simp
qed

theorem profile_persists_witness:
  "\<exists>cfg1 w1 cfg2 w2.
     ble_host_settings_update_profile map_settings_api ''180d'' ''0x2A37'' '' 2a39''
       (g_config_init, \<lambda>_. None) = (RC_OK, cfg1, w1) \<and>
     ble_host_settings_init map_settings_api (replicate 37 (CHR ''z'')) (g_config_init, w1)
       = (RC_OK, cfg2, w2) \<and>
     active_profile cfg2 = \<lparr>service_uuid = ''0x180D'', notify_uuid = ''0x2A37'', write_uuid = ''0x2A39''\<rparr>"
proof -
  have d: "uuid_denotes ''180d'' = Some (Uuid16 ''180D'')" "uuid_denotes ''0x2A37'' = Some (Uuid16 ''2A37'')"
    "uuid_denotes '' 2a39'' = Some (Uuid16 ''2A39'')" by code_simp+
  have upd: "\<exists>w1. ble_host_settings_update_profile map_settings_api ''180d'' ''0x2A37'' '' 2a39''
      (g_config_init, \<lambda>_. None) = (RC_OK, g_config_init\<lparr>active_profile :=
        \<lparr>service_uuid = ''0x180D'', notify_uuid = ''0x2A37'', write_uuid = ''0x2A39''\<rparr>\<rparr>, w1)"
    by (simp add: update_profile_cases d map_settings_api_def)
  then obtain w1 where u: "ble_host_settings_update_profile map_settings_api ''180d'' ''0x2A37'' '' 2a39''
      (g_config_init, \<lambda>_. None) = (RC_OK, g_config_init\<lparr>active_profile :=
        \<lparr>service_uuid = ''0x180D'', notify_uuid = ''0x2A37'', write_uuid = ''0x2A39''\<rparr>\<rparr>, w1)" ..
  obtain cfg2 where i: "ble_host_settings_init map_settings_api (replicate 37 (CHR ''z''))
      (g_config_init, w1) = (RC_OK, cfg2, w1)"
    by (simp add: ble_host_settings_init_def map_settings_api_def)
  have "length (replicate 37 (CHR ''z'')) = BLE_HOST_UUID_STR_LEN"
    by (simp add: BLE_HOST_UUID_STR_LEN_def)
  from profile_persists [OF map_settings_store u i this] u i show ?thesis by auto
qed

text \<open>
  C14: The MTU and the connection parameters survive a restart in the same way, each of them
  unaffected by the other update.
\<close>

theorem link_settings_persist:
  assumes store: "settings_store api stored"
    and upd1: "ble_host_settings_update_mtu api m (cfg, w) = (RC_OK, cfg1, w1)"
    and upd2: "ble_host_settings_update_conn_params api mn mx la ti (cfg1, w1) = (RC_OK, cfg2, w2)"
    and init: "ble_host_settings_init api uninit (cfg0, w2) = (RC_OK, cfg3, w3)"
  shows "cfg_mtu cfg3 = m \<and> conn_interval_min cfg3 = mn \<and> conn_interval_max cfg3 = mx \<and>
         cfg_latency cfg3 = la \<and> cfg_timeout cfg3 = ti"
proof -
  have ex: "steq_exact api" using store by (simp add: settings_store_def)
  note fr = settings_handle_set_frame [OF ex] and hit = settings_handle_set_saved [OF ex]
  have s1: "save_all api [(''mtu'', u16_bytes m)] w = (RC_OK, w1)"
    using upd1 by (auto simp: ble_host_settings_update_mtu_def Let_def simp del: save_all.simps
        split: if_splits prod.splits)
  have s2: "save_all api [(''conn_interval_min'', u16_bytes mn), (''conn_interval_max'', u16_bytes mx),
      (''latency'', u16_bytes la), (''timeout'', u16_bytes ti)] w1 = (RC_OK, w2)"
    using upd2 by (auto simp: ble_host_settings_update_conn_params_def Let_def simp del: save_all.simps
        split: if_splits prod.splits)
  have st1: "stored w1 (settings_key ''mtu'') = Some (u16_bytes m)"
    using save_all_stored [OF store _ s1] by simp
  have st2: "stored w2 (settings_key ''mtu'') = Some (u16_bytes m)"
      "stored w2 (settings_key ''conn_interval_min'') = Some (u16_bytes mn)"
      "stored w2 (settings_key ''conn_interval_max'') = Some (u16_bytes mx)"
      "stored w2 (settings_key ''latency'') = Some (u16_bytes la)"
      "stored w2 (settings_key ''timeout'') = Some (u16_bytes ti)"
    using save_all_stored [OF store _ s2] st1 by simp_all
  have n: "''mtu'' \<in> set setting_names" "''conn_interval_min'' \<in> set setting_names"
      "''conn_interval_max'' \<in> set setting_names" "''latency'' \<in> set setting_names"
      "''timeout'' \<in> set setting_names"
    by (simp_all add: setting_names_def)
  note field = settings_init_field [OF store init]
  have "cfg_mtu cfg3 = m"
    by (rule field [where f = cfg_mtu, OF n(1) st2(1)]) (simp_all add: fr(4) hit(4))
  moreover have "conn_interval_min cfg3 = mn"
    by (rule field [where f = conn_interval_min, OF n(2) st2(2)]) (simp_all add: fr(5) hit(5))
  moreover have "conn_interval_max cfg3 = mx"
    by (rule field [where f = conn_interval_max, OF n(3) st2(3)]) (simp_all add: fr(6) hit(6))
  moreover have "cfg_latency cfg3 = la"
    by (rule field [where f = cfg_latency, OF n(4) st2(4)]) (simp_all add: fr(7) hit(7))
  moreover have "cfg_timeout cfg3 = ti"
    by (rule field [where f = cfg_timeout, OF n(5) st2(5)]) (simp_all add: fr(8) hit(8))
  ultimately show ?thesis by simp
qed

theorem link_settings_persist_witness:
  "\<exists>cfg3 w3. cfg_mtu cfg3 = 185 \<and> cfg_timeout cfg3 = 500 \<and>
     (\<exists>cfg1 w1 cfg2 w2.
       ble_host_settings_update_mtu map_settings_api 185 (g_config_init, \<lambda>_. None) = (RC_OK, cfg1, w1) \<and>
       ble_host_settings_update_conn_params map_settings_api 12 24 0 500 (cfg1, w1) = (RC_OK, cfg2, w2) \<and>
       ble_host_settings_init map_settings_api [] (g_config_init, w2) = (RC_OK, cfg3, w3))"
proof -
  obtain cfg1 w1 where u1: "ble_host_settings_update_mtu map_settings_api 185
      (g_config_init, \<lambda>_. None) = (RC_OK, cfg1, w1)"
    by (simp add: ble_host_settings_update_mtu_def map_settings_api_def)
  obtain cfg2 w2 where u2: "ble_host_settings_update_conn_params map_settings_api 12 24 0 500
      (cfg1, w1) = (RC_OK, cfg2, w2)"
    by (simp add: ble_host_settings_update_conn_params_def conn_params_valid_def map_settings_api_def)
  obtain cfg3 w3 where i: "ble_host_settings_init map_settings_api [] (g_config_init, w2)
      = (RC_OK, cfg3, w3)"
    by (simp add: ble_host_settings_init_def map_settings_api_def)
  show ?thesis using link_settings_persist [OF map_settings_store u1 u2 i] u1 u2 i by blast
qed

text \<open>
  Loading does not validate: every stored MTU is accepted with return code 0, also those the
  update operation refuses.
\<close>

theorem load_mtu_unvalidated:
  assumes "settings_name_steq api ''mtu'' = (\<lambda>k. k = ''mtu'')"
  shows "settings_handle_set api uninit (saved_entry ''mtu'' (u16_bytes m)) cfg =
           (RC_OK, cfg\<lparr>cfg_mtu := m\<rparr>)"
  using assms by (simp add: settings_handle_set_def saved_entry_def)

theorem load_mtu_unvalidated_witness:
  "settings_handle_set map_settings_api [] (saved_entry ''mtu'' (u16_bytes 0)) g_config_init =
     (RC_OK, g_config_init\<lparr>cfg_mtu := 0\<rparr>) \<and>
   fst (ble_host_settings_update_mtu map_settings_api 0 (g_config_init, \<lambda>_. None)) = RC_ERR EINVAL"
proof -
  have h: "settings_name_steq map_settings_api ''mtu'' = (\<lambda>k. k = ''mtu'')"
    by (auto simp: map_settings_api_def)
  show ?thesis using load_mtu_unvalidated [OF h, of "[]" 0 g_config_init]
    by (simp add: ble_host_settings_update_mtu_def)
qed

text \<open>
  An update of the profile is not atomic: when the arguments are valid the configuration in
  memory takes the new profile whatever saving returns, so a failed AT+SETSVCUUID has changed the
  active profile.
\<close>

theorem update_profile_not_atomic:
  assumes "uuid_denotes service = Some a" "uuid_denotes notify = Some b" "uuid_denotes write = Some c"
    and "settings_save_one api (settings_key ''profile/service_uuid'') (bytes_of (uuid_text a)) w
           = (RC_ERR e, w1)"
  shows "ble_host_settings_update_profile api service notify write (cfg, w) =
     (RC_ERR e, cfg\<lparr>active_profile := \<lparr>service_uuid = uuid_text a, notify_uuid = uuid_text b,
                                     write_uuid = uuid_text c\<rparr>\<rparr>, w1)"
  using assms by (simp add: update_profile_cases)

theorem update_profile_not_atomic_witness:
  "ble_host_settings_update_profile
       (map_settings_api\<lparr>settings_save_one := (\<lambda>k v w. (RC_ERR ENOMEM, w))\<rparr>)
       ''180d'' ''0x2A37'' '' 2a39'' (g_config_init, \<lambda>_. None) =
     (RC_ERR ENOMEM, g_config_init\<lparr>active_profile := \<lparr>service_uuid = ''0x180D'',
        notify_uuid = ''0x2A37'', write_uuid = ''0x2A39''\<rparr>\<rparr>, \<lambda>_. None)"
proof -
  have d: "uuid_denotes ''180d'' = Some (Uuid16 ''180D'')" "uuid_denotes ''0x2A37'' = Some (Uuid16 ''2A37'')"
    "uuid_denotes '' 2a39'' = Some (Uuid16 ''2A39'')" by code_simp+
  show ?thesis
    by (rule update_profile_not_atomic [OF d, where e = ENOMEM, simplified uuid_text.simps append.simps])
      simp
qed

end
