(* ===== verification/At_Parse.thy ===== *)
theory At_Parse
  imports App_Common
begin

text \<open>
  The lexical helpers of \<open>at_host.c\<close>: case-insensitive comparison, trimming, decimal arguments
  and the splitting of an argument list at its commas.
\<close>

section \<open>Definitions\<close>

fun equals_ignore_case :: "string \<Rightarrow> string \<Rightarrow> bool" where
  "equals_ignore_case (l # lhs) (r # rhs) =
     (if c_toupper l \<noteq> c_toupper r then False else equals_ignore_case lhs rhs)"
| "equals_ignore_case lhs rhs = (lhs = [] \<and> rhs = [])"

fun starts_with_ignore_case :: "string \<Rightarrow> string \<Rightarrow> bool" where
  "starts_with_ignore_case text [] = True"
| "starts_with_ignore_case [] (p # prefix) = False"
| "starts_with_ignore_case (t # text) (p # prefix) =
     (if c_toupper t \<noteq> c_toupper p then False else starts_with_ignore_case text prefix)"

definition trim_whitespace :: "string \<Rightarrow> string" where
  "trim_whitespace text =
     (let start = length (takeWhile c_isspace text);
          len = rtrim_len text start (length text)
      in take (len - start) (drop start text))"

definition parse_uint16_value :: "string option \<Rightarrow> u16 option" where
  "parse_uint16_value txt =
     (case txt of
        None \<Rightarrow> None
      | Some text \<Rightarrow>
          if text = [] then None
          else case c_strtoul10 text of
                 None \<Rightarrow> None
               | Some (parsed, end_ptr) \<Rightarrow>
                   if end_ptr \<noteq> [] \<or> 65535 < parsed then None else Some (ucast parsed))"

text \<open>
  \<open>split_args\<close> overwrites each comma it passes with a NUL and stores pointers to the pieces;
  \<open>count\<close> reaches \<open>max_args\<close> after that many pieces and the rest of the text is left alone.
\<close>

fun split_args_loop :: "nat \<Rightarrow> string \<Rightarrow> string list" where
  "split_args_loop 0 cursor = []"
| "split_args_loop (Suc n) cursor =
     (if cursor = [] then []
      else takeWhile (\<lambda>c. c \<noteq> CHR '','') cursor #
           (case dropWhile (\<lambda>c. c \<noteq> CHR '','') cursor of
              [] \<Rightarrow> []
            | comma # rest \<Rightarrow> split_args_loop n rest))"

definition split_args :: "string option \<Rightarrow> nat \<Rightarrow> string list option" where
  "split_args text max_args =
     (case text of None \<Rightarrow> None | Some t \<Rightarrow> Some (split_args_loop max_args t))"

section \<open>What they compute\<close>

lemma equals_ignore_case_map:
  "equals_ignore_case a b \<longleftrightarrow> map c_toupper a = map c_toupper b"
  by (induction a b rule: equals_ignore_case.induct) auto

lemma starts_with_ignore_case_map:
  "starts_with_ignore_case t p \<longleftrightarrow> map c_toupper (take (length p) t) = map c_toupper p"
  by (induction t p rule: starts_with_ignore_case.induct) auto

lemma starts_with_append [simp]: "starts_with_ignore_case (p @ t) p"
  by (simp add: starts_with_ignore_case_map)

lemma drop_takeWhile_length: "drop (length (takeWhile P s)) s = dropWhile P s"
  by (simp add: dropWhile_eq_drop)

lemma rtrim_len_start:
  "start \<le> length s \<Longrightarrow> rtrim_len s start (length s) = start + length (rtrim (drop start s))"
proof (induction s rule: rev_induct)
  case Nil
  then show ?case by (simp add: rtrim_def)
next
  case (snoc c s)
  show ?case
  proof (cases "start = length (s @ [c])")
    case True
    have ge: "start \<le> rtrim_len (s @ [c]) start (length (s @ [c]))"
      by (rule rtrim_len_ge) (use True in simp)
    then show ?thesis
      using True rtrim_len_le [of "s @ [c]" start "length (s @ [c])"] by (simp add: rtrim_def)
  next
    case False
    then have st: "start \<le> length s" using snoc.prems by simp
    show ?thesis
    proof (cases "c_isspace c")
      case True
      have "rtrim_len (s @ [c]) start (length (s @ [c])) = rtrim_len s start (length s)"
        by (rule rtrim_len_snoc_space [OF st True])
      with snoc.IH [OF st] st True show ?thesis by (simp add: rtrim_def)
    next
      case False
      then have "rtrim_len (s @ [c]) start (length (s @ [c])) = length (s @ [c])"
        by (intro rtrim_len_id) simp
      with False st show ?thesis by (simp add: rtrim_def)
    qed
  qed
qed

lemma rtrim_prefix: "rtrim s = take (length (rtrim s)) s"
  using take_rtrim_len [of s] by (simp add: length_rtrim)

lemma trim_whitespace_eq: "trim_whitespace text = rtrim (dropWhile c_isspace text)"
proof -
  let ?start = "length (takeWhile c_isspace text)"
  have le: "?start \<le> length text" by (rule length_takeWhile_le)
  have "trim_whitespace text = take (length (rtrim (drop ?start text))) (drop ?start text)"
    unfolding trim_whitespace_def Let_def by (simp add: rtrim_len_start [OF le])
  also have "\<dots> = rtrim (drop ?start text)" by (rule rtrim_prefix [symmetric])
  finally show ?thesis by (simp add: drop_takeWhile_length)
qed

lemma trim_whitespace_id [c_string]:
  assumes "s = [] \<or> \<not> c_isspace (hd s) \<and> \<not> c_isspace (last s)"
  shows "trim_whitespace s = s"
proof -
  have "dropWhile c_isspace s = s" using assms by (cases s) auto
  then show ?thesis using assms rtrim_no_space [of s] by (auto simp: trim_whitespace_eq)
qed

lemma length_trim_whitespace: "length (trim_whitespace s) \<le> length s"
  by (simp add: trim_whitespace_def Let_def)

text \<open>Decimal arguments.\<close>

lemma parse_uint16_fmt_u:
  "n \<le> 65535 \<Longrightarrow> parse_uint16_value (Some (fmt_u n)) = Some (word_of_nat n)"
proof -
  assume n: "n \<le> 65535"
  then have "c_strtoul10 (fmt_u n) = Some (word_of_nat n, [])"
    using strtoul_fmt_u [of n "[]"] by simp
  moreover have "unat (word_of_nat n :: u32) = n" using n by (simp add: unat_of_nat)
  then have "\<not> 65535 < (word_of_nat n :: u32)" using n by (simp add: word_less_nat_alt)
  moreover have "ucast (word_of_nat n :: u32) = (word_of_nat n :: u16)"
    using n by (simp add: word_unat_eq_iff unat_of_nat unsigned_ucast_eq take_bit_nat_eq_self)
  ultimately show ?thesis by (simp add: parse_uint16_value_def)
qed

lemma parse_uint16_fmt_word [simp]:
  "parse_uint16_value (Some (fmt_u (unat (w :: u16)))) = Some w"
  using unat_lt [of w] by (simp add: parse_uint16_fmt_u)

lemma parse_uint16_fmt_u8:
  "parse_uint16_value (Some (fmt_u (unat (w :: u8)))) = Some (ucast w)"
  using unat_lt [of w] by (simp add: parse_uint16_fmt_u)

text \<open>Argument lists.\<close>

fun join_comma :: "string list \<Rightarrow> string" where
  "join_comma [] = []"
| "join_comma [a] = a"
| "join_comma (a # as) = a @ CHR '','' # join_comma as"

lemma split_args_join:
  assumes "\<forall>a \<in> set as. CHR '','' \<notin> set a" and "as \<noteq> []" and "last as \<noteq> []" and "length as \<le> n"
  shows "split_args_loop n (join_comma as) = as"
  using assms
proof (induction as arbitrary: n rule: join_comma.induct)
  case (2 a)
  then obtain m where m: "n = Suc m" by (cases n) auto
  have "takeWhile (\<lambda>c. c \<noteq> CHR '','') a = a" "dropWhile (\<lambda>c. c \<noteq> CHR '','') a = []"
    using "2.prems"(1) by (auto simp: takeWhile_eq_all_conv dropWhile_eq_Nil_conv)
  then show ?case using "2.prems"(3) by (simp add: m del: dropWhile_eq_Nil_conv)
next
  case (3 a b as)
  then obtain m where m: "n = Suc m" by (cases n) auto
  have "takeWhile (\<lambda>c. c \<noteq> CHR '','') (a @ CHR '','' # join_comma (b # as)) = a"
    "dropWhile (\<lambda>c. c \<noteq> CHR '','') (a @ CHR '','' # join_comma (b # as)) =
       CHR '','' # join_comma (b # as)"
    using "3.prems"(1) by (auto simp: takeWhile_append dropWhile_append)
  then show ?case using "3.IH" [of m] "3.prems" by (simp add: m)
qed simp

lemma length_split_args_loop: "length (split_args_loop n s) \<le> n"
proof (induction n s rule: split_args_loop.induct)
  case (2 n cursor)
  then show ?case by (auto split: list.split)
qed simp

end
