(* ===== verification/At_Host.thy ===== *)
theory At_Host
  imports At_Parse
begin

text \<open>
  The model of \<open>at_host.c\<close>: the AT control plane.  Its state is the record \<open>at_host_state\<close>.
  The tables \<open>struct at_host_ops\<close> and \<open>struct at_host_tx\<close> are records of functions over the
  caller's state \<open>'s\<close> (the \<open>context\<close>); a function pointer the code compares with NULL is
  an option.  \<open>at_host_init\<close> is called once with tables that are never NULL, so the two tables
  are arguments of the definitions; the table \<open>tx\<close>, which the code does test, is an option.
\<close>

section \<open>Interfaces (at_host.h)\<close>

record 's at_host_ops =
  ops_start_scan :: "u16 \<Rightarrow> string option \<Rightarrow> 's \<Rightarrow> rc \<times> 's"
  ops_connect :: "string \<Rightarrow> u8 \<Rightarrow> 's \<Rightarrow> rc \<times> 's"
  ops_disconnect :: "u8 \<Rightarrow> 's \<Rightarrow> rc \<times> 's"
  ops_send_payload :: "u8 \<Rightarrow> u8 list \<Rightarrow> 's \<Rightarrow> rc \<times> 's"
  ops_get_status :: "'s \<Rightarrow> ble_host_status"
  ops_get_profile :: "'s \<Rightarrow> ble_profile"
  ops_set_profile :: "string \<Rightarrow> string \<Rightarrow> string \<Rightarrow> 's \<Rightarrow> rc \<times> 's"
  ops_set_mtu :: "u16 \<Rightarrow> 's \<Rightarrow> rc \<times> 's"
  ops_get_mtu :: "'s \<Rightarrow> u16"
  ops_request_mtu :: "u8 \<Rightarrow> 's \<Rightarrow> rc \<times> 's"
  ops_set_conn_params :: "u8 \<Rightarrow> u16 \<Rightarrow> u16 \<Rightarrow> u16 \<Rightarrow> u16 \<Rightarrow> 's \<Rightarrow> rc \<times> 's"
  ops_enter_data_mode :: "(u8 \<Rightarrow> 's \<Rightarrow> rc \<times> 's) option"
  ops_get_stream_stats :: "('s \<Rightarrow> ble_stream_stats) option"

record 's at_host_tx =
  tx_line_fn :: "(string \<Rightarrow> 's \<Rightarrow> 's) option"
  tx_raw_fn :: "(u8 list \<Rightarrow> 's \<Rightarrow> 's) option"

section \<open>State\<close>

datatype at_error_kind =
  AT_ERROR_INVALID_COMMAND | AT_ERROR_INVALID_PARAMETERS | AT_ERROR_FUNCTION_ERROR

datatype at_command_result = AT_COMMAND_RESULT_NONE | AT_COMMAND_RESULT_ENTER_PAYLOAD

definition LINE_BUFFER_SIZE :: nat where "LINE_BUFFER_SIZE = 160"

record at_host_state =
  line_buffer :: "char list"
  line_length :: nat
  line_overflow :: bool
  payload_mode :: bool
  payload_buffer :: "u8 list"
  payload_expected :: nat
  payload_received :: nat
  payload_conn_index :: u8

text \<open>\<open>at_host_init\<close> zeroes the whole object.\<close>

definition at_host_init :: at_host_state where
  "at_host_init =
     \<lparr> line_buffer = replicate LINE_BUFFER_SIZE NUL, line_length = 0, line_overflow = False,
       payload_mode = False, payload_buffer = replicate BLE_HOST_SEND_MAX_LEN 0,
       payload_expected = 0, payload_received = 0, payload_conn_index = 0 \<rparr>"

section \<open>Output\<close>

definition tx_line :: "'s at_host_tx option \<Rightarrow> string \<Rightarrow> 's \<Rightarrow> 's" where
  "tx_line tx line s =
     (case tx of None \<Rightarrow> s | Some t \<Rightarrow> (case tx_line_fn t of None \<Rightarrow> s | Some f \<Rightarrow> f line s))"

definition tx_raw :: "'s at_host_tx option \<Rightarrow> u8 list \<Rightarrow> 's \<Rightarrow> 's" where
  "tx_raw tx data s =
     (case tx of None \<Rightarrow> s | Some t \<Rightarrow> (case tx_raw_fn t of None \<Rightarrow> s | Some f \<Rightarrow> f data s))"

fun error_text :: "at_error_kind \<Rightarrow> string" where
  "error_text AT_ERROR_INVALID_COMMAND = ''+ERR=Invalid Command''"
| "error_text AT_ERROR_INVALID_PARAMETERS = ''+ERR=Invalid Parameters''"
| "error_text AT_ERROR_FUNCTION_ERROR = ''+ERR=Function Error''"

definition emit_error :: "'s at_host_tx option \<Rightarrow> at_error_kind \<Rightarrow> 's \<Rightarrow> 's" where
  "emit_error tx kind s = tx_line tx (error_text kind) s"

definition emit_error_from_errno :: "'s at_host_tx option \<Rightarrow> rc \<Rightarrow> 's \<Rightarrow> 's" where
  "emit_error_from_errno tx err s =
     (if err = RC_ERR EINVAL \<or> err = RC_ERR ENOENT \<or> err = RC_ERR ERANGE \<or> err = RC_ERR EMSGSIZE
      then emit_error tx AT_ERROR_INVALID_PARAMETERS s
      else emit_error tx AT_ERROR_FUNCTION_ERROR s)"

text \<open>What follows every operation call: the error of a failed one, \<open>+OK\<close> after success.\<close>

definition reply :: "'s at_host_tx option \<Rightarrow> rc \<times> 's \<Rightarrow> 's" where
  "reply tx r = (let (err, s) = r in
     if err \<noteq> RC_OK then emit_error_from_errno tx err s else tx_line tx ''+OK'' s)"

section \<open>Queries\<close>

definition handle_get_status :: "'s at_host_ops \<Rightarrow> 's at_host_tx option \<Rightarrow> 's \<Rightarrow> 's" where
  "handle_get_status ops tx s =
     (let status = ops_get_status ops s
      in if \<not> st_connected status then tx_line tx ''+OK=NUM,0'' s
         else let line = snprintk 80
                    (''0:'' @ st_mac status @ '',0,1,'' @ fmt_u (unat (st_data_len status)))
              in tx_line tx ''+OK=NUM,1'' (tx_line tx line s))"

definition handle_get_profile :: "'s at_host_ops \<Rightarrow> 's at_host_tx option \<Rightarrow> 's \<Rightarrow> 's" where
  "handle_get_profile ops tx s =
     (let p = ops_get_profile ops s
      in tx_line tx (snprintk 128
           (''+OK='' @ service_uuid p @ '','' @ notify_uuid p @ '','' @ write_uuid p)) s)"

definition handle_get_mtu :: "'s at_host_ops \<Rightarrow> 's at_host_tx option \<Rightarrow> 's \<Rightarrow> 's" where
  "handle_get_mtu ops tx s =
     tx_line tx (snprintk 32 (''+OK='' @ fmt_u (unat (ops_get_mtu ops s)))) s"

definition stream_stats_text :: "ble_stream_stats \<Rightarrow> string" where
  "stream_stats_text st =
     ''+OK=H2B,'' @ fmt_u (unat (bytes_host_to_ble st)) @
     '',B2H,'' @ fmt_u (unat (bytes_ble_to_host st)) @
     '',WOP,'' @ fmt_u (unat (write_ops st)) @
     '',NOP,'' @ fmt_u (unat (notify_ops st)) @
     '',BP,'' @ fmt_u (unat (usb_backpressure_count st)) @
     '',MAXTX,'' @ fmt_u (unat (max_host_to_ble_depth st)) @
     '',MAXRX,'' @ fmt_u (unat (max_ble_to_host_depth st)) @
     '',ENT,'' @ fmt_u (unat (enter_data_mode_count st)) @
     '',UDISC,'' @ fmt_u (unat (unexpected_disconnect_count st))"

definition handle_get_stream_stats :: "'s at_host_ops \<Rightarrow> 's at_host_tx option \<Rightarrow> 's \<Rightarrow> 's" where
  "handle_get_stream_stats ops tx s =
     (case ops_get_stream_stats ops of
        None \<Rightarrow> emit_error tx AT_ERROR_FUNCTION_ERROR s
      | Some get \<Rightarrow> tx_line tx (snprintk 192 (stream_stats_text (get s))) s)"

section \<open>Commands with arguments\<close>

definition params_error :: "'s at_host_tx option \<Rightarrow> 's \<Rightarrow> 's" where
  "params_error tx s = emit_error tx AT_ERROR_INVALID_PARAMETERS s"

definition MAX_ARGS :: nat where "MAX_ARGS = 5"

definition cmd_startscan ::
  "'s at_host_ops \<Rightarrow> 's at_host_tx option \<Rightarrow> string \<Rightarrow> 's \<Rightarrow> 's" where
  "cmd_startscan ops tx payload s =
     (case split_args (Some payload) MAX_ARGS of
        None \<Rightarrow> params_error tx s
      | Some args \<Rightarrow>
          if length args = 0 then params_error tx s
          else (case parse_uint16_value (Some (args ! 0)) of
                  None \<Rightarrow> params_error tx s
                | Some u16_value \<Rightarrow>
                    if u16_value = 0 then params_error tx s
                    else let filter_name = (if 2 \<le> length args \<and> args ! 1 \<noteq> []
                                            then Some (args ! 1) else None)
                         in reply tx (ops_start_scan ops u16_value filter_name s)))"

definition cmd_startcon ::
  "'s at_host_ops \<Rightarrow> 's at_host_tx option \<Rightarrow> string \<Rightarrow> 's \<Rightarrow> 's" where
  "cmd_startcon ops tx payload s =
     (case split_args (Some payload) MAX_ARGS of
        None \<Rightarrow> params_error tx s
      | Some args \<Rightarrow>
          if length args \<noteq> 2 then params_error tx s
          else (case parse_uint16_value (Some (args ! 1)) of
                  None \<Rightarrow> params_error tx s
                | Some addr_type \<Rightarrow>
                    if 3 < addr_type then params_error tx s
                    else reply tx (ops_connect ops (args ! 0) (ucast addr_type) s)))"

definition cmd_discon ::
  "'s at_host_ops \<Rightarrow> 's at_host_tx option \<Rightarrow> string \<Rightarrow> 's \<Rightarrow> 's" where
  "cmd_discon ops tx payload s =
     (case parse_uint16_value (Some payload) of
        None \<Rightarrow> params_error tx s
      | Some u16_value \<Rightarrow>
          if 255 < u16_value then params_error tx s
          else reply tx (ops_disconnect ops (ucast u16_value) s))"

definition cmd_send ::
  "'s at_host_tx option \<Rightarrow> string \<Rightarrow> at_host_state \<times> 's
     \<Rightarrow> at_command_result \<times> at_host_state \<times> 's" where
  "cmd_send tx payload cs =
     (let (st, s) = cs
      in case split_args (Some payload) MAX_ARGS of
           None \<Rightarrow> (AT_COMMAND_RESULT_NONE, st, params_error tx s)
         | Some args \<Rightarrow>
             if length args \<noteq> 2 then (AT_COMMAND_RESULT_NONE, st, params_error tx s)
             else (case (parse_uint16_value (Some (args ! 0)), parse_uint16_value (Some (args ! 1))) of
                     (Some conn_index, Some u16_value) \<Rightarrow>
                       if 255 < conn_index \<or> u16_value = 0 \<or> BLE_HOST_SEND_MAX_LEN < unat u16_value
                       then (AT_COMMAND_RESULT_NONE, st, params_error tx s)
                       else (AT_COMMAND_RESULT_ENTER_PAYLOAD,
                             st\<lparr>payload_mode := True, payload_expected := unat u16_value,
                                payload_received := 0, payload_conn_index := ucast conn_index\<rparr>,
                             tx_raw tx (bytes_of ''>'') s)
                   | _ \<Rightarrow> (AT_COMMAND_RESULT_NONE, st, params_error tx s)))"

definition cmd_setsvcuuid ::
  "'s at_host_ops \<Rightarrow> 's at_host_tx option \<Rightarrow> string \<Rightarrow> 's \<Rightarrow> 's" where
  "cmd_setsvcuuid ops tx payload s =
     (case split_args (Some payload) MAX_ARGS of
        None \<Rightarrow> params_error tx s
      | Some args \<Rightarrow>
          if length args \<noteq> 3 then params_error tx s
          else reply tx (ops_set_profile ops (args ! 0) (args ! 1) (args ! 2) s))"

definition cmd_setmtu ::
  "'s at_host_ops \<Rightarrow> 's at_host_tx option \<Rightarrow> string \<Rightarrow> 's \<Rightarrow> 's" where
  "cmd_setmtu ops tx payload s =
     (case parse_uint16_value (Some payload) of
        None \<Rightarrow> params_error tx s
      | Some u16_value \<Rightarrow> reply tx (ops_set_mtu ops u16_value s))"

definition cmd_conmtureq ::
  "'s at_host_ops \<Rightarrow> 's at_host_tx option \<Rightarrow> string \<Rightarrow> 's \<Rightarrow> 's" where
  "cmd_conmtureq ops tx payload s =
     (case parse_uint16_value (Some payload) of
        None \<Rightarrow> params_error tx s
      | Some u16_value \<Rightarrow>
          if 255 < u16_value then params_error tx s
          else reply tx (ops_request_mtu ops (ucast u16_value) s))"

definition cmd_conparareq ::
  "'s at_host_ops \<Rightarrow> 's at_host_tx option \<Rightarrow> string \<Rightarrow> 's \<Rightarrow> 's" where
  "cmd_conparareq ops tx payload s =
     (case split_args (Some payload) MAX_ARGS of
        None \<Rightarrow> params_error tx s
      | Some args \<Rightarrow>
          if length args \<noteq> 5 then params_error tx s
          else (case map (\<lambda>a. parse_uint16_value (Some a)) args of
                  [Some conn_index, Some min_interval, Some max_interval, Some latency, Some timeout] \<Rightarrow>
                    if 255 < conn_index then params_error tx s
                    else reply tx (ops_set_conn_params ops (ucast conn_index) min_interval
                                     max_interval latency timeout s)
                | _ \<Rightarrow> params_error tx s))"

definition cmd_enterdatamode ::
  "'s at_host_ops \<Rightarrow> 's at_host_tx option \<Rightarrow> string \<Rightarrow> 's \<Rightarrow> 's" where
  "cmd_enterdatamode ops tx payload s =
     (case (parse_uint16_value (Some payload), ops_enter_data_mode ops) of
        (Some u16_value, Some enter) \<Rightarrow>
          if 255 < u16_value then params_error tx s
          else let (err, s1) = enter (ucast u16_value) s
               in if err \<noteq> RC_OK then emit_error_from_errno tx err s1
                  else tx_line tx ''+IND=DATAMODE,1'' (tx_line tx ''+OK'' s1)
      | _ \<Rightarrow> params_error tx s)"

section \<open>The dispatcher\<close>

text \<open>A command that leaves the state of the AT host alone.\<close>

definition no_payload :: "at_host_state \<Rightarrow> 's \<Rightarrow> at_command_result \<times> at_host_state \<times> 's" where
  "no_payload st s = (AT_COMMAND_RESULT_NONE, st, s)"

definition process_command ::
  "'s at_host_ops \<Rightarrow> 's at_host_tx option \<Rightarrow> string \<Rightarrow> at_host_state \<times> 's
     \<Rightarrow> at_command_result \<times> at_host_state \<times> 's" where
  "process_command ops tx line cs =
     (let (st, s) = cs;
          working = trim_whitespace (snprintk 160 line);
          is = equals_ignore_case working;
          starts = starts_with_ignore_case working;
          payload = (\<lambda>prefix. drop (length prefix) working)
      in if working = [] then no_payload st s
         else if is ''AT'' then no_payload st (tx_line tx ''+OK'' s)
         else if starts ''AT+STARTSCAN='' then
           no_payload st (cmd_startscan ops tx (payload ''AT+STARTSCAN='') s)
         else if starts ''AT+STARTCON='' then
           no_payload st (cmd_startcon ops tx (payload ''AT+STARTCON='') s)
         else if starts ''AT+DISCON='' then
           no_payload st (cmd_discon ops tx (payload ''AT+DISCON='') s)
         else if starts ''AT+SEND='' then cmd_send tx (payload ''AT+SEND='') (st, s)
         else if is ''AT+CONSTATUS'' then no_payload st (handle_get_status ops tx s)
         else if starts ''AT+SETSVCUUID='' then
           no_payload st (cmd_setsvcuuid ops tx (payload ''AT+SETSVCUUID='') s)
         else if is ''AT+GETSVCUUID'' then no_payload st (handle_get_profile ops tx s)
         else if starts ''AT+SETMTU='' then
           no_payload st (cmd_setmtu ops tx (payload ''AT+SETMTU='') s)
         else if is ''AT+GETMTU'' then no_payload st (handle_get_mtu ops tx s)
         else if starts ''AT+CONMTUREQ='' then
           no_payload st (cmd_conmtureq ops tx (payload ''AT+CONMTUREQ='') s)
         else if starts ''AT+CONPARAREQ='' then
           no_payload st (cmd_conparareq ops tx (payload ''AT+CONPARAREQ='') s)
         else if starts ''AT+ENTERDATAMODE='' then
           no_payload st (cmd_enterdatamode ops tx (payload ''AT+ENTERDATAMODE='') s)
         else if is ''AT+STREAMSTAT'' then no_payload st (handle_get_stream_stats ops tx s)
         else if starts ''AT+'' then no_payload st (emit_error tx AT_ERROR_FUNCTION_ERROR s)
         else no_payload st (emit_error tx AT_ERROR_INVALID_COMMAND s))"

section \<open>Reception\<close>

definition process_send_payload ::
  "'s at_host_ops \<Rightarrow> 's at_host_tx option \<Rightarrow> at_host_state \<times> 's \<Rightarrow> at_host_state \<times> 's" where
  "process_send_payload ops tx cs =
     (let (st, s) = cs;
          (err, s1) = ops_send_payload ops (payload_conn_index st)
                        (take (payload_expected st) (payload_buffer st)) s;
          st1 = st\<lparr>payload_mode := False, payload_expected := 0, payload_received := 0\<rparr>
      in (st1, reply tx (err, s1)))"

definition is_eol :: "u8 \<Rightarrow> bool" where
  "is_eol ch \<longleftrightarrow> ch = 13 \<or> ch = 10"

text \<open>
  One iteration of the loop of \<open>at_host_rx_bytes\<close>; the flag is the local variable
  \<open>skip_payload_line_ending\<close>.
\<close>

definition at_host_rx_byte ::
  "'s at_host_ops \<Rightarrow> 's at_host_tx option \<Rightarrow> u8 \<Rightarrow> bool \<times> at_host_state \<times> 's
     \<Rightarrow> bool \<times> at_host_state \<times> 's" where
  "at_host_rx_byte ops tx ch c =
     (let (skip, st, s) = c
      in if payload_mode st then
           if skip \<and> payload_received st = 0 \<and> is_eol ch then (skip, st, s)
           else let st1 = st\<lparr>payload_buffer := (payload_buffer st)[payload_received st := ch],
                             payload_received := payload_received st + 1\<rparr>
                in if payload_received st1 = payload_expected st1
                   then (False, process_send_payload ops tx (st1, s))
                   else (False, st1, s)
         else if is_eol ch then
           let (skip1, st1, s1) =
                 (if \<not> line_overflow st \<and> 0 < line_length st then
                    let st0 = st\<lparr>line_buffer := (line_buffer st)[line_length st := NUL]\<rparr>;
                        (result, st2, s2) = process_command ops tx (cstr (line_buffer st0)) (st0, s)
                    in (result = AT_COMMAND_RESULT_ENTER_PAYLOAD, st2, s2)
                  else if line_overflow st then
                    (skip, st, emit_error tx AT_ERROR_INVALID_COMMAND s)
                  else (skip, st, s))
           in (skip1, st1\<lparr>line_length := 0, line_overflow := False\<rparr>, s1)
         else if LINE_BUFFER_SIZE - 1 \<le> line_length st then
           (skip, st\<lparr>line_overflow := True\<rparr>, s)
         else (skip, st\<lparr>line_buffer := (line_buffer st)[line_length st := char_of_u8 ch],
                        line_length := line_length st + 1\<rparr>, s))"

fun at_host_rx_loop ::
  "'s at_host_ops \<Rightarrow> 's at_host_tx option \<Rightarrow> u8 list \<Rightarrow> bool \<times> at_host_state \<times> 's
     \<Rightarrow> bool \<times> at_host_state \<times> 's" where
  "at_host_rx_loop ops tx [] c = c"
| "at_host_rx_loop ops tx (ch # data) c = at_host_rx_loop ops tx data (at_host_rx_byte ops tx ch c)"

definition at_host_rx_bytes ::
  "'s at_host_ops \<Rightarrow> 's at_host_tx option \<Rightarrow> u8 list \<Rightarrow> at_host_state \<times> 's \<Rightarrow> at_host_state \<times> 's" where
  "at_host_rx_bytes ops tx data cs = snd (at_host_rx_loop ops tx data (False, cs))"

section \<open>Indications\<close>

definition at_host_notify_scan_result ::
  "'s at_host_tx option \<Rightarrow> u8 \<Rightarrow> string \<Rightarrow> string option \<Rightarrow> u8 \<Rightarrow> 8 word \<Rightarrow> 's \<Rightarrow> 's" where
  "at_host_notify_scan_result tx index mac name addr_type rssi s =
     tx_line tx (snprintk 128
       (''+IND=SCDA,'' @ fmt_u (unat index) @ '','' @ mac @ '','' @
        (case name of None \<Rightarrow> [] | Some n \<Rightarrow> n) @ '','' @ fmt_u (unat addr_type) @ '','' @
        fmt_d (sint rssi))) s"

definition at_host_notify_scan_complete :: "'s at_host_tx option \<Rightarrow> 's \<Rightarrow> 's" where
  "at_host_notify_scan_complete tx s = tx_line tx ''+IND=SCED'' s"

definition at_host_notify_connected :: "'s at_host_tx option \<Rightarrow> 's \<Rightarrow> 's" where
  "at_host_notify_connected tx s = tx_line tx ''+IND=BLMC,0'' s"

definition at_host_notify_disconnected :: "'s at_host_tx option \<Rightarrow> 's \<Rightarrow> 's" where
  "at_host_notify_disconnected tx s = tx_line tx ''+IND=BLMD,0'' s"

definition at_host_notify_ready :: "'s at_host_tx option \<Rightarrow> 's \<Rightarrow> 's" where
  "at_host_notify_ready tx s = tx_line tx ''+IND=BLMN,0'' s"

definition at_host_notify_mtu :: "'s at_host_tx option \<Rightarrow> u16 \<Rightarrow> 's \<Rightarrow> 's" where
  "at_host_notify_mtu tx payload_len s =
     tx_line tx (snprintk 32 (''+IND=MTU,'' @ fmt_u (unat payload_len))) s"

text \<open>\<open>data\<close> and \<open>len\<close> are a pointer and the number of bytes behind it.\<close>

definition at_host_notify_receive :: "'s at_host_tx option \<Rightarrow> u8 list option \<Rightarrow> 's \<Rightarrow> 's" where
  "at_host_notify_receive tx data s =
     (case data of
        None \<Rightarrow> s
      | Some bs \<Rightarrow>
          if \<not> ble_host_is_printable_ascii (Some bs) \<or> BLE_HOST_SEND_MAX_LEN < length bs then s
          else tx_line tx (snprintk (BLE_HOST_SEND_MAX_LEN + 32)
                 (''+IND=RECV,0,'' @ fmt_u (length bs) @ '','' @ cstr (chars_of bs))) s)"

definition at_host_notify_link_params ::
  "'s at_host_tx option \<Rightarrow> u16 \<Rightarrow> u16 \<Rightarrow> u16 \<Rightarrow> 's \<Rightarrow> 's" where
  "at_host_notify_link_params tx interval latency timeout s =
     tx_line tx (snprintk 64
       (''+IND=LINKPARA,0,'' @ fmt_u (unat interval) @ '','' @ fmt_u (unat latency) @ '','' @
        fmt_u (unat timeout))) s"

definition at_host_notify_data_mode :: "'s at_host_tx option \<Rightarrow> bool \<Rightarrow> 's \<Rightarrow> 's" where
  "at_host_notify_data_mode tx enabled s =
     tx_line tx (if enabled then ''+IND=DATAMODE,1'' else ''+IND=DATAMODE,0'') s"

definition at_host_notify_function_error :: "'s at_host_tx option \<Rightarrow> 's \<Rightarrow> 's" where
  "at_host_notify_function_error tx s = emit_error tx AT_ERROR_FUNCTION_ERROR s"

section \<open>Memory safety\<close>

text \<open>
  The buffers keep their size, the next line character and the terminator have a place in the
  line buffer, and in payload mode the next byte has a place in the payload buffer.
\<close>

definition at_inv :: "at_host_state \<Rightarrow> bool" where
  "at_inv st \<longleftrightarrow>
     length (line_buffer st) = LINE_BUFFER_SIZE \<and>
     length (payload_buffer st) = BLE_HOST_SEND_MAX_LEN \<and>
     line_length st < LINE_BUFFER_SIZE \<and>
     (payload_mode st \<longrightarrow> payload_received st < payload_expected st \<and>
                         payload_expected st \<le> BLE_HOST_SEND_MAX_LEN)"

lemma at_inv_init: "at_inv at_host_init"
  by (simp add: at_inv_def at_host_init_def LINE_BUFFER_SIZE_def)

definition payload_state :: "u8 \<Rightarrow> u16 \<Rightarrow> at_host_state \<Rightarrow> at_host_state" where
  "payload_state idx n st = st\<lparr>payload_mode := True, payload_expected := unat n,
     payload_received := 0, payload_conn_index := idx\<rparr>"

lemma cmd_send_cases:
  "cmd_send tx payload (st, s) = (AT_COMMAND_RESULT_NONE, st, params_error tx s) \<or>
   (\<exists>idx n. n \<noteq> 0 \<and> unat n \<le> BLE_HOST_SEND_MAX_LEN \<and>
      cmd_send tx payload (st, s) =
        (AT_COMMAND_RESULT_ENTER_PAYLOAD, payload_state idx n st, tx_raw tx (bytes_of ''>'') s))"
  unfolding cmd_send_def Let_def prod.case payload_state_def
  by (simp split: option.split) (auto simp: not_less)

text \<open>A command either leaves the AT state alone or is an AT+SEND.\<close>

lemma process_command_rule:
  assumes "\<And>s'. Q (no_payload st s')" and "\<And>p. Q (cmd_send tx p (st, s))"
  shows "Q (process_command ops tx line (st, s))"
  unfolding process_command_def Let_def prod.case using assms by simp

lemma process_command_cases:
  "(\<exists>s'. process_command ops tx line (st, s) = (AT_COMMAND_RESULT_NONE, st, s')) \<or>
   (\<exists>idx n. n \<noteq> 0 \<and> unat n \<le> BLE_HOST_SEND_MAX_LEN \<and>
      process_command ops tx line (st, s) =
        (AT_COMMAND_RESULT_ENTER_PAYLOAD, payload_state idx n st, tx_raw tx (bytes_of ''>'') s))"
  by (rule process_command_rule) (use cmd_send_cases in \<open>force simp: no_payload_def\<close>)+

lemma process_command_inv:
  assumes "at_inv st" and "process_command ops tx line (st, s) = (r, st', s')"
  shows "at_inv st'"
  using assms process_command_cases [of ops tx line st s]
  by (auto simp: at_inv_def payload_state_def unat_gt_0)

lemma process_send_payload_inv:
  "at_inv st \<Longrightarrow> process_send_payload ops tx (st, s) = (st', s') \<Longrightarrow> at_inv st'"
  by (auto simp: process_send_payload_def at_inv_def Let_def split: prod.splits)

lemma at_host_rx_byte_inv:
  assumes inv: "at_inv st" and step: "at_host_rx_byte ops tx ch (skip, st, s) = (skip', st', s')"
  shows "at_inv st'"
proof (cases "payload_mode st")
  case True
  define st1 where "st1 = st\<lparr>payload_buffer := (payload_buffer st)[payload_received st := ch],
                            payload_received := payload_received st + 1\<rparr>"
  have "st' = st \<or> st' = fst (process_send_payload ops tx (st1, s)) \<or>
      (st' = st1 \<and> payload_received st1 \<noteq> payload_expected st1)"
    using step True unfolding at_host_rx_byte_def Let_def prod.case st1_def [symmetric]
    by (auto split: if_splits)
  moreover have "at_inv (st1\<lparr>payload_mode := False, payload_expected := 0, payload_received := 0\<rparr>)"
    using inv by (simp add: at_inv_def st1_def)
  moreover have "payload_received st1 \<noteq> payload_expected st1 \<Longrightarrow> at_inv st1"
    using inv True by (auto simp: at_inv_def st1_def)
  ultimately show ?thesis
    using inv by (auto simp: process_send_payload_def Let_def split: prod.splits)
next
  case False
  define st0 where "st0 = st\<lparr>line_buffer := (line_buffer st)[line_length st := NUL]\<rparr>"
  have st0: "at_inv st0" using inv by (simp add: at_inv_def st0_def)
  have reset: "at_inv x \<Longrightarrow> at_inv (x\<lparr>line_length := 0, line_overflow := b\<rparr>)" for x b
    by (auto simp: at_inv_def LINE_BUFFER_SIZE_def)
  obtain r st2 s2 where p: "process_command ops tx (cstr (line_buffer st0)) (st0, s) = (r, st2, s2)"
    by (cases "process_command ops tx (cstr (line_buffer st0)) (st0, s)") auto
  have "at_inv st2" by (rule process_command_inv [OF st0 p])
  with step False inv p show ?thesis
    by (auto simp: at_host_rx_byte_def st0_def [symmetric] Let_def reset
        split: if_splits) (auto simp: at_inv_def LINE_BUFFER_SIZE_def)
qed

lemma at_host_rx_loop_inv:
  "at_inv st \<Longrightarrow> at_host_rx_loop ops tx data (skip, st, s) = (skip', st', s') \<Longrightarrow> at_inv st'"
proof (induction data arbitrary: skip st s)
  case (Cons ch data)
  obtain skip1 st1 s1 where b: "at_host_rx_byte ops tx ch (skip, st, s) = (skip1, st1, s1)"
    by (cases "at_host_rx_byte ops tx ch (skip, st, s)") auto
  show ?case
    using Cons.IH [OF at_host_rx_byte_inv [OF Cons.prems(1) b]] Cons.prems(2) b by simp
qed simp

section \<open>The contract of a backend\<close>

text \<open>
  A backend of the AT host keeps an invariant of the caller's state in every operation and in
  both output functions.  Then everything the AT host does keeps it.
\<close>

locale at_host_backend =
  fixes ops :: "'s at_host_ops" and tx :: "'s at_host_tx option" and inv :: "'s \<Rightarrow> bool"
  assumes tx_line_inv: "inv s \<Longrightarrow> inv (tx_line tx l s)"
    and tx_raw_inv: "inv s \<Longrightarrow> inv (tx_raw tx d s)"
    and start_scan_inv: "inv s \<Longrightarrow> inv (snd (ops_start_scan ops dur fname s))"
    and connect_inv: "inv s \<Longrightarrow> inv (snd (ops_connect ops mac a s))"
    and disconnect_inv: "inv s \<Longrightarrow> inv (snd (ops_disconnect ops i s))"
    and send_payload_inv: "inv s \<Longrightarrow> length bs \<le> BLE_HOST_SEND_MAX_LEN \<Longrightarrow>
          inv (snd (ops_send_payload ops i bs s))"
    and set_profile_inv: "inv s \<Longrightarrow> inv (snd (ops_set_profile ops x y z s))"
    and set_mtu_inv: "inv s \<Longrightarrow> inv (snd (ops_set_mtu ops m s))"
    and request_mtu_inv: "inv s \<Longrightarrow> inv (snd (ops_request_mtu ops i s))"
    and set_conn_params_inv: "inv s \<Longrightarrow> inv (snd (ops_set_conn_params ops i mn mx la ti s))"
    and enter_data_mode_inv: "inv s \<Longrightarrow> ops_enter_data_mode ops = Some f \<Longrightarrow> inv (snd (f i s))"
begin

lemma emit_error_inv: "inv s \<Longrightarrow> inv (emit_error tx k s)"
  by (simp add: emit_error_def tx_line_inv)

lemma params_error_inv: "inv s \<Longrightarrow> inv (params_error tx s)"
  by (simp add: params_error_def emit_error_inv)

lemma errno_inv: "inv s \<Longrightarrow> inv (emit_error_from_errno tx e s)"
  by (simp add: emit_error_from_errno_def emit_error_inv)

lemma reply_inv: "inv (snd r) \<Longrightarrow> inv (reply tx r)"
  by (cases r) (simp add: reply_def errno_inv tx_line_inv)

lemmas output_inv =
  emit_error_inv params_error_inv errno_inv reply_inv tx_line_inv tx_raw_inv

lemma query_inv:
  "inv s \<Longrightarrow> inv (handle_get_status ops tx s)"
  "inv s \<Longrightarrow> inv (handle_get_profile ops tx s)"
  "inv s \<Longrightarrow> inv (handle_get_mtu ops tx s)"
  "inv s \<Longrightarrow> inv (handle_get_stream_stats ops tx s)"
  by (simp_all add: handle_get_status_def handle_get_profile_def handle_get_mtu_def
      handle_get_stream_stats_def output_inv Let_def split: option.split)

lemma command_inv:
  assumes "inv s"
  shows "inv (cmd_startscan ops tx p s)" "inv (cmd_startcon ops tx p s)"
    "inv (cmd_discon ops tx p s)" "inv (cmd_setsvcuuid ops tx p s)" "inv (cmd_setmtu ops tx p s)"
    "inv (cmd_conmtureq ops tx p s)" "inv (cmd_conparareq ops tx p s)"
proof -
  note defs = cmd_startscan_def cmd_startcon_def cmd_discon_def cmd_setsvcuuid_def cmd_setmtu_def
    cmd_conmtureq_def cmd_conparareq_def Let_def
  note laws = output_inv start_scan_inv connect_inv disconnect_inv set_profile_inv set_mtu_inv
    request_mtu_inv set_conn_params_inv
  show "inv (cmd_startscan ops tx p s)" "inv (cmd_startcon ops tx p s)"
    "inv (cmd_discon ops tx p s)" "inv (cmd_setsvcuuid ops tx p s)" "inv (cmd_setmtu ops tx p s)"
    "inv (cmd_conmtureq ops tx p s)" "inv (cmd_conparareq ops tx p s)"
    using assms by (simp_all add: defs laws split: option.split list.split)
qed

lemma enterdatamode_inv: "inv s \<Longrightarrow> inv (cmd_enterdatamode ops tx p s)"
proof (cases "ops_enter_data_mode ops")
  case (Some f)
  assume "inv s"
  then have "f i s = (e, s') \<Longrightarrow> inv s'" for i e s'
    using enter_data_mode_inv [OF \<open>inv s\<close> Some, of i] by simp
  then show ?thesis
    using \<open>inv s\<close> Some
    by (auto simp: cmd_enterdatamode_def output_inv Let_def split: option.split prod.split)
qed (auto simp: cmd_enterdatamode_def output_inv split: option.split)

lemma backend_command_inv:
  assumes "inv s" and "process_command ops tx line (st, s) = (r, st', s')"
  shows "inv s'"
proof -
  have send: "inv (snd (snd (cmd_send tx p (st, s))))" for p
    using cmd_send_cases [of tx p st s] by (auto simp: output_inv assms(1))
  have "inv (snd (snd (process_command ops tx line (st, s))))"
    unfolding process_command_def Let_def prod.case no_payload_def
    using assms(1) send by (simp add: command_inv enterdatamode_inv query_inv output_inv)
  then show ?thesis using assms(2) by simp
qed

lemma rx_byte_inv:
  assumes "inv s" and "at_inv st" and "at_host_rx_byte ops tx ch (skip, st, s) = (skip', st', s')"
  shows "inv s'"
proof -
  have pay: "inv b" if "process_send_payload ops tx (x, s) = (a, b)"
    and "length (payload_buffer x) = BLE_HOST_SEND_MAX_LEN" for x a b
  proof -
    let ?r = "ops_send_payload ops (payload_conn_index x) (take (payload_expected x) (payload_buffer x)) s"
    have "inv (snd ?r)" using that(2) by (intro send_payload_inv [OF assms(1)]) simp
    then show ?thesis
      using that(1) by (auto simp: process_send_payload_def Let_def reply_inv split: prod.splits)
  qed
  have cmd: "inv c" if "process_command ops tx l (x, s) = (a, b, c)" for l x a b c
    using backend_command_inv [OF assms(1) that] .
  show ?thesis
    using assms(1,2) assms(3) [unfolded at_host_rx_byte_def Let_def prod.case]
    by (auto simp: at_inv_def output_inv dest: cmd elim!: pay split: if_splits prod.splits)
qed

lemma rx_loop_inv:
  "inv s \<Longrightarrow> at_inv st \<Longrightarrow> at_host_rx_loop ops tx data (skip, st, s) = (skip', st', s') \<Longrightarrow> inv s'"
proof (induction data arbitrary: skip st s)
  case (Cons ch data)
  obtain skip1 st1 s1 where b: "at_host_rx_byte ops tx ch (skip, st, s) = (skip1, st1, s1)"
    by (cases "at_host_rx_byte ops tx ch (skip, st, s)") auto
  show ?case
    using Cons.IH [OF rx_byte_inv [OF Cons.prems(1,2) b] at_host_rx_byte_inv [OF Cons.prems(2) b]]
      Cons.prems(3) b by simp
qed simp

lemma rx_bytes_inv:
  "inv s \<Longrightarrow> at_inv st \<Longrightarrow> at_host_rx_bytes ops tx data (st, s) = (st', s') \<Longrightarrow> inv s' \<and> at_inv st'"
  unfolding at_host_rx_bytes_def
  by (metis at_host_rx_loop_inv rx_loop_inv prod.collapse snd_conv)

end

end
