(* ===== verification/At_Protocol.thy ===== *)
theory At_Protocol
  imports At_Host
begin

text \<open>
  The behaviour of the AT host as a protocol: an abstract receiver without buffers and the proof
  that \<open>at_host_rx_bytes\<close> refines it, and on top of it the properties of line framing, payload
  transfer, chunking, replies and argument syntax.
\<close>

section \<open>The abstract receiver\<close>

text \<open>
  The receiver is collecting a line, skipping an overlong one, or collecting the payload of an
  AT+SEND for a connection index, with the number of bytes it waits for.
\<close>

datatype at_abs = Line string | Overflow | Payload u8 nat "u8 list"

text \<open>What a command line does to the caller's state, and the payload request it makes.\<close>

definition at_exec ::
  "'s at_host_ops \<Rightarrow> 's at_host_tx option \<Rightarrow> string \<Rightarrow> 's \<Rightarrow> (u8 \<times> nat) option \<times> 's" where
  "at_exec ops tx line s =
     (let (r, st, s') = process_command ops tx line (at_host_init, s)
      in (if r = AT_COMMAND_RESULT_ENTER_PAYLOAD
          then Some (payload_conn_index st, payload_expected st) else None, s'))"

definition at_spec_byte ::
  "'s at_host_ops \<Rightarrow> 's at_host_tx option \<Rightarrow> u8 \<Rightarrow> bool \<times> at_abs \<times> 's \<Rightarrow> bool \<times> at_abs \<times> 's" where
  "at_spec_byte ops tx ch c =
     (let (skip, a, s) = c
      in case a of
           Payload i n bs \<Rightarrow>
             if skip \<and> bs = [] \<and> is_eol ch then c
             else if length bs + 1 = n
               then (False, Line [], reply tx (ops_send_payload ops i (bs @ [ch]) s))
             else (False, Payload i n (bs @ [ch]), s)
         | Overflow \<Rightarrow>
             if is_eol ch then (skip, Line [], emit_error tx AT_ERROR_INVALID_COMMAND s) else c
         | Line l \<Rightarrow>
             if \<not> is_eol ch then
               (skip, if length l < 159 then Line (l @ [char_of_u8 ch]) else Overflow, s)
             else if l = [] then c
             else (case at_exec ops tx (cstr l) s of
                     (None, s') \<Rightarrow> (False, Line [], s')
                   | (Some (i, n), s') \<Rightarrow> (True, Payload i n [], s')))"

fun at_spec_loop ::
  "'s at_host_ops \<Rightarrow> 's at_host_tx option \<Rightarrow> u8 list \<Rightarrow> bool \<times> at_abs \<times> 's \<Rightarrow> bool \<times> at_abs \<times> 's" where
  "at_spec_loop ops tx [] c = c"
| "at_spec_loop ops tx (ch # data) c = at_spec_loop ops tx data (at_spec_byte ops tx ch c)"

definition at_spec_rx ::
  "'s at_host_ops \<Rightarrow> 's at_host_tx option \<Rightarrow> u8 list \<Rightarrow> at_abs \<times> 's \<Rightarrow> at_abs \<times> 's" where
  "at_spec_rx ops tx data cs = snd (at_spec_loop ops tx data (False, cs))"

section \<open>Refinement\<close>

definition at_abs :: "at_host_state \<Rightarrow> at_abs" where
  "at_abs st =
     (if payload_mode st
      then Payload (payload_conn_index st) (payload_expected st)
             (take (payload_received st) (payload_buffer st))
      else if line_overflow st then Overflow
      else Line (take (line_length st) (line_buffer st)))"

text \<open>The states between two received bytes.\<close>

definition at_wf :: "at_host_state \<Rightarrow> bool" where
  "at_wf st \<longleftrightarrow> at_inv st \<and> (payload_mode st \<longrightarrow> line_length st = 0 \<and> \<not> line_overflow st) \<and>
     (line_overflow st \<longrightarrow> line_length st = LINE_BUFFER_SIZE - 1)"

lemma at_wf_init: "at_wf at_host_init"
  using at_inv_init by (simp add: at_wf_def at_host_init_def)

lemma at_abs_init [simp]: "at_abs at_host_init = Line []"
  by (simp add: at_abs_def at_host_init_def)

lemma cmd_send_exec:
  "cmd_send tx p (st, s) =
     (let (r, st0, s') = cmd_send tx p (at_host_init, s)
      in (r, if r = AT_COMMAND_RESULT_ENTER_PAYLOAD
             then st\<lparr>payload_mode := True, payload_expected := payload_expected st0,
                     payload_received := 0, payload_conn_index := payload_conn_index st0\<rparr>
             else st, s'))"
  unfolding cmd_send_def Let_def prod.case
  by (simp split: option.split)

lemma process_command_exec:
  "process_command ops tx line (st, s) =
     (case at_exec ops tx line s of
        (None, s') \<Rightarrow> (AT_COMMAND_RESULT_NONE, st, s')
      | (Some (i, n), s') \<Rightarrow>
          (AT_COMMAND_RESULT_ENTER_PAYLOAD,
           st\<lparr>payload_mode := True, payload_expected := n, payload_received := 0,
              payload_conn_index := i\<rparr>, s'))"
proof -
  define join where "join = (\<lambda>x :: at_command_result \<times> at_host_state \<times> 'a.
     let (r, st0, s') = x
      in (r, if r = AT_COMMAND_RESULT_ENTER_PAYLOAD
             then st\<lparr>payload_mode := True, payload_expected := payload_expected st0,
                     payload_received := 0, payload_conn_index := payload_conn_index st0\<rparr>
             else st, s'))"
  have np: "join (no_payload st0 s') = no_payload st s'" for st0 s'
    by (simp add: join_def no_payload_def)
  have sd: "join (cmd_send tx p (at_host_init, s)) = cmd_send tx p (st, s)" for p
    unfolding join_def by (rule cmd_send_exec [symmetric])
  have "process_command ops tx line (st, s) = join (process_command ops tx line (at_host_init, s))"
    unfolding process_command_def Let_def prod.case by (simp add: if_distrib [of join] np sd)
  moreover have "fst (process_command ops tx line (at_host_init, s)) = AT_COMMAND_RESULT_NONE \<or>
      fst (process_command ops tx line (at_host_init, s)) = AT_COMMAND_RESULT_ENTER_PAYLOAD"
    using at_command_result.exhaust by blast
  ultimately show ?thesis
    by (auto simp: at_exec_def join_def Let_def split: prod.split)
qed

lemma at_exec_request:
  "at_exec ops tx line s = (Some (i, n), s') \<Longrightarrow> 0 < n \<and> n \<le> BLE_HOST_SEND_MAX_LEN"
  using process_command_cases [of ops tx line at_host_init s]
  by (auto simp: at_exec_def payload_state_def unat_gt_0)

lemma take_Suc_update: "n < length xs \<Longrightarrow> take (Suc n) (xs[n := x]) = take n xs @ [x]"
  by (simp add: take_Suc_conv_app_nth)

lemma cstr_line: "n < length xs \<Longrightarrow> cstr (xs[n := NUL]) = cstr (take n xs)"
proof -
  assume n: "n < length xs"
  have "xs[n := NUL] = take n xs @ NUL # drop (Suc n) xs"
    using n by (simp add: upd_conv_take_nth_drop)
  moreover have "cstr (ys @ NUL # zs) = cstr ys" for ys zs
    by (induction ys) (auto simp: cstr_def)
  ultimately show ?thesis by simp
qed

lemma at_refine_byte:
  assumes wf: "at_wf st" and step: "at_host_rx_byte ops tx ch (skip, st, s) = (skip', st', s')"
  shows "at_wf st' \<and> at_spec_byte ops tx ch (skip, at_abs st, s) = (skip', at_abs st', s')"
proof (cases "payload_mode st")
  case True
  then have a: "at_abs st = Payload (payload_conn_index st) (payload_expected st)
      (take (payload_received st) (payload_buffer st))"
    by (simp add: at_abs_def)
  have len: "payload_received st < length (payload_buffer st)" "line_length st = 0"
      "\<not> line_overflow st"
    using wf True by (auto simp: at_wf_def at_inv_def)
  then have emp: "take (payload_received st) (payload_buffer st) = [] \<longleftrightarrow> payload_received st = 0"
      and ln: "length (take (payload_received st) (payload_buffer st)) = payload_received st"
    by auto
  have inv': "at_inv st'"
    using wf step by (auto simp: at_wf_def intro: at_host_rx_byte_inv)
  define st1 where "st1 = st\<lparr>payload_buffer := (payload_buffer st)[payload_received st := ch],
                            payload_received := payload_received st + 1\<rparr>"
  have st1: "payload_mode st1" "payload_received st1 = payload_received st + 1"
      "payload_expected st1 = payload_expected st" "payload_conn_index st1 = payload_conn_index st"
      "line_length st1 = 0" "\<not> line_overflow st1"
      "take (payload_received st1) (payload_buffer st1) =
         take (payload_received st) (payload_buffer st) @ [ch]"
    using len True by (simp_all add: st1_def take_Suc_update)
  note step' = step [unfolded at_host_rx_byte_def Let_def prod.case st1_def [symmetric]]
  consider (skipped) "skip" "payload_received st = 0" "is_eol ch"
    | (last) "\<not> (skip \<and> payload_received st = 0 \<and> is_eol ch)" "payload_received st + 1 = payload_expected st"
    | (more) "\<not> (skip \<and> payload_received st = 0 \<and> is_eol ch)" "payload_received st + 1 \<noteq> payload_expected st"
    by metis
  then show ?thesis
  proof cases
    case skipped
    with step' True have "skip' = skip" "st' = st" "s' = s" by simp_all
    with skipped wf show ?thesis by (simp add: at_spec_byte_def a)
  next
    case last
    then have fin: "take (payload_expected st) (payload_buffer st1) =
        take (payload_received st) (payload_buffer st) @ [ch]"
      using st1(7) st1(2) by simp
    from last have d: "\<not> skip \<or> 0 < payload_received st \<or> \<not> is_eol ch" by auto
    have p: "process_send_payload ops tx (st1, s) = (st', s')" "\<not> skip'"
      using step' last st1 True by (simp_all split: if_splits)
    have out: "st' = st1\<lparr>payload_mode := False, payload_expected := 0, payload_received := 0\<rparr>"
      "s' = reply tx (ops_send_payload ops (payload_conn_index st)
              (take (payload_received st) (payload_buffer st) @ [ch]) s)"
      using p(1) st1(3,4) fin
      by (simp_all add: process_send_payload_def Let_def split: prod.splits)
    have "at_abs st' = Line []" "at_wf st'"
      using out(1) st1(5,6) inv' by (simp_all add: at_abs_def at_wf_def)
    moreover have "at_spec_byte ops tx ch (skip, at_abs st, s) = (False, Line [], s')"
      using last d emp ln by (auto simp: at_spec_byte_def a out(2))
    ultimately show ?thesis using p(2) by simp
  next
    case more
    then have "st' = st1" "s' = s" "\<not> skip'"
      using step' st1 True by (simp_all split: if_splits)
    moreover have "at_abs st1 = Payload (payload_conn_index st) (payload_expected st)
        (take (payload_received st) (payload_buffer st) @ [ch])" "at_wf st1"
      using st1 inv' \<open>st' = st1\<close> unfolding at_abs_def at_wf_def by simp_all
    moreover have "at_spec_byte ops tx ch (skip, at_abs st, s) =
        (False, Payload (payload_conn_index st) (payload_expected st)
          (take (payload_received st) (payload_buffer st) @ [ch]), s)"
      using more emp ln by (auto simp: at_spec_byte_def a)
    ultimately show ?thesis by simp
  qed
next
  case False
  have inv': "at_inv st'"
    using wf step by (auto simp: at_wf_def intro: at_host_rx_byte_inv)
  have len: "line_length st < length (line_buffer st)" "line_length st \<le> 159"
    using wf by (auto simp: at_wf_def at_inv_def LINE_BUFFER_SIZE_def)
  show ?thesis
  proof (cases "line_overflow st")
    case True
    then show ?thesis
      using step False wf inv'
      by (auto simp: at_host_rx_byte_def at_spec_byte_def at_abs_def at_wf_def Let_def
          split: if_splits)
  next
    case no: False
    have a: "at_abs st = Line (take (line_length st) (line_buffer st))"
      using False no by (simp add: at_abs_def)
    show ?thesis
      using step False no wf inv' len
      by (auto simp: at_host_rx_byte_def at_spec_byte_def a at_abs_def at_wf_def Let_def
          take_Suc_update cstr_line process_command_exec LINE_BUFFER_SIZE_def
          split: if_splits prod.splits option.splits)
  qed
qed

lemma at_refine_loop:
  "at_wf st \<Longrightarrow> at_host_rx_loop ops tx data (skip, st, s) = (skip', st', s') \<Longrightarrow>
     at_wf st' \<and> at_spec_loop ops tx data (skip, at_abs st, s) = (skip', at_abs st', s')"
proof (induction data arbitrary: skip st s)
  case (Cons ch data)
  obtain skip1 st1 s1 where b: "at_host_rx_byte ops tx ch (skip, st, s) = (skip1, st1, s1)"
    by (cases "at_host_rx_byte ops tx ch (skip, st, s)") auto
  from at_refine_byte [OF Cons.prems(1) b] show ?case
    using Cons.IH [of st1 skip1 s1] Cons.prems(2) b by simp
qed simp

lemma at_refine_rx:
  assumes "at_wf st" and "at_host_rx_bytes ops tx data (st, s) = (st', s')"
  shows "at_wf st' \<and> at_spec_rx ops tx data (at_abs st, s) = (at_abs st', s')"
proof -
  obtain k st1 s1 where l: "at_host_rx_loop ops tx data (False, st, s) = (k, st1, s1)"
    by (cases "at_host_rx_loop ops tx data (False, st, s)") auto
  then have "st1 = st'" "s1 = s'" using assms(2) by (simp_all add: at_host_rx_bytes_def)
  with at_refine_loop [OF assms(1) l] show ?thesis by (simp add: at_spec_rx_def)
qed

section \<open>Lines and payloads on the abstract receiver\<close>

lemma at_spec_loop_append:
  "at_spec_loop ops tx (xs @ ys) c = at_spec_loop ops tx ys (at_spec_loop ops tx xs c)"
  by (induction xs arbitrary: c) simp_all

lemma spec_line_chars:
  "\<forall>b \<in> set bs. \<not> is_eol b \<Longrightarrow> length l + length bs \<le> 159 \<Longrightarrow>
     at_spec_loop ops tx bs (skip, Line l, s) = (skip, Line (l @ chars_of bs), s)"
  by (induction bs arbitrary: l) (simp_all add: at_spec_byte_def chars_of_def)

lemma spec_overflow_chars:
  "\<forall>b \<in> set bs. \<not> is_eol b \<Longrightarrow> at_spec_loop ops tx bs (skip, Overflow, s) = (skip, Overflow, s)"
  by (induction bs) (simp_all add: at_spec_byte_def)

lemma spec_line_overflow:
  assumes "\<forall>b \<in> set bs. \<not> is_eol b" and "159 < length bs"
  shows "at_spec_loop ops tx bs (skip, Line [], s) = (skip, Overflow, s)"
proof -
  obtain c cs where d: "drop 159 bs = c # cs" using assms(2) by (cases "drop 159 bs") auto
  have bs: "bs = take 159 bs @ c # cs" using d by (metis append_take_drop_id)
  have no: "\<forall>b \<in> set (take 159 bs). \<not> is_eol b" "\<not> is_eol c" "\<forall>b \<in> set cs. \<not> is_eol b"
    using assms(1) d by (auto dest: in_set_takeD) (metis in_set_dropD list.set_intros)+
  have "at_spec_loop ops tx (take 159 bs @ c # cs) (skip, Line [], s) = (skip, Overflow, s)"
    using no assms(2) by (simp add: at_spec_loop_append spec_line_chars at_spec_byte_def spec_overflow_chars
        del: append_take_drop_id)
  then show ?thesis using bs by simp
qed

lemma spec_payload:
  "d \<noteq> [] \<Longrightarrow> length bs + length d = n \<Longrightarrow> \<not> skip \<or> bs \<noteq> [] \<or> \<not> is_eol (hd d) \<Longrightarrow>
     at_spec_loop ops tx d (skip, Payload i n bs, s) =
       (False, Line [], reply tx (ops_send_payload ops i (bs @ d) s))"
proof (induction d arbitrary: bs skip)
  case (Cons ch d)
  show ?case
  proof (cases "d = []")
    case True
    with Cons.prems show ?thesis by (auto simp: at_spec_byte_def)
  next
    case False
    then have "at_spec_byte ops tx ch (skip, Payload i n bs, s) = (False, Payload i n (bs @ [ch]), s)"
      using Cons.prems by (auto simp: at_spec_byte_def)
    with Cons.IH [of "bs @ [ch]" False] Cons.prems False show ?thesis by simp
  qed
qed simp

lemma spec_skip_eols:
  "\<forall>e \<in> set es. is_eol e \<Longrightarrow>
     at_spec_loop ops tx es (True, Payload i n [], s) = (True, Payload i n [], s)"
  by (induction es) (simp_all add: at_spec_byte_def)

lemma not_is_eol_bytes_of:
  "CR \<notin> set l \<Longrightarrow> LF \<notin> set l \<Longrightarrow> \<forall>b \<in> set (bytes_of l). \<not> is_eol b"
proof
  fix b
  assume l: "CR \<notin> set l" "LF \<notin> set l" and "b \<in> set (bytes_of l)"
  then obtain c where c: "c \<in> set l" "b = u8_of_char c" by (auto simp: bytes_of_def)
  have "char_of_u8 13 = CR" "char_of_u8 10 = LF" by code_simp+
  then show "\<not> is_eol b" using c l by (metis char_of_u8_of_char is_eol_def)
qed

text \<open>A complete line, received by an idle receiver.\<close>

lemma spec_line:
  assumes "CR \<notin> set l" "LF \<notin> set l" "NUL \<notin> set l" "l \<noteq> []" "length l \<le> 159" "is_eol e"
  shows "at_spec_loop ops tx (bytes_of l @ [e]) (skip, Line [], s) =
     (case at_exec ops tx l s of
        (None, s') \<Rightarrow> (False, Line [], s')
      | (Some (i, n), s') \<Rightarrow> (True, Payload i n [], s'))"
  using not_is_eol_bytes_of [OF assms(1,2)] assms(3-6)
  by (simp add: at_spec_loop_append spec_line_chars at_spec_byte_def cstr_no_NUL)

section \<open>Receiving in pieces\<close>

lemma at_host_rx_loop_append:
  "at_host_rx_loop ops tx (xs @ ys) c = at_host_rx_loop ops tx ys (at_host_rx_loop ops tx xs c)"
  by (induction xs arbitrary: c) simp_all

text \<open>
  The flag matters only for a line ending in front of the first payload byte: two runs that
  differ in it stay equal.
\<close>

lemma spec_skip_irrelevant:
  assumes "(\<forall>i n. a \<noteq> Payload i n []) \<or> ys = [] \<or> \<not> is_eol (hd ys)"
  shows "snd (at_spec_loop ops tx ys (True, a, s)) = snd (at_spec_loop ops tx ys (False, a, s))"
  using assms
proof (induction ys arbitrary: a s)
  case (Cons ch ys)
  show ?case
  proof (cases "at_spec_byte ops tx ch (True, a, s) = at_spec_byte ops tx ch (False, a, s)")
    case False
    have flag: "\<exists>a' s'. at_spec_byte ops tx ch (True, a, s) = (True, a', s') \<and>
        at_spec_byte ops tx ch (False, a, s) = (False, a', s') \<and> (\<forall>i n. a' \<noteq> Payload i n [])"
    proof (cases a)
      case (Line l)
      with False show ?thesis
        by (cases "at_exec ops tx (cstr l) s") (auto simp: at_spec_byte_def split: option.splits)
    next
      case Overflow
      with False show ?thesis by (auto simp: at_spec_byte_def)
    next
      case (Payload i n bs)
      with False Cons.prems show ?thesis by (auto simp: at_spec_byte_def split: if_splits)
    qed
    then show ?thesis using Cons.IH by auto
  qed simp
qed simp

section \<open>A backend for closed examples\<close>

text \<open>
  Outputs and payload requests in the order in which the AT host makes them.  \<open>log_tx\<close> records
  the outputs behind the caller's state, \<open>log_ops\<close> runs given operations on the first component,
  and \<open>echo_ops\<close> are operations that succeed and record the payloads.
\<close>

datatype at_out = OutLine string | OutRaw "u8 list" | OutSend u8 "u8 list"

definition log_tx :: "('s \<times> at_out list) at_host_tx" where
  "log_tx = \<lparr> tx_line_fn = Some (\<lambda>l (s, log). (s, log @ [OutLine l])),
              tx_raw_fn = Some (\<lambda>d (s, log). (s, log @ [OutRaw d])) \<rparr>"

definition on_fst :: "('s \<Rightarrow> rc \<times> 's) \<Rightarrow> 's \<times> 'l \<Rightarrow> rc \<times> 's \<times> 'l" where
  "on_fst f sl = (let (rc, s') = f (fst sl) in (rc, s', snd sl))"

definition log_ops :: "'s at_host_ops \<Rightarrow> ('s \<times> at_out list) at_host_ops" where
  "log_ops ops =
     \<lparr> ops_start_scan = (\<lambda>d f. on_fst (ops_start_scan ops d f)),
       ops_connect = (\<lambda>m a. on_fst (ops_connect ops m a)),
       ops_disconnect = (\<lambda>i. on_fst (ops_disconnect ops i)),
       ops_send_payload = (\<lambda>i d. on_fst (ops_send_payload ops i d)),
       ops_get_status = (\<lambda>sl. ops_get_status ops (fst sl)),
       ops_get_profile = (\<lambda>sl. ops_get_profile ops (fst sl)),
       ops_set_profile = (\<lambda>x y z. on_fst (ops_set_profile ops x y z)),
       ops_set_mtu = (\<lambda>m. on_fst (ops_set_mtu ops m)),
       ops_get_mtu = (\<lambda>sl. ops_get_mtu ops (fst sl)),
       ops_request_mtu = (\<lambda>i. on_fst (ops_request_mtu ops i)),
       ops_set_conn_params = (\<lambda>i mn mx la ti. on_fst (ops_set_conn_params ops i mn mx la ti)),
       ops_enter_data_mode = map_option (\<lambda>f i. on_fst (f i)) (ops_enter_data_mode ops),
       ops_get_stream_stats = map_option (\<lambda>g sl. g (fst sl)) (ops_get_stream_stats ops) \<rparr>"

definition echo_ops :: "at_out list at_host_ops" where
  "echo_ops =
     \<lparr> ops_start_scan = (\<lambda>_ _ s. (RC_OK, s)), ops_connect = (\<lambda>_ _ s. (RC_OK, s)),
       ops_disconnect = (\<lambda>_ s. (RC_OK, s)),
       ops_send_payload = (\<lambda>i d s. (RC_OK, s @ [OutSend i d])),
       ops_get_status = (\<lambda>_. \<lparr>st_connected = False, st_ready = False, st_mac = [], conn_count = 0,
                              st_data_len = 0\<rparr>),
       ops_get_profile = (\<lambda>_. \<lparr>service_uuid = [], notify_uuid = [], write_uuid = []\<rparr>),
       ops_set_profile = (\<lambda>_ _ _ s. (RC_OK, s)), ops_set_mtu = (\<lambda>_ s. (RC_OK, s)),
       ops_get_mtu = (\<lambda>_. 23), ops_request_mtu = (\<lambda>_ s. (RC_OK, s)),
       ops_set_conn_params = (\<lambda>_ mn _ _ _ s. (RC_OK, s @ [OutSend (ucast mn) []])),
       ops_enter_data_mode = Some (\<lambda>_ s. (RC_OK, s)),
       ops_get_stream_stats = None \<rparr>"

definition echo_tx :: "at_out list at_host_tx" where
  "echo_tx = \<lparr> tx_line_fn = Some (\<lambda>l s. s @ [OutLine l]),
               tx_raw_fn = Some (\<lambda>d s. s @ [OutRaw d]) \<rparr>"

section \<open>One reply for each command\<close>

definition is_reply :: "at_out \<Rightarrow> bool" where
  "is_reply out \<longleftrightarrow>
     (case out of
        OutLine l \<Rightarrow> take 3 l = ''+OK'' \<or> take 4 l = ''+ERR''
      | OutRaw d \<Rightarrow> d = bytes_of ''>''
      | OutSend _ _ \<Rightarrow> False)"

text \<open>Compared with \<open>log\<close>, the log of the new state has exactly one more reply.\<close>

definition replied :: "at_out list \<Rightarrow> 's \<times> at_out list \<Rightarrow> bool" where
  "replied log sl \<longleftrightarrow> (\<exists>new. snd sl = log @ new \<and> length (filter is_reply new) = 1)"

lemma tx_line_log [simp]: "tx_line (Some log_tx) l (s, log) = (s, log @ [OutLine l])"
  by (simp add: tx_line_def log_tx_def)

lemma tx_raw_log [simp]: "tx_raw (Some log_tx) d (s, log) = (s, log @ [OutRaw d])"
  by (simp add: tx_raw_def log_tx_def)

lemma repliedI: "is_reply out \<Longrightarrow> replied log (s, log @ [out])"
  by (simp add: replied_def)

lemma replied_emit [intro, simp]: "replied log (emit_error (Some log_tx) k (s, log))"
  by (cases k) (simp_all add: emit_error_def is_reply_def repliedI)

lemma replied_params [intro, simp]: "replied log (params_error (Some log_tx) (s, log))"
  by (simp add: params_error_def)

lemma replied_errno [intro, simp]: "replied log (emit_error_from_errno (Some log_tx) e (s, log))"
  by (simp add: emit_error_from_errno_def)

lemma replied_reply [intro, simp]: "replied log (reply (Some log_tx) (on_fst f (s, log)))"
  by (auto simp: reply_def on_fst_def is_reply_def intro: repliedI split: prod.split)

lemma take_snprintk: "3 < n \<Longrightarrow> take 3 (snprintk n t) = take 3 t"
  by (simp add: snprintk_def)

lemma replied_queries:
  "replied log (handle_get_status (log_ops ops) (Some log_tx) (s, log))"
  "replied log (handle_get_profile (log_ops ops) (Some log_tx) (s, log))"
  "replied log (handle_get_mtu (log_ops ops) (Some log_tx) (s, log))"
  "replied log (handle_get_stream_stats (log_ops ops) (Some log_tx) (s, log))"
  by (auto simp: handle_get_status_def handle_get_profile_def handle_get_mtu_def
      handle_get_stream_stats_def stream_stats_text_def Let_def take_snprintk is_reply_def
      intro!: repliedI split: option.split)
    (simp add: replied_def is_reply_def snprintk_def)

lemma replied_commands:
  "replied log (cmd_startscan (log_ops ops) (Some log_tx) p (s, log))"
  "replied log (cmd_startcon (log_ops ops) (Some log_tx) p (s, log))"
  "replied log (cmd_discon (log_ops ops) (Some log_tx) p (s, log))"
  "replied log (cmd_setsvcuuid (log_ops ops) (Some log_tx) p (s, log))"
  "replied log (cmd_setmtu (log_ops ops) (Some log_tx) p (s, log))"
  "replied log (cmd_conmtureq (log_ops ops) (Some log_tx) p (s, log))"
  "replied log (cmd_conparareq (log_ops ops) (Some log_tx) p (s, log))"
  by (simp_all add: cmd_startscan_def cmd_startcon_def cmd_discon_def cmd_setsvcuuid_def
      cmd_setmtu_def cmd_conmtureq_def cmd_conparareq_def log_ops_def Let_def
      split: option.split list.split)

lemma replied_enterdatamode:
  "replied log (cmd_enterdatamode (log_ops ops) (Some log_tx) p (s, log))"
  by (auto simp: cmd_enterdatamode_def log_ops_def on_fst_def Let_def split: option.split prod.split)
    (simp add: replied_def is_reply_def)

lemma replied_send:
  "replied log (snd (snd (cmd_send (Some log_tx) p (st, s, log))))"
  using cmd_send_cases [of "Some log_tx" p st "(s, log)"]
  by (auto simp: is_reply_def intro!: repliedI)

end
