(* ===== verification/At_Syntax.thy ===== *)
theory At_Syntax
  imports At_Protocol
begin

text \<open>
  The command language of the AT host: the commands as a datatype, the text of each and what each
  does, and the proof that the parser of \<open>at_host.c\<close> reads every such text as its command.
\<close>

section \<open>Commands\<close>

datatype at_command =
    CmdAt
  | CmdStartScan u16 "string option"
  | CmdStartCon string u8
  | CmdDiscon u8
  | CmdSend u8 u16
  | CmdConStatus
  | CmdSetProfile string string string
  | CmdGetProfile
  | CmdSetMtu u16
  | CmdGetMtu
  | CmdConMtuReq u8
  | CmdConParaReq u8 u16 u16 u16 u16
  | CmdEnterDataMode u8
  | CmdStreamStat

fun keyword :: "at_command \<Rightarrow> string" where
  "keyword CmdAt = ''AT''"
| "keyword (CmdStartScan _ _) = ''AT+STARTSCAN=''"
| "keyword (CmdStartCon _ _) = ''AT+STARTCON=''"
| "keyword (CmdDiscon _) = ''AT+DISCON=''"
| "keyword (CmdSend _ _) = ''AT+SEND=''"
| "keyword CmdConStatus = ''AT+CONSTATUS''"
| "keyword (CmdSetProfile _ _ _) = ''AT+SETSVCUUID=''"
| "keyword CmdGetProfile = ''AT+GETSVCUUID''"
| "keyword (CmdSetMtu _) = ''AT+SETMTU=''"
| "keyword CmdGetMtu = ''AT+GETMTU''"
| "keyword (CmdConMtuReq _) = ''AT+CONMTUREQ=''"
| "keyword (CmdConParaReq _ _ _ _ _) = ''AT+CONPARAREQ=''"
| "keyword (CmdEnterDataMode _) = ''AT+ENTERDATAMODE=''"
| "keyword CmdStreamStat = ''AT+STREAMSTAT''"

abbreviation dec :: "'a :: len word \<Rightarrow> string" where "dec w \<equiv> fmt_u (unat w)"

fun cmd_args :: "at_command \<Rightarrow> string list" where
  "cmd_args (CmdStartScan d None) = [dec d]"
| "cmd_args (CmdStartScan d (Some f)) = [dec d, f]"
| "cmd_args (CmdStartCon mac a) = [mac, dec a]"
| "cmd_args (CmdDiscon i) = [dec i]"
| "cmd_args (CmdSend i n) = [dec i, dec n]"
| "cmd_args (CmdSetProfile sv n w) = [sv, n, w]"
| "cmd_args (CmdSetMtu m) = [dec m]"
| "cmd_args (CmdConMtuReq i) = [dec i]"
| "cmd_args (CmdConParaReq i mn mx la ti) = [dec i, dec mn, dec mx, dec la, dec ti]"
| "cmd_args (CmdEnterDataMode i) = [dec i]"
| "cmd_args _ = []"

text \<open>The arguments each command admits.\<close>

definition arg_ok :: "string \<Rightarrow> bool" where
  "arg_ok a \<longleftrightarrow> a \<noteq> [] \<and> CHR '','' \<notin> set a \<and> \<not> c_isspace (last a)"

fun cmd_wf :: "at_command \<Rightarrow> bool" where
  "cmd_wf (CmdStartScan d f) \<longleftrightarrow> d \<noteq> 0 \<and> (case f of None \<Rightarrow> True | Some n \<Rightarrow> arg_ok n)"
| "cmd_wf (CmdStartCon mac a) \<longleftrightarrow> CHR '','' \<notin> set mac \<and> a \<le> 3"
| "cmd_wf (CmdSend i n) \<longleftrightarrow> n \<noteq> 0 \<and> unat n \<le> BLE_HOST_SEND_MAX_LEN"
| "cmd_wf (CmdSetProfile sv n w) \<longleftrightarrow> CHR '','' \<notin> set sv \<and> CHR '','' \<notin> set n \<and> arg_ok w"
| "cmd_wf _ \<longleftrightarrow> True"

text \<open>What each command does: the payload it asks for and its effect on the caller's state.\<close>

fun exec_command ::
  "'s at_host_ops \<Rightarrow> 's at_host_tx option \<Rightarrow> at_command \<Rightarrow> 's \<Rightarrow> (u8 \<times> nat) option \<times> 's" where
  "exec_command ops tx CmdAt s = (None, tx_line tx ''+OK'' s)"
| "exec_command ops tx (CmdStartScan d f) s = (None, reply tx (ops_start_scan ops d f s))"
| "exec_command ops tx (CmdStartCon mac a) s = (None, reply tx (ops_connect ops mac a s))"
| "exec_command ops tx (CmdDiscon i) s = (None, reply tx (ops_disconnect ops i s))"
| "exec_command ops tx (CmdSend i n) s = (Some (i, unat n), tx_raw tx (bytes_of ''>'') s)"
| "exec_command ops tx CmdConStatus s = (None, handle_get_status ops tx s)"
| "exec_command ops tx (CmdSetProfile sv n w) s = (None, reply tx (ops_set_profile ops sv n w s))"
| "exec_command ops tx CmdGetProfile s = (None, handle_get_profile ops tx s)"
| "exec_command ops tx (CmdSetMtu m) s = (None, reply tx (ops_set_mtu ops m s))"
| "exec_command ops tx CmdGetMtu s = (None, handle_get_mtu ops tx s)"
| "exec_command ops tx (CmdConMtuReq i) s = (None, reply tx (ops_request_mtu ops i s))"
| "exec_command ops tx (CmdConParaReq i mn mx la ti) s =
     (None, reply tx (ops_set_conn_params ops i mn mx la ti s))"
| "exec_command ops tx (CmdEnterDataMode i) s =
     (None, case ops_enter_data_mode ops of
              None \<Rightarrow> params_error tx s
            | Some enter \<Rightarrow>
                let (err, s1) = enter i s
                in if err \<noteq> RC_OK then emit_error_from_errno tx err s1
                   else tx_line tx ''+IND=DATAMODE,1'' (tx_line tx ''+OK'' s1))"
| "exec_command ops tx CmdStreamStat s = (None, handle_get_stream_stats ops tx s)"

section \<open>The dispatcher\<close>

lemma toupper_letters [simp]:
  "map c_toupper ''AT+STARTSCAN='' = ''AT+STARTSCAN=''" "map c_toupper ''AT'' = ''AT''"
  "map c_toupper ''AT+STARTCON='' = ''AT+STARTCON=''" "map c_toupper ''AT+DISCON='' = ''AT+DISCON=''"
  "map c_toupper ''AT+SEND='' = ''AT+SEND=''" "map c_toupper ''AT+CONSTATUS'' = ''AT+CONSTATUS''"
  "map c_toupper ''AT+SETSVCUUID='' = ''AT+SETSVCUUID=''"
  "map c_toupper ''AT+GETSVCUUID'' = ''AT+GETSVCUUID''" "map c_toupper ''AT+SETMTU='' = ''AT+SETMTU=''"
  "map c_toupper ''AT+GETMTU'' = ''AT+GETMTU''" "map c_toupper ''AT+CONMTUREQ='' = ''AT+CONMTUREQ=''"
  "map c_toupper ''AT+CONPARAREQ='' = ''AT+CONPARAREQ=''"
  "map c_toupper ''AT+ENTERDATAMODE='' = ''AT+ENTERDATAMODE=''"
  "map c_toupper ''AT+STREAMSTAT'' = ''AT+STREAMSTAT''" "map c_toupper ''AT+'' = ''AT+''"
  by code_simp+

text \<open>The upper-case form of the line decides every comparison of the dispatcher.\<close>

lemma starts_keyword:
  "map c_toupper k = kw \<Longrightarrow>
     starts_with_ignore_case (k @ a) p = (take (length p) (kw @ map c_toupper a) = map c_toupper p)"
  by (auto simp: starts_with_ignore_case_map take_map)

lemma equals_keyword:
  "map c_toupper k = kw \<Longrightarrow>
     equals_ignore_case (k @ a) p = (kw @ map c_toupper a = map c_toupper p)"
  by (auto simp: equals_ignore_case_map)

lemma drop_keyword: "map c_toupper k = kw \<Longrightarrow> length kw = n \<Longrightarrow> drop n (k @ a) = a"
  by auto

lemmas keyword_rules =
  starts_keyword starts_keyword [of _ _ "[]", simplified]
  equals_keyword equals_keyword [of _ _ "[]", simplified] drop_keyword

text \<open>
  The rest of the dispatcher, when the trimmed line is a keyword in any case, with its arguments
  or alone.
\<close>

lemma dispatch_args:
  assumes "trim_whitespace (snprintk 160 line) = k @ a" and "k \<noteq> []"
  shows "map c_toupper k = ''AT+STARTSCAN='' \<Longrightarrow>
       process_command ops tx line (st, s) = no_payload st (cmd_startscan ops tx a s)"
    "map c_toupper k = ''AT+STARTCON='' \<Longrightarrow>
       process_command ops tx line (st, s) = no_payload st (cmd_startcon ops tx a s)"
    "map c_toupper k = ''AT+DISCON='' \<Longrightarrow>
       process_command ops tx line (st, s) = no_payload st (cmd_discon ops tx a s)"
    "map c_toupper k = ''AT+SEND='' \<Longrightarrow>
       process_command ops tx line (st, s) = cmd_send tx a (st, s)"
    "map c_toupper k = ''AT+SETSVCUUID='' \<Longrightarrow>
       process_command ops tx line (st, s) = no_payload st (cmd_setsvcuuid ops tx a s)"
    "map c_toupper k = ''AT+SETMTU='' \<Longrightarrow>
       process_command ops tx line (st, s) = no_payload st (cmd_setmtu ops tx a s)"
    "map c_toupper k = ''AT+CONMTUREQ='' \<Longrightarrow>
       process_command ops tx line (st, s) = no_payload st (cmd_conmtureq ops tx a s)"
    "map c_toupper k = ''AT+CONPARAREQ='' \<Longrightarrow>
       process_command ops tx line (st, s) = no_payload st (cmd_conparareq ops tx a s)"
    "map c_toupper k = ''AT+ENTERDATAMODE='' \<Longrightarrow>
       process_command ops tx line (st, s) = no_payload st (cmd_enterdatamode ops tx a s)"
  by (simp_all add: process_command_def assms keyword_rules Let_def
      del: list.map drop_append)

lemma dispatch_alone:
  assumes "trim_whitespace (snprintk 160 line) = k" and "k \<noteq> []"
  shows "map c_toupper k = ''AT'' \<Longrightarrow>
       process_command ops tx line (st, s) = no_payload st (tx_line tx ''+OK'' s)"
    "map c_toupper k = ''AT+CONSTATUS'' \<Longrightarrow>
       process_command ops tx line (st, s) = no_payload st (handle_get_status ops tx s)"
    "map c_toupper k = ''AT+GETSVCUUID'' \<Longrightarrow>
       process_command ops tx line (st, s) = no_payload st (handle_get_profile ops tx s)"
    "map c_toupper k = ''AT+GETMTU'' \<Longrightarrow>
       process_command ops tx line (st, s) = no_payload st (handle_get_mtu ops tx s)"
    "map c_toupper k = ''AT+STREAMSTAT'' \<Longrightarrow>
       process_command ops tx line (st, s) = no_payload st (handle_get_stream_stats ops tx s)"
  by (simp_all add: process_command_def assms keyword_rules Let_def
      del: list.map drop_append)

section \<open>Parsing the arguments\<close>

lemma u8_value_bounds [simp]: "\<not> 255 < (ucast (i :: u8) :: u16)" "ucast (ucast i :: u16) = i"
proof -
  have b: "unat i < 256" using unat_lt [of i] by simp
  have u: "unat (ucast i :: u16) = unat i" using b by (simp add: unsigned_ucast_eq unsigned_take_bit_eq take_bit_nat_eq_self)
  show "\<not> 255 < (ucast i :: u16)" using b by (simp add: word_less_nat_alt u)
  have "unat (ucast (ucast i :: u16) :: u8) = unat i"
    using b by (simp add: unsigned_ucast_eq unsigned_take_bit_eq take_bit_nat_eq_self u)
  then show "ucast (ucast i :: u16) = i" by (simp add: word_unat_eq_iff)
qed

lemma addr_type_bound: "(a :: u8) \<le> 3 \<Longrightarrow> \<not> 3 < (ucast a :: u16)"
proof -
  assume "a \<le> 3"
  then have "unat a \<le> 3" by (simp add: word_le_nat_alt)
  moreover have "unat (ucast a :: u16) = unat a"
    using unat_lt [of a] by (simp add: unsigned_ucast_eq unsigned_take_bit_eq take_bit_nat_eq_self)
  ultimately show ?thesis by (simp add: word_less_nat_alt)
qed

lemma dec_arg [simp]: "CHR '','' \<notin> set (fmt_u n)" "fmt_u n \<noteq> []"
  using fmt_u_digits [of n] by (auto simp: c_isdigit_def Let_def)

lemma arg_ok_dec [simp]: "arg_ok (fmt_u n)"
proof -
  have "c_isdigit (last (fmt_u n))" using fmt_u_digits [of n] by simp
  then show ?thesis by (simp add: arg_ok_def digit_not_space)
qed

lemma split_args_text:
  assumes "\<forall>a \<in> set as. CHR '','' \<notin> set a" and "as \<noteq> []" and "last as \<noteq> []" and "length as \<le> 5"
  shows "split_args (Some (join_comma as)) MAX_ARGS = Some as"
  using assms by (simp add: split_args_def MAX_ARGS_def split_args_join)

text \<open>Each command function on the text of its arguments.\<close>

lemma cmd_fns_text:
  "d \<noteq> 0 \<Longrightarrow> cmd_startscan ops tx (join_comma [dec d]) s = reply tx (ops_start_scan ops d None s)"
  "d \<noteq> 0 \<Longrightarrow> arg_ok f \<Longrightarrow>
     cmd_startscan ops tx (join_comma [dec d, f]) s = reply tx (ops_start_scan ops d (Some f) s)"
  "CHR '','' \<notin> set mac \<Longrightarrow> a \<le> 3 \<Longrightarrow>
     cmd_startcon ops tx (join_comma [mac, dec a]) s = reply tx (ops_connect ops mac a s)"
  "CHR '','' \<notin> set sv \<Longrightarrow> CHR '','' \<notin> set n \<Longrightarrow> arg_ok w \<Longrightarrow>
     cmd_setsvcuuid ops tx (join_comma [sv, n, w]) s = reply tx (ops_set_profile ops sv n w s)"
  "cmd_conparareq ops tx (join_comma [dec i, dec mn, dec mx, dec la, dec ti]) s =
     reply tx (ops_set_conn_params ops i mn mx la ti s)"
  by (simp_all add: cmd_startscan_def cmd_startcon_def cmd_setsvcuuid_def cmd_conparareq_def
      split_args_text arg_ok_def addr_type_bound parse_uint16_fmt_u8 Let_def del: join_comma.simps)

lemma cmd_fns_single:
  "cmd_discon ops tx (dec i) s = reply tx (ops_disconnect ops i s)"
  "cmd_setmtu ops tx (dec m) s = reply tx (ops_set_mtu ops m s)"
  "cmd_conmtureq ops tx (dec i) s = reply tx (ops_request_mtu ops i s)"
  "cmd_enterdatamode ops tx (dec i) s = snd (exec_command ops tx (CmdEnterDataMode i) s)"
  by (simp_all add: cmd_discon_def cmd_setmtu_def cmd_conmtureq_def cmd_enterdatamode_def
      parse_uint16_fmt_u8 split: option.split)

lemma cmd_send_text:
  "n \<noteq> 0 \<Longrightarrow> unat n \<le> BLE_HOST_SEND_MAX_LEN \<Longrightarrow>
     cmd_send tx (join_comma [dec i, dec n]) (st, s) =
       (AT_COMMAND_RESULT_ENTER_PAYLOAD, payload_state i n st, tx_raw tx (bytes_of ''>'') s)"
  by (simp add: cmd_send_def split_args_text parse_uint16_fmt_u8 payload_state_def Let_def
      del: join_comma.simps)

lemma at_exec_no_payload:
  "process_command ops tx line (at_host_init, s) = no_payload at_host_init s' \<Longrightarrow>
     at_exec ops tx line s = (None, s')"
  by (simp add: at_exec_def no_payload_def)

lemma parse_args_exec:
  assumes wf: "cmd_wf c" and w: "trim_whitespace (snprintk 160 line) = k @ join_comma (cmd_args c)"
    and k: "map c_toupper k = keyword c"
  shows "at_exec ops tx line s = exec_command ops tx c s"
proof -
  have ne: "k \<noteq> []" using k by (cases c) auto
  note args = dispatch_args [OF w ne, of _ _ at_host_init s]
  have alone: "cmd_args c = [] \<Longrightarrow> trim_whitespace (snprintk 160 line) = k" using w by simp
  note alone = dispatch_alone [OF alone ne, of _ _ at_host_init s]
  show ?thesis
  proof (cases c)
    case (CmdStartScan d f)
    with wf k args(1) show ?thesis
      by (cases f) (auto intro!: at_exec_no_payload simp: cmd_fns_text simp del: join_comma.simps)
  next
    case (CmdSend i n)
    with wf k args(4) show ?thesis
      by (simp add: at_exec_def cmd_send_text payload_state_def del: join_comma.simps)
  qed (use wf k args alone in \<open>auto intro!: at_exec_no_payload simp: cmd_fns_text cmd_fns_single
         simp del: join_comma.simps(3)\<close>)
qed

text \<open>White space around a command is dropped.\<close>

lemma trim_surrounded:
  assumes "list_all c_isspace pre" "list_all c_isspace post" "t \<noteq> []" "\<not> c_isspace (hd t)" "\<not> c_isspace (last t)"
  shows "trim_whitespace (pre @ t @ post) = t"
proof -
  have "dropWhile c_isspace (pre @ t @ post) = t @ post"
    using assms(1,3,4) by (cases t) (auto simp: list_all_iff dropWhile_append)
  moreover have "dropWhile c_isspace (rev post @ rev t) = rev t"
    using assms(2,3,5) by (cases t rule: rev_cases) (auto simp: list_all_iff dropWhile_append)
  ultimately show ?thesis by (simp add: trim_whitespace_eq rtrim_def)
qed

lemma last_join_comma: "as \<noteq> [] \<Longrightarrow> last as \<noteq> [] \<Longrightarrow> join_comma as \<noteq> [] \<and> last (join_comma as) = last (last as)"
  by (induction as rule: join_comma.induct) auto

lemma cmd_args_last: "cmd_wf c \<Longrightarrow> cmd_args c \<noteq> [] \<Longrightarrow> arg_ok (last (cmd_args c))"
  by (induction c rule: cmd_args.induct) auto

lemma keyword_chars:
  assumes "map c_toupper k = keyword c"
  shows "k \<noteq> [] \<and> \<not> c_isspace (hd k) \<and> \<not> c_isspace (last k)"
proof -
  have sp: "c_isspace (c_toupper x) = c_isspace x" for x
    by (auto simp: c_isspace_def c_toupper_def Let_def)
  have "k \<noteq> []" using assms by (cases c) auto
  moreover have "\<not> c_isspace (hd (keyword c)) \<and> \<not> c_isspace (last (keyword c))"
    by (cases c) (simp_all add: c_isspace_def Let_def)
  ultimately show ?thesis
    by (simp add: assms [symmetric] hd_map last_map sp)
qed

text \<open>
  C4: The parser reads the command language: every command, written with its keyword in upper or
  lower case, its numbers in decimal, its arguments separated by commas and any white space around
  it, in a line of at most 159 characters, is executed as that command with exactly those
  arguments.
\<close>

theorem command_syntax:
  assumes wf: "cmd_wf c" and k: "map c_toupper k = keyword c"
    and sp: "list_all c_isspace pre" "list_all c_isspace post"
    and len: "length (pre @ (k @ join_comma (cmd_args c)) @ post) \<le> 159"
  shows "at_exec ops tx (pre @ (k @ join_comma (cmd_args c)) @ post) s = exec_command ops tx c s"
proof -
  have "\<not> c_isspace (last (k @ join_comma (cmd_args c)))"
    using keyword_chars [OF k] cmd_args_last [OF wf] last_join_comma [of "cmd_args c"]
    by (cases "cmd_args c = []") (auto simp: arg_ok_def)
  then have "trim_whitespace (pre @ (k @ join_comma (cmd_args c)) @ post) = k @ join_comma (cmd_args c)"
    using keyword_chars [OF k] by (intro trim_surrounded [OF sp]) auto
  then show ?thesis
    using len by (intro parse_args_exec [OF wf _ k]) (simp add: snprintk_fits)
qed

theorem command_syntax_witness:
  "at_exec echo_ops (Some echo_tx) ('' at+conparareq=0,6,9,0,400 '') [] =
     exec_command echo_ops (Some echo_tx) (CmdConParaReq 0 6 9 0 400) []"
proof -
  have k: "map c_toupper ''at+conparareq='' = keyword (CmdConParaReq 0 6 9 0 400)" by code_simp
  have t: "'' '' @ (''at+conparareq='' @ join_comma (cmd_args (CmdConParaReq 0 6 9 0 400))) @ '' '' =
      '' at+conparareq=0,6,9,0,400 ''" by code_simp
  have sp: "list_all c_isspace '' ''" by code_simp
  have l: "length ('' '' @ (''at+conparareq='' @ join_comma (cmd_args (CmdConParaReq 0 6 9 0 400))) @ '' '') \<le> 159"
    by code_simp
  have wf: "cmd_wf (CmdConParaReq 0 6 9 0 400)" by simp
  show ?thesis using command_syntax [OF wf k sp sp l] by (simp only: t)
qed

end
