(* ===== verification/At_Properties.thy ===== *)
theory At_Properties
  imports At_Syntax
begin

text \<open>
  The properties of the AT host: memory safety and refinement of the receiver, line framing,
  payload transfer, reception in pieces, one reply for each command, the command syntax, and
  output that no buffer truncates.
\<close>

section \<open>Memory safety and refinement\<close>

abbreviation at_rx_chunks ::
  "'s at_host_ops \<Rightarrow> 's at_host_tx option \<Rightarrow> u8 list list \<Rightarrow> at_host_state \<times> 's \<Rightarrow> at_host_state \<times> 's" where
  "at_rx_chunks ops tx chunks cs \<equiv> fold (at_host_rx_bytes ops tx) chunks cs"

lemma rx_chunks_wf:
  "at_wf st \<Longrightarrow> at_wf (fst (at_rx_chunks ops tx chunks (st, s))) \<and>
     fold (at_spec_rx ops tx) chunks (at_abs st, s) = map_prod at_abs id (at_rx_chunks ops tx chunks (st, s))"
proof (induction chunks arbitrary: st s)
  case (Cons d chunks)
  obtain st1 s1 where r: "at_host_rx_bytes ops tx d (st, s) = (st1, s1)"
    by (cases "at_host_rx_bytes ops tx d (st, s)")
  from at_refine_rx [OF Cons.prems r] have "at_wf st1" "at_spec_rx ops tx d (at_abs st, s) = (at_abs st1, s1)"
    by simp_all
  then show ?case using Cons.IH [of st1 s1] r by simp
qed simp

text \<open>
  C6: The receiver never leaves its buffers: from the state \<open>at_host_init\<close> sets, for every
  operation table and every sequence of received blocks, the line buffer keeps its 160 bytes with
  room for the next character and the terminator, and in payload mode the next byte has a place
  among the at most 256 expected ones.
\<close>

theorem at_memory_safety:
  "at_inv (fst (at_rx_chunks ops tx chunks (at_host_init, s)))"
  using rx_chunks_wf [OF at_wf_init, of ops tx chunks s] by (simp add: at_wf_def)

text \<open>
  C1: The byte-level receiver with its buffers, counters and flags implements the abstract
  receiver, whose state is just the line or the payload collected so far: for every sequence of
  received blocks both make the same calls and outputs and end in corresponding states.
\<close>

theorem at_rx_refinement:
  "fold (at_spec_rx ops tx) chunks (Line [], s) =
     map_prod at_abs id (at_rx_chunks ops tx chunks (at_host_init, s))"
  using rx_chunks_wf [OF at_wf_init, of ops tx chunks s] by simp

section \<open>One reply for each command\<close>

lemma process_command_empty:
  "trim_whitespace (snprintk 160 line) = [] \<Longrightarrow>
     process_command ops tx line (st, s) = (AT_COMMAND_RESULT_NONE, st, s)"
  by (simp add: process_command_def no_payload_def)

lemma process_command_replied:
  assumes "trim_whitespace (snprintk 160 line) \<noteq> []"
  shows "replied log (snd (snd (process_command (log_ops ops) (Some log_tx) line (st, s, log))))"
proof -
  have ok: "replied log (tx_line (Some log_tx) ''+OK'' (s, log))" by (simp add: is_reply_def repliedI)
  show ?thesis
    using assms unfolding process_command_def Let_def prod.case no_payload_def
    by (simp add: replied_commands replied_queries replied_enterdatamode replied_send ok
        del: tx_line_log)
qed

text \<open>
  The command lines that ask for a payload: the keyword in any case, then two numbers of which the
  first is at most 255 and the second between 1 and 256.
\<close>

definition asks_payload :: "string \<Rightarrow> u8 \<Rightarrow> nat \<Rightarrow> bool" where
  "asks_payload w i n \<longleftrightarrow>
     (\<exists>k a x y c v. w = k @ a \<and> map c_toupper k = ''AT+SEND='' \<and> split_args (Some a) 5 = Some [x, y] \<and>
        parse_uint16_value (Some x) = Some c \<and> unat c \<le> 255 \<and> i = ucast c \<and>
        parse_uint16_value (Some y) = Some v \<and> n = unat v \<and> 0 < n \<and> n \<le> 256)"

lemma starts_split:
  assumes "map c_toupper p = p"
  shows "(\<exists>k. w = k @ a \<and> map c_toupper k = p) \<longleftrightarrow> starts_with_ignore_case w p \<and> a = drop (length p) w"
proof
  assume "\<exists>k. w = k @ a \<and> map c_toupper k = p"
  then show "starts_with_ignore_case w p \<and> a = drop (length p) w"
    using assms by (auto simp: starts_with_ignore_case_map)
next
  assume r: "starts_with_ignore_case w p \<and> a = drop (length p) w"
  then have "map c_toupper (take (length p) w) = p" using assms by (simp add: starts_with_ignore_case_map)
  then show "\<exists>k. w = k @ a \<and> map c_toupper k = p" using r by (metis append_take_drop_id)
qed

lemma send_split:
  "(\<exists>k. w = k @ a \<and> map c_toupper k = ''AT+SEND='') \<longleftrightarrow> starts_with_ignore_case w ''AT+SEND='' \<and> a = drop 8 w"
proof -
  have l: "length ''AT+SEND='' = 8" by simp
  show ?thesis by (rule starts_split [OF toupper_letters(5), unfolded l])
qed

lemma asks_payload_eq:
  "asks_payload w i n \<longleftrightarrow> starts_with_ignore_case w ''AT+SEND='' \<and>
     (\<exists>x y c v. split_args (Some (drop 8 w)) 5 = Some [x, y] \<and> parse_uint16_value (Some x) = Some c \<and>
        unat c \<le> 255 \<and> i = ucast c \<and> parse_uint16_value (Some y) = Some v \<and> n = unat v \<and> 0 < n \<and> n \<le> 256)"
proof -
  have "asks_payload w i n \<longleftrightarrow> (\<exists>a. (\<exists>k. w = k @ a \<and> map c_toupper k = ''AT+SEND='') \<and>
     (\<exists>x y c v. split_args (Some a) 5 = Some [x, y] \<and> parse_uint16_value (Some x) = Some c \<and>
        unat c \<le> 255 \<and> i = ucast c \<and> parse_uint16_value (Some y) = Some v \<and> n = unat v \<and> 0 < n \<and> n \<le> 256))"
    unfolding asks_payload_def by iprover
  then show ?thesis unfolding send_split by blast
qed

lemma cmd_send_asks:
  "(\<exists>x y c v. split_args (Some a) 5 = Some [x, y] \<and> parse_uint16_value (Some x) = Some c \<and>
      unat c \<le> 255 \<and> parse_uint16_value (Some y) = Some v \<and> 0 < unat v \<and> unat v \<le> 256 \<and>
      cmd_send tx a (st, s) = (AT_COMMAND_RESULT_ENTER_PAYLOAD, st\<lparr>payload_mode := True,
        payload_expected := unat v, payload_received := 0, payload_conn_index := ucast c\<rparr>, tx_raw tx (bytes_of ''>'') s)) \<or>
   (\<not> (\<exists>x y c v. split_args (Some a) 5 = Some [x, y] \<and> parse_uint16_value (Some x) = Some c \<and>
      unat c \<le> 255 \<and> parse_uint16_value (Some y) = Some v \<and> 0 < unat v \<and> unat v \<le> 256)) \<and>
      cmd_send tx a (st, s) = (AT_COMMAND_RESULT_NONE, st, params_error tx s)"
proof (cases "\<exists>x y c v. split_args (Some a) 5 = Some [x, y] \<and> parse_uint16_value (Some x) = Some c \<and>
      unat c \<le> 255 \<and> parse_uint16_value (Some y) = Some v \<and> 0 < unat v \<and> unat v \<le> 256")
  case True
  then obtain x y c v where p: "split_args (Some a) 5 = Some [x, y]" "parse_uint16_value (Some x) = Some c"
    "unat c \<le> 255" "parse_uint16_value (Some y) = Some v" "0 < unat v" "unat v \<le> 256" by blast
  then have "\<not> 255 < c" "v \<noteq> 0" by (auto simp: word_less_nat_alt)
  with p have "cmd_send tx a (st, s) = (AT_COMMAND_RESULT_ENTER_PAYLOAD, st\<lparr>payload_mode := True,
      payload_expected := unat v, payload_received := 0, payload_conn_index := ucast c\<rparr>, tx_raw tx (bytes_of ''>'') s)"
    by (simp add: cmd_send_def MAX_ARGS_def BLE_HOST_SEND_MAX_LEN_def)
  with p show ?thesis by blast
next
  case False
  have "cmd_send tx a (st, s) = (AT_COMMAND_RESULT_NONE, st, params_error tx s)"
  proof (cases "\<exists>x y. split_args (Some a) 5 = Some [x, y]")
    case True
    then show ?thesis using False
      by (auto simp: cmd_send_def MAX_ARGS_def BLE_HOST_SEND_MAX_LEN_def word_less_nat_alt unat_gt_0 not_less split: option.split)
  next
    case False
    then have "split_args (Some a) 5 = Some args \<Longrightarrow> length args \<noteq> 2" for args
      by (auto simp: numeral_2_eq_2 length_Suc_conv)
    then show ?thesis by (auto simp: cmd_send_def MAX_ARGS_def split: option.split)
  qed
  with False show ?thesis by blast
qed

lemma process_command_asks:
  fixes line :: string
  defines "w \<equiv> trim_whitespace (snprintk 160 line)"
  shows "(\<exists>i n. asks_payload w i n \<and> process_command ops tx line (st, s) =
            (AT_COMMAND_RESULT_ENTER_PAYLOAD, st\<lparr>payload_mode := True, payload_expected := n,
               payload_received := 0, payload_conn_index := i\<rparr>, tx_raw tx (bytes_of ''>'') s)) \<or>
         (\<forall>i n. \<not> asks_payload w i n) \<and>
           (\<exists>s'. process_command ops tx line (st, s) = (AT_COMMAND_RESULT_NONE, st, s'))"
proof (cases "starts_with_ignore_case w ''AT+SEND=''")
  case True
  obtain k where wk: "w = k @ drop 8 w" and k: "map c_toupper k = ''AT+SEND=''"
    using send_split [THEN iffD2, OF conjI, OF True refl] by (elim exE conjE)
  have "k \<noteq> []" using k by auto
  from dispatch_args(4) [OF wk [unfolded w_def] this k, of ops tx st s]
  have p: "process_command ops tx line (st, s) = cmd_send tx (drop 8 w) (st, s)" by (simp only: w_def)
  show ?thesis
    using cmd_send_asks [of "drop 8 w" tx st s] True unfolding p asks_payload_eq by blast
next
  case False
  then have "\<exists>s'. process_command ops tx line (st, s) = (AT_COMMAND_RESULT_NONE, st, s')"
    by (simp add: process_command_def Let_def no_payload_def w_def)
  then show ?thesis using False unfolding asks_payload_eq by blast
qed

text \<open>
  C7: Every command line gets exactly one reply, and only AT+SEND changes the receiver, whatever the
  operations return: for a blank line nothing is called and nothing is sent; for every other line
  exactly one of the outputs is a reply, that is a line starting with +OK or +ERR or the payload
  prompt.  The receiver goes into payload mode, for exactly the number of bytes and the index given,
  exactly when the line is AT+SEND= with two numbers in range; then the prompt is all that happens.
  After any other line the receiver's state is what it was.
\<close>

theorem command_one_reply:
  "case process_command (log_ops ops) (Some log_tx) line (st, s, log) of (r, st', s', log') \<Rightarrow>
     if trim_whitespace (snprintk 160 line) = []
     then r = AT_COMMAND_RESULT_NONE \<and> st' = st \<and> s' = s \<and> log' = log
     else replied log (s', log') \<and>
       (if \<exists>i n. asks_payload (trim_whitespace (snprintk 160 line)) i n
        then r = AT_COMMAND_RESULT_ENTER_PAYLOAD \<and> s' = s \<and> log' = log @ [OutRaw (bytes_of ''>'')] \<and>
             (\<exists>i n. asks_payload (trim_whitespace (snprintk 160 line)) i n \<and>
                st' = st\<lparr>payload_mode := True, payload_expected := n, payload_received := 0, payload_conn_index := i\<rparr>)
        else r = AT_COMMAND_RESULT_NONE \<and> st' = st)"
proof (cases "trim_whitespace (snprintk 160 line) = []")
  case True
  then show ?thesis by (simp add: process_command_empty)
next
  case False
  then show ?thesis
    using process_command_replied [OF False, of log ops st s]
      process_command_asks [of line "log_ops ops" "Some log_tx" st "(s, log)"]
    by (auto split: prod.split simp del: at_host_state.update_convs) blast
qed

section \<open>Reception in pieces\<close>

lemma spec_rx_append:
  assumes "(\<forall>i n. fst (at_spec_rx ops tx xs (a, s)) \<noteq> Payload i n []) \<or> ys = [] \<or> \<not> is_eol (hd ys)"
  shows "at_spec_rx ops tx (xs @ ys) (a, s) = at_spec_rx ops tx ys (at_spec_rx ops tx xs (a, s))"
proof -
  obtain k a' s' where l: "at_spec_loop ops tx xs (False, a, s) = (k, a', s')"
    by (cases "at_spec_loop ops tx xs (False, a, s)")
  with assms have "(\<forall>i n. a' \<noteq> Payload i n []) \<or> ys = [] \<or> \<not> is_eol (hd ys)"
    by (simp add: at_spec_rx_def)
  from spec_skip_irrelevant [OF this, of ops tx s'] l show ?thesis
    by (cases k) (simp_all add: at_spec_rx_def at_spec_loop_append)
qed

lemma rx_abs_eq:
  "at_wf st \<Longrightarrow> at_spec_rx ops tx data (at_abs st, s) = map_prod at_abs id (at_host_rx_bytes ops tx data (st, s))"
  using rx_chunks_wf [of st ops tx "[data]" s] by simp

lemma at_abs_payload_empty:
  "at_wf st \<Longrightarrow> at_abs st = Payload i n [] \<longleftrightarrow>
     payload_mode st \<and> payload_received st = 0 \<and> i = payload_conn_index st \<and> n = payload_expected st"
  by (auto simp: at_abs_def at_wf_def at_inv_def BLE_HOST_SEND_MAX_LEN_def)

text \<open>
  C9: How the transport cuts the input into blocks does not matter: receiving two blocks has the
  effect of receiving them joined, except when the first ends with an accepted AT+SEND line and
  the second starts with a line ending.
\<close>

theorem at_rx_chunking:
  assumes wf: "at_wf st"
    and first: "at_host_rx_bytes ops tx xs (st, s) = (st1, s1)"
    and no: "\<not> (payload_mode st1 \<and> payload_received st1 = 0 \<and> ys \<noteq> [] \<and> is_eol (hd ys))"
  shows "map_prod at_abs id (at_host_rx_bytes ops tx (xs @ ys) (st, s)) =
         map_prod at_abs id (at_host_rx_bytes ops tx ys (st1, s1))"
proof -
  have wf1: "at_wf st1" and r: "at_spec_rx ops tx xs (at_abs st, s) = (at_abs st1, s1)"
    using at_refine_rx [OF wf first] by simp_all
  have "(\<forall>i n. fst (at_spec_rx ops tx xs (at_abs st, s)) \<noteq> Payload i n []) \<or> ys = [] \<or> \<not> is_eol (hd ys)"
    using no by (auto simp: r at_abs_payload_empty [OF wf1])
  from spec_rx_append [OF this] show ?thesis
    by (simp add: rx_abs_eq [OF wf, symmetric] rx_abs_eq [OF wf1, symmetric] r)
qed

theorem at_rx_chunking_witness:
  "map_prod at_abs id (at_host_rx_bytes echo_ops (Some echo_tx) (bytes_of ''A'' @ bytes_of ''T'') (at_host_init, [])) =
   map_prod at_abs id (at_host_rx_bytes echo_ops (Some echo_tx) (bytes_of ''T'')
     (at_host_rx_bytes echo_ops (Some echo_tx) (bytes_of ''A'') (at_host_init, [])))"
proof -
  obtain st1 s1 where r: "at_host_rx_bytes echo_ops (Some echo_tx) (bytes_of ''A'') (at_host_init, []) = (st1, s1)"
    by (cases "at_host_rx_bytes echo_ops (Some echo_tx) (bytes_of ''A'') (at_host_init, [])")
  have "\<not> is_eol (hd (bytes_of ''T''))" by code_simp
  then show ?thesis using at_rx_chunking [OF at_wf_init r, of "bytes_of ''T''"] r by simp
qed

text \<open>
  In that exception the blocks matter: after an accepted AT+SEND line, line endings in the
  same block are dropped, while the same line endings at the start of the next block become the
  first bytes of the payload.
\<close>

theorem send_line_ending_split:
  assumes wf: "at_wf st" and pay: "at_abs st = Payload i n []"
    and es: "\<forall>e \<in> set es. is_eol e" "es \<noteq> []" "length es < n"
  shows "snd (at_host_rx_loop ops tx es (True, st, s)) = (st, s) \<and>
         at_abs (fst (at_host_rx_bytes ops tx es (st, s))) = Payload i n es"
proof -
  have keep: "at_host_rx_loop ops tx es (True, st, s) = (True, st, s)"
    using es(1) pay wf by (induction es) (auto simp: at_host_rx_byte_def at_abs_payload_empty)
  have "at_spec_loop ops tx d (False, Payload i n bs, s) = (False, Payload i n (bs @ d), s)"
    if "length bs + length d < n" for d bs
    using that by (induction d arbitrary: bs) (auto simp: at_spec_byte_def)
  from this [of "[]" es] have "at_spec_rx ops tx es (at_abs st, s) = (Payload i n es, s)"
    using es(3) by (simp add: at_spec_rx_def pay)
  then show ?thesis using rx_abs_eq [OF wf, of ops tx es s] keep
    by (cases "at_host_rx_bytes ops tx es (st, s)") simp
qed

text \<open>An AT host that waits for the payload of AT+SEND=0,n.\<close>

definition payload_host :: "nat \<Rightarrow> at_host_state" where
  "payload_host n = at_host_init\<lparr>payload_mode := True, payload_expected := n\<rparr>"

lemma payload_host_wf:
  "0 < n \<Longrightarrow> n \<le> 256 \<Longrightarrow> at_wf (payload_host n) \<and> at_abs (payload_host n) = Payload 0 n []"
  using at_inv_init
  by (simp add: payload_host_def at_wf_def at_abs_def at_inv_def at_host_init_def
      BLE_HOST_SEND_MAX_LEN_def)

theorem send_line_ending_split_witness:
  "at_abs (fst (at_host_rx_bytes echo_ops (Some echo_tx) [10] (payload_host 5, []))) = Payload 0 5 [10]"
proof -
  have w: "at_wf (payload_host 5)" "at_abs (payload_host 5) = Payload 0 5 []"
    using payload_host_wf [of 5] by simp_all
  show ?thesis
    using send_line_ending_split [OF w, of "[10]" echo_ops "Some echo_tx" "[]"] by (simp add: is_eol_def)
qed

section \<open>Line framing and payload transfer\<close>

lemma rx_from_spec:
  "at_wf st \<Longrightarrow> at_spec_loop ops tx data (False, at_abs st, s) = (k, a, s') \<Longrightarrow>
     map_prod at_abs id (at_host_rx_bytes ops tx data (st, s)) = (a, s')"
  using rx_abs_eq [of st ops tx data s] by (simp add: at_spec_rx_def)

text \<open>
  C8: Line framing.  An idle receiver that gets a line and a CR or LF executes exactly that line
  when it has at most 159 characters; a longer line executes nothing and gets one
  \<open>+ERR=Invalid Command\<close>; an empty line is ignored.  Afterwards the receiver is idle again, or
  waits for the payload the line asked for.
\<close>

theorem line_framing:
  assumes wf: "at_wf st" and idle: "at_abs st = Line []"
    and l: "CR \<notin> set l" "LF \<notin> set l" "NUL \<notin> set l" and e: "is_eol e"
  shows "map_prod at_abs id (at_host_rx_bytes ops tx (bytes_of l @ [e]) (st, s)) =
    (if l = [] then (Line [], s)
     else if 159 < length l then (Line [], emit_error tx AT_ERROR_INVALID_COMMAND s)
     else case at_exec ops tx l s of
            (None, s') \<Rightarrow> (Line [], s')
          | (Some (i, n), s') \<Rightarrow> (Payload i n [], s'))"
proof -
  consider "l = []" | "159 < length l" | "l \<noteq> []" "length l \<le> 159" by linarith
  then show ?thesis
  proof cases
    case 1
    then show ?thesis using rx_abs_eq [OF wf, of ops tx "[e]" s] e
      by (simp add: idle at_spec_rx_def at_spec_byte_def bytes_of_def)
  next
    case 2
    then show ?thesis
      using rx_abs_eq [OF wf, of ops tx "bytes_of l @ [e]" s] e
        spec_line_overflow [OF not_is_eol_bytes_of [OF l(1,2)], of ops tx False s]
      by (auto simp: idle at_spec_rx_def at_spec_loop_append at_spec_byte_def)
  next
    case 3
    then show ?thesis
      using rx_abs_eq [OF wf, of ops tx "bytes_of l @ [e]" s] spec_line [OF l 3 e, of ops tx False s]
      by (simp add: idle at_spec_rx_def split: prod.splits option.splits)
  qed
qed

theorem line_framing_witness:
  "map_prod at_abs id (at_host_rx_bytes echo_ops (Some echo_tx) (bytes_of '' at '' @ [13]) (at_host_init, [])) =
     (Line [], [OutLine ''+OK''])"
proof -
  have l: "CR \<notin> set '' at ''" "LF \<notin> set '' at ''" "NUL \<notin> set '' at ''" by code_simp+
  have x: "at_exec echo_ops (Some echo_tx) '' at '' [] = (None, [OutLine ''+OK''])" by code_simp
  show ?thesis using line_framing [OF at_wf_init at_abs_init l, of 13 echo_ops "Some echo_tx" "[]"]
    by (simp add: is_eol_def x)
qed

definition send_line :: "u8 \<Rightarrow> nat \<Rightarrow> string" where
  "send_line i n = ''AT+SEND='' @ join_comma [dec i, fmt_u n]"

lemma send_line_exec:
  assumes "0 < n" "n \<le> 256"
  shows "at_exec ops tx (send_line i n) s = (Some (i, n), tx_raw tx (bytes_of ''>'') s)"
    and "CR \<notin> set (send_line i n)" "LF \<notin> set (send_line i n)" "NUL \<notin> set (send_line i n)"
    and "send_line i n \<noteq> []" "length (send_line i n) \<le> 159"
proof -
  have n: "unat (word_of_nat n :: u16) = n" using assms by (simp add: unat_of_nat)
  have len: "length (send_line i n) \<le> 20"
    using fmt_u_u8 [of i] fmt_u_u16 [of "word_of_nat n"] by (simp add: send_line_def n)
  have t: "[] @ (''AT+SEND='' @ join_comma (cmd_args (CmdSend i (word_of_nat n)))) @ [] = send_line i n"
    by (simp add: send_line_def n)
  have "cmd_wf (CmdSend i (word_of_nat n))"
    using n assms by (auto simp: BLE_HOST_SEND_MAX_LEN_def unat_gt_0 [symmetric])
  moreover have "map c_toupper ''AT+SEND='' = keyword (CmdSend i (word_of_nat n))"
    by (simp del: list.map)
  ultimately show "at_exec ops tx (send_line i n) s = (Some (i, n), tx_raw tx (bytes_of ''>'') s)"
    using parse_args_exec [of "CmdSend i (word_of_nat n)" "send_line i n" "''AT+SEND=''" ops tx s] len t
      arg_ok_dec [of n] n
    by (simp add: trim_whitespace_id snprintk_fits send_line_def c_isspace_def Let_def arg_ok_def)
  have "c \<in> set (send_line i n) \<Longrightarrow> c \<noteq> CR \<and> c \<noteq> LF \<and> c \<noteq> NUL" for c
    using fmt_u_digits [of n] fmt_u_digits [of "unat i"] digit_char_facts [of c]
    by (auto simp: send_line_def)
  then show "CR \<notin> set (send_line i n)" "LF \<notin> set (send_line i n)" "NUL \<notin> set (send_line i n)"
    by auto
  show "send_line i n \<noteq> []" "length (send_line i n) \<le> 159" using len by (simp_all add: send_line_def)
qed

lemma rx_send_line:
  assumes wf: "at_wf st" and idle: "at_abs st = Line []" and n: "0 < n" "n \<le> 256"
    and e: "is_eol e" "\<forall>x \<in> set es. is_eol x"
  shows "at_spec_loop ops tx (bytes_of (send_line i n) @ e # es) (False, Line [], s) =
           (True, Payload i n [], tx_raw tx (bytes_of ''>'') s)"
proof -
  note f = send_line_exec(1) [OF n, of ops tx i s] send_line_exec(2-6) [OF n, of i]
  have "at_spec_loop ops tx ((bytes_of (send_line i n) @ [e]) @ es) (False, Line [], s) =
      at_spec_loop ops tx es (at_spec_loop ops tx (bytes_of (send_line i n) @ [e]) (False, Line [], s))"
    by (rule at_spec_loop_append)
  then show ?thesis using spec_line [OF f(2-6) e(1), of ops tx False s] f(1) e(2)
    by (simp add: spec_skip_eols)
qed

lemma send_both_blocks:
  assumes wf: "at_wf st" and idle: "at_abs st = Line []"
    and d: "d \<noteq> []" "length d \<le> 256" and e: "is_eol e" "\<forall>x \<in> set es. is_eol x"
    and line: "line = bytes_of (send_line i (length d)) @ e # es"
  shows "map_prod at_abs id
           (at_host_rx_bytes ops tx d (at_host_rx_bytes ops tx line (st, s))) =
         (Line [], reply tx (ops_send_payload ops i d (tx_raw tx (bytes_of ''>'') s))) \<and>
         (\<not> is_eol (hd d) \<longrightarrow>
          map_prod at_abs id (at_host_rx_bytes ops tx (line @ d) (st, s)) =
          (Line [], reply tx (ops_send_payload ops i d (tx_raw tx (bytes_of ''>'') s))))"
proof (intro conjI impI)
  have n: "0 < length d" "length d \<le> 256" using d by auto
  note l = rx_send_line [OF wf idle n e, of ops tx i s, folded line]
  obtain st1 s1 where r: "at_host_rx_bytes ops tx line (st, s) = (st1, s1)"
    by (cases "at_host_rx_bytes ops tx line (st, s)")
  from at_refine_rx [OF wf r] l have "at_wf st1" "at_abs st1 = Payload i (length d) []"
      "s1 = tx_raw tx (bytes_of ''>'') s"
    by (simp_all add: at_spec_rx_def idle)
  with r spec_payload [OF d(1), of "[]" "length d" False ops tx i "tx_raw tx (bytes_of ''>'') s"] show "map_prod at_abs id
      (at_host_rx_bytes ops tx d (at_host_rx_bytes ops tx line (st, s))) =
      (Line [], reply tx (ops_send_payload ops i d (tx_raw tx (bytes_of ''>'') s)))"
    by (simp add: rx_abs_eq [symmetric] at_spec_rx_def)
  assume "\<not> is_eol (hd d)"
  then show "map_prod at_abs id (at_host_rx_bytes ops tx (line @ d) (st, s)) =
      (Line [], reply tx (ops_send_payload ops i d (tx_raw tx (bytes_of ''>'') s)))"
    using spec_payload [OF d(1), of "[]" "length d" True ops tx i "tx_raw tx (bytes_of ''>'') s"] l
    by (simp add: rx_abs_eq [OF wf, symmetric] at_spec_rx_def at_spec_loop_append idle)
qed

text \<open>
  C5: Transfer of a payload.  For every connection index and every payload of 1 to 256 bytes, the
  line AT+SEND, its line ending and then the payload bytes lead to the prompt and to exactly one
  call of the send operation, with exactly these bytes (whatever their values) and the index, and
  to the reply for its result; the receiver is idle again.  This holds when the payload comes in
  a block of its own, and in the same block as the line when it does not start with CR or LF.
\<close>

theorem send_transfer:
  assumes wf: "at_wf st" and idle: "at_abs st = Line []"
    and d: "d \<noteq> []" "length d \<le> 256" and e: "is_eol e" "\<forall>x \<in> set es. is_eol x"
    and line: "line = bytes_of (send_line i (length d)) @ e # es"
  shows "map_prod at_abs id
           (at_host_rx_bytes ops tx d (at_host_rx_bytes ops tx line (st, s))) =
         (Line [], reply tx (ops_send_payload ops i d (tx_raw tx (bytes_of ''>'') s))) \<and>
         (\<not> is_eol (hd d) \<longrightarrow>
          map_prod at_abs id (at_host_rx_bytes ops tx (line @ d) (st, s)) =
          (Line [], reply tx (ops_send_payload ops i d (tx_raw tx (bytes_of ''>'') s))))"
  by (rule send_both_blocks [OF assms])

theorem send_transfer_witness:
  "map_prod at_abs id (at_host_rx_bytes echo_ops (Some echo_tx)
     (bytes_of ''AT+SEND=0,3'' @ [13, 10] @ [0, 255, 10]) (at_host_init, [])) =
   (Line [], [OutRaw (bytes_of ''>''), OutSend 0 [0, 255, 10], OutLine ''+OK''])"
proof -
  have l: "bytes_of (send_line 0 (length [0 :: u8, 255, 10])) = bytes_of ''AT+SEND=0,3''" by code_simp
  show ?thesis
    using send_transfer [OF at_wf_init at_abs_init, of "[0, 255, 10]" 13 "[10]" _ 0 echo_ops
        "Some echo_tx" "[]", unfolded l]
    by (simp add: is_eol_def echo_ops_def echo_tx_def tx_raw_def tx_line_def reply_def)
qed

section \<open>Arguments\<close>

text \<open>
  A decimal argument is read exactly: every 16-bit number round-trips through its decimal
  text; but the text may also carry a minus sign, and then the 32-bit wrap of the library
  conversion turns large negative numbers into small positive ones.
\<close>

theorem parse_uint16_sign_wrap:
  assumes "(w :: u16) \<noteq> 0"
  shows "parse_uint16_value (Some (dec w)) = Some w \<and>
         parse_uint16_value (Some (CHR ''-'' # fmt_u (4294967296 - unat w))) = Some w"
proof -
  have w: "0 < unat w" "unat w < 65536" using assms unat_lt [of w] by (auto simp: unat_gt_0)
  define n where "n = 4294967296 - unat w"
  have n: "n \<le> 4294967295" using w by (simp add: n_def)
  obtain c cs where f: "fmt_u n = c # cs" by (cases "fmt_u n") auto
  have dig: "\<forall>x \<in> set (fmt_u n). c_isdigit x" by (rule fmt_u_digits)
  then have tw: "takeWhile c_isdigit (fmt_u n) = fmt_u n" "dropWhile c_isdigit (fmt_u n) = []"
    by (simp_all add: takeWhile_eq_all_conv)
  have "\<not> c_isspace CHR ''-''" by (simp add: c_isspace_def)
  then have "c_strtoul10 (CHR ''-'' # fmt_u n) = Some (- word_of_nat n, [])"
    using n by (simp add: c_strtoul10_def Let_def tw)
  moreover have "- word_of_nat n = (word_of_nat (unat w) :: u32)"
  proof -
    have "(word_of_nat n :: u32) + word_of_nat (unat w) = word_of_nat (n + unat w)" by simp
    also have "\<dots> = (word_of_nat 4294967296 :: u32)" using w by (simp add: n_def)
    also have "\<dots> = 0" by simp
    finally show ?thesis by (simp only: neg_eq_iff_add_eq_0)
  qed
  ultimately have conv: "c_strtoul10 (CHR ''-'' # fmt_u n) = Some (word_of_nat (unat w), [])"
    by simp
  have "m < 65536 \<Longrightarrow> \<not> 65535 < (word_of_nat m :: u32)" for m
    by (simp add: word_less_nat_alt unat_of_nat)
  then have v: "\<not> 65535 < (word_of_nat (unat w) :: u32)" using w(2) by blast
  have c: "m < 65536 \<Longrightarrow> ucast (word_of_nat m :: u32) = (word_of_nat m :: u16)" for m
    by (simp add: word_unat_eq_iff unat_of_nat unsigned_ucast_eq take_bit_nat_eq_self)
  have u: "ucast (word_of_nat (unat w) :: u32) = w" using c [OF w(2)] by simp
  have "parse_uint16_value (Some (CHR ''-'' # fmt_u n)) = Some w"
    using v u by (simp only: parse_uint16_value_def conv option.case prod.case) simp
  then show ?thesis unfolding n_def by simp
qed

theorem parse_uint16_sign_wrap_witness:
  "parse_uint16_value (Some ''-4294967291'') = Some 5"
proof -
  have t: "CHR ''-'' # fmt_u (4294967296 - unat (5 :: u16)) = ''-4294967291''"
    by (simp add: fmt_u.simps) code_simp
  have "(5 :: u16) \<noteq> 0" by simp
  from parse_uint16_sign_wrap [OF this] show ?thesis by (simp only: t)
qed

lemma split_args_prefix:
  "\<forall>a \<in> set as. CHR '','' \<notin> set a \<Longrightarrow> as \<noteq> [] \<Longrightarrow>
     split_args_loop (length as) (join_comma as @ CHR '','' # rest) = as"
proof (induction as rule: join_comma.induct)
  case (2 a)
  then show ?case by (auto simp: takeWhile_append dropWhile_append)
next
  case (3 a b as)
  have "takeWhile (\<lambda>c. c \<noteq> CHR '','') (a @ CHR '','' # join_comma (b # as) @ CHR '','' # rest) = a"
    "dropWhile (\<lambda>c. c \<noteq> CHR '','') (a @ CHR '','' # join_comma (b # as) @ CHR '','' # rest) =
       CHR '','' # join_comma (b # as) @ CHR '','' # rest"
    using "3.prems"(1) by (auto simp: takeWhile_append dropWhile_append)
  then show ?case using 3 by simp
qed simp

lemma trim_comma:
  assumes "p \<noteq> []" "\<not> c_isspace (hd p)"
  shows "trim_whitespace (p @ CHR '','' # rest) = p @ CHR '','' # rtrim rest"
proof -
  have "\<not> c_isspace CHR '',''" by (simp add: c_isspace_def)
  then show ?thesis using assms
    by (cases p) (auto simp: trim_whitespace_eq rtrim_def dropWhile_append)
qed

text \<open>
  AT+CONPARAREQ does not notice surplus arguments: whatever follows the fifth argument and its
  comma is ignored and the command is executed, while the commands with fewer arguments refuse a
  surplus one.
\<close>

theorem conparareq_surplus_ignored:
  assumes "length (''AT+CONPARAREQ='' @ join_comma (cmd_args (CmdConParaReq i mn mx la ti)) @ '','' @ rest) \<le> 159"
  shows "at_exec ops tx
           (''AT+CONPARAREQ='' @ join_comma (cmd_args (CmdConParaReq i mn mx la ti)) @ '','' @ rest) s =
         exec_command ops tx (CmdConParaReq i mn mx la ti) s"
proof -
  define as where "as = cmd_args (CmdConParaReq i mn mx la ti)"
  define line where "line = ''AT+CONPARAREQ='' @ join_comma as @ '','' @ rest"
  define k where "k = ''AT+CONPARAREQ=''"
  have line': "line = (k @ join_comma as) @ CHR '','' # rest" by (simp add: line_def k_def)
  have w: "trim_whitespace (snprintk 160 line) = k @ (join_comma as @ CHR '','' # rtrim rest)"
  proof -
    have "snprintk 160 line = line"
      using assms unfolding as_def [symmetric] line_def [symmetric] by (simp add: snprintk_fits)
    then show ?thesis
      using trim_comma [of "k @ join_comma as" rest] by (simp add: line' k_def c_isspace_def)
  qed
  have k: "map c_toupper k = ''AT+CONPARAREQ=''" "k \<noteq> []" by (simp_all add: k_def del: list.map)
  have "split_args (Some (join_comma as @ CHR '','' # rtrim rest)) MAX_ARGS = Some as"
    using split_args_prefix [of as "rtrim rest"]
    by (simp add: split_args_def MAX_ARGS_def as_def numeral_eq_Suc del: split_args_loop.simps)
  then have "cmd_conparareq ops tx (join_comma as @ CHR '','' # rtrim rest) s =
      reply tx (ops_set_conn_params ops i mn mx la ti s)"
    by (simp add: cmd_conparareq_def as_def parse_uint16_fmt_u8)
  then have "at_exec ops tx line s = (None, reply tx (ops_set_conn_params ops i mn mx la ti s))"
    using dispatch_args(8) [OF w k(2,1), of ops tx at_host_init s] by (intro at_exec_no_payload) simp
  then show ?thesis by (simp add: line_def as_def)
qed

theorem conparareq_surplus_ignored_witness:
  "at_exec echo_ops (Some echo_tx) ''AT+CONPARAREQ=0,6,9,0,400,7,x'' [] =
     exec_command echo_ops (Some echo_tx) (CmdConParaReq 0 6 9 0 400) []"
proof -
  have t: "''AT+CONPARAREQ='' @ join_comma (cmd_args (CmdConParaReq 0 6 9 0 400)) @ '','' @ ''7,x'' =
      ''AT+CONPARAREQ=0,6,9,0,400,7,x''" by code_simp
  have l: "length (''AT+CONPARAREQ='' @ join_comma (cmd_args (CmdConParaReq 0 6 9 0 400)) @ '','' @ ''7,x'') \<le> 159"
    by code_simp
  show ?thesis using conparareq_surplus_ignored [OF l, of echo_ops "Some echo_tx" "[]"] by (simp only: t)
qed

section \<open>Output buffers\<close>

lemma length_stream_stats_text: "length (stream_stats_text st) < 192"
proof -
  have u: "length (fmt_u (unat (w :: u32))) \<le> 10" for w by (rule fmt_u_u32)
  show ?thesis
    using u [of "bytes_host_to_ble st"] u [of "bytes_ble_to_host st"] u [of "write_ops st"]
      u [of "notify_ops st"] u [of "usb_backpressure_count st"] u [of "max_host_to_ble_depth st"]
      u [of "max_ble_to_host_depth st"] u [of "enter_data_mode_count st"]
      u [of "unexpected_disconnect_count st"]
    by (simp add: stream_stats_text_def)
qed

text \<open>
  The replies to the queries are never cut by their buffers: for every value of the counters,
  every profile whose UUIDs fit their 37-byte fields and every status whose address fits its field
  of 30 bytes, the text sent is the full formatted text.
\<close>

theorem query_replies_complete:
  assumes p: "ops_get_profile ops s = p" "length (service_uuid p) < BLE_HOST_UUID_STR_LEN"
      "length (notify_uuid p) < BLE_HOST_UUID_STR_LEN" "length (write_uuid p) < BLE_HOST_UUID_STR_LEN"
    and st: "ops_get_status ops s = status" "st_connected status" "length (st_mac status) < 30"
    and g: "ops_get_stream_stats ops = Some get"
  shows "handle_get_profile ops tx s =
           tx_line tx (''+OK='' @ join_comma [service_uuid p, notify_uuid p, write_uuid p]) s \<and>
         handle_get_mtu ops tx s = tx_line tx (''+OK='' @ dec (ops_get_mtu ops s)) s \<and>
         handle_get_stream_stats ops tx s = tx_line tx (stream_stats_text (get s)) s \<and>
         handle_get_status ops tx s =
           tx_line tx ''+OK=NUM,1''
             (tx_line tx (''0:'' @ join_comma [st_mac status, ''0'', ''1'', dec (st_data_len status)]) s)"
  using assms length_stream_stats_text [of "get s"] fmt_u_u16 [of "ops_get_mtu ops s"]
    fmt_u_u16 [of "st_data_len status"]
  by (simp add: handle_get_profile_def handle_get_mtu_def handle_get_stream_stats_def
      handle_get_status_def snprintk_fits BLE_HOST_UUID_STR_LEN_def)

text \<open>A backend that is connected and keeps statistics.\<close>

definition connected_ops :: "at_out list at_host_ops" where
  "connected_ops = echo_ops
     \<lparr> ops_get_profile := (\<lambda>_. \<lparr>service_uuid = ''0xFFF0'', notify_uuid = ''0xFFF1'', write_uuid = ''0xFFF2''\<rparr>),
       ops_get_status := (\<lambda>_. \<lparr>st_connected = True, st_ready = True, st_mac = ''E1:11:22:33:44:55'',
                             conn_count = 1, st_data_len = 244\<rparr>),
       ops_get_stream_stats := Some (\<lambda>_. \<lparr>bytes_host_to_ble = - 1, bytes_ble_to_host = - 1, write_ops = - 1,
         notify_ops = - 1, usb_backpressure_count = - 1, max_host_to_ble_depth = - 1,
         max_ble_to_host_depth = - 1, enter_data_mode_count = - 1, unexpected_disconnect_count = - 1\<rparr>) \<rparr>"

theorem query_replies_complete_witness:
  "handle_get_status connected_ops (Some echo_tx) [] =
     [OutLine ''0:E1:11:22:33:44:55,0,1,244'', OutLine ''+OK=NUM,1'']"
proof -
  let ?p = "\<lparr>service_uuid = ''0xFFF0'', notify_uuid = ''0xFFF1'', write_uuid = ''0xFFF2''\<rparr>"
  have p: "ops_get_profile connected_ops [] = ?p" "length (service_uuid ?p) < BLE_HOST_UUID_STR_LEN"
    "length (notify_uuid ?p) < BLE_HOST_UUID_STR_LEN" "length (write_uuid ?p) < BLE_HOST_UUID_STR_LEN"
    by (simp_all add: connected_ops_def BLE_HOST_UUID_STR_LEN_def)
  obtain status where st: "ops_get_status connected_ops [] = status" "st_connected status"
      "length (st_mac status) < 30" "st_mac status = ''E1:11:22:33:44:55''" "st_data_len status = 244"
    by (simp add: connected_ops_def)
  obtain get where g: "ops_get_stream_stats connected_ops = Some get"
    by (simp add: connected_ops_def)
  have "dec (244 :: u16) = ''244''" by code_simp
  then show ?thesis
    using query_replies_complete [OF p st(1-3) g, of "Some echo_tx"]
    by (simp add: st(4,5) echo_tx_def tx_line_def)
qed

text \<open>
  C17: A notification becomes a \<open>+IND=RECV\<close> line exactly when it has at most 256 bytes, all of
  them printable ASCII; the line then holds its length and all its bytes, and any other
  notification produces no output.
\<close>

theorem receive_indication:
  "at_host_notify_receive tx (Some bs) s =
     (if length bs \<le> 256 \<and> list_all (\<lambda>b. 0x20 \<le> b \<and> b \<le> 0x7e) bs
      then tx_line tx (''+IND=RECV,0,'' @ fmt_u (length bs) @ '','' @ chars_of bs) s else s)"
proof -
  have pr: "printable_loop bs \<longleftrightarrow> list_all (\<lambda>b. 0x20 \<le> b \<and> b \<le> 0x7e) bs"
    by (induction bs) (auto simp: not_less)
  have "length bs \<le> 256 \<Longrightarrow> length (fmt_u (length bs)) \<le> 3"
    using length_fmt_u [of "length bs" 2] by simp
  moreover have "cstr (chars_of bs) = chars_of bs" if "printable_loop bs"
  proof (rule cstr_no_NUL, rule notI)
    assume "NUL \<in> set (chars_of bs)"
    then obtain b where "b \<in> set bs" "char_of_u8 b = NUL" by (auto simp: chars_of_def)
    moreover have "u8_of_char NUL = 0" by code_simp
    ultimately have "0 \<in> set bs" by (metis u8_of_char_of_u8)
    with that pr show False by (auto simp: list_all_iff)
  qed
  ultimately show ?thesis
    by (auto simp: at_host_notify_receive_def ble_host_is_printable_ascii_def pr
        BLE_HOST_SEND_MAX_LEN_def snprintk_fits)
qed

end
