(* ===== verification/Profile_Manager.thy ===== *)
theory Profile_Manager
  imports Settings
begin

text \<open>
  The model of \<open>profile_manager.c\<close>: the GATT client that discovers the active profile on a
  connection, subscribes to its notify characteristic and writes to its write characteristic.

  The memory of the firmware is a record that the application extends: the configuration object of
  \<open>settings.c\<close>, the static \<open>g_state\<close> of \<open>profile_manager.c\<close> and the world behind the
  system calls.  The Bluetooth stack is the parameter \<open>gatt_api\<close>.  Its functions start a
  procedure and return; the handlers it calls later are definitions of their own.  The callback
  table given to \<open>profile_manager_init\<close> is an argument of the definitions, an option because the
  code compares it with NULL.
\<close>

section \<open>Data\<close>

text \<open>A connection object is known by its address.\<close>

type_synonym bt_conn = nat

text \<open>The functions of \<open>profile_manager.c\<close> that are handed to the stack as pointers.\<close>

datatype gatt_handler =
    NotifyHandler | SubscribeHandler | CharacteristicDiscoverCb | ServiceDiscoverCb
  | ExchangeHandler | WriteHandler

text \<open>The only configuration object and the only data buffer whose addresses are taken.\<close>

datatype config_ptr = G_CONFIG

datatype data_ptr = PENDING_WRITE

datatype disc_ptr = CCC_DISCOVER_PARAMS

record discover_params =
  dp_func :: "gatt_handler option"
  dp_start_handle :: u16
  dp_end_handle :: u16
  dp_type :: u8

record subscribe_params =
  sp_notify :: "gatt_handler option"
  sp_subscribe :: "gatt_handler option"
  sp_value_handle :: u16
  sp_ccc_handle :: u16
  sp_end_handle :: u16
  sp_disc_params :: "disc_ptr option"
  sp_value :: u16

record exchange_params =
  xp_func :: "gatt_handler option"

record write_params =
  wp_func :: "gatt_handler option"
  wp_handle :: u16
  wp_offset :: u16
  wp_data :: "data_ptr option"
  wp_length :: nat

text \<open>What \<open>memset\<close> with zero leaves in them.\<close>

definition discover_params_0 :: discover_params where
  "discover_params_0 = \<lparr> dp_func = None, dp_start_handle = 0, dp_end_handle = 0, dp_type = 0 \<rparr>"

definition subscribe_params_0 :: subscribe_params where
  "subscribe_params_0 = \<lparr> sp_notify = None, sp_subscribe = None, sp_value_handle = 0,
     sp_ccc_handle = 0, sp_end_handle = 0, sp_disc_params = None, sp_value = 0 \<rparr>"

definition exchange_params_0 :: exchange_params where
  "exchange_params_0 = \<lparr> xp_func = None \<rparr>"

definition write_params_0 :: write_params where
  "write_params_0 = \<lparr> wp_func = None, wp_handle = 0, wp_offset = 0, wp_data = None, wp_length = 0 \<rparr>"

text \<open>Constants of the Bluetooth API.\<close>

definition BT_ATT_FIRST_ATTRIBUTE_HANDLE :: u16 where "BT_ATT_FIRST_ATTRIBUTE_HANDLE = 1"
definition BT_ATT_LAST_ATTRIBUTE_HANDLE :: u16 where "BT_ATT_LAST_ATTRIBUTE_HANDLE = 0xffff"
definition BT_GATT_DISCOVER_PRIMARY :: u8 where "BT_GATT_DISCOVER_PRIMARY = 0"
definition BT_GATT_DISCOVER_CHARACTERISTIC :: u8 where "BT_GATT_DISCOVER_CHARACTERISTIC = 3"
definition BT_GATT_AUTO_DISCOVER_CCC_HANDLE :: u16 where "BT_GATT_AUTO_DISCOVER_CCC_HANDLE = 0"
definition BT_GATT_CCC_NOTIFY :: u16 where "BT_GATT_CCC_NOTIFY = 1"
definition BT_GATT_CHRC_WRITE_WITHOUT_RESP :: u8 where "BT_GATT_CHRC_WRITE_WITHOUT_RESP = 4"
definition BT_GATT_CHRC_WRITE :: u8 where "BT_GATT_CHRC_WRITE = 8"
definition BT_GATT_ITER_STOP :: u8 where "BT_GATT_ITER_STOP = 0"
definition BT_GATT_ITER_CONTINUE :: u8 where "BT_GATT_ITER_CONTINUE = 1"

text \<open>The attributes passed to the discovery handlers, with what \<open>user_data\<close> points to.\<close>

record 'u service_attr =
  sa_handle :: u16
  sa_uuid :: 'u
  sa_end_handle :: u16

record 'u chrc_attr =
  ca_uuid :: 'u
  ca_value_handle :: u16
  ca_properties :: u8

datatype profile_manager_error =
    PROFILE_MANAGER_ERROR_SERVICE_MISSING | PROFILE_MANAGER_ERROR_NOTIFY_MISSING
  | PROFILE_MANAGER_ERROR_WRITE_MISSING | PROFILE_MANAGER_ERROR_DISCOVER_FAILED
  | PROFILE_MANAGER_ERROR_SUBSCRIBE_FAILED | PROFILE_MANAGER_ERROR_WRITE_FAILED

record 's profile_manager_callbacks =
  cb_ready :: "('s \<Rightarrow> 's) option"
  cb_payload_received :: "(u8 list \<Rightarrow> 's \<Rightarrow> 's) option"
  cb_mtu_updated :: "(u16 \<Rightarrow> 's \<Rightarrow> 's) option"
  cb_error :: "(profile_manager_error \<Rightarrow> 's \<Rightarrow> 's) option"

section \<open>State\<close>

record pm_state =
  pm_config :: "config_ptr option"
  pm_conn :: "bt_conn option"
  service_discover_params :: discover_params
  characteristic_discover_params :: discover_params
  ccc_discover_params :: discover_params
  pm_subscribe_params :: subscribe_params
  pm_exchange_params :: exchange_params
  pm_write_params :: write_params
  service_start_handle :: u16
  service_end_handle :: u16
  notify_value_handle :: u16
  write_value_handle :: u16
  write_properties :: u8
  pm_ready :: bool
  service_found :: bool
  notify_found :: bool
  write_found :: bool
  exchange_in_progress :: bool
  write_in_progress :: bool
  payload_len :: u16
  pending_write :: "u8 list"
  pending_write_len :: nat

definition pm_state_0 :: pm_state where
  "pm_state_0 =
     \<lparr> pm_config = None, pm_conn = None,
       service_discover_params = discover_params_0,
       characteristic_discover_params = discover_params_0,
       ccc_discover_params = discover_params_0, pm_subscribe_params = subscribe_params_0,
       pm_exchange_params = exchange_params_0, pm_write_params = write_params_0,
       service_start_handle = 0, service_end_handle = 0, notify_value_handle = 0,
       write_value_handle = 0, write_properties = 0, pm_ready = False, service_found = False,
       notify_found = False, write_found = False, exchange_in_progress = False,
       write_in_progress = False, payload_len = 0,
       pending_write = replicate BLE_HOST_SEND_MAX_LEN 0, pending_write_len = 0 \<rparr>"

record 'w mem =
  world :: 'w
  g_config :: ble_host_config
  g_state :: pm_state

text \<open>
  The stack.  A connection pointer the code does not check is an option.  A write request passes
  the parameters and the bytes its data pointer and length denote at that moment.
\<close>

record ('u, 'w) gatt_api =
  bt_gatt_get_mtu :: "bt_conn \<Rightarrow> 'w \<Rightarrow> u16"
  bt_gatt_discover :: "bt_conn option \<Rightarrow> discover_params \<Rightarrow> 'w \<Rightarrow> rc \<times> 'w"
  bt_gatt_subscribe :: "bt_conn option \<Rightarrow> subscribe_params \<Rightarrow> 'w \<Rightarrow> rc \<times> 'w"
  bt_gatt_unsubscribe :: "bt_conn \<Rightarrow> subscribe_params \<Rightarrow> 'w \<Rightarrow> rc \<times> 'w"
  bt_gatt_exchange_mtu :: "bt_conn \<Rightarrow> exchange_params \<Rightarrow> 'w \<Rightarrow> rc \<times> 'w"
  bt_gatt_write :: "bt_conn \<Rightarrow> write_params \<Rightarrow> u8 list \<Rightarrow> 'w \<Rightarrow> rc \<times> 'w"
  bt_gatt_write_without_response :: "bt_conn \<Rightarrow> u16 \<Rightarrow> u8 list \<Rightarrow> bool \<Rightarrow> 'w \<Rightarrow> rc \<times> 'w"
  bt_conn_le_data_len_update :: "bt_conn \<Rightarrow> 'w \<Rightarrow> rc \<times> 'w"
  bt_conn_le_phy_update :: "bt_conn \<Rightarrow> 'w \<Rightarrow> rc \<times> 'w"
  bt_uuid_to_str :: "'u \<Rightarrow> nat \<Rightarrow> string"
  CONFIG_BT_USER_DATA_LEN_UPDATE :: bool
  CONFIG_BT_USER_PHY_UPDATE :: bool

type_synonym ('w, 'a) callbacks = "('w, 'a) mem_scheme profile_manager_callbacks option"

abbreviation pm_upd :: "(pm_state \<Rightarrow> pm_state) \<Rightarrow> ('w, 'a) mem_scheme \<Rightarrow> ('w, 'a) mem_scheme" where
  "pm_upd \<equiv> g_state_update"

text \<open>A call of the stack: it changes the world only.\<close>

definition sys_call :: "('w \<Rightarrow> rc \<times> 'w) \<Rightarrow> ('w, 'a) mem_scheme \<Rightarrow> rc \<times> ('w, 'a) mem_scheme" where
  "sys_call f s = (let (rc, w) = f (world s) in (rc, s\<lparr>world := w\<rparr>))"

text \<open>The object behind the configuration pointer.\<close>

fun deref_config :: "config_ptr \<Rightarrow> ('w, 'a) mem_scheme \<Rightarrow> ble_host_config" where
  "deref_config G_CONFIG s = g_config s"

section \<open>Helpers\<close>

definition report_error ::
  "('w, 'a) callbacks \<Rightarrow> profile_manager_error \<Rightarrow> ('w, 'a) mem_scheme \<Rightarrow> ('w, 'a) mem_scheme" where
  "report_error cbs e s =
     (case cbs of None \<Rightarrow> s | Some t \<Rightarrow> (case cb_error t of None \<Rightarrow> s | Some f \<Rightarrow> f e s))"

definition call_ready :: "('w, 'a) callbacks \<Rightarrow> ('w, 'a) mem_scheme \<Rightarrow> ('w, 'a) mem_scheme" where
  "call_ready cbs s =
     (case cbs of None \<Rightarrow> s | Some t \<Rightarrow> (case cb_ready t of None \<Rightarrow> s | Some f \<Rightarrow> f s))"

definition call_mtu_updated :: "('w, 'a) callbacks \<Rightarrow> ('w, 'a) mem_scheme \<Rightarrow> ('w, 'a) mem_scheme" where
  "call_mtu_updated cbs s =
     (case cbs of
        None \<Rightarrow> s
      | Some t \<Rightarrow> (case cb_mtu_updated t of None \<Rightarrow> s | Some f \<Rightarrow> f (payload_len (g_state s)) s))"

definition update_payload_len :: "('u, 'w) gatt_api \<Rightarrow> ('w, 'a) mem_scheme \<Rightarrow> ('w, 'a) mem_scheme" where
  "update_payload_len api s =
     (let att_mtu = (case pm_conn (g_state s) of None \<Rightarrow> 23 | Some c \<Rightarrow> bt_gatt_get_mtu api c (world s));
          preferred = (case pm_config (g_state s) of None \<Rightarrow> 23 | Some p \<Rightarrow> cfg_mtu (deref_config p s));
          preferred = (if preferred < 23 then 23 else preferred);
          att_mtu = min att_mtu preferred
      in pm_upd (\<lambda>p. p\<lparr>payload_len := (if 3 < att_mtu then att_mtu - 3 else 20)\<rparr>) s)"

section \<open>Handlers of the stack\<close>

definition notify_handler ::
  "('w, 'a) callbacks \<Rightarrow> u8 list option \<Rightarrow> ('w, 'a) mem_scheme \<Rightarrow> u8 \<times> ('w, 'a) mem_scheme" where
  "notify_handler cbs data s =
     (case data of
        None \<Rightarrow> (BT_GATT_ITER_STOP, pm_upd (\<lambda>p. p\<lparr>pm_ready := False\<rparr>) s)
      | Some d \<Rightarrow>
          (BT_GATT_ITER_CONTINUE,
           case cbs of None \<Rightarrow> s | Some t \<Rightarrow> (case cb_payload_received t of None \<Rightarrow> s | Some f \<Rightarrow> f d s)))"

definition subscribe_handler ::
  "('w, 'a) callbacks \<Rightarrow> u8 \<Rightarrow> ('w, 'a) mem_scheme \<Rightarrow> ('w, 'a) mem_scheme" where
  "subscribe_handler cbs err s =
     (if err \<noteq> 0 then
        report_error cbs PROFILE_MANAGER_ERROR_SUBSCRIBE_FAILED (pm_upd (\<lambda>p. p\<lparr>pm_ready := False\<rparr>) s)
      else call_ready cbs (pm_upd (\<lambda>p. p\<lparr>pm_ready := True\<rparr>) s))"

definition subscribe_notify_characteristic ::
  "('u, 'w) gatt_api \<Rightarrow> ('w, 'a) callbacks \<Rightarrow> ('w, 'a) mem_scheme \<Rightarrow> rc \<times> ('w, 'a) mem_scheme" where
  "subscribe_notify_characteristic api cbs s =
     (let p = g_state s;
          sp = subscribe_params_0\<lparr> sp_value_handle := notify_value_handle p,
                 sp_ccc_handle := BT_GATT_AUTO_DISCOVER_CCC_HANDLE,
                 sp_end_handle := service_end_handle p, sp_disc_params := Some CCC_DISCOVER_PARAMS,
                 sp_value := BT_GATT_CCC_NOTIFY, sp_notify := Some NotifyHandler,
                 sp_subscribe := Some SubscribeHandler \<rparr>;
          s1 = pm_upd (\<lambda>p. p\<lparr>pm_subscribe_params := sp\<rparr>) s;
          (err, s2) = sys_call (bt_gatt_subscribe api (pm_conn p) sp) s1
      in if err \<noteq> RC_OK then (err, report_error cbs PROFILE_MANAGER_ERROR_SUBSCRIBE_FAILED s2)
         else (RC_OK, s2))"

text \<open>
  The discovery handlers read the configuration through \<open>g_state.config\<close> without a check: the
  result \<open>None\<close> is the access through a null pointer.
\<close>

definition profile_text ::
  "(ble_profile \<Rightarrow> string) \<Rightarrow> ('w, 'a) mem_scheme \<Rightarrow> string option" where
  "profile_text field s =
     map_option (\<lambda>p. field (active_profile (deref_config p s))) (pm_config (g_state s))"

definition characteristic_discover_cb ::
  "('u, 'w) gatt_api \<Rightarrow> ('w, 'a) callbacks \<Rightarrow> 'u chrc_attr option \<Rightarrow> discover_params \<Rightarrow>
     ('w, 'a) mem_scheme \<Rightarrow> (u8 \<times> ('w, 'a) mem_scheme) option" where
  "characteristic_discover_cb api cbs attr params s =
     (case attr of
        None \<Rightarrow> Some (BT_GATT_ITER_STOP,
          if \<not> notify_found (g_state s) then report_error cbs PROFILE_MANAGER_ERROR_NOTIFY_MISSING s
          else if \<not> write_found (g_state s) then report_error cbs PROFILE_MANAGER_ERROR_WRITE_MISSING s
          else if (case pm_config (g_state s) of None \<Rightarrow> False | Some p \<Rightarrow> auto_subscribe (deref_config p s))
          then snd (subscribe_notify_characteristic api cbs s)
          else call_ready cbs (pm_upd (\<lambda>p. p\<lparr>pm_ready := True\<rparr>) s))
      | Some chrc \<Rightarrow>
          if dp_type params \<noteq> BT_GATT_DISCOVER_CHARACTERISTIC then
            Some (BT_GATT_ITER_STOP, report_error cbs PROFILE_MANAGER_ERROR_DISCOVER_FAILED s)
          else
            let uuid_text = ble_host_format_uuid_from_bt (bt_uuid_to_str api) (Some (ca_uuid chrc))
                              BLE_HOST_UUID_STR_LEN;
                step1 =
                  (if notify_found (g_state s) then Some s
                   else case profile_text notify_uuid s of
                          None \<Rightarrow> None
                        | Some u \<Rightarrow>
                            Some (if ble_host_uuid_equals uuid_text (Some u)
                                  then pm_upd (\<lambda>p. p\<lparr>notify_found := True,
                                                      notify_value_handle := ca_value_handle chrc\<rparr>) s
                                  else s))
            in case step1 of
                 None \<Rightarrow> None
               | Some s1 \<Rightarrow>
                   if write_found (g_state s1) then Some (BT_GATT_ITER_CONTINUE, s1)
                   else case profile_text write_uuid s1 of
                          None \<Rightarrow> None
                        | Some u \<Rightarrow>
                            Some (BT_GATT_ITER_CONTINUE,
                                  if ble_host_uuid_equals uuid_text (Some u)
                                  then pm_upd (\<lambda>p. p\<lparr>write_found := True,
                                                      write_value_handle := ca_value_handle chrc,
                                                      write_properties := ca_properties chrc\<rparr>) s1
                                  else s1))"

definition start_characteristic_discovery ::
  "('u, 'w) gatt_api \<Rightarrow> ('w, 'a) callbacks \<Rightarrow> ('w, 'a) mem_scheme \<Rightarrow> rc \<times> ('w, 'a) mem_scheme" where
  "start_characteristic_discovery api cbs s =
     (let p = g_state s;
          dp = discover_params_0\<lparr> dp_func := Some CharacteristicDiscoverCb,
                 dp_start_handle := service_start_handle p, dp_end_handle := service_end_handle p,
                 dp_type := BT_GATT_DISCOVER_CHARACTERISTIC \<rparr>;
          s1 = pm_upd (\<lambda>p. p\<lparr>characteristic_discover_params := dp\<rparr>) s;
          (err, s2) = sys_call (bt_gatt_discover api (pm_conn p) dp) s1
      in (err, if err \<noteq> RC_OK then report_error cbs PROFILE_MANAGER_ERROR_DISCOVER_FAILED s2 else s2))"

definition service_discover_cb ::
  "('u, 'w) gatt_api \<Rightarrow> ('w, 'a) callbacks \<Rightarrow> 'u service_attr option \<Rightarrow> discover_params \<Rightarrow>
     ('w, 'a) mem_scheme \<Rightarrow> (u8 \<times> ('w, 'a) mem_scheme) option" where
  "service_discover_cb api cbs attr params s =
     (case attr of
        None \<Rightarrow> Some (BT_GATT_ITER_STOP,
          if \<not> service_found (g_state s) then report_error cbs PROFILE_MANAGER_ERROR_SERVICE_MISSING s
          else snd (start_characteristic_discovery api cbs s))
      | Some service \<Rightarrow>
          if dp_type params \<noteq> BT_GATT_DISCOVER_PRIMARY then
            Some (BT_GATT_ITER_STOP, report_error cbs PROFILE_MANAGER_ERROR_DISCOVER_FAILED s)
          else
            let uuid_text = ble_host_format_uuid_from_bt (bt_uuid_to_str api) (Some (sa_uuid service))
                              BLE_HOST_UUID_STR_LEN
            in case profile_text service_uuid s of
                 None \<Rightarrow> None
               | Some u \<Rightarrow>
                   Some (BT_GATT_ITER_CONTINUE,
                         if ble_host_uuid_equals uuid_text (Some u)
                         then pm_upd (\<lambda>p. p\<lparr>service_found := True,
                                             service_start_handle := sa_handle service,
                                             service_end_handle := sa_end_handle service\<rparr>) s
                         else s))"

text \<open>
  \<open>params\<close> is asserted to be the address of \<open>g_state.exchange_params\<close>, which the handler clears.
\<close>

definition exchange_handler ::
  "('u, 'w) gatt_api \<Rightarrow> ('w, 'a) callbacks \<Rightarrow> u8 \<Rightarrow> ('w, 'a) mem_scheme \<Rightarrow> ('w, 'a) mem_scheme" where
  "exchange_handler api cbs err s =
     (let s1 = pm_upd (\<lambda>p. p\<lparr>exchange_in_progress := False\<rparr>) s;
          s2 = (if err = 0 then call_mtu_updated cbs (update_payload_len api s1) else s1)
      in pm_upd (\<lambda>p. p\<lparr>pm_exchange_params := exchange_params_0\<rparr>) s2)"

definition write_handler ::
  "('w, 'a) callbacks \<Rightarrow> u8 \<Rightarrow> ('w, 'a) mem_scheme \<Rightarrow> ('w, 'a) mem_scheme" where
  "write_handler cbs err s =
     (let s1 = pm_upd (\<lambda>p. p\<lparr>write_in_progress := False\<rparr>) s
      in if err \<noteq> 0 then report_error cbs PROFILE_MANAGER_ERROR_WRITE_FAILED s1 else s1)"

section \<open>Operations\<close>

definition profile_manager_init ::
  "('u, 'w) gatt_api \<Rightarrow> config_ptr option \<Rightarrow> ('w, 'a) mem_scheme \<Rightarrow> ('w, 'a) mem_scheme" where
  "profile_manager_init api config s =
     update_payload_len api (pm_upd (\<lambda>_. pm_state_0\<lparr>pm_config := config\<rparr>) s)"

definition profile_manager_set_config ::
  "('u, 'w) gatt_api \<Rightarrow> config_ptr option \<Rightarrow> ('w, 'a) mem_scheme \<Rightarrow> ('w, 'a) mem_scheme" where
  "profile_manager_set_config api config s =
     update_payload_len api (pm_upd (\<lambda>p. p\<lparr>pm_config := config\<rparr>) s)"

text \<open>The assignments of \<open>profile_manager_reset\<close> to \<open>g_state\<close>.\<close>

definition pm_clear :: "pm_state \<Rightarrow> pm_state" where
  "pm_clear p =
     p\<lparr> service_discover_params := discover_params_0,
        characteristic_discover_params := discover_params_0,
        ccc_discover_params := discover_params_0, pm_subscribe_params := subscribe_params_0,
        pm_exchange_params := exchange_params_0, pm_write_params := write_params_0,
        service_start_handle := 0, service_end_handle := 0, notify_value_handle := 0,
        write_value_handle := 0, write_properties := 0, pm_ready := False, service_found := False,
        notify_found := False, write_found := False, exchange_in_progress := False,
        write_in_progress := False, pending_write_len := 0 \<rparr>"

definition profile_manager_reset ::
  "('u, 'w) gatt_api \<Rightarrow> ('w, 'a) mem_scheme \<Rightarrow> ('w, 'a) mem_scheme" where
  "profile_manager_reset api s =
     (let s1 = (case pm_conn (g_state s) of
                  None \<Rightarrow> s
                | Some c \<Rightarrow> snd (sys_call (bt_gatt_unsubscribe api c (pm_subscribe_params (g_state s))) s))
      in update_payload_len api (pm_upd pm_clear s1))"

definition profile_manager_start ::
  "('u, 'w) gatt_api \<Rightarrow> ('w, 'a) callbacks \<Rightarrow> bt_conn option \<Rightarrow> ('w, 'a) mem_scheme \<Rightarrow>
     rc \<times> ('w, 'a) mem_scheme" where
  "profile_manager_start api cbs conn s =
     (if conn = None \<or> pm_config (g_state s) = None then (RC_ERR EINVAL, s)
      else
        let s1 = profile_manager_reset api s;
            s2 = update_payload_len api (pm_upd (\<lambda>p. p\<lparr>pm_conn := conn\<rparr>) s1);
            dp = discover_params_0\<lparr> dp_func := Some ServiceDiscoverCb,
                   dp_start_handle := BT_ATT_FIRST_ATTRIBUTE_HANDLE,
                   dp_end_handle := BT_ATT_LAST_ATTRIBUTE_HANDLE,
                   dp_type := BT_GATT_DISCOVER_PRIMARY \<rparr>;
            s3 = pm_upd (\<lambda>p. p\<lparr>service_discover_params := dp\<rparr>) s2;
            (err, s4) = sys_call (bt_gatt_discover api (pm_conn (g_state s3)) dp) s3
        in (err, if err \<noteq> RC_OK then report_error cbs PROFILE_MANAGER_ERROR_DISCOVER_FAILED s4 else s4))"

definition profile_manager_handle_disconnected ::
  "('u, 'w) gatt_api \<Rightarrow> bt_conn option \<Rightarrow> ('w, 'a) mem_scheme \<Rightarrow> ('w, 'a) mem_scheme" where
  "profile_manager_handle_disconnected api conn s =
     (if pm_conn (g_state s) = conn
      then pm_upd (\<lambda>p. p\<lparr>pm_conn := None\<rparr>) (profile_manager_reset api s)
      else s)"

definition profile_manager_request_mtu ::
  "('u, 'w) gatt_api \<Rightarrow> ('w, 'a) callbacks \<Rightarrow> ('w, 'a) mem_scheme \<Rightarrow> rc \<times> ('w, 'a) mem_scheme" where
  "profile_manager_request_mtu api cbs s =
     (case pm_conn (g_state s) of
        None \<Rightarrow> (RC_ERR ENOTCONN, s)
      | Some c \<Rightarrow>
          if exchange_in_progress (g_state s) then (RC_ERR EBUSY, s)
          else
            let s1 = pm_upd (\<lambda>p. p\<lparr>pm_exchange_params := (pm_exchange_params p)\<lparr>xp_func := Some ExchangeHandler\<rparr>,
                                    exchange_in_progress := True\<rparr>) s;
                (err, s2) = sys_call (bt_gatt_exchange_mtu api c (pm_exchange_params (g_state s1))) s1;
                s3 = pm_upd (\<lambda>p. p\<lparr>exchange_in_progress := False, pm_exchange_params := exchange_params_0\<rparr>) s2
            in if err = RC_ERR EALREADY then (RC_OK, call_mtu_updated cbs (update_payload_len api s3))
               else if err \<noteq> RC_OK then (err, s3)
               else (RC_OK, s2))"

definition profile_manager_request_data_len ::
  "('u, 'w) gatt_api \<Rightarrow> ('w, 'a) mem_scheme \<Rightarrow> rc \<times> ('w, 'a) mem_scheme" where
  "profile_manager_request_data_len api s =
     (case pm_conn (g_state s) of
        None \<Rightarrow> (RC_ERR ENOTCONN, s)
      | Some c \<Rightarrow>
          if \<not> CONFIG_BT_USER_DATA_LEN_UPDATE api then (RC_ERR ENOTSUP, s)
          else sys_call (bt_conn_le_data_len_update api c) s)"

definition profile_manager_request_phy ::
  "('u, 'w) gatt_api \<Rightarrow> ('w, 'a) mem_scheme \<Rightarrow> rc \<times> ('w, 'a) mem_scheme" where
  "profile_manager_request_phy api s =
     (case pm_conn (g_state s) of
        None \<Rightarrow> (RC_ERR ENOTCONN, s)
      | Some c \<Rightarrow>
          if \<not> CONFIG_BT_USER_PHY_UPDATE api then (RC_ERR ENOTSUP, s)
          else sys_call (bt_conn_le_phy_update api c) s)"

text \<open>\<open>memcpy\<close> to the front of a buffer.\<close>

definition copy_front :: "u8 list \<Rightarrow> u8 list \<Rightarrow> u8 list" where
  "copy_front data buf = data @ drop (length data) buf"

definition profile_manager_send ::
  "('u, 'w) gatt_api \<Rightarrow> u8 list \<Rightarrow> ('w, 'a) mem_scheme \<Rightarrow> rc \<times> ('w, 'a) mem_scheme" where
  "profile_manager_send api data s =
     (let p = g_state s; len = length data
      in case pm_conn p of
           None \<Rightarrow> (RC_ERR ENOTCONN, s)
         | Some c \<Rightarrow>
             if \<not> pm_ready p \<or> \<not> write_found p \<or> write_value_handle p = 0 then (RC_ERR EAGAIN, s)
             else if len = 0 \<or> BLE_HOST_SEND_MAX_LEN < len \<or> unat (payload_len p) < len
             then (RC_ERR EMSGSIZE, s)
             else if and (write_properties p) BT_GATT_CHRC_WRITE_WITHOUT_RESP \<noteq> 0 then
               sys_call (bt_gatt_write_without_response api c (write_value_handle p) data False) s
             else if and (write_properties p) BT_GATT_CHRC_WRITE = 0 \<or> write_in_progress p then
               (RC_ERR EACCES, s)
             else
               let wp = write_params_0\<lparr> wp_func := Some WriteHandler, wp_handle := write_value_handle p,
                          wp_offset := 0, wp_data := Some PENDING_WRITE, wp_length := len \<rparr>;
                   s1 = pm_upd (\<lambda>p. p\<lparr>pending_write := copy_front data (pending_write p),
                                       pending_write_len := len, pm_write_params := wp,
                                       write_in_progress := True\<rparr>) s;
                   (err, s2) = sys_call (bt_gatt_write api c wp
                                 (take (wp_length wp) (pending_write (g_state s1)))) s1
               in if err \<noteq> RC_OK then (err, pm_upd (\<lambda>p. p\<lparr>write_in_progress := False\<rparr>) s2)
                  else (err, s2))"

definition profile_manager_is_ready :: "('w, 'a) mem_scheme \<Rightarrow> bool" where
  "profile_manager_is_ready s = pm_ready (g_state s)"

definition profile_manager_can_enter_data_mode :: "('w, 'a) mem_scheme \<Rightarrow> bool" where
  "profile_manager_can_enter_data_mode s =
     (let p = g_state s
      in pm_ready p \<and> write_found p \<and> write_value_handle p \<noteq> 0 \<and>
         and (write_properties p) BT_GATT_CHRC_WRITE_WITHOUT_RESP \<noteq> 0)"

definition profile_manager_get_payload_len :: "('w, 'a) mem_scheme \<Rightarrow> u16" where
  "profile_manager_get_payload_len s = payload_len (g_state s)"

end
