(* ===== verification/Pm_Lemmas.thy ===== *)
theory Pm_Lemmas
  imports Profile_Manager
begin

text \<open>
  What the operations and handlers of the profile manager do: which part of the memory each
  changes, the payload length, the invariant of \<open>g_state\<close>, and the contract of the callbacks as
  the locale \<open>profile_client\<close>.  The step relation \<open>pm_step\<close> is the interface between the
  application and the stack, one step for each call of either side.
\<close>

section \<open>The payload length\<close>

lemma pm_upd_set: "pm_upd f s = s\<lparr>g_state := f (g_state s)\<rparr>"
  by (cases s) simp

text \<open>The specification over natural numbers: the ATT MTU, the configured MTU.\<close>

definition payload_limit :: "nat \<Rightarrow> nat \<Rightarrow> nat" where
  "payload_limit att_mtu preferred =
     (let m = min att_mtu (max 23 preferred) in if 3 < m then m - 3 else 20)"

lemma payload_limit_bounds:
  "1 \<le> payload_limit a p" "payload_limit a p + 3 \<le> max 23 p"
  "3 < a \<Longrightarrow> payload_limit a p + 3 \<le> a"
  by (auto simp: payload_limit_def Let_def)

definition pm_att_mtu :: "('u, 'w) gatt_api \<Rightarrow> ('w, 'a) mem_scheme \<Rightarrow> u16" where
  "pm_att_mtu api s =
     (case pm_conn (g_state s) of None \<Rightarrow> 23 | Some c \<Rightarrow> bt_gatt_get_mtu api c (world s))"

definition pm_preferred :: "('w, 'a) mem_scheme \<Rightarrow> u16" where
  "pm_preferred s = (case pm_config (g_state s) of None \<Rightarrow> 23 | Some p \<Rightarrow> cfg_mtu (deref_config p s))"

lemma update_payload_len_eq:
  "update_payload_len api s =
     s\<lparr>g_state := (g_state s)
        \<lparr>payload_len := word_of_nat (payload_limit (unat (pm_att_mtu api s)) (unat (pm_preferred s)))\<rparr>\<rparr>"
proof -
  define a where "a = pm_att_mtu api s"
  define p where "p = pm_preferred s"
  define q where "q = min a (if p < 23 then 23 else p)"
  have m: "unat q = min (unat a) (max 23 (unat p))"
    by (auto simp: q_def min_def max_def word_le_nat_alt word_less_nat_alt)
  have "(if 3 < q then q - 3 else 20) = word_of_nat (payload_limit (unat a) (unat p))"
  proof (cases "3 < q")
    case True
    then have "3 < unat q" by (simp add: word_less_nat_alt)
    then have "(word_of_nat (unat q - 3) :: u16) = word_of_nat (unat q) - word_of_nat 3"
      by (intro of_nat_diff) simp
    then show ?thesis using True \<open>3 < unat q\<close> by (simp add: payload_limit_def m [symmetric] Let_def)
  next
    case False
    then have "\<not> 3 < unat q" by (simp add: word_less_nat_alt)
    then show ?thesis using False by (simp only: payload_limit_def m [symmetric] Let_def if_False) simp
  qed
  moreover have "update_payload_len api s = pm_upd (\<lambda>g. g\<lparr>payload_len := (if 3 < q then q - 3 else 20)\<rparr>) s"
    by (simp only: update_payload_len_def Let_def pm_att_mtu_def [symmetric] pm_preferred_def [symmetric]
        a_def [symmetric] p_def [symmetric] q_def [symmetric])
  ultimately have "update_payload_len api s =
      pm_upd (\<lambda>g. g\<lparr>payload_len := word_of_nat (payload_limit (unat a) (unat p))\<rparr>) s"
    by (simp only:)
  also have "\<dots> = s\<lparr>g_state := (g_state s)\<lparr>payload_len := word_of_nat (payload_limit (unat a) (unat p))\<rparr>\<rparr>"
    by (rule pm_upd_set)
  finally show ?thesis by (simp only: a_def p_def)
qed

lemma payload_limit_16: "payload_limit (unat (a :: u16)) (unat (p :: u16)) < 65536"
proof -
  have "payload_limit (unat a) (unat p) + 3 \<le> max 23 (unat p)" by (rule payload_limit_bounds)
  then show ?thesis using unat_lt [of p] by simp
qed

lemma unat_payload_limit:
  "unat (word_of_nat (payload_limit (unat (a :: u16)) (unat (p :: u16))) :: u16) =
     payload_limit (unat a) (unat p)"
  using payload_limit_16 [of a p] by (simp add: unat_of_nat)

section \<open>Frames\<close>

lemma sys_call_frame [sys_frame, simp]:
  "g_state (snd (sys_call f s)) = g_state s" "g_config (snd (sys_call f s)) = g_config s"
  "mem.more (snd (sys_call f s)) = mem.more s"
  by (simp_all add: sys_call_def Let_def split: prod.split)

lemma sys_call_world: "sys_call f s = (fst (f (world s)), s\<lparr>world := snd (f (world s))\<rparr>)"
  by (simp add: sys_call_def split: prod.split)

lemma update_payload_len_frame [sys_frame, simp]:
  "g_config (update_payload_len api s) = g_config s" "world (update_payload_len api s) = world s"
  "mem.more (update_payload_len api s) = mem.more s"
  by (simp_all add: update_payload_len_eq)

lemma update_payload_len_state [simp]:
  "g_state (update_payload_len api s) = (g_state s)
     \<lparr>payload_len := word_of_nat (payload_limit (unat (pm_att_mtu api s)) (unat (pm_preferred s)))\<rparr>"
  by (simp add: update_payload_len_eq)

section \<open>The invariant of the static state\<close>

text \<open>
  A write request that the stack still holds: its parameters point to the pending buffer, with a
  length that the buffer has.
\<close>

definition write_in_flight :: "pm_state \<Rightarrow> bool" where
  "write_in_flight p \<longleftrightarrow>
     wp_func (pm_write_params p) = Some WriteHandler \<and> wp_data (pm_write_params p) = Some PENDING_WRITE \<and>
     wp_length (pm_write_params p) = pending_write_len p \<and>
     0 < pending_write_len p \<and> pending_write_len p \<le> BLE_HOST_SEND_MAX_LEN"

definition pm_idle :: "pm_state \<Rightarrow> bool" where
  "pm_idle p \<longleftrightarrow> \<not> pm_ready p \<and> \<not> service_found p \<and> \<not> notify_found p \<and> \<not> write_found p \<and>
     \<not> exchange_in_progress p \<and> \<not> write_in_progress p"

definition pm_inv :: "pm_state \<Rightarrow> bool" where
  "pm_inv p \<longleftrightarrow>
     pm_config p = Some G_CONFIG \<and> length (pending_write p) = BLE_HOST_SEND_MAX_LEN \<and>
     0 < payload_len p \<and> (pm_conn p = None \<longrightarrow> pm_idle p) \<and>
     (write_in_progress p \<longrightarrow> write_in_flight p) \<and>
     (exchange_in_progress p \<longrightarrow> xp_func (pm_exchange_params p) = Some ExchangeHandler)"

text \<open>
  The part of it that holds whatever the stack reports, and that part together with the absence of
  a session without a connection, which a flag turns on: a stack that reports a subscription or an
  attribute when there is no connection gives the profile manager such a session.
\<close>

definition pm_core :: "pm_state \<Rightarrow> bool" where
  "pm_core p \<longleftrightarrow>
     pm_config p = Some G_CONFIG \<and> length (pending_write p) = BLE_HOST_SEND_MAX_LEN \<and>
     0 < payload_len p \<and> (write_in_progress p \<longrightarrow> write_in_flight p) \<and>
     (exchange_in_progress p \<longrightarrow> xp_func (pm_exchange_params p) = Some ExchangeHandler)"

definition pm_ok :: "bool \<Rightarrow> pm_state \<Rightarrow> bool" where
  "pm_ok linked p \<longleftrightarrow> pm_core p \<and> (linked \<longrightarrow> pm_conn p = None \<longrightarrow> pm_idle p)"

lemma pm_ok_True: "pm_ok True p = pm_inv p"
  by (auto simp: pm_ok_def pm_core_def pm_inv_def)

lemmas pm_ok_defs = pm_ok_def pm_core_def pm_idle_def write_in_flight_def

lemma payload_limit_pos [simp]:
  "0 < (word_of_nat (payload_limit (unat (a :: u16)) (unat (p :: u16))) :: u16)"
  using payload_limit_bounds(1) [of "unat a" "unat p"] unat_payload_limit [of a p]
  by (simp add: word_less_nat_alt)

lemma pm_ok_payload_len:
  "pm_ok l p \<Longrightarrow> pm_ok l (p\<lparr>payload_len := word_of_nat (payload_limit (unat (a :: u16)) (unat (b :: u16)))\<rparr>)"
  by (simp add: pm_ok_defs)

lemma pm_ok_update_payload_len [simp]:
  "pm_ok l (g_state s) \<Longrightarrow> pm_ok l (g_state (update_payload_len api s))"
  by (simp add: pm_ok_payload_len)

lemma pm_ok_init: "pm_ok l (g_state (profile_manager_init api (Some G_CONFIG) s))"
  by (simp add: profile_manager_init_def pm_ok_defs pm_state_0_def)

lemma pm_inv_init: "pm_inv (g_state (profile_manager_init api (Some G_CONFIG) s))"
  using pm_ok_init [of True] by (simp only: pm_ok_True)

lemma pm_clear_idle: "pm_idle (pm_clear p)"
  by (simp add: pm_clear_def pm_idle_def)

lemma pm_ok_clear: "pm_ok l p \<Longrightarrow> pm_ok l (pm_clear p)"
  using pm_clear_idle [of p] by (simp add: pm_ok_def pm_core_def pm_clear_def pm_idle_def)

lemma reset_state:
  "g_state (profile_manager_reset api s) =
     (pm_clear (g_state s))\<lparr>payload_len := payload_len (g_state (profile_manager_reset api s))\<rparr>"
  by (simp add: profile_manager_reset_def Let_def split: option.split)

lemma reset_frame [sys_frame, simp]:
  "g_config (profile_manager_reset api s) = g_config s"
  "mem.more (profile_manager_reset api s) = mem.more s"
  by (simp_all add: profile_manager_reset_def Let_def split: option.split)

lemma pm_ok_reset: "pm_ok l (g_state s) \<Longrightarrow> pm_ok l (g_state (profile_manager_reset api s))"
  by (simp add: profile_manager_reset_def Let_def pm_ok_clear pm_ok_payload_len split: option.split)

section \<open>The contract of the application's callbacks\<close>

text \<open>
  The callbacks leave the static state of the profile manager alone and keep the application's
  invariant, which does not depend on that state or on the world.
\<close>

locale profile_client =
  fixes cbs :: "('w, 'a) callbacks" and inv :: "('w, 'a) mem_scheme \<Rightarrow> bool"
  assumes ready_ok: "cbs = Some t \<Longrightarrow> cb_ready t = Some f \<Longrightarrow>
      g_state (f s) = g_state s \<and> (inv s \<longrightarrow> inv (f s))"
    and payload_ok: "cbs = Some t \<Longrightarrow> cb_payload_received t = Some g \<Longrightarrow>
      g_state (g d s) = g_state s \<and> (inv s \<longrightarrow> inv (g d s))"
    and mtu_ok: "cbs = Some t \<Longrightarrow> cb_mtu_updated t = Some h \<Longrightarrow>
      g_state (h m s) = g_state s \<and> (inv s \<longrightarrow> inv (h m s))"
    and error_ok: "cbs = Some t \<Longrightarrow> cb_error t = Some k \<Longrightarrow>
      g_state (k e s) = g_state s \<and> (inv s \<longrightarrow> inv (k e s))"
    and inv_pm [simp]: "inv (s\<lparr>g_state := p\<rparr>) = inv s"
    and inv_world [simp]: "inv (s\<lparr>world := w\<rparr>) = inv s"
begin

lemma call_frame [simp]:
  "g_state (report_error cbs e s) = g_state s" "g_state (call_ready cbs s) = g_state s"
  "g_state (call_mtu_updated cbs s) = g_state s"
  by (auto simp: report_error_def call_ready_def call_mtu_updated_def ready_ok mtu_ok error_ok
      split: option.split)

lemma inv_upd [simp]: "inv (pm_upd f s) = inv s"
  by (simp add: pm_upd_set [of f])

lemma inv_call [simp]: "inv (snd (sys_call f s)) = inv s"
  by (simp add: sys_call_world)

lemma call_inv [simp]:
  "inv s \<Longrightarrow> inv (report_error cbs e s)" "inv s \<Longrightarrow> inv (call_ready cbs s)"
  "inv s \<Longrightarrow> inv (call_mtu_updated cbs s)"
  by (auto simp: report_error_def call_ready_def call_mtu_updated_def ready_ok mtu_ok error_ok
      split: option.split)

lemma update_payload_len_inv [simp]: "inv (update_payload_len api s) = inv s"
  by (simp add: update_payload_len_eq)

lemma reset_inv [simp]: "inv (profile_manager_reset api s) = inv s"
  by (simp add: profile_manager_reset_def Let_def split: option.split)

end

section \<open>Steps of the interface\<close>

text \<open>
  One call of the application or of the stack, at any time and with any argument: nothing is assumed
  of the stack here.  (A discovery handler that would follow a null pointer has no step.)
\<close>

datatype 'u pm_event =
    PmStart bt_conn
  | PmDisconnected bt_conn
  | PmSetConfig
  | PmRequestMtu
  | PmRequestDataLen
  | PmRequestPhy
  | PmSend "u8 list"
  | PmNotify "u8 list option"
  | PmSubscribed u8
  | PmService "'u service_attr option"
  | PmChrc "'u chrc_attr option"
  | PmExchanged u8
  | PmWritten u8

inductive pm_step ::
  "('u, 'w) gatt_api \<Rightarrow> ('w, 'a) callbacks \<Rightarrow> ('w, 'a) mem_scheme \<Rightarrow> 'u pm_event \<Rightarrow> ('w, 'a) mem_scheme \<Rightarrow> bool"
  for api cbs where
  "pm_step api cbs s (PmStart c) (snd (profile_manager_start api cbs (Some c) s))"
| "pm_step api cbs s (PmDisconnected c) (profile_manager_handle_disconnected api (Some c) s)"
| "pm_step api cbs s PmSetConfig (profile_manager_set_config api (Some G_CONFIG) s)"
| "pm_step api cbs s PmRequestMtu (snd (profile_manager_request_mtu api cbs s))"
| "pm_step api cbs s PmRequestDataLen (snd (profile_manager_request_data_len api s))"
| "pm_step api cbs s PmRequestPhy (snd (profile_manager_request_phy api s))"
| "pm_step api cbs s (PmSend d) (snd (profile_manager_send api d s))"
| "pm_step api cbs s (PmNotify d) (snd (notify_handler cbs d s))"
| "pm_step api cbs s (PmSubscribed err) (subscribe_handler cbs err s)"
| "service_discover_cb api cbs a (service_discover_params (g_state s)) s = Some (r, s') \<Longrightarrow>
     pm_step api cbs s (PmService a) s'"
| "characteristic_discover_cb api cbs b (characteristic_discover_params (g_state s)) s = Some (r, s') \<Longrightarrow>
     pm_step api cbs s (PmChrc b) s'"
| "pm_step api cbs s (PmExchanged err) (exchange_handler api cbs err s)"
| "pm_step api cbs s (PmWritten err) (write_handler cbs err s)"

text \<open>
  What a stack that has no business without a connection reports: attributes and a successful
  subscription only when the session has a connection.  Errors, ends of discoveries and
  notifications may come at any time.
\<close>

fun reports_linked :: "pm_state \<Rightarrow> 'u pm_event \<Rightarrow> bool" where
  "reports_linked p (PmSubscribed err) \<longleftrightarrow> err \<noteq> 0 \<or> pm_conn p \<noteq> None"
| "reports_linked p (PmService a) \<longleftrightarrow> a = None \<or> pm_conn p \<noteq> None"
| "reports_linked p (PmChrc b) \<longleftrightarrow> b = None \<or> pm_conn p \<noteq> None"
| "reports_linked p ev \<longleftrightarrow> True"

inductive_cases pm_step_cases: "pm_step api cbs s e s'"

lemma pm_ok_upd [simp]:
  "pm_ok l (p\<lparr>service_discover_params := x\<rparr>) = pm_ok l p"
  "pm_ok l (p\<lparr>characteristic_discover_params := x\<rparr>) = pm_ok l p"
  "pm_ok l (p\<lparr>pm_subscribe_params := y\<rparr>) = pm_ok l p"
  "pm_ok l p \<Longrightarrow> pm_ok l (p\<lparr>pm_ready := False\<rparr>)"
  "pm_ok l p \<Longrightarrow> pm_ok l (p\<lparr>write_in_progress := False\<rparr>)"
  "pm_ok l p \<Longrightarrow> pm_ok l (p\<lparr>exchange_in_progress := False\<rparr>)"
  "pm_ok l p \<Longrightarrow> pm_ok l (p\<lparr>exchange_in_progress := False, pm_exchange_params := z\<rparr>)"
  "pm_ok l p \<Longrightarrow> \<not> exchange_in_progress p \<Longrightarrow> pm_ok l (p\<lparr>pm_exchange_params := z\<rparr>)"
  "pm_ok l p \<Longrightarrow> pm_ok l (p\<lparr>pm_config := Some G_CONFIG\<rparr>)"
  "pm_ok l p \<Longrightarrow> pm_idle p \<Longrightarrow> pm_ok l (p\<lparr>pm_conn := c\<rparr>)"
  by (auto simp: pm_ok_defs)

lemma pm_ok_linked:
  assumes "pm_ok l p" and "l \<Longrightarrow> pm_conn p \<noteq> None"
  shows "pm_ok l (p\<lparr>pm_ready := b\<rparr>)"
    and "pm_ok l (p\<lparr>service_found := b, service_start_handle := h, service_end_handle := k\<rparr>)"
    and "pm_ok l (p\<lparr>notify_found := b, notify_value_handle := h\<rparr>)"
    and "pm_ok l (p\<lparr>write_found := b, write_value_handle := h, write_properties := w\<rparr>)"
    and "pm_ok l (p\<lparr>pm_exchange_params := (pm_exchange_params p)\<lparr>xp_func := Some ExchangeHandler\<rparr>,
                   exchange_in_progress := True\<rparr>)"
  using assms by (auto simp: pm_ok_defs)

lemma pm_idle_payload_len [simp]: "pm_idle (p\<lparr>payload_len := l\<rparr>) = pm_idle p"
  by (simp add: pm_idle_def)

lemma reset_idle: "pm_idle (g_state (profile_manager_reset api s))"
  by (subst reset_state) (simp add: pm_clear_idle)

context profile_client
begin

definition ok :: "bool \<Rightarrow> ('w, 'a) mem_scheme \<Rightarrow> bool" where
  "ok l s \<longleftrightarrow> pm_ok l (g_state s) \<and> inv s"

lemma okI: "pm_ok l (g_state s) \<Longrightarrow> inv s \<Longrightarrow> ok l s"
  by (simp add: ok_def)

lemma ok_call [simp]:
  "ok l s \<Longrightarrow> ok l (report_error cbs e s)" "ok l s \<Longrightarrow> ok l (call_ready cbs s)"
  "ok l s \<Longrightarrow> ok l (call_mtu_updated cbs s)" "ok l s \<Longrightarrow> ok l (update_payload_len api s)"
  "ok l s \<Longrightarrow> ok l (snd (sys_call f s))" "ok l s \<Longrightarrow> ok l (profile_manager_reset api s)"
  by (simp_all add: ok_def pm_ok_payload_len pm_ok_reset)

lemma ok_world [simp]: "ok l (s\<lparr>world := w\<rparr>) = ok l s"
  by (simp add: ok_def)

lemma ok_upd: "ok l s \<Longrightarrow> pm_ok l (f (g_state s)) \<Longrightarrow> ok l (pm_upd f s)"
  by (simp add: ok_def)

lemma start_ok: "ok l s \<Longrightarrow> ok l (snd (profile_manager_start api cbs (Some c) s))"
  using reset_idle [of api s]
  by (simp add: profile_manager_start_def Let_def sys_call_world ok_upd ok_def pm_ok_reset
      pm_ok_payload_len)

lemma disconnected_ok: "ok l s \<Longrightarrow> ok l (profile_manager_handle_disconnected api (Some c) s)"
  using reset_idle [of api s]
  by (simp add: profile_manager_handle_disconnected_def ok_def pm_ok_reset)

lemma set_config_ok: "ok l s \<Longrightarrow> ok l (profile_manager_set_config api (Some G_CONFIG) s)"
  by (simp add: profile_manager_set_config_def ok_def pm_ok_payload_len)

lemma request_mtu_ok: "ok l s \<Longrightarrow> ok l (snd (profile_manager_request_mtu api cbs s))"
  using pm_ok_linked(5) [of l "g_state s"]
  by (auto simp: profile_manager_request_mtu_def Let_def sys_call_world ok_def pm_ok_payload_len
      split: option.split)

lemma request_link_ok:
  "ok l s \<Longrightarrow> ok l (snd (profile_manager_request_data_len api s))"
  "ok l s \<Longrightarrow> ok l (snd (profile_manager_request_phy api s))"
  by (simp_all add: profile_manager_request_data_len_def profile_manager_request_phy_def
      split: option.split)

lemma send_ok: "ok l s \<Longrightarrow> ok l (snd (profile_manager_send api d s))"
  by (auto simp: profile_manager_send_def Let_def sys_call_world ok_def pm_ok_defs copy_front_def split: option.split)

lemma notify_ok: "ok l s \<Longrightarrow> ok l (snd (notify_handler cbs d s))"
  by (auto simp: notify_handler_def ok_def payload_ok split: option.split)

lemma subscribed_ok:
  "ok l s \<Longrightarrow> (l \<Longrightarrow> err \<noteq> 0 \<or> pm_conn (g_state s) \<noteq> None) \<Longrightarrow> ok l (subscribe_handler cbs err s)"
  using pm_ok_linked(1) [of l "g_state s" True] by (auto simp: subscribe_handler_def ok_def)

lemma exchanged_ok: "ok l s \<Longrightarrow> ok l (exchange_handler api cbs err s)"
  by (simp add: exchange_handler_def Let_def ok_def pm_ok_payload_len)

lemma written_ok: "ok l s \<Longrightarrow> ok l (write_handler cbs err s)"
  by (simp add: write_handler_def Let_def ok_def)

lemma subscribe_start_ok: "ok l s \<Longrightarrow> ok l (snd (subscribe_notify_characteristic api cbs s))"
  by (simp add: subscribe_notify_characteristic_def Let_def sys_call_world ok_def)

lemma start_chrc_ok: "ok l s \<Longrightarrow> ok l (snd (start_characteristic_discovery api cbs s))"
  by (simp add: start_characteristic_discovery_def Let_def sys_call_world ok_def)

lemma found_conn: "ok True s \<Longrightarrow> notify_found (g_state s) \<or> service_found (g_state s) \<Longrightarrow> pm_conn (g_state s) \<noteq> None"
  by (auto simp: ok_def pm_ok_defs)

lemma service_cb_ok:
  assumes "ok l s" "l \<Longrightarrow> a = None \<or> pm_conn (g_state s) \<noteq> None"
    and "service_discover_cb api cbs a dp s = Some (r, s')"
  shows "ok l s'"
  using assms pm_ok_linked(2) [of l "g_state s"]
  by (auto simp: service_discover_cb_def Let_def start_chrc_ok ok_upd
      split: option.splits if_splits) (auto simp: ok_def)

lemma chrc_cb_ok:
  assumes ok: "ok l s" and c: "l \<Longrightarrow> b = None \<or> pm_conn (g_state s) \<noteq> None"
    and step: "characteristic_discover_cb api cbs b dp s = Some (r, s')"
  shows "ok l s'"
proof (cases b)
  case None
  have "notify_found (g_state s) \<Longrightarrow> ok l (pm_upd (\<lambda>p. p\<lparr>pm_ready := True\<rparr>) s)"
    using found_conn [of s] ok pm_ok_linked(1) [of l "g_state s" True] by (cases l) (simp_all add: ok_def)
  then show ?thesis using step None ok
    by (auto simp: characteristic_discover_cb_def subscribe_start_ok split: if_splits)
next
  case (Some chrc)
  have c': "l \<Longrightarrow> pm_conn (g_state s) \<noteq> None" using c Some by simp
  let ?s1 = "pm_upd (\<lambda>p. p\<lparr>notify_found := True, notify_value_handle := ca_value_handle chrc\<rparr>) s"
  have s1: "ok l ?s1" "l \<Longrightarrow> pm_conn (g_state ?s1) \<noteq> None"
    using ok c' pm_ok_linked(3) [of l "g_state s"] by (simp_all add: ok_def)
  have w: "ok l t \<Longrightarrow> (l \<Longrightarrow> pm_conn (g_state t) \<noteq> None) \<Longrightarrow>
      ok l (pm_upd (\<lambda>p. p\<lparr>write_found := True, write_value_handle := ca_value_handle chrc,
                        write_properties := ca_properties chrc\<rparr>) t)" for t
    using pm_ok_linked(4) [of l "g_state t"] by (simp add: ok_def)
  show ?thesis
    using step Some ok c' s1 w [of s] w [of ?s1] unfolding characteristic_discover_cb_def
    by (auto simp: Let_def split: option.splits if_splits)
qed

text \<open>
  Every step keeps the invariant of the profile manager and that of the application; the part about
  sessions depends on what the stack reports.
\<close>

theorem step_ok:
  "pm_step api cbs s e s' \<Longrightarrow> (l \<Longrightarrow> reports_linked (g_state s) e) \<Longrightarrow> ok l s \<Longrightarrow> ok l s'"
proof (induction rule: pm_step.induct)
  case (10 a s r s')
  show ?case by (rule service_cb_ok [OF 10(3) _ 10(1)]) (use 10(2) in auto)
next
  case (11 b s r s')
  show ?case by (rule chrc_cb_ok [OF 11(3) _ 11(1)]) (use 11(2) in auto)
qed (simp_all add: start_ok disconnected_ok set_config_ok request_mtu_ok request_link_ok send_ok
      notify_ok subscribed_ok exchanged_ok written_ok)

end

section \<open>A write in flight\<close>

text \<open>What the stack reads while a write with response is in progress.\<close>

definition in_flight :: "pm_state \<Rightarrow> bool \<times> u8 list \<times> nat \<times> write_params" where
  "in_flight p = (write_in_progress p, pending_write p, pending_write_len p, pm_write_params p)"

fun ends_write :: "pm_state \<Rightarrow> 'u pm_event \<Rightarrow> bool" where
  "ends_write p (PmStart c) = True"
| "ends_write p (PmDisconnected c) = (pm_conn p = Some c)"
| "ends_write p (PmWritten err) = True"
| "ends_write p e = False"

context profile_client
begin

lemma start_chrc_state:
  "in_flight (g_state (snd (start_characteristic_discovery api cbs s))) = in_flight (g_state s)"
  "in_flight (g_state (snd (subscribe_notify_characteristic api cbs s))) = in_flight (g_state s)"
  by (simp_all add: start_characteristic_discovery_def subscribe_notify_characteristic_def Let_def
      sys_call_world in_flight_def)

lemma discovery_in_flight:
  "service_discover_cb api cbs a dp s = Some (r, s') \<Longrightarrow> in_flight (g_state s') = in_flight (g_state s)"
  "characteristic_discover_cb api cbs b dp s = Some (r, s') \<Longrightarrow> in_flight (g_state s') = in_flight (g_state s)"
proof -
  have f: "in_flight (p\<lparr>notify_found := x, notify_value_handle := y\<rparr>) = in_flight p"
    "in_flight (p\<lparr>pm_ready := x\<rparr>) = in_flight p"
    "in_flight (p\<lparr>write_found := x, write_value_handle := y, write_properties := z\<rparr>) = in_flight p"
    "in_flight (p\<lparr>service_found := x, service_start_handle := y, service_end_handle := v\<rparr>) = in_flight p"
    for p x y z v
    by (simp_all add: in_flight_def)
  show "service_discover_cb api cbs a dp s = Some (r, s') \<Longrightarrow> in_flight (g_state s') = in_flight (g_state s)"
    unfolding service_discover_cb_def
    by (auto simp: Let_def start_chrc_state f split: option.splits if_splits)
  show "characteristic_discover_cb api cbs b dp s = Some (r, s') \<Longrightarrow> in_flight (g_state s') = in_flight (g_state s)"
    unfolding characteristic_discover_cb_def
    by (auto simp: Let_def start_chrc_state f split: option.splits if_splits)
qed

theorem in_flight_stable:
  "pm_step api cbs s e s' \<Longrightarrow> write_in_progress (g_state s) \<Longrightarrow> \<not> ends_write (g_state s) e \<Longrightarrow>
     in_flight (g_state s') = in_flight (g_state s)"
proof (induction rule: pm_step.induct)
  case (4 s)
  then show ?case by (auto simp: profile_manager_request_mtu_def Let_def sys_call_world in_flight_def split: option.split)
next
  case (7 s d)
  then show ?case by (auto simp: profile_manager_send_def Let_def sys_call_world in_flight_def split: option.split)
next
  case (10 a s r s')
  then show ?case by (blast dest: discovery_in_flight(1))
next
  case (11 b s r s')
  then show ?case by (blast dest: discovery_in_flight(2))
qed (auto simp: profile_manager_handle_disconnected_def profile_manager_set_config_def in_flight_def
      profile_manager_request_data_len_def profile_manager_request_phy_def notify_handler_def payload_ok
      subscribe_handler_def exchange_handler_def Let_def split: option.split)

text \<open>The bytes themselves stay even when the session ends, until the next write.\<close>

lemma pending_bytes_kept:
  "pm_step api cbs s e s' \<Longrightarrow> write_in_progress (g_state s) \<Longrightarrow>
     pending_write (g_state s') = pending_write (g_state s)"
proof (induction rule: pm_step.induct)
  case (1 s c)
  have "pending_write (g_state (profile_manager_reset api s)) = pending_write (g_state s)"
    by (subst reset_state) (simp add: pm_clear_def)
  then show ?case by (simp add: profile_manager_start_def Let_def sys_call_world)
next
  case (2 s c)
  have "pending_write (g_state (profile_manager_reset api s)) = pending_write (g_state s)"
    by (subst reset_state) (simp add: pm_clear_def)
  then show ?case by (simp add: profile_manager_handle_disconnected_def)
next
  case (4 s)
  then show ?case by (auto simp: profile_manager_request_mtu_def Let_def sys_call_world split: option.split)
next
  case (7 s d)
  then show ?case by (auto simp: profile_manager_send_def Let_def sys_call_world split: option.split)
next
  case (10 a s r s')
  then show ?case by (auto dest: discovery_in_flight(1) simp: in_flight_def)
next
  case (11 b s r s')
  then show ?case by (auto dest: discovery_in_flight(2) simp: in_flight_def)
qed (auto simp: profile_manager_set_config_def profile_manager_request_data_len_def
      profile_manager_request_phy_def notify_handler_def payload_ok
      subscribe_handler_def exchange_handler_def write_handler_def Let_def split: option.split)

lemma write_ended: "pm_step api cbs s e s' \<Longrightarrow> ends_write (g_state s) e \<Longrightarrow> pm_config (g_state s) \<noteq> None \<Longrightarrow>
     \<not> write_in_progress (g_state s')"
proof (induction rule: pm_step.induct)
  case (1 s c)
  have "\<not> write_in_progress (g_state (profile_manager_reset api s))" by (subst reset_state) (simp add: pm_clear_def)
  then show ?case using 1 by (auto simp: profile_manager_start_def Let_def sys_call_world)
next
  case (2 s c)
  have "\<not> write_in_progress (g_state (profile_manager_reset api s))" by (subst reset_state) (simp add: pm_clear_def)
  then show ?case using 2 by (simp add: profile_manager_handle_disconnected_def)
qed (simp_all add: write_handler_def Let_def)

end

end
