(* ===== verification/Pm_Properties.thy ===== *)
theory Pm_Properties
  imports Pm_Lemmas
begin

text \<open>
  The properties of the profile manager: the payload length, the guards of sending, the clearing
  of a session, the outcome of the discovery, and the absence of accesses through null pointers.
  \<open>log_gatt\<close> records the calls of the stack that matter, for any stack behind it.
\<close>

section \<open>Recording the calls\<close>

text \<open>
  The calls of the stack, with the answer to a request for an MTU exchange, and the calls of the
  callback table.
\<close>

datatype gatt_call =
    GDiscover "bt_conn option" discover_params
  | GSubscribe "bt_conn option" subscribe_params
  | GUnsubscribe bt_conn
  | GExchange bt_conn rc
  | GWrite bt_conn u16 "u8 list"
  | GWriteCmd bt_conn u16 "u8 list"
  | CReady
  | CPayload "u8 list"
  | CMtu u16
  | CError profile_manager_error

definition logged :: "gatt_call \<Rightarrow> ('w \<Rightarrow> rc \<times> 'w) \<Rightarrow> 'w \<times> gatt_call list \<Rightarrow> rc \<times> 'w \<times> gatt_call list" where
  "logged c f wl = (fst (f (fst wl)), snd (f (fst wl)), snd wl @ [c])"

definition unlogged :: "('w \<Rightarrow> rc \<times> 'w) \<Rightarrow> 'w \<times> 'l \<Rightarrow> rc \<times> 'w \<times> 'l" where
  "unlogged f wl = (fst (f (fst wl)), snd (f (fst wl)), snd wl)"

definition log_gatt :: "('u, 'w) gatt_api \<Rightarrow> ('u, 'w \<times> gatt_call list) gatt_api" where
  "log_gatt api =
     \<lparr> bt_gatt_get_mtu = (\<lambda>c wl. bt_gatt_get_mtu api c (fst wl)),
       bt_gatt_discover = (\<lambda>c d. logged (GDiscover c d) (bt_gatt_discover api c d)),
       bt_gatt_subscribe = (\<lambda>c p. logged (GSubscribe c p) (bt_gatt_subscribe api c p)),
       bt_gatt_unsubscribe = (\<lambda>c p. logged (GUnsubscribe c) (bt_gatt_unsubscribe api c p)),
       bt_gatt_exchange_mtu = (\<lambda>c p wl.
          logged (GExchange c (fst (bt_gatt_exchange_mtu api c p (fst wl)))) (bt_gatt_exchange_mtu api c p) wl),
       bt_gatt_write = (\<lambda>c p d. logged (GWrite c (wp_handle p) d) (bt_gatt_write api c p d)),
       bt_gatt_write_without_response = (\<lambda>c h d b.
          logged (GWriteCmd c h d) (bt_gatt_write_without_response api c h d b)),
       bt_conn_le_data_len_update = (\<lambda>c. unlogged (bt_conn_le_data_len_update api c)),
       bt_conn_le_phy_update = (\<lambda>c. unlogged (bt_conn_le_phy_update api c)),
       bt_uuid_to_str = bt_uuid_to_str api,
       CONFIG_BT_USER_DATA_LEN_UPDATE = CONFIG_BT_USER_DATA_LEN_UPDATE api,
       CONFIG_BT_USER_PHY_UPDATE = CONFIG_BT_USER_PHY_UPDATE api \<rparr>"

text \<open>A callback table that records and does nothing else.\<close>

definition record_call :: "gatt_call \<Rightarrow> ('w \<times> gatt_call list, 'a) mem_scheme \<Rightarrow> ('w \<times> gatt_call list, 'a) mem_scheme" where
  "record_call c s = s\<lparr>world := (fst (world s), snd (world s) @ [c])\<rparr>"

definition rec_cbs :: "('w \<times> gatt_call list, 'a) callbacks" where
  "rec_cbs = Some \<lparr> cb_ready = Some (record_call CReady), cb_payload_received = Some (\<lambda>d. record_call (CPayload d)),
     cb_mtu_updated = Some (\<lambda>m. record_call (CMtu m)), cb_error = Some (\<lambda>e. record_call (CError e)) \<rparr>"

lemma record_call_frame [simp]:
  "g_state (record_call c s) = g_state s" "g_config (record_call c s) = g_config s"
  "mem.more (record_call c s) = mem.more s" "snd (world (record_call c s)) = snd (world s) @ [c]"
  "fst (world (record_call c s)) = fst (world s)"
  by (simp_all add: record_call_def)

lemma rec_cbs_calls [simp]:
  "report_error rec_cbs e s = record_call (CError e) s" "call_ready rec_cbs s = record_call CReady s"
  "call_mtu_updated rec_cbs s = record_call (CMtu (payload_len (g_state s))) s"
  by (simp_all add: rec_cbs_def report_error_def call_ready_def call_mtu_updated_def)

text \<open>A stack for closed examples: it accepts everything, and a UUID is its own text.\<close>

definition plain_gatt :: "(string, unit) gatt_api" where
  "plain_gatt =
     \<lparr> bt_gatt_get_mtu = (\<lambda>_ _. 247), bt_gatt_discover = (\<lambda>_ _ w. (RC_OK, w)),
       bt_gatt_subscribe = (\<lambda>_ _ w. (RC_OK, w)), bt_gatt_unsubscribe = (\<lambda>_ _ w. (RC_OK, w)),
       bt_gatt_exchange_mtu = (\<lambda>_ _ w. (RC_OK, w)), bt_gatt_write = (\<lambda>_ _ _ w. (RC_OK, w)),
       bt_gatt_write_without_response = (\<lambda>_ _ _ _ w. (RC_OK, w)),
       bt_conn_le_data_len_update = (\<lambda>_ w. (RC_OK, w)), bt_conn_le_phy_update = (\<lambda>_ w. (RC_OK, w)),
       bt_uuid_to_str = (\<lambda>u n. snprintk n u),
       CONFIG_BT_USER_DATA_LEN_UPDATE = True, CONFIG_BT_USER_PHY_UPDATE = True \<rparr>"

definition mem0 :: "(unit \<times> gatt_call list) mem" where
  "mem0 = profile_manager_init (log_gatt plain_gatt) (Some G_CONFIG)
            \<lparr> world = ((), []), g_config = g_config_init, g_state = pm_state_0 \<rparr>"

section \<open>Sending\<close>

text \<open>
  C21: The payload length is always usable: whenever it is recomputed it is the ATT MTU of the
  connection, limited by the configured MTU (at least 23), less the three header bytes; it is at
  least 1, it never exceeds the configured limit, and a write of that length fits the ATT MTU.
\<close>

theorem payload_len_bounds:
  "let l = unat (payload_len (g_state (update_payload_len api s)));
       att = unat (pm_att_mtu api s); pref = max 23 (unat (pm_preferred s))
   in l = payload_limit att pref \<and> 1 \<le> l \<and> l + 3 \<le> pref \<and> (l + 3 \<le> att \<or> att \<le> 3)"
proof -
  have "payload_limit a (max 23 p) = payload_limit a p" for a p by (simp add: payload_limit_def)
  then show ?thesis
    using payload_limit_bounds [of "unat (pm_att_mtu api s)" "unat (pm_preferred s)"]
    by (auto simp: unat_payload_limit Let_def)
qed

text \<open>
  C18: Sending is guarded: either nothing is handed to the stack, the state is unchanged and the
  result is one of the four errors, or the profile is ready on a connection, the data has between
  1 and 256 bytes and fits the payload length, and exactly these bytes are written once to the
  discovered handle, with the kind of write that the peer offers; a write with response is started
  only when none is in progress.
\<close>

theorem send_guarded:
  "case profile_manager_send (log_gatt api) data s of (rc, s') \<Rightarrow>
     (s' = s \<and> rc \<in> RC_ERR ` {ENOTCONN, EAGAIN, EMSGSIZE, EACCES}) \<or>
     (\<exists>c call. pm_conn (g_state s) = Some c \<and> snd (world s') = snd (world s) @ [call] \<and>
        pm_ready (g_state s) \<and> write_found (g_state s) \<and> write_value_handle (g_state s) \<noteq> 0 \<and>
        0 < length data \<and> length data \<le> min 256 (unat (payload_len (g_state s))) \<and>
        (if and (write_properties (g_state s)) BT_GATT_CHRC_WRITE_WITHOUT_RESP \<noteq> 0
         then call = GWriteCmd c (write_value_handle (g_state s)) data
         else call = GWrite c (write_value_handle (g_state s)) data \<and>
              and (write_properties (g_state s)) BT_GATT_CHRC_WRITE \<noteq> 0 \<and>
              \<not> write_in_progress (g_state s) \<and> write_in_progress (g_state s') = (rc = RC_OK)))"
  by (simp add: profile_manager_send_def Let_def sys_call_world log_gatt_def logged_def copy_front_def
      BLE_HOST_SEND_MAX_LEN_def write_params_0_def split: option.split)

lemma data_mode_direct:
  assumes inv: "pm_inv (g_state s)" and can: "profile_manager_can_enter_data_mode s"
    and d: "0 < length data" "length data \<le> 256" "length data \<le> unat (profile_manager_get_payload_len s)"
  shows "\<exists>c. pm_conn (g_state s) = Some c \<and>
    profile_manager_send api data s =
      sys_call (bt_gatt_write_without_response api c (write_value_handle (g_state s)) data False) s"
proof -
  obtain c where "pm_conn (g_state s) = Some c"
    using inv can by (auto simp: pm_inv_def pm_idle_def profile_manager_can_enter_data_mode_def Let_def)
  then show ?thesis
    using can d by (auto simp: profile_manager_send_def profile_manager_can_enter_data_mode_def
        profile_manager_get_payload_len_def BLE_HOST_SEND_MAX_LEN_def Let_def)
qed

text \<open>
  Data mode can rely on sending: when the profile manager allows data mode, every block of 1
  to 256 bytes within the payload length goes to the stack as a write without response at once,
  the result is the stack's, and the state of the profile manager does not change.
\<close>

theorem data_mode_send_direct:
  assumes inv: "pm_inv (g_state s)" and can: "profile_manager_can_enter_data_mode s"
    and d: "0 < length data" "length data \<le> 256" "length data \<le> unat (profile_manager_get_payload_len s)"
  shows "\<exists>c. pm_conn (g_state s) = Some c \<and>
    profile_manager_send api data s =
      sys_call (bt_gatt_write_without_response api c (write_value_handle (g_state s)) data False) s"
  by (rule data_mode_direct [OF assms])

text \<open>A memory with a discovered and subscribed profile on connection 7.\<close>

definition mem_ready :: "(unit \<times> gatt_call list) mem" where
  "mem_ready = pm_upd (\<lambda>p. p\<lparr>pm_conn := Some 7, pm_ready := True, service_found := True, notify_found := True,
     notify_value_handle := 18, write_found := True, write_value_handle := 21,
     write_properties := 12, payload_len := 244\<rparr>) mem0"

lemma mem_ready_inv: "pm_inv (g_state mem_ready)"
  using pm_inv_init [of "log_gatt plain_gatt"
      "\<lparr> world = ((), []), g_config = g_config_init, g_state = pm_state_0 \<rparr>"]
  unfolding mem_ready_def mem0_def pm_inv_def write_in_flight_def pm_idle_def by simp

theorem data_mode_send_direct_witness:
  "snd (world (snd (profile_manager_send (log_gatt plain_gatt) [1, 2] mem_ready))) = [GWriteCmd 7 21 [1, 2]]"
proof -
  have c: "profile_manager_can_enter_data_mode mem_ready"
    by (simp add: profile_manager_can_enter_data_mode_def mem_ready_def BT_GATT_CHRC_WRITE_WITHOUT_RESP_def)
  have l: "length [1, 2 :: u8] \<le> unat (profile_manager_get_payload_len mem_ready)"
    by (simp add: profile_manager_get_payload_len_def mem_ready_def)
  obtain k where k: "pm_conn (g_state mem_ready) = Some k"
    "profile_manager_send (log_gatt plain_gatt) [1, 2] mem_ready = sys_call
      (bt_gatt_write_without_response (log_gatt plain_gatt) k (write_value_handle (g_state mem_ready)) [1, 2] False)
      mem_ready"
    using data_mode_send_direct [OF mem_ready_inv c _ _ l, of "log_gatt plain_gatt"] by auto
  moreover have "snd (world mem_ready) = []"
    by (simp add: mem_ready_def mem0_def profile_manager_init_def)
  moreover have "write_value_handle (g_state mem_ready) = 21" "pm_conn (g_state mem_ready) = Some 7"
    by (simp_all add: mem_ready_def)
  ultimately show ?thesis
    by (simp add: sys_call_world log_gatt_def logged_def)
qed

section \<open>Sessions\<close>

text \<open>A session without anything discovered, on a connection or none.\<close>

definition fresh_session :: "bt_conn option \<Rightarrow> pm_state \<Rightarrow> pm_state" where
  "fresh_session c p = pm_state_0\<lparr> pm_config := pm_config p, pm_conn := c, payload_len := payload_len p,
                                  pending_write := pending_write p \<rparr>"

lemma reset_fresh:
  "\<exists>l. g_state (profile_manager_reset api s) = (fresh_session (pm_conn (g_state s)) (g_state s))\<lparr>payload_len := l\<rparr>"
proof
  show "g_state (profile_manager_reset api s) = (fresh_session (pm_conn (g_state s)) (g_state s))
      \<lparr>payload_len := payload_len (g_state (profile_manager_reset api s))\<rparr>"
    by (subst reset_state) (simp add: pm_clear_def fresh_session_def pm_state_0_def)
qed

lemma deref_config_upd: "deref_config p (pm_upd f s) = deref_config p s"
  by (cases p) simp

lemma deref_config_same: "g_config t = g_config s \<Longrightarrow> deref_config p t = deref_config p s"
  by (cases p) simp

text \<open>
  C22: A disconnection ends the session: when the connection of the session is gone, every field of
  \<open>g_state\<close> is what it is at power-on, except three: the configuration stays, the bytes of the send
  buffer stay (their length is cleared), and the payload length is not reset but computed once more,
  from the configured MTU and the ATT MTU of the connection that was lost, because the connection is
  forgotten last.  Sending is then refused.  The disconnection of another connection changes nothing.
\<close>

theorem disconnected_clears:
  "(pm_conn (g_state s) \<noteq> Some c \<longrightarrow> profile_manager_handle_disconnected api (Some c) s = s) \<and>
   (pm_conn (g_state s) = Some c \<longrightarrow>
      (let s' = profile_manager_handle_disconnected api (Some c) s;
           w = snd (bt_gatt_unsubscribe api c (pm_subscribe_params (g_state s)) (world s))
       in g_state s' = pm_state_0
            \<lparr> pm_config := pm_config (g_state s), pending_write := pending_write (g_state s),
              payload_len := word_of_nat (payload_limit (unat (bt_gatt_get_mtu api c w)) (unat (pm_preferred s))) \<rparr> \<and>
          world s' = w \<and> g_config s' = g_config s \<and> mem.more s' = mem.more s \<and>
          profile_manager_send api' data s' = (RC_ERR ENOTCONN, s')))"
proof (cases "pm_conn (g_state s) = Some c")
  case True
  define w where "w = snd (bt_gatt_unsubscribe api c (pm_subscribe_params (g_state s)) (world s))"
  define t where "t = pm_upd pm_clear (s\<lparr>world := w\<rparr>)"
  have t: "pm_preferred t = pm_preferred s" "pm_att_mtu api t = bt_gatt_get_mtu api c w" "world t = w"
    "g_config t = g_config s" "mem.more t = mem.more s" "g_state t = pm_clear (g_state s)"
    using True deref_config_same [of t s] by (simp_all add: t_def pm_preferred_def pm_att_mtu_def pm_clear_def split: option.split)
  have h: "profile_manager_handle_disconnected api (Some c) s = pm_upd (\<lambda>p. p\<lparr>pm_conn := None\<rparr>) (update_payload_len api t)"
    using True by (simp add: profile_manager_handle_disconnected_def profile_manager_reset_def sys_call_world t_def w_def)
  have "(pm_clear (g_state s))\<lparr>payload_len := x, pm_conn := None\<rparr> =
      pm_state_0\<lparr>pm_config := pm_config (g_state s), pending_write := pending_write (g_state s), payload_len := x\<rparr>" for x
    by (simp add: pm_clear_def pm_state_0_def)
  moreover have "pm_conn pm_state_0 = None" by (simp add: pm_state_0_def)
  ultimately show ?thesis using True
    by (simp add: h t w_def [symmetric] Let_def profile_manager_send_def)
qed (simp add: profile_manager_handle_disconnected_def)

theorem disconnected_clears_witness:
  "fst (profile_manager_send (log_gatt plain_gatt) [1] (profile_manager_handle_disconnected (log_gatt plain_gatt) (Some 7) mem_ready))
     = RC_ERR ENOTCONN"
proof -
  have c: "pm_conn (g_state mem_ready) = Some 7" by (simp add: mem_ready_def)
  show ?thesis
    using disconnected_clears [THEN conjunct2, THEN mp, OF c, of "log_gatt plain_gatt" "log_gatt plain_gatt" "[1]"]
    by (simp add: Let_def)
qed

text \<open>
  Starting on a connection starts from nothing: whatever the previous session left behind, when
  the stack accepts the discovery the state is a fresh session on that connection, with the
  discovery of primary services over the whole handle range in progress.
\<close>

theorem start_fresh:
  assumes "profile_manager_start api cbs (Some c) s = (RC_OK, s')"
  shows "\<exists>dp. g_state s' = (fresh_session (Some c) (g_state s'))\<lparr>service_discover_params := dp\<rparr> \<and>
           dp = \<lparr> dp_func = Some ServiceDiscoverCb, dp_start_handle = 1, dp_end_handle = 0xffff,
                  dp_type = BT_GATT_DISCOVER_PRIMARY \<rparr> \<and>
           pending_write (g_state s') = pending_write (g_state s) \<and>
           (\<exists>w w'. bt_gatt_discover api (Some c) dp w = (RC_OK, w'))"
proof -
  obtain l where r: "g_state (profile_manager_reset api s) =
      (fresh_session (pm_conn (g_state s)) (g_state s))\<lparr>payload_len := l\<rparr>"
    using reset_fresh [of api s] by blast
  define dp where "dp = \<lparr> dp_func = Some ServiceDiscoverCb, dp_start_handle = 1, dp_end_handle = 0xffff,
                  dp_type = BT_GATT_DISCOVER_PRIMARY \<rparr>"
  have dp: "discover_params_0\<lparr> dp_func := Some ServiceDiscoverCb,
      dp_start_handle := BT_ATT_FIRST_ATTRIBUTE_HANDLE, dp_end_handle := BT_ATT_LAST_ATTRIBUTE_HANDLE,
      dp_type := BT_GATT_DISCOVER_PRIMARY \<rparr> = dp"
    by (simp add: dp_def discover_params_0_def BT_ATT_FIRST_ATTRIBUTE_HANDLE_def BT_ATT_LAST_ATTRIBUTE_HANDLE_def)
  define s3 where "s3 = pm_upd (\<lambda>p. p\<lparr>service_discover_params := dp\<rparr>)
      (update_payload_len api (pm_upd (\<lambda>p. p\<lparr>pm_conn := Some c\<rparr>) (profile_manager_reset api s)))"
  have s3: "g_state s3 = (fresh_session (Some c) (g_state s3))\<lparr>service_discover_params := dp\<rparr>"
      "pending_write (g_state s3) = pending_write (g_state s)" "pm_conn (g_state s3) = Some c"
    by (simp_all add: s3_def r fresh_session_def)
  have "pm_config (g_state s) \<noteq> None"
    using assms by (cases "pm_config (g_state s)") (auto simp: profile_manager_start_def)
  then have "sys_call (bt_gatt_discover api (Some c) dp) s3 = (RC_OK, s')"
    using assms s3(3)
    by (auto simp: profile_manager_start_def Let_def dp s3_def [symmetric] split: prod.splits if_splits)
  then have "bt_gatt_discover api (Some c) dp (world s3) = (RC_OK, world s')" "g_state s' = g_state s3"
    by (auto simp: sys_call_world prod_eq_iff)
  then show ?thesis using s3 by (intro exI [of _ dp]) (auto simp: dp_def)
qed

theorem start_fresh_witness:
  "\<exists>s'. profile_manager_start (log_gatt plain_gatt) None (Some 9) mem_ready = (RC_OK, s') \<and>
     \<not> pm_ready (g_state s') \<and> write_value_handle (g_state s') = 0"
proof -
  have "pm_config (g_state mem_ready) = Some G_CONFIG" using mem_ready_inv by (simp add: pm_inv_def)
  then obtain s' where s: "profile_manager_start (log_gatt plain_gatt) None (Some 9) mem_ready = (RC_OK, s')"
    by (simp add: profile_manager_start_def Let_def sys_call_world log_gatt_def logged_def plain_gatt_def)
  from start_fresh [OF s] obtain dp where
    f: "g_state s' = (fresh_session (Some 9) (g_state s'))\<lparr>service_discover_params := dp\<rparr>" by blast
  have "\<not> pm_ready (g_state s') \<and> write_value_handle (g_state s') = 0"
    by (subst f, subst (2) f) (simp add: fresh_session_def pm_state_0_def)
  with s show ?thesis by blast
qed

section \<open>Discovery\<close>

text \<open>A reported UUID matches a profile text: both denote the same UUID.\<close>

definition matches :: "('u, 'w) gatt_api \<Rightarrow> string \<Rightarrow> 'u \<Rightarrow> bool" where
  "matches api text u \<longleftrightarrow>
     (\<exists>v. uuid_denotes (bt_uuid_to_str api u BLE_HOST_UUID_STR_LEN) = Some v \<and> uuid_denotes text = Some v)"

lemma normalize_37:
  "ble_host_normalize_uuid (Some s) BLE_HOST_UUID_STR_LEN = map_option uuid_text (uuid_denotes s)"
  using length_uuid_text [OF uuid_denotes_wf [of s]]
  by (auto simp: normalize_uuid_full BLE_HOST_UUID_STR_LEN_def split: option.split)

lemma uuid_equals_37:
  "ble_host_uuid_equals (Some a) (Some b) \<longleftrightarrow> (\<exists>v. uuid_denotes a = Some v \<and> uuid_denotes b = Some v)"
  by (auto simp: ble_host_uuid_equals_def normalize_37 split: option.splits
      dest: uuid_denotes_wf intro: uuid_text_inject)

text \<open>
  \<open>bt_uuid_to_str\<close> stores a text with its terminator in the 37 bytes it is given.
\<close>

definition uuid_str_fits :: "('u, 'w) gatt_api \<Rightarrow> bool" where
  "uuid_str_fits api \<longleftrightarrow> (\<forall>u. length (bt_uuid_to_str api u BLE_HOST_UUID_STR_LEN) < BLE_HOST_UUID_STR_LEN)"

lemma format_equals:
  assumes "uuid_str_fits api"
  shows "ble_host_uuid_equals (ble_host_format_uuid_from_bt (bt_uuid_to_str api) (Some u) BLE_HOST_UUID_STR_LEN)
           (Some text) = matches api text u"
proof -
  let ?raw = "bt_uuid_to_str api u BLE_HOST_UUID_STR_LEN"
  have raw: "snprintk BLE_HOST_UUID_STR_LEN ?raw = ?raw"
    using assms by (simp add: uuid_str_fits_def snprintk_fits)
  have p: "BLE_HOST_UUID_STR_LEN \<noteq> 0" by (simp add: BLE_HOST_UUID_STR_LEN_def)
  show ?thesis
  proof (cases "uuid_denotes ?raw")
    case None
    then show ?thesis using p raw
      by (simp add: ble_host_format_uuid_from_bt_def normalize_37 uuid_equals_37 matches_def)
  next
    case (Some v)
    then show ?thesis using p uuid_denotes_text [OF uuid_denotes_wf [OF Some]]
      by (simp add: ble_host_format_uuid_from_bt_def normalize_37 uuid_equals_37 matches_def)
  qed
qed

text \<open>The stack reports the attributes one after the other as long as the handler continues.\<close>

fun report_services ::
  "('u, 'w) gatt_api \<Rightarrow> ('w, 'a) callbacks \<Rightarrow> 'u service_attr list \<Rightarrow> discover_params \<Rightarrow>
     ('w, 'a) mem_scheme \<Rightarrow> ('w, 'a) mem_scheme option" where
  "report_services api cbs [] dp s = Some s"
| "report_services api cbs (a # as) dp s =
     (case service_discover_cb api cbs (Some a) dp s of
        None \<Rightarrow> None
      | Some (r, s') \<Rightarrow> if r = BT_GATT_ITER_CONTINUE then report_services api cbs as dp s' else Some s')"

fun report_chrcs ::
  "('u, 'w) gatt_api \<Rightarrow> ('w, 'a) callbacks \<Rightarrow> 'u chrc_attr list \<Rightarrow> discover_params \<Rightarrow>
     ('w, 'a) mem_scheme \<Rightarrow> ('w, 'a) mem_scheme option" where
  "report_chrcs api cbs [] dp s = Some s"
| "report_chrcs api cbs (a # as) dp s =
     (case characteristic_discover_cb api cbs (Some a) dp s of
        None \<Rightarrow> None
      | Some (r, s') \<Rightarrow> if r = BT_GATT_ITER_CONTINUE then report_chrcs api cbs as dp s' else Some s')"

definition found_service :: "'u service_attr list \<Rightarrow> pm_state \<Rightarrow> pm_state" where
  "found_service ms p =
     (if ms = [] then p
      else p\<lparr>service_found := True, service_start_handle := sa_handle (last ms),
             service_end_handle := sa_end_handle (last ms)\<rparr>)"

text \<open>
  After any sequence of reported primary services the service is found exactly when it was before or
  one of them has the configured UUID, in whatever text form it was configured; the range kept is
  that of the last such service.
\<close>

lemma services_reported:
  assumes fits: "uuid_str_fits api" and cfg: "pm_config (g_state s) = Some G_CONFIG"
    and ty: "dp_type dp = BT_GATT_DISCOVER_PRIMARY"
  shows "report_services api cbs as dp s =
     Some (pm_upd (found_service
       (filter (\<lambda>a. matches api (service_uuid (active_profile (g_config s))) (sa_uuid a)) as)) s)"
  using cfg
proof (induction as arbitrary: s)
  case (Cons a as)
  let ?m = "\<lambda>a. matches api (service_uuid (active_profile (g_config s))) (sa_uuid a)"
  have fs: "found_service [a] = (\<lambda>p. p\<lparr>service_found := True, service_start_handle := sa_handle a,
      service_end_handle := sa_end_handle a\<rparr>)"
    by (simp add: found_service_def fun_eq_iff)
  define s1 where "s1 = (if ?m a then pm_upd (found_service [a]) s else s)"
  have step: "service_discover_cb api cbs (Some a) dp s = Some (BT_GATT_ITER_CONTINUE, s1)"
    using Cons.prems ty
    by (simp add: service_discover_cb_def profile_text_def format_equals [OF fits] s1_def fs)
  have s1: "pm_config (g_state s1) = Some G_CONFIG" "g_config s1 = g_config s"
    using Cons.prems by (simp_all add: s1_def fs)
  have join: "found_service ms (found_service [a] p) = found_service (a # ms) p" for ms p
    by (simp add: found_service_def)
  show ?case
    using Cons.IH [OF s1(1)] by (simp add: step s1(2)) (simp add: s1_def join)
next
  case Nil
  show ?case unfolding report_services.simps filter.simps option.inject
    by (cases s) (simp add: found_service_def)
qed

lemma log_plain [simp]:
  "bt_uuid_to_str (log_gatt plain_gatt) = (\<lambda>u n. snprintk n u)"
  "bt_gatt_get_mtu (log_gatt plain_gatt) c w = 247"
  "bt_gatt_subscribe (log_gatt plain_gatt) k p = logged (GSubscribe k p) (Pair RC_OK)"
  "bt_gatt_discover (log_gatt plain_gatt) k d = logged (GDiscover k d) (Pair RC_OK)"
  "bt_gatt_exchange_mtu (log_gatt plain_gatt) c x = logged (GExchange c RC_OK) (Pair RC_OK)"
  by (simp_all add: log_gatt_def plain_gatt_def logged_def fun_eq_iff)

lemma plain_fits: "uuid_str_fits (log_gatt plain_gatt)"
  by (simp add: uuid_str_fits_def length_snprintk BLE_HOST_UUID_STR_LEN_def)

lemma mem0_facts: "pm_config (g_state mem0) = Some G_CONFIG" "g_config mem0 = g_config_init"
  by (simp_all add: mem0_def profile_manager_init_def)

text \<open>A whole discovery: the reports, and then, unless the handler stopped it, the end.\<close>

definition discover_services ::
  "('u, 'w) gatt_api \<Rightarrow> ('w, 'a) callbacks \<Rightarrow> 'u service_attr list \<Rightarrow> discover_params \<Rightarrow>
     ('w, 'a) mem_scheme \<Rightarrow> ('w, 'a) mem_scheme option" where
  "discover_services api cbs as dp s =
     (case report_services api cbs as dp s of
        None \<Rightarrow> None
      | Some s1 \<Rightarrow> map_option snd (service_discover_cb api cbs None dp s1))"

lemma log_gatt_simps [simp]:
  "matches (log_gatt api) = matches api" "uuid_str_fits (log_gatt api) = uuid_str_fits api"
  "bt_gatt_discover (log_gatt api) k d = logged (GDiscover k d) (bt_gatt_discover api k d)"
  "bt_gatt_subscribe (log_gatt api) k p = logged (GSubscribe k p) (bt_gatt_subscribe api k p)"
  "bt_gatt_get_mtu (log_gatt api) c wl = bt_gatt_get_mtu api c (fst wl)"
  by (simp_all add: matches_def uuid_str_fits_def log_gatt_def fun_eq_iff)

lemma logged_simps [simp]:
  "fst (logged c f wl) = fst (f (fst wl))" "snd (snd (logged c f wl)) = snd wl @ [c]"
  "fst (snd (logged c f wl)) = snd (f (fst wl))"
  by (simp_all add: logged_def)

text \<open>The request for the characteristics of a handle range.\<close>

definition chrc_request :: "u16 \<Rightarrow> u16 \<Rightarrow> discover_params" where
  "chrc_request lo hi = \<lparr> dp_func = Some CharacteristicDiscoverCb, dp_start_handle = lo, dp_end_handle = hi,
     dp_type = BT_GATT_DISCOVER_CHARACTERISTIC \<rparr>"

text \<open>
  C19: Service discovery, from the first report to the end, for any stack and any sequence of
  primary services, in a session that has not found the service: when none of them has the
  configured UUID (in whatever text form it was configured), the state does not change and the only
  call is the error callback with SERVICE_MISSING.  Otherwise the service is found with the handle
  range of the last match, and the discovery of characteristics is requested once, in exactly this
  range, on the session's connection, with its parameters kept in \<open>g_state\<close>; if the stack refuses
  it, the error DISCOVER_FAILED is reported.  Nothing else changes and no null pointer is followed.
\<close>

theorem service_discovery:
  assumes fits: "uuid_str_fits api" and cfg: "pm_config (g_state s) = Some G_CONFIG"
    and ty: "dp_type dp = BT_GATT_DISCOVER_PRIMARY" and new: "\<not> service_found (g_state s)"
  shows "\<exists>s'. discover_services (log_gatt api) rec_cbs as dp s = Some s' \<and>
    g_config s' = g_config s \<and> mem.more s' = mem.more s \<and>
    (let ms = filter (\<lambda>a. matches api (service_uuid (active_profile (g_config s))) (sa_uuid a)) as;
         req = chrc_request (sa_handle (last ms)) (sa_end_handle (last ms))
     in if ms = [] then g_state s' = g_state s \<and> snd (world s') = snd (world s) @ [CError PROFILE_MANAGER_ERROR_SERVICE_MISSING]
        else g_state s' = (g_state s)\<lparr>service_found := True, service_start_handle := sa_handle (last ms),
                 service_end_handle := sa_end_handle (last ms), characteristic_discover_params := req\<rparr> \<and>
             snd (world s') = snd (world s) @ GDiscover (pm_conn (g_state s)) req #
               (if fst (bt_gatt_discover api (pm_conn (g_state s)) req (fst (world s))) = RC_OK then []
                else [CError PROFILE_MANAGER_ERROR_DISCOVER_FAILED]))"
proof -
  define ms where "ms = filter (\<lambda>a. matches api (service_uuid (active_profile (g_config s))) (sa_uuid a)) as"
  have rep: "report_services (log_gatt api) rec_cbs as dp s = Some (pm_upd (found_service ms) s)"
    using services_reported [of "log_gatt api" s dp rec_cbs as] fits cfg ty by (simp add: ms_def)
  show ?thesis
  proof (cases "ms = []")
    case True
    then have "found_service ms = (\<lambda>p. p)" by (simp add: found_service_def fun_eq_iff)
    then show ?thesis using new True
      by (simp add: discover_services_def rep service_discover_cb_def ms_def [symmetric] Let_def)
  next
    case False
    then have "found_service ms = (\<lambda>p. p\<lparr>service_found := True, service_start_handle := sa_handle (last ms),
        service_end_handle := sa_end_handle (last ms)\<rparr>)" by (simp add: found_service_def fun_eq_iff)
    then show ?thesis using False
      by (simp add: discover_services_def rep service_discover_cb_def start_characteristic_discovery_def
          ms_def [symmetric] Let_def sys_call_world discover_params_0_def chrc_request_def)
  qed
qed

theorem service_discovery_witness:
  "\<exists>s'. discover_services (log_gatt plain_gatt) rec_cbs
      [\<lparr>sa_handle = 1, sa_uuid = ''1800'', sa_end_handle = 9\<rparr>,
       \<lparr>sa_handle = 16, sa_uuid = ''fff0'', sa_end_handle = 32\<rparr>]
      (discover_params_0\<lparr>dp_type := BT_GATT_DISCOVER_PRIMARY\<rparr>) mem0 = Some s' \<and>
     service_found (g_state s') \<and> snd (world s') = [GDiscover None (chrc_request 16 32)]"
proof -
  let ?as = "[\<lparr>sa_handle = 1, sa_uuid = ''1800'', sa_end_handle = 9\<rparr>,
       \<lparr>sa_handle = 16, sa_uuid = ''fff0'', sa_end_handle = 32\<rparr>]"
  have d: "uuid_denotes (snprintk BLE_HOST_UUID_STR_LEN ''1800'') = Some (Uuid16 ''1800'')"
    "uuid_denotes (snprintk BLE_HOST_UUID_STR_LEN ''fff0'') = Some (Uuid16 ''FFF0'')"
    "uuid_denotes ''0xFFF0'' = Some (Uuid16 ''FFF0'')" by code_simp+
  have ty: "dp_type (discover_params_0\<lparr>dp_type := BT_GATT_DISCOVER_PRIMARY\<rparr>) = BT_GATT_DISCOVER_PRIMARY"
    by simp
  have f: "filter (\<lambda>a. matches plain_gatt (service_uuid (active_profile (g_config mem0))) (sa_uuid a)) ?as
      = [\<lparr>sa_handle = 16, sa_uuid = ''fff0'', sa_end_handle = 32\<rparr>]"
    by (simp add: mem0_facts g_config_init_def matches_def d plain_gatt_def)
  have n: "\<not> service_found (g_state mem0)" "pm_conn (g_state mem0) = None" "snd (world mem0) = []"
    by (simp_all add: mem0_def profile_manager_init_def pm_state_0_def)
  have fits: "uuid_str_fits plain_gatt" using plain_fits by simp
  have ok: "fst (bt_gatt_discover plain_gatt k r w) = RC_OK" for k r w by (simp add: plain_gatt_def)
  from service_discovery [OF fits mem0_facts(1) ty n(1), of ?as] show ?thesis
    unfolding f using n by (auto simp: Let_def ok)
qed

definition found_notify :: "'u chrc_attr list \<Rightarrow> pm_state \<Rightarrow> pm_state" where
  "found_notify ms p =
     (if notify_found p \<or> ms = [] then p
      else p\<lparr>notify_found := True, notify_value_handle := ca_value_handle (hd ms)\<rparr>)"

definition found_write :: "'u chrc_attr list \<Rightarrow> pm_state \<Rightarrow> pm_state" where
  "found_write ms p =
     (if write_found p \<or> ms = [] then p
      else p\<lparr>write_found := True, write_value_handle := ca_value_handle (hd ms),
             write_properties := ca_properties (hd ms)\<rparr>)"

lemma found_commute: "found_write x (found_notify y p) = found_notify y (found_write x p)"
  by (simp add: found_write_def found_notify_def)

lemma found_chrc_cons:
  "found_notify ms (found_notify [a] p) = found_notify (a # ms) p"
  "found_write ms (found_write [a] p) = found_write (a # ms) p"
  "found_notify [] p = p" "found_write [] p = p"
  by (simp_all add: found_notify_def found_write_def)

lemma found_keep [simp]:
  "pm_config (found_notify ms p) = pm_config p" "pm_config (found_write ms p) = pm_config p"
  "write_found (found_notify ms p) = write_found p"
  by (simp_all add: found_notify_def found_write_def)

lemma pm_upd_same [simp]: "s\<lparr>g_state := g_state s\<rparr> = s"
  by (cases s) simp

lemma chrc_step:
  assumes fits: "uuid_str_fits api" and cfg: "pm_config (g_state s) = Some G_CONFIG"
    and ty: "dp_type dp = BT_GATT_DISCOVER_CHARACTERISTIC"
  defines "n \<equiv> matches api (notify_uuid (active_profile (g_config s)))"
    and "w \<equiv> matches api (write_uuid (active_profile (g_config s)))"
  shows "characteristic_discover_cb api cbs (Some a) dp s =
    Some (BT_GATT_ITER_CONTINUE,
      pm_upd (\<lambda>p. found_write (filter (\<lambda>a. w (ca_uuid a)) [a]) (found_notify (filter (\<lambda>a. n (ca_uuid a)) [a]) p)) s)"
proof -
  note set_n = pm_upd_set [of "\<lambda>p. p\<lparr>notify_found := True, notify_value_handle := ca_value_handle a\<rparr>"]
    and set_w = pm_upd_set [of "\<lambda>p. p\<lparr>write_found := True, write_value_handle := ca_value_handle a,
        write_properties := ca_properties a\<rparr>"]
    and set_r = pm_upd_set [of "\<lambda>p. found_write (filter (\<lambda>a. w (ca_uuid a)) [a])
        (found_notify (filter (\<lambda>a. n (ca_uuid a)) [a]) p)"]
  show ?thesis
    unfolding characteristic_discover_cb_def set_r
    by (cases "notify_found (g_state s)"; cases "n (ca_uuid a)"; cases "write_found (g_state s)"; cases "w (ca_uuid a)")
      (simp_all add: cfg ty format_equals [OF fits] n_def w_def profile_text_def set_n set_w
        found_notify_def found_write_def Let_def)
qed

text \<open>
  After any sequence of reported characteristics, notify and write are each found exactly when one
  was found before or one of the reported UUIDs is the configured one; the first match wins and, for
  the write characteristic, its properties are kept.
\<close>

lemma chrcs_reported:
  assumes fits: "uuid_str_fits api" and cfg: "pm_config (g_state s) = Some G_CONFIG"
    and ty: "dp_type dp = BT_GATT_DISCOVER_CHARACTERISTIC"
  shows "report_chrcs api cbs as dp s =
    Some (pm_upd (\<lambda>p.
      found_write (filter (\<lambda>a. matches api (write_uuid (active_profile (g_config s))) (ca_uuid a)) as)
      (found_notify (filter (\<lambda>a. matches api (notify_uuid (active_profile (g_config s))) (ca_uuid a)) as) p)) s)"
  using cfg
proof (induction as arbitrary: s)
  case Nil
  show ?case unfolding report_chrcs.simps filter.simps option.inject
    by (cases s) (simp add: found_chrc_cons)
next
  case (Cons a as)
  let ?n = "\<lambda>a. matches api (notify_uuid (active_profile (g_config s))) (ca_uuid a)"
  let ?w = "\<lambda>a. matches api (write_uuid (active_profile (g_config s))) (ca_uuid a)"
  define s1 where "s1 = pm_upd (\<lambda>p. found_write (filter ?w [a]) (found_notify (filter ?n [a]) p)) s"
  have step: "characteristic_discover_cb api cbs (Some a) dp s = Some (BT_GATT_ITER_CONTINUE, s1)"
    unfolding s1_def by (rule chrc_step [OF fits Cons.prems ty])
  have s1: "pm_config (g_state s1) = Some G_CONFIG" "g_config s1 = g_config s"
    using Cons.prems by (simp_all add: s1_def)
  have "pm_upd (\<lambda>p. found_write (filter ?w as) (found_notify (filter ?n as) p)) s1 =
      pm_upd (\<lambda>p. found_write (filter ?w (a # as)) (found_notify (filter ?n (a # as)) p)) s"
    unfolding s1_def by (simp add: comp_def found_commute found_chrc_cons)
  then show ?case using Cons.IH [OF s1(1)] by (simp only: report_chrcs.simps step s1(2)) simp
qed

definition discover_chrcs ::
  "('u, 'w) gatt_api \<Rightarrow> ('w, 'a) callbacks \<Rightarrow> 'u chrc_attr list \<Rightarrow> discover_params \<Rightarrow>
     ('w, 'a) mem_scheme \<Rightarrow> ('w, 'a) mem_scheme option" where
  "discover_chrcs api cbs as dp s =
     (case report_chrcs api cbs as dp s of
        None \<Rightarrow> None
      | Some s1 \<Rightarrow> map_option snd (characteristic_discover_cb api cbs None dp s1))"

text \<open>The request for notifications of a characteristic of a service that ends at a handle.\<close>

definition notify_request :: "u16 \<Rightarrow> u16 \<Rightarrow> subscribe_params" where
  "notify_request value_handle end_handle = \<lparr> sp_notify = Some NotifyHandler, sp_subscribe = Some SubscribeHandler,
     sp_value_handle = value_handle, sp_ccc_handle = BT_GATT_AUTO_DISCOVER_CCC_HANDLE, sp_end_handle = end_handle,
     sp_disc_params = Some CCC_DISCOVER_PARAMS, sp_value = BT_GATT_CCC_NOTIFY \<rparr>"

text \<open>
  C20: Characteristic discovery, from the first report to the end, for any stack and any sequence of
  characteristics, in a session that has found neither characteristic: the first one with the notify
  UUID and the first one with the write UUID are kept, the latter with its properties.  When there is
  no notify characteristic, the only call is the error NOTIFY_MISSING; when there is no write
  characteristic, WRITE_MISSING.  When there are both and subscribing is configured, exactly one
  subscription, to that notify characteristic within the service, is requested on the session's
  connection, and SUBSCRIBE_FAILED is reported if the stack refuses it; when subscribing is not
  configured, the profile is ready at once and reported so.  Only then is it ready.  Nothing else
  changes and no null pointer is followed.
\<close>

theorem characteristic_discovery:
  assumes fits: "uuid_str_fits api" and cfg: "pm_config (g_state s) = Some G_CONFIG"
    and ty: "dp_type dp = BT_GATT_DISCOVER_CHARACTERISTIC"
    and new: "\<not> notify_found (g_state s)" "\<not> write_found (g_state s)"
  shows "\<exists>s'. discover_chrcs (log_gatt api) rec_cbs as dp s = Some s' \<and>
    g_config s' = g_config s \<and> mem.more s' = mem.more s \<and>
    (let ns = filter (\<lambda>a. matches api (notify_uuid (active_profile (g_config s))) (ca_uuid a)) as;
         ws = filter (\<lambda>a. matches api (write_uuid (active_profile (g_config s))) (ca_uuid a)) as;
         p1 = (if ns = [] then g_state s
               else (g_state s)\<lparr>notify_found := True, notify_value_handle := ca_value_handle (hd ns)\<rparr>);
         p2 = (if ws = [] then p1
               else p1\<lparr>write_found := True, write_value_handle := ca_value_handle (hd ws),
                       write_properties := ca_properties (hd ws)\<rparr>);
         req = notify_request (ca_value_handle (hd ns)) (service_end_handle (g_state s));
         calls = drop (length (snd (world s))) (snd (world s'))
     in take (length (snd (world s))) (snd (world s')) = snd (world s) \<and>
        (if ns = [] then g_state s' = p2 \<and> calls = [CError PROFILE_MANAGER_ERROR_NOTIFY_MISSING]
         else if ws = [] then g_state s' = p2 \<and> calls = [CError PROFILE_MANAGER_ERROR_WRITE_MISSING]
         else if auto_subscribe (g_config s)
         then g_state s' = p2\<lparr>pm_subscribe_params := req\<rparr> \<and>
              calls = GSubscribe (pm_conn (g_state s)) req #
                (if fst (bt_gatt_subscribe api (pm_conn (g_state s)) req (fst (world s))) = RC_OK then []
                 else [CError PROFILE_MANAGER_ERROR_SUBSCRIBE_FAILED])
         else g_state s' = p2\<lparr>pm_ready := True\<rparr> \<and> calls = [CReady]))"
proof -
  define ns where "ns = filter (\<lambda>a. matches api (notify_uuid (active_profile (g_config s))) (ca_uuid a)) as"
  define ws where "ws = filter (\<lambda>a. matches api (write_uuid (active_profile (g_config s))) (ca_uuid a)) as"
  have rep: "report_chrcs (log_gatt api) rec_cbs as dp s =
      Some (s\<lparr>g_state := found_write ws (found_notify ns (g_state s))\<rparr>)"
    using chrcs_reported [of "log_gatt api" s dp rec_cbs as] fits cfg ty
    by (simp add: ns_def ws_def pm_upd_set [of "\<lambda>p. found_write x (found_notify y p)" for x y])
  show ?thesis
    unfolding ns_def [symmetric] ws_def [symmetric] Let_def
    using new cfg
    by (simp add: discover_chrcs_def rep characteristic_discover_cb_def subscribe_notify_characteristic_def
        found_write_def found_notify_def Let_def sys_call_world subscribe_params_0_def notify_request_def)
qed

theorem characteristic_discovery_witness:
  "\<exists>s'. discover_chrcs (log_gatt plain_gatt) rec_cbs
      [\<lparr>ca_uuid = ''fff2'', ca_value_handle = 18, ca_properties = 12\<rparr>,
       \<lparr>ca_uuid = ''fff1'', ca_value_handle = 21, ca_properties = 16\<rparr>,
       \<lparr>ca_uuid = ''fff2'', ca_value_handle = 24, ca_properties = 8\<rparr>]
      (discover_params_0\<lparr>dp_type := BT_GATT_DISCOVER_CHARACTERISTIC\<rparr>) mem0 = Some s' \<and>
     write_value_handle (g_state s') = 18 \<and> write_properties (g_state s') = 12 \<and>
     snd (world s') = [GSubscribe None (notify_request 21 0)]"
proof -
  let ?as = "[\<lparr>ca_uuid = ''fff2'', ca_value_handle = 18, ca_properties = 12\<rparr>,
       \<lparr>ca_uuid = ''fff1'', ca_value_handle = 21, ca_properties = 16\<rparr>,
       \<lparr>ca_uuid = ''fff2'', ca_value_handle = 24, ca_properties = 8\<rparr>]"
  have d: "uuid_denotes (snprintk BLE_HOST_UUID_STR_LEN ''fff1'') = Some (Uuid16 ''FFF1'')"
    "uuid_denotes (snprintk BLE_HOST_UUID_STR_LEN ''fff2'') = Some (Uuid16 ''FFF2'')"
    "uuid_denotes ''0xFFF1'' = Some (Uuid16 ''FFF1'')" "uuid_denotes ''0xFFF2'' = Some (Uuid16 ''FFF2'')"
    by code_simp+
  have ty: "dp_type (discover_params_0\<lparr>dp_type := BT_GATT_DISCOVER_CHARACTERISTIC\<rparr>) = BT_GATT_DISCOVER_CHARACTERISTIC"
    by simp
  have f: "filter (\<lambda>a. matches plain_gatt (write_uuid (active_profile (g_config mem0))) (ca_uuid a)) ?as
      = [?as ! 0, ?as ! 2]"
    "filter (\<lambda>a. matches plain_gatt (notify_uuid (active_profile (g_config mem0))) (ca_uuid a)) ?as
      = [?as ! 1]"
    by (simp_all add: mem0_facts g_config_init_def matches_def d plain_gatt_def)
  have n: "\<not> notify_found (g_state mem0)" "\<not> write_found (g_state mem0)" "pm_conn (g_state mem0) = None"
    "snd (world mem0) = []" "auto_subscribe (g_config mem0)" "service_end_handle (g_state mem0) = 0"
    by (simp_all add: mem0_def profile_manager_init_def pm_state_0_def g_config_init_def)
  have fits: "uuid_str_fits plain_gatt" using plain_fits by simp
  have ok: "fst (bt_gatt_subscribe plain_gatt k r w) = RC_OK" for k r w by (simp add: plain_gatt_def)
  from characteristic_discovery [OF fits mem0_facts(1) ty n(1,2), of ?as] show ?thesis
    unfolding f using n by (auto simp: Let_def ok)
qed

text \<open>
  C23: The discovery handlers are safe with respect to null pointers: in every state that keeps the
  invariant they never read the configuration through a null pointer, and they never hand a null
  connection to the stack, so that it does not matter what the stack would do with one.
\<close>

theorem discovery_null_safe:
  assumes inv: "pm_inv (g_state s)"
    and api': "api' = api\<lparr> bt_gatt_discover := (\<lambda>c. case c of None \<Rightarrow> f | Some k \<Rightarrow> bt_gatt_discover api (Some k)),
                        bt_gatt_subscribe := (\<lambda>c. case c of None \<Rightarrow> g | Some k \<Rightarrow> bt_gatt_subscribe api (Some k)) \<rparr>"
  shows "service_discover_cb api cbs a dp s \<noteq> None \<and>
         service_discover_cb api' cbs a dp s = service_discover_cb api cbs a dp s \<and>
         characteristic_discover_cb api cbs b dp s \<noteq> None \<and>
         characteristic_discover_cb api' cbs b dp s = characteristic_discover_cb api cbs b dp s"
proof -
  have cfg: "pm_config (g_state s) = Some G_CONFIG"
    and conn: "notify_found (g_state s) \<or> service_found (g_state s) \<Longrightarrow> \<exists>c. pm_conn (g_state s) = Some c"
    using inv by (auto simp: pm_inv_def pm_idle_def)
  have 1: "service_discover_cb api cbs a dp s \<noteq> None"
    by (simp add: service_discover_cb_def profile_text_def cfg Let_def split: option.split)
  have 2: "characteristic_discover_cb api cbs b dp s \<noteq> None"
    by (simp add: characteristic_discover_cb_def profile_text_def cfg Let_def split: option.split)
  have 3: "service_discover_cb api' cbs a dp s = service_discover_cb api cbs a dp s"
  proof (cases "a = None \<and> service_found (g_state s)")
    case True
    then obtain c where "pm_conn (g_state s) = Some c" using conn by auto
    with True show ?thesis by (simp add: service_discover_cb_def start_characteristic_discovery_def api' Let_def)
  next
    case False
    then show ?thesis by (auto simp: service_discover_cb_def api' split: option.split)
  qed
  have 4: "characteristic_discover_cb api' cbs b dp s = characteristic_discover_cb api cbs b dp s"
  proof (cases "b = None \<and> notify_found (g_state s)")
    case True
    then obtain c where "pm_conn (g_state s) = Some c" using conn by auto
    with True show ?thesis by (simp add: characteristic_discover_cb_def subscribe_notify_characteristic_def api' Let_def)
  next
    case False
    then show ?thesis by (auto simp: characteristic_discover_cb_def api' split: option.split)
  qed
  show ?thesis using 1 2 3 4 by blast
qed

theorem discovery_null_safe_witness:
  "characteristic_discover_cb (log_gatt plain_gatt) None None discover_params_0 mem_ready \<noteq> None"
  using discovery_null_safe [OF mem_ready_inv refl, of "log_gatt plain_gatt"] by blast

section \<open>The MTU exchange\<close>

lemma xp_func_upd: "x\<lparr>xp_func := y\<rparr> = \<lparr>xp_func = y\<rparr>"
  by (cases x) simp

text \<open>A run of the interface: its events in order.\<close>

inductive pm_run ::
  "('u, 'w) gatt_api \<Rightarrow> ('w, 'a) callbacks \<Rightarrow> ('w, 'a) mem_scheme \<Rightarrow> 'u pm_event list \<Rightarrow> ('w, 'a) mem_scheme \<Rightarrow> bool"
  for api cbs where
  stop: "pm_run api cbs s [] s"
| more: "pm_step api cbs s ev s' \<Longrightarrow> pm_run api cbs s' evs s'' \<Longrightarrow> pm_run api cbs s (ev # evs) s''"

text \<open>The exchanges the stack accepted, those it had done before, and the reported payload lengths.\<close>

definition count_calls :: "(gatt_call \<Rightarrow> bool) \<Rightarrow> ('w \<times> gatt_call list, 'a) mem_scheme \<Rightarrow> nat" where
  "count_calls P s = length (filter P (snd (world s)))"

fun is_accepted :: "gatt_call \<Rightarrow> bool" where
  "is_accepted (GExchange c rc) \<longleftrightarrow> rc = RC_OK"
| "is_accepted _ \<longleftrightarrow> False"

fun is_already_done :: "gatt_call \<Rightarrow> bool" where
  "is_already_done (GExchange c rc) \<longleftrightarrow> rc = RC_ERR EALREADY"
| "is_already_done _ \<longleftrightarrow> False"

fun is_mtu_report :: "gatt_call \<Rightarrow> bool" where
  "is_mtu_report (CMtu m) \<longleftrightarrow> True"
| "is_mtu_report _ \<longleftrightarrow> False"

fun is_completion :: "'u pm_event \<Rightarrow> bool" where
  "is_completion (PmExchanged err) \<longleftrightarrow> True"
| "is_completion _ \<longleftrightarrow> False"

fun in_session :: "'u pm_event \<Rightarrow> bool" where
  "in_session (PmStart c) \<longleftrightarrow> False"
| "in_session (PmDisconnected c) \<longleftrightarrow> False"
| "in_session _ \<longleftrightarrow> True"

text \<open>A request and a completion, in any state.\<close>

lemma request_mtu_eq:
  fixes api :: "('u, 'w) gatt_api" and s :: "('w \<times> gatt_call list, 'a) mem_scheme"
  assumes c: "pm_conn (g_state s) = Some c"
  defines "rc \<equiv> fst (bt_gatt_exchange_mtu api c \<lparr>xp_func = Some ExchangeHandler\<rparr> (fst (world s)))"
    and "r \<equiv> profile_manager_request_mtu (log_gatt api) rec_cbs s"
  shows "if exchange_in_progress (g_state s) then r = (RC_ERR EBUSY, s)
    else fst r = (if rc = RC_ERR EALREADY then RC_OK else rc) \<and>
      exchange_in_progress (g_state (snd r)) = (rc = RC_OK) \<and>
      snd (world (snd r)) = snd (world s) @ GExchange c rc #
        (if rc = RC_ERR EALREADY then [CMtu (payload_len (g_state (snd r)))] else [])"
  using c by (auto simp: r_def rc_def profile_manager_request_mtu_def sys_call_world Let_def xp_func_upd
      log_gatt_def)

lemma exchange_handler_eq:
  fixes api :: "('u, 'w) gatt_api" and s :: "('w \<times> gatt_call list, 'a) mem_scheme"
  defines "t err \<equiv> exchange_handler (log_gatt api) rec_cbs err s"
  shows "\<not> exchange_in_progress (g_state (t err))" "pm_exchange_params (g_state (t err)) = exchange_params_0"
    "snd (world (t err)) = snd (world s) @ (if err = 0 then [CMtu (payload_len (g_state (t err)))] else [])"
    "payload_len (g_state (t err)) =
       (if err = 0 then payload_len (g_state (update_payload_len (log_gatt api) s)) else payload_len (g_state s))"
  by (simp_all add: t_def exchange_handler_def Let_def pm_att_mtu_def pm_preferred_def deref_config_upd
      split: option.split)

text \<open>No other event in a session has to do with exchanges.\<close>

lemma other_steps:
  assumes "pm_step (log_gatt api) rec_cbs s ev s'" "in_session ev" "ev \<noteq> PmRequestMtu" "\<not> is_completion ev"
    and P: "\<And>x. P x \<Longrightarrow> (\<exists>c r. x = GExchange c r) \<or> (\<exists>m. x = CMtu m)"
  shows "exchange_in_progress (g_state s') = exchange_in_progress (g_state s) \<and> count_calls P s' = count_calls P s"
proof -
  have no: "\<not> P CReady" "\<not> P (CError e)" "\<not> P (CPayload d)" "\<not> P (GDiscover k dp)" "\<not> P (GSubscribe k sp)"
    "\<not> P (GWrite c h d)" "\<not> P (GWriteCmd c h d)" for e d k dp sp c h
    using P by blast+
  show ?thesis
    using assms(1-4)
  proof (induction rule: pm_step.induct)
    case (3 s)
    then show ?case by (simp add: profile_manager_set_config_def count_calls_def)
  next
    case (5 s)
    then show ?case
      by (auto simp: profile_manager_request_data_len_def sys_call_world count_calls_def log_gatt_def unlogged_def split: option.split)
  next
    case (6 s)
    then show ?case
      by (auto simp: profile_manager_request_phy_def sys_call_world count_calls_def log_gatt_def unlogged_def split: option.split)
  next
    case (7 s d)
    then show ?case
      by (auto simp: profile_manager_send_def Let_def sys_call_world count_calls_def log_gatt_def no split: option.split)
  next
    case (8 s d)
    then show ?case by (auto simp: notify_handler_def rec_cbs_def count_calls_def no split: option.split)
  next
    case (9 s err)
    then show ?case by (simp add: subscribe_handler_def count_calls_def no)
  next
    case (10 a s r s')
    then show ?case
      by (auto simp: service_discover_cb_def start_characteristic_discovery_def Let_def sys_call_world count_calls_def no
          split: option.splits if_splits)
  next
    case (11 b s r s')
    then show ?case
      by (auto simp: characteristic_discover_cb_def subscribe_notify_characteristic_def Let_def sys_call_world
          count_calls_def no split: option.splits if_splits)
  next
    case (13 s err)
    then show ?case by (simp add: write_handler_def Let_def count_calls_def no)
  qed auto
qed

lemma request_step:
  assumes s': "s' = snd (profile_manager_request_mtu (log_gatt api) rec_cbs s)"
  shows "count_calls is_accepted s' + of_bool (exchange_in_progress (g_state s)) =
      count_calls is_accepted s + of_bool (exchange_in_progress (g_state s'))"
    "count_calls is_mtu_report s' + count_calls is_already_done s = count_calls is_mtu_report s + count_calls is_already_done s'"
    "exchange_in_progress (g_state s) \<Longrightarrow> exchange_in_progress (g_state s')"
proof -
  have "s' = s \<or> (\<exists>c. pm_conn (g_state s) = Some c)"
    by (cases "pm_conn (g_state s)") (simp_all add: s' profile_manager_request_mtu_def)
  then show "count_calls is_accepted s' + of_bool (exchange_in_progress (g_state s)) =
      count_calls is_accepted s + of_bool (exchange_in_progress (g_state s'))"
    "count_calls is_mtu_report s' + count_calls is_already_done s = count_calls is_mtu_report s + count_calls is_already_done s'"
    "exchange_in_progress (g_state s) \<Longrightarrow> exchange_in_progress (g_state s')"
    using request_mtu_eq [of s _ api] by (auto simp: s' count_calls_def split: if_splits)
qed

lemma exchange_run:
  assumes "pm_run (log_gatt api) rec_cbs s evs s'" "list_all in_session evs"
  shows "count_calls is_accepted s' + of_bool (exchange_in_progress (g_state s)) \<le>
      count_calls is_accepted s + length (filter is_completion evs) + of_bool (exchange_in_progress (g_state s')) \<and>
    count_calls is_mtu_report s' + count_calls is_already_done s =
      count_calls is_mtu_report s + count_calls is_already_done s' + length (filter (\<lambda>ev. ev = PmExchanged 0) evs)"
  using assms
proof (induction rule: pm_run.induct)
  case (more s ev s' evs s'')
  have "count_calls is_accepted s' + of_bool (exchange_in_progress (g_state s)) \<le>
      count_calls is_accepted s + of_bool (is_completion ev) + of_bool (exchange_in_progress (g_state s')) \<and>
    count_calls is_mtu_report s' + count_calls is_already_done s =
      count_calls is_mtu_report s + count_calls is_already_done s' + of_bool (ev = PmExchanged 0)"
  proof (cases "ev = PmRequestMtu \<or> is_completion ev")
    case True
    then consider "ev = PmRequestMtu" | err where "ev = PmExchanged err" by (cases ev) auto
    then show ?thesis
    proof cases
      case 1
      then have "s' = snd (profile_manager_request_mtu (log_gatt api) rec_cbs s)"
        using more.hyps(1) by (auto elim: pm_step_cases)
      from request_step [OF this] 1 show ?thesis by simp
    next
      case (2 err)
      then have "s' = exchange_handler (log_gatt api) rec_cbs err s"
        using more.hyps(1) by (auto elim: pm_step_cases)
      with 2 exchange_handler_eq [of api err s] show ?thesis by (simp add: count_calls_def)
    qed
  next
    case False
    have x: "is_accepted x \<Longrightarrow> (\<exists>c r. x = GExchange c r) \<or> (\<exists>m. x = CMtu m)"
      "is_already_done x \<Longrightarrow> (\<exists>c r. x = GExchange c r) \<or> (\<exists>m. x = CMtu m)"
      "is_mtu_report x \<Longrightarrow> (\<exists>c r. x = GExchange c r) \<or> (\<exists>m. x = CMtu m)" for x
      by (cases x; simp)+
    have "ev \<noteq> PmExchanged 0" using False by auto
    then show ?thesis
      using False more.prems other_steps [OF more.hyps(1) _ _ _ x(1)] other_steps [OF more.hyps(1) _ _ _ x(2)]
        other_steps [OF more.hyps(1) _ _ _ x(3)] by auto
  qed
  then show ?case using more.IH more.prems by (auto split: if_splits)
qed simp

text \<open>
  C24: The MTU exchange.  A request on a connection while an exchange is in progress is refused with
  -EBUSY and changes nothing, any other starts exactly one exchange, which counts as in progress
  exactly when the stack accepted it; one that was done before (-EALREADY) counts as success and is
  reported at once, any other refusal is returned.  A completion ends the exchange whatever its
  result, so that the next request reaches the stack again; it reports the payload length once,
  recomputed, when it was successful, and nothing when it failed.  In every run of a session, with
  any behaviour of the stack and anything else going on, the exchanges the stack accepted are never
  more than one ahead of the completions (at most one is outstanding), and the reports are as many
  as the successful completions and the exchanges done before.
\<close>

theorem mtu_exchange_protocol:
  assumes run: "pm_run (log_gatt api) rec_cbs s evs s'" and session: "list_all in_session evs"
    and c: "pm_conn (g_state t) = Some c"
  shows "count_calls is_accepted s' + of_bool (exchange_in_progress (g_state s)) \<le>
      count_calls is_accepted s + length (filter is_completion evs) + 1 \<and>
    count_calls is_mtu_report s' + count_calls is_already_done s =
      count_calls is_mtu_report s + count_calls is_already_done s' + length (filter (\<lambda>ev. ev = PmExchanged 0) evs) \<and>
    (let (err, t') = profile_manager_request_mtu (log_gatt api) rec_cbs t;
         rc = fst (bt_gatt_exchange_mtu api c \<lparr>xp_func = Some ExchangeHandler\<rparr> (fst (world t)))
     in if exchange_in_progress (g_state t) then err = RC_ERR EBUSY \<and> t' = t
        else err = (if rc = RC_ERR EALREADY then RC_OK else rc) \<and>
             exchange_in_progress (g_state t') = (rc = RC_OK) \<and>
             snd (world t') = snd (world t) @ GExchange c rc #
               (if rc = RC_ERR EALREADY then [CMtu (payload_len (g_state t'))] else [])) \<and>
    (let t' = exchange_handler (log_gatt api) rec_cbs x t
     in \<not> exchange_in_progress (g_state t') \<and>
        payload_len (g_state t') = (if x = 0 then payload_len (g_state (update_payload_len (log_gatt api) t))
                                    else payload_len (g_state t)) \<and>
        snd (world t') = snd (world t) @ (if x = 0 then [CMtu (payload_len (g_state t'))] else []))"
proof -
  have "of_bool b \<le> (1 :: nat)" for b by simp
  then have "count_calls is_accepted s' + of_bool (exchange_in_progress (g_state s)) \<le>
      count_calls is_accepted s + length (filter is_completion evs) + 1"
    using exchange_run [OF run session] by (meson add_left_mono le_trans)
  then show ?thesis
    using exchange_run [OF run session] request_mtu_eq [OF c, of api] exchange_handler_eq [of api x t]
    by (simp add: Let_def case_prod_beta split: if_splits)
qed

text \<open>A request, a second one, and the completion.\<close>

theorem mtu_exchange_protocol_witness:
  "\<exists>s'. pm_run (log_gatt plain_gatt) rec_cbs mem_ready [PmRequestMtu, PmRequestMtu, PmExchanged 0] s' \<and>
     count_calls is_accepted s' \<le> count_calls is_accepted mem_ready + 2 \<and>
     fst (profile_manager_request_mtu (log_gatt plain_gatt) rec_cbs mem_ready) = RC_OK"
proof -
  obtain s' where run: "pm_run (log_gatt plain_gatt) rec_cbs mem_ready [PmRequestMtu, PmRequestMtu, PmExchanged 0] s'"
    by (meson pm_run.intros pm_step.intros)
  have c: "pm_conn (g_state mem_ready) = Some 7" by (simp add: mem_ready_def)
  have n: "\<not> exchange_in_progress (g_state mem_ready)"
    by (simp add: mem_ready_def mem0_def profile_manager_init_def pm_state_0_def)
  have ok: "fst (bt_gatt_exchange_mtu plain_gatt k y v) = RC_OK" for k y v by (simp add: plain_gatt_def)
  from mtu_exchange_protocol [OF run _ c, of 0] run show ?thesis
    by (intro exI [of _ s']) (simp add: n ok case_prod_beta Let_def)
qed

end
