(* ===== verification/Main_State.thy ===== *)
theory Main_State
  imports Profile_Manager At_Host
begin

text \<open>
  The memory of \<open>main.c\<close>, the system interfaces it calls, and the helpers that the scan, the
  data mode and the connection handling share.  Everything that is not in the repository is a
  parameter: the ring buffers of the kernel (\<open>ring_api\<close>, over ring states \<open>'r\<close>), the work queue,
  the clock, the UART and the connection API (\<open>sys_api\<close>, over the world \<open>'w\<close>).

  The two UART interrupt sources and the work queue are modelled as handlers that run one after
  the other; the spin lock around each ring access has no counterpart.
\<close>

section \<open>Interfaces\<close>

text \<open>
  \<open>ring_buf_get_claim\<close> returns the claimed bytes; their number is the return value of the C
  function.
\<close>

record 'r ring_api =
  ring_buf_put :: "u8 list \<Rightarrow> 'r \<Rightarrow> nat \<times> 'r"
  ring_buf_get_claim :: "nat \<Rightarrow> 'r \<Rightarrow> u8 list \<times> 'r"
  ring_buf_get_finish :: "nat \<Rightarrow> 'r \<Rightarrow> rc \<times> 'r"
  ring_buf_size_get :: "'r \<Rightarrow> nat"
  ring_buf_space_get :: "'r \<Rightarrow> nat"
  ring_buf_reset :: "'r \<Rightarrow> 'r"

text \<open>The work items of \<open>main.c\<close>; all but \<open>ble_write_work\<close> are delayable.\<close>

datatype work =
    SCAN_STOP_WORK | BLE_WRITE_WORK | BLE_WRITE_RETRY_WORK | BLE_WRITE_COALESCE_WORK | ESCAPE_GUARD_WORK

type_synonym bt_addr = "u8 list"

record bt_addr_le =
  addr_type :: u8
  addr_a :: bt_addr

record conn_param =
  interval_min :: u16
  interval_max :: u16
  param_latency :: u16
  param_timeout :: u16

text \<open>
  \<open>uart_fifo_read\<close> gives its return value and the bytes it stored at the front of the buffer.
\<close>

record 'w sys_api =
  k_uptime_get :: "'w \<Rightarrow> s64 \<times> 'w"
  k_work_submit :: "work \<Rightarrow> 'w \<Rightarrow> 'w"
  k_work_schedule :: "work \<Rightarrow> nat \<Rightarrow> 'w \<Rightarrow> 'w"
  k_work_reschedule :: "work \<Rightarrow> nat \<Rightarrow> 'w \<Rightarrow> 'w"
  k_work_cancel_delayable :: "work \<Rightarrow> 'w \<Rightarrow> 'w"
  device_is_ready :: "'w \<Rightarrow> bool"
  uart_irq_tx_enable :: "'w \<Rightarrow> 'w"
  uart_irq_tx_disable :: "'w \<Rightarrow> 'w"
  uart_irq_rx_enable :: "'w \<Rightarrow> 'w"
  uart_irq_rx_disable :: "'w \<Rightarrow> 'w"
  uart_fifo_fill :: "u8 list \<Rightarrow> 'w \<Rightarrow> int \<times> 'w"
  uart_fifo_read :: "nat \<Rightarrow> 'w \<Rightarrow> int \<times> u8 list \<times> 'w"
  uart_irq_update :: "'w \<Rightarrow> bool \<times> 'w"
  uart_irq_is_pending :: "'w \<Rightarrow> bool \<times> 'w"
  uart_irq_tx_ready :: "'w \<Rightarrow> bool \<times> 'w"
  uart_irq_rx_ready :: "'w \<Rightarrow> bool \<times> 'w"
  bt_le_scan_start :: "'w \<Rightarrow> rc \<times> 'w"
  bt_le_scan_stop :: "'w \<Rightarrow> rc \<times> 'w"
  bt_conn_le_create :: "bt_addr_le \<Rightarrow> conn_param \<Rightarrow> 'w \<Rightarrow> rc \<times> bt_conn option \<times> 'w"
  bt_conn_disconnect :: "bt_conn \<Rightarrow> u8 \<Rightarrow> 'w \<Rightarrow> rc \<times> 'w"
  bt_conn_le_param_update :: "bt_conn \<Rightarrow> conn_param \<Rightarrow> 'w \<Rightarrow> rc \<times> 'w"
  bt_conn_unref :: "bt_conn \<Rightarrow> 'w \<Rightarrow> 'w"
  bt_conn_get_dst :: "bt_conn \<Rightarrow> 'w \<Rightarrow> bt_addr"
  bt_addr_to_str :: "bt_addr \<Rightarrow> nat \<Rightarrow> string"
  bt_addr_from_str :: "string \<Rightarrow> bt_addr option"

text \<open>All of it: the stack, the settings subsystem, the system and the ring buffers.\<close>

record ('u, 'w, 'r) env =
  gatt :: "('u, 'w) gatt_api"
  flash :: "'w settings_api"
  os :: "'w sys_api"
  rings :: "'r ring_api"

section \<open>State\<close>

datatype app_state =
    APP_STATE_IDLE | APP_STATE_SCANNING | APP_STATE_CONNECTING | APP_STATE_CONTROL_READY
  | APP_STATE_DATA_MODE | APP_STATE_DISCONNECTING

definition MAX_SCANNED_DEVICES :: nat where "MAX_SCANNED_DEVICES = 32"
definition CONTROL_UART_RX_CHUNK :: nat where "CONTROL_UART_RX_CHUNK = 64"
definition HOST_TO_BLE_RING_SIZE :: nat where "HOST_TO_BLE_RING_SIZE = 16384"
definition BLE_TO_HOST_RING_SIZE :: nat where "BLE_TO_HOST_RING_SIZE = 16384"
definition CTRL_TX_RING_SIZE :: nat where "CTRL_TX_RING_SIZE = 2048"
definition UART_TX_CHUNK :: nat where "UART_TX_CHUNK = 128"
definition DATA_MODE_TX_COALESCE_MS :: nat where "DATA_MODE_TX_COALESCE_MS = 1"

definition BT_ADDR_STR_LEN :: nat where "BT_ADDR_STR_LEN = 18"
definition BT_ADDR_LE_STR_LEN :: nat where "BT_ADDR_LE_STR_LEN = 30"
definition BT_HCI_ERR_REMOTE_USER_TERM_CONN :: u8 where "BT_HCI_ERR_REMOTE_USER_TERM_CONN = 0x13"

record scanned_device_entry =
  sd_valid :: bool
  sd_index :: u8
  sd_addr :: bt_addr_le
  sd_mac :: string
  sd_name :: string
  sd_rssi :: "8 word"

definition scanned_device_entry_0 :: scanned_device_entry where
  "scanned_device_entry_0 =
     \<lparr> sd_valid = False, sd_index = 0, sd_addr = \<lparr> addr_type = 0, addr_a = replicate 6 0 \<rparr>,
       sd_mac = [], sd_name = [], sd_rssi = 0 \<rparr>"

record data_mode_escape_state =
  esc_active :: bool
  esc_count :: u8

definition stream_stats_0 :: ble_stream_stats where
  "stream_stats_0 =
     \<lparr> bytes_host_to_ble = 0, bytes_ble_to_host = 0, write_ops = 0, notify_ops = 0,
       usb_backpressure_count = 0, max_host_to_ble_depth = 0, max_ble_to_host_depth = 0,
       enter_data_mode_count = 0, unexpected_disconnect_count = 0 \<rparr>"

record ('w, 'r) sys = "'w mem" +
  host_to_ble_ring :: 'r
  ble_to_host_ring :: 'r
  ctrl_tx_ring :: 'r
  current_conn :: "bt_conn option"
  scanned_devices :: "scanned_device_entry list"
  stream_stats :: ble_stream_stats
  scan_filter_name :: string
  control_dtr_ready :: bool
  control_rx_paused :: bool
  data_mode_pending_enter :: bool
  data_mode_tx_flush_due :: bool
  escape_state :: data_mode_escape_state
  app_state :: app_state
  next_scan_index :: u8
  last_host_rx_time_ms :: s64

text \<open>A call of the system that returns nothing.\<close>

definition os_do :: "('w \<Rightarrow> 'w) \<Rightarrow> ('w, 'r) sys \<Rightarrow> ('w, 'r) sys" where
  "os_do f s = s\<lparr>world := f (world s)\<rparr>"

definition uptime :: "('u, 'w, 'r) env \<Rightarrow> ('w, 'r) sys \<Rightarrow> s64 \<times> ('w, 'r) sys" where
  "uptime e s = (let (t, w) = k_uptime_get (os e) (world s) in (t, s\<lparr>world := w\<rparr>))"

abbreviation cancel :: "('u, 'w, 'r) env \<Rightarrow> work \<Rightarrow> ('w, 'r) sys \<Rightarrow> ('w, 'r) sys" where
  "cancel e x \<equiv> os_do (k_work_cancel_delayable (os e) x)"

abbreviation reschedule :: "('u, 'w, 'r) env \<Rightarrow> work \<Rightarrow> nat \<Rightarrow> ('w, 'r) sys \<Rightarrow> ('w, 'r) sys" where
  "reschedule e x ms \<equiv> os_do (k_work_reschedule (os e) x ms)"

abbreviation submit :: "('u, 'w, 'r) env \<Rightarrow> work \<Rightarrow> ('w, 'r) sys \<Rightarrow> ('w, 'r) sys" where
  "submit e x \<equiv> os_do (k_work_submit (os e) x)"

abbreviation stats_upd :: "(ble_stream_stats \<Rightarrow> ble_stream_stats) \<Rightarrow> ('w, 'r) sys \<Rightarrow> ('w, 'r) sys" where
  "stats_upd \<equiv> stream_stats_update"

section \<open>Helpers\<close>

definition set_state :: "app_state \<Rightarrow> ('w, 'r) sys \<Rightarrow> ('w, 'r) sys" where
  "set_state new_state s = s\<lparr>app_state := new_state\<rparr>"

abbreviation ring_put_bytes :: "('u, 'w, 'r) env \<Rightarrow> u8 list \<Rightarrow> 'r \<Rightarrow> nat \<times> 'r" where
  "ring_put_bytes e \<equiv> ring_buf_put (rings e)"

abbreviation ring_size_bytes :: "('u, 'w, 'r) env \<Rightarrow> 'r \<Rightarrow> nat" where
  "ring_size_bytes e \<equiv> ring_buf_size_get (rings e)"

abbreviation ring_space_bytes :: "('u, 'w, 'r) env \<Rightarrow> 'r \<Rightarrow> nat" where
  "ring_space_bytes e \<equiv> ring_buf_space_get (rings e)"

abbreviation ring_reset_bytes :: "('u, 'w, 'r) env \<Rightarrow> 'r \<Rightarrow> 'r" where
  "ring_reset_bytes e \<equiv> ring_buf_reset (rings e)"

definition update_max_depth :: "nat \<Rightarrow> u32 \<Rightarrow> u32" where
  "update_max_depth current_depth max_depth =
     (if max_depth < word_of_nat current_depth then word_of_nat current_depth else max_depth)"

definition kick_uart_tx :: "('u, 'w, 'r) env \<Rightarrow> ('w, 'r) sys \<Rightarrow> ('w, 'r) sys" where
  "kick_uart_tx e s = (if \<not> control_dtr_ready s then s else os_do (uart_irq_tx_enable (os e)) s)"

definition queue_ctrl_bytes :: "('u, 'w, 'r) env \<Rightarrow> u8 list \<Rightarrow> ('w, 'r) sys \<Rightarrow> ('w, 'r) sys" where
  "queue_ctrl_bytes e data s =
     (if data = [] then s
      else kick_uart_tx e (s\<lparr>ctrl_tx_ring := snd (ring_put_bytes e data (ctrl_tx_ring s))\<rparr>))"

definition queue_ctrl_line :: "('u, 'w, 'r) env \<Rightarrow> string \<Rightarrow> ('w, 'r) sys \<Rightarrow> ('w, 'r) sys" where
  "queue_ctrl_line e line s = queue_ctrl_bytes e [13, 10] (queue_ctrl_bytes e (bytes_of line) s)"

definition queue_data_bytes :: "('u, 'w, 'r) env \<Rightarrow> u8 list \<Rightarrow> ('w, 'r) sys \<Rightarrow> ('w, 'r) sys" where
  "queue_data_bytes e data s =
     (if data = [] then s
      else
        let (written, r) = ring_put_bytes e data (ble_to_host_ring s);
            s1 = s\<lparr>ble_to_host_ring := r\<rparr>;
            s2 = (if written < length data
                  then stats_upd (\<lambda>st. st\<lparr>usb_backpressure_count := usb_backpressure_count st + 1\<rparr>) s1
                  else s1);
            s3 = stats_upd (\<lambda>st. st\<lparr>max_ble_to_host_depth :=
                   update_max_depth (ring_size_bytes e (ble_to_host_ring s2))
                     (max_ble_to_host_depth st)\<rparr>) s2
        in kick_uart_tx e s3)"

definition clear_scan_cache :: "('w, 'r) sys \<Rightarrow> ('w, 'r) sys" where
  "clear_scan_cache s =
     s\<lparr>scanned_devices := replicate MAX_SCANNED_DEVICES scanned_device_entry_0, next_scan_index := 0\<rparr>"

definition linked_state :: "('w, 'r) sys \<Rightarrow> app_state" where
  "linked_state s = (if current_conn s \<noteq> None then APP_STATE_CONTROL_READY else APP_STATE_IDLE)"

definition clear_data_mode_session :: "('u, 'w, 'r) env \<Rightarrow> bool \<Rightarrow> ('w, 'r) sys \<Rightarrow> ('w, 'r) sys" where
  "clear_data_mode_session e reset_mode s =
     (let s1 = s\<lparr> ble_to_host_ring := ring_reset_bytes e (ble_to_host_ring s),
                  control_rx_paused := False, data_mode_pending_enter := False,
                  data_mode_tx_flush_due := False, escape_state := \<lparr> esc_active = False, esc_count = 0 \<rparr> \<rparr>;
          s2 = cancel e ESCAPE_GUARD_WORK (cancel e BLE_WRITE_COALESCE_WORK (cancel e BLE_WRITE_RETRY_WORK s1))
      in if reset_mode then set_state (linked_state s2) s2 else s2)"

section \<open>Output of the AT host\<close>

text \<open>The table \<open>at_tx\<close>; both functions ignore their context.\<close>

definition uart_send_line :: "('u, 'w, 'r) env \<Rightarrow> string \<Rightarrow> ('w, 'r) sys \<Rightarrow> ('w, 'r) sys" where
  "uart_send_line e line s = queue_ctrl_line e line s"

definition uart_send_raw :: "('u, 'w, 'r) env \<Rightarrow> u8 list \<Rightarrow> ('w, 'r) sys \<Rightarrow> ('w, 'r) sys" where
  "uart_send_raw e data s = queue_ctrl_bytes e data s"

definition at_tx :: "('u, 'w, 'r) env \<Rightarrow> ('w, 'r) sys at_host_tx" where
  "at_tx e = \<lparr> tx_line_fn = Some (uart_send_line e), tx_raw_fn = Some (uart_send_raw e) \<rparr>"

end
