(* ===== verification/Main_Scan.thy ===== *)
theory Main_Scan
  imports Main_State
begin

text \<open>
  Scanning: the parser of advertising data, the cache of scanned devices, the scan filter, the
  reports to the AT host, and the parser of the address that AT+STARTCON takes.
\<close>

section \<open>Advertising data\<close>

definition BT_DATA_NAME_SHORTENED :: u8 where "BT_DATA_NAME_SHORTENED = 0x08"
definition BT_DATA_NAME_COMPLETE :: u8 where "BT_DATA_NAME_COMPLETE = 0x09"

text \<open>
  The loop over the bytes of the buffer; the buffer itself is restored, so only the name is a
  result: the bytes copied to the array of \<open>name_len\<close> characters in front of the terminator.
\<close>

function ad_name_loop :: "u8 list \<Rightarrow> nat \<Rightarrow> u8 list" where
  "ad_name_loop [] name_len = []"
| "ad_name_loop [b] name_len = []"
| "ad_name_loop (field_len # field_type # data) name_len =
     (if field_len = 0 \<or> Suc (length data) < unat field_len then []
      else
        let value_len = unat field_len - 1
        in if field_type = BT_DATA_NAME_COMPLETE \<or> field_type = BT_DATA_NAME_SHORTENED
           then take (min value_len (name_len - 1)) data
           else ad_name_loop (drop value_len data) name_len)"
  by pat_completeness auto
termination by (relation "measure (\<lambda>(ad, n). length ad)") auto

definition parse_device_name :: "u8 list \<Rightarrow> nat \<Rightarrow> string" where
  "parse_device_name ad name_len = cstr (chars_of (ad_name_loop ad name_len))"

section \<open>The cache\<close>

text \<open>The first entry for which a test holds.\<close>

fun first_index :: "('a \<Rightarrow> bool) \<Rightarrow> 'a list \<Rightarrow> nat option" where
  "first_index P [] = None"
| "first_index P (x # xs) = (if P x then Some 0 else map_option Suc (first_index P xs))"

definition find_scan_entry :: "bt_addr_le \<Rightarrow> ('w, 'r) sys \<Rightarrow> nat option" where
  "find_scan_entry addr s = first_index (\<lambda>en. sd_valid en \<and> sd_addr en = addr) (scanned_devices s)"

definition matches_scan_filter :: "string option \<Rightarrow> ('w, 'r) sys \<Rightarrow> bool" where
  "matches_scan_filter name s =
     (let filter_len = length (scan_filter_name s)
      in if filter_len = 0 then True
         else case name of
                None \<Rightarrow> False
              | Some n \<Rightarrow> if length n < filter_len then False
                          else take filter_len n = scan_filter_name s)"

definition stop_scan_internal :: "('u, 'w, 'r) env \<Rightarrow> bool \<Rightarrow> ('w, 'r) sys \<Rightarrow> rc \<times> ('w, 'r) sys" where
  "stop_scan_internal e emit_complete s =
     (if app_state s \<noteq> APP_STATE_SCANNING then (RC_OK, s)
      else
        let s1 = cancel e SCAN_STOP_WORK s;
            (err, s2) = sys_call (bt_le_scan_stop (os e)) s1
        in if err \<noteq> RC_OK \<and> err \<noteq> RC_ERR EALREADY then (err, s2)
           else
             let s3 = set_state (linked_state s2) s2
             in (RC_OK, if emit_complete then at_host_notify_scan_complete (Some (at_tx e)) s3 else s3))"

definition scan_stop_work_handler :: "('u, 'w, 'r) env \<Rightarrow> ('w, 'r) sys \<Rightarrow> ('w, 'r) sys" where
  "scan_stop_work_handler e s = snd (stop_scan_internal e True s)"

definition BT_GAP_ADV_TYPE_ADV_IND :: u8 where "BT_GAP_ADV_TYPE_ADV_IND = 0"
definition BT_GAP_ADV_TYPE_ADV_DIRECT_IND :: u8 where "BT_GAP_ADV_TYPE_ADV_DIRECT_IND = 1"
definition BT_GAP_ADV_TYPE_SCAN_RSP :: u8 where "BT_GAP_ADV_TYPE_SCAN_RSP = 4"
definition BT_GAP_ADV_TYPE_EXT_ADV :: u8 where "BT_GAP_ADV_TYPE_EXT_ADV = 5"

definition device_found ::
  "('u, 'w, 'r) env \<Rightarrow> bt_addr_le \<Rightarrow> 8 word \<Rightarrow> u8 \<Rightarrow> u8 list \<Rightarrow> ('w, 'r) sys \<Rightarrow> ('w, 'r) sys" where
  "device_found e addr rssi type ad s =
     (if app_state s \<noteq> APP_STATE_SCANNING then s
      else if type \<noteq> BT_GAP_ADV_TYPE_ADV_IND \<and> type \<noteq> BT_GAP_ADV_TYPE_ADV_DIRECT_IND \<and>
              type \<noteq> BT_GAP_ADV_TYPE_SCAN_RSP \<and> type \<noteq> BT_GAP_ADV_TYPE_EXT_ADV then s
      else
        let name = parse_device_name ad BLE_HOST_NAME_MAX_LEN
        in if \<not> matches_scan_filter (Some name) s then s
           else case find_scan_entry addr s of
                  Some i \<Rightarrow> s\<lparr>scanned_devices := (scanned_devices s)
                               [i := (scanned_devices s ! i)\<lparr>sd_rssi := rssi\<rparr>]\<rparr>
                | None \<Rightarrow>
                    (case first_index (\<lambda>en. \<not> sd_valid en) (scanned_devices s) of
                       None \<Rightarrow> s
                     | Some i \<Rightarrow>
                         let entry = scanned_device_entry_0
                               \<lparr> sd_valid := True, sd_index := next_scan_index s, sd_addr := addr,
                                 sd_mac := bt_addr_to_str (os e) (addr_a addr) BT_ADDR_STR_LEN,
                                 sd_name := snprintk BLE_HOST_NAME_MAX_LEN name, sd_rssi := rssi \<rparr>;
                             s1 = s\<lparr> next_scan_index := next_scan_index s + 1,
                                     scanned_devices := (scanned_devices s)[i := entry] \<rparr>
                         in at_host_notify_scan_result (Some (at_tx e)) (sd_index entry) (sd_mac entry)
                              (Some (sd_name entry)) (ble_host_addr_type_to_wlt (addr_type addr)) rssi s1))"

section \<open>The address of AT+STARTCON\<close>

definition hex_digit :: "char \<Rightarrow> nat" where
  "hex_digit c = (let n = of_char c in if n \<le> 57 then n - 48 else if n \<le> 70 then n - 55 else n - 87)"

definition hex_value :: "string \<Rightarrow> nat" where
  "hex_value ds = foldl (\<lambda>a c. 16 * a + hex_digit c) 0 ds"

text \<open>
  The conversion \<open>%2x\<close> of \<open>sscanf\<close>: white space is skipped, then at most two characters are
  taken: an optional sign and hexadecimal digits, where \<open>0x\<close> alone is no number.
\<close>

definition c_sscanf_2x :: "string \<Rightarrow> u32 option" where
  "c_sscanf_2x text =
     (let t = dropWhile c_isspace text;
          signed = (t \<noteq> [] \<and> (hd t = CHR ''-'' \<or> hd t = CHR ''+''));
          item = (if signed then take 1 (tl t) else take 2 t);
          ds = takeWhile c_isxdigit item
      in if ds = [] \<or> item = ''0x'' \<or> item = ''0X'' then None
         else Some (if signed \<and> hd t = CHR ''-'' then - word_of_nat (hex_value ds)
                    else word_of_nat (hex_value ds)))"

text \<open>
  The six conversions; \<open>bytes[5 - i]\<close> receives the \<open>i\<close>-th one, so the result is the array from
  its first element.
\<close>

fun parse_hex_bytes :: "nat \<Rightarrow> string \<Rightarrow> u8 list option" where
  "parse_hex_bytes 0 text = Some []"
| "parse_hex_bytes (Suc n) text =
     (case c_sscanf_2x text of
        None \<Rightarrow> None
      | Some value \<Rightarrow>
          (case parse_hex_bytes n (drop 2 text) of
             None \<Rightarrow> None
           | Some bytes \<Rightarrow> Some (bytes @ [ucast value])))"

definition parse_connect_mac :: "('u, 'w, 'r) env \<Rightarrow> string option \<Rightarrow> bt_addr option" where
  "parse_connect_mac e txt =
     (case txt of
        None \<Rightarrow> None
      | Some text \<Rightarrow>
          if length text = 14 \<and> text ! 0 = CHR ''0'' \<and> (text ! 1 = CHR ''x'' \<or> text ! 1 = CHR ''X'')
          then parse_hex_bytes 6 (drop 2 text)
          else bt_addr_from_str (os e) text)"

end
