(* ===== verification/Main_Data.thy ===== *)
theory Main_Data
  imports Main_State
begin

text \<open>
  Data mode: the escape sequence and the buffering of the bytes from the host, the pump that
  writes them to the peer, the flow control of the UART receiver, the activation of a pending data
  mode and the transmitter of the UART.
\<close>

section \<open>Flow control and scheduling\<close>

definition refresh_uart_rx_flow_control :: "('u, 'w, 'r) env \<Rightarrow> ('w, 'r) sys \<Rightarrow> ('w, 'r) sys" where
  "refresh_uart_rx_flow_control e s =
     (if \<not> device_is_ready (os e) (world s) then s
      else if app_state s \<noteq> APP_STATE_DATA_MODE then
        (if control_rx_paused s
         then os_do (uart_irq_rx_enable (os e)) (s\<lparr>control_rx_paused := False\<rparr>) else s)
      else if ring_space_bytes e (host_to_ble_ring s) < CONTROL_UART_RX_CHUNK then
        (if \<not> control_rx_paused s
         then os_do (uart_irq_rx_disable (os e))
                (stats_upd (\<lambda>st. st\<lparr>usb_backpressure_count := usb_backpressure_count st + 1\<rparr>)
                   (s\<lparr>control_rx_paused := True\<rparr>))
         else s)
      else if control_rx_paused s
      then os_do (uart_irq_rx_enable (os e)) (s\<lparr>control_rx_paused := False\<rparr>) else s)"

text \<open>A delay in milliseconds; 0 is \<open>K_NO_WAIT\<close>.\<close>

definition schedule_ble_write_pump :: "('u, 'w, 'r) env \<Rightarrow> nat \<Rightarrow> ('w, 'r) sys \<Rightarrow> ('w, 'r) sys" where
  "schedule_ble_write_pump e delay s =
     (if delay = 0 then submit e BLE_WRITE_WORK s else reschedule e BLE_WRITE_RETRY_WORK delay s)"

definition schedule_data_mode_ble_tx :: "('u, 'w, 'r) env \<Rightarrow> ('w, 'r) sys \<Rightarrow> ('w, 'r) sys" where
  "schedule_data_mode_ble_tx e s =
     (if app_state s \<noteq> APP_STATE_DATA_MODE \<or> current_conn s = None \<or>
         \<not> profile_manager_can_enter_data_mode s then s
      else
        let available = ring_size_bytes e (host_to_ble_ring s);
            s1 = s\<lparr>data_mode_tx_flush_due := False\<rparr>
        in if available = 0 then cancel e BLE_WRITE_COALESCE_WORK s1
           else if unat (profile_manager_get_payload_len s) \<le> available then
             schedule_ble_write_pump e 0 (cancel e BLE_WRITE_COALESCE_WORK s1)
           else reschedule e BLE_WRITE_COALESCE_WORK DATA_MODE_TX_COALESCE_MS s1)"

section \<open>The escape sequence\<close>

definition PLUS :: u8 where "PLUS = 43"

definition note_host_to_ble_depth :: "('u, 'w, 'r) env \<Rightarrow> ('w, 'r) sys \<Rightarrow> ('w, 'r) sys" where
  "note_host_to_ble_depth e s =
     stats_upd (\<lambda>st. st\<lparr>max_host_to_ble_depth :=
       update_max_depth (ring_size_bytes e (host_to_ble_ring s)) (max_host_to_ble_depth st)\<rparr>) s"

definition flush_escape_candidate_as_payload :: "('u, 'w, 'r) env \<Rightarrow> ('w, 'r) sys \<Rightarrow> ('w, 'r) sys" where
  "flush_escape_candidate_as_payload e s =
     (if \<not> esc_active (escape_state s) \<or> esc_count (escape_state s) = 0 then s
      else
        let pluses = replicate 3 PLUS;
            (_, r) = ring_put_bytes e (take (unat (esc_count (escape_state s))) pluses) (host_to_ble_ring s);
            s1 = note_host_to_ble_depth e (s\<lparr>host_to_ble_ring := r\<rparr>);
            (now, s2) = uptime e (s1\<lparr>escape_state := \<lparr> esc_active = False, esc_count = 0 \<rparr>\<rparr>)
        in schedule_data_mode_ble_tx e (s2\<lparr>last_host_rx_time_ms := now\<rparr>))"

definition exit_data_mode :: "('u, 'w, 'r) env \<Rightarrow> ('w, 'r) sys \<Rightarrow> ('w, 'r) sys" where
  "exit_data_mode e s =
     refresh_uart_rx_flow_control e
       (kick_uart_tx e (at_host_notify_data_mode (Some (at_tx e)) False (clear_data_mode_session e True s)))"

text \<open>\<open>(uint64_t)(now - last_host_rx_time_ms) < guard_time_ms\<close>.\<close>

definition within_guard :: "s64 \<Rightarrow> ('w, 'r) sys \<Rightarrow> bool" where
  "within_guard now s \<longleftrightarrow> now - last_host_rx_time_ms s < ucast (stream_guard_time_ms (g_config s))"

definition escape_guard_work_handler :: "('u, 'w, 'r) env \<Rightarrow> ('w, 'r) sys \<Rightarrow> ('w, 'r) sys" where
  "escape_guard_work_handler e s =
     (if \<not> esc_active (escape_state s) then s
      else if esc_count (escape_state s) = 3 then
        let (now, s1) = uptime e s
        in if within_guard now s1
           then reschedule e ESCAPE_GUARD_WORK (unat (stream_guard_time_ms (g_config s))) s1
           else exit_data_mode e s1
      else flush_escape_candidate_as_payload e s)"

text \<open>
  One byte from the host.  The inner \<open>while (true)\<close> runs once: every path through its body ends in
  a \<open>break\<close>.
\<close>

definition data_mode_rx_byte :: "('u, 'w, 'r) env \<Rightarrow> u8 \<Rightarrow> ('w, 'r) sys \<Rightarrow> ('w, 'r) sys" where
  "data_mode_rx_byte e ch s0 =
     (let guard_time_ms = unat (stream_guard_time_ms (g_config s0));
          (now, s) = uptime e s0;
          s1 = (if esc_active (escape_state s) then cancel e ESCAPE_GUARD_WORK s else s)
      in if esc_active (escape_state s1) \<and> ch = PLUS \<and> esc_count (escape_state s1) < 3 then
           reschedule e ESCAPE_GUARD_WORK guard_time_ms
             (s1\<lparr>escape_state := (escape_state s1)\<lparr>esc_count := esc_count (escape_state s1) + 1\<rparr>,
                 last_host_rx_time_ms := now\<rparr>)
         else
           let s2 = (if esc_active (escape_state s1) then flush_escape_candidate_as_payload e s1 else s1)
           in if ch = PLUS \<and> \<not> within_guard now s2 then
                reschedule e ESCAPE_GUARD_WORK guard_time_ms
                  (s2\<lparr>escape_state := \<lparr> esc_active = True, esc_count = 1 \<rparr>,
                      last_host_rx_time_ms := now\<rparr>)
              else
                let (written, r) = ring_put_bytes e [ch] (host_to_ble_ring s2);
                    s3 = s2\<lparr>host_to_ble_ring := r\<rparr>;
                    s4 = (if written \<noteq> 1
                          then stats_upd (\<lambda>st. st\<lparr>usb_backpressure_count := usb_backpressure_count st + 1\<rparr>) s3
                          else note_host_to_ble_depth e s3)
                in s4\<lparr>last_host_rx_time_ms := now\<rparr>)"

definition handle_data_mode_rx :: "('u, 'w, 'r) env \<Rightarrow> u8 list \<Rightarrow> ('w, 'r) sys \<Rightarrow> ('w, 'r) sys" where
  "handle_data_mode_rx e data s =
     refresh_uart_rx_flow_control e (schedule_data_mode_ble_tx e (fold (data_mode_rx_byte e) data s))"

section \<open>The pump\<close>

text \<open>
  One iteration of the loop of \<open>ble_write_work_handler\<close>: the flag is true when the loop goes on.
\<close>

definition ble_write_step :: "('u, 'w, 'r) env \<Rightarrow> ('w, 'r) sys \<Rightarrow> bool \<times> ('w, 'r) sys" where
  "ble_write_step e s =
     (if current_conn s = None \<or> \<not> profile_manager_can_enter_data_mode s then (False, s)
      else
        let payload_len = profile_manager_get_payload_len s;
            available = ring_size_bytes e (host_to_ble_ring s)
        in if available = 0 then (False, s\<lparr>data_mode_tx_flush_due := False\<rparr>)
           else if app_state s = APP_STATE_DATA_MODE \<and> available < unat payload_len \<and>
                   \<not> data_mode_tx_flush_due s then
             (False, reschedule e BLE_WRITE_COALESCE_WORK DATA_MODE_TX_COALESCE_MS s)
           else
             let (claimed, r) = ring_buf_get_claim (rings e) (unat payload_len) (host_to_ble_ring s);
                 s1 = s\<lparr>host_to_ble_ring := r\<rparr>;
                 claim_len = min (length claimed) BLE_HOST_SEND_MAX_LEN;
                 chunk = take claim_len claimed
             in if claim_len = 0 then (False, s1)
                else
                  let (err, s2) = profile_manager_send (gatt e) chunk s1
                  in if err = RC_OK then
                       let s3 = s2\<lparr>host_to_ble_ring :=
                                  snd (ring_buf_get_finish (rings e) claim_len (host_to_ble_ring s2))\<rparr>;
                           s4 = stats_upd (\<lambda>st. st\<lparr>bytes_host_to_ble := bytes_host_to_ble st + word_of_nat claim_len,
                                                   write_ops := write_ops st + 1\<rparr>) s3
                       in (True, refresh_uart_rx_flow_control e (s4\<lparr>data_mode_tx_flush_due := False\<rparr>))
                     else if err = RC_ERR ENOMEM \<or> err = RC_ERR EAGAIN \<or> err = RC_ERR EBUSY \<or> err = RC_ERR EACCES
                     then (False, schedule_ble_write_pump e 2 s2)
                     else (False, s2))"

partial_function (option) ble_write_work_handler ::
  "('u, 'w, 'r) env \<Rightarrow> ('w, 'r) sys \<Rightarrow> ('w, 'r) sys option" where
  "ble_write_work_handler e s =
     (case ble_write_step e s of
        (continue, s') \<Rightarrow> if continue then ble_write_work_handler e s' else Some s')"

definition ble_write_coalesce_work_handler :: "('u, 'w, 'r) env \<Rightarrow> ('w, 'r) sys \<Rightarrow> ('w, 'r) sys" where
  "ble_write_coalesce_work_handler e s = submit e BLE_WRITE_WORK (s\<lparr>data_mode_tx_flush_due := True\<rparr>)"

definition ble_write_retry_work_handler :: "('u, 'w, 'r) env \<Rightarrow> ('w, 'r) sys \<Rightarrow> ('w, 'r) sys" where
  "ble_write_retry_work_handler e s = submit e BLE_WRITE_WORK s"

section \<open>The transmitter\<close>

definition activate_pending_data_mode_if_ready :: "('u, 'w, 'r) env \<Rightarrow> ('w, 'r) sys \<Rightarrow> ('w, 'r) sys" where
  "activate_pending_data_mode_if_ready e s =
     (if \<not> data_mode_pending_enter s \<or> app_state s = APP_STATE_DATA_MODE \<or> current_conn s = None then s
      else if ring_size_bytes e (ctrl_tx_ring s) \<noteq> 0 then s
      else
        let s1 = s\<lparr> data_mode_pending_enter := False, data_mode_tx_flush_due := False,
                    escape_state := \<lparr> esc_active = False, esc_count = 0 \<rparr> \<rparr>;
            s2 = cancel e BLE_WRITE_COALESCE_WORK (cancel e BLE_WRITE_RETRY_WORK s1);
            (now, s3) = uptime e s2;
            s4 = stats_upd (\<lambda>st. st\<lparr>enter_data_mode_count := enter_data_mode_count st + 1\<rparr>)
                   (s3\<lparr>last_host_rx_time_ms := now\<rparr>)
        in refresh_uart_rx_flow_control e (set_state APP_STATE_DATA_MODE s4))"

text \<open>Which of the two rings the transmitter empties.\<close>

definition tx_ring_is_data :: "('u, 'w, 'r) env \<Rightarrow> ('w, 'r) sys \<Rightarrow> bool" where
  "tx_ring_is_data e s \<longleftrightarrow> app_state s = APP_STATE_DATA_MODE \<and> ring_size_bytes e (ctrl_tx_ring s) = 0"

definition service_uart_tx :: "('u, 'w, 'r) env \<Rightarrow> ('w, 'r) sys \<Rightarrow> ('w, 'r) sys" where
  "service_uart_tx e s0 =
     (let s = activate_pending_data_mode_if_ready e s0;
          is_data = tx_ring_is_data e s;
          put = (\<lambda>r s. if is_data then s\<lparr>ble_to_host_ring := r\<rparr> else s\<lparr>ctrl_tx_ring := r\<rparr>);
          ring = (if is_data then ble_to_host_ring s else ctrl_tx_ring s);
          (data, r1) = ring_buf_get_claim (rings e) UART_TX_CHUNK ring
      in if data = [] then os_do (uart_irq_tx_disable (os e)) (put r1 s)
         else
           let (sent, w) = uart_fifo_fill (os e) data (world s);
               (_, r2) = ring_buf_get_finish (rings e) (if 0 < sent then nat sent else 0) r1;
               s1 = put r2 (s\<lparr>world := w\<rparr>)
           in if sent \<le> 0 then os_do (uart_irq_tx_disable (os e)) s1
              else activate_pending_data_mode_if_ready e s1)"

end
