(* ===== verification/Main_Ops.thy ===== *)
theory Main_Ops
  imports Main_Scan Main_Data
begin

text \<open>
  The operations \<open>main.c\<close> offers to the AT host, its callbacks for the profile manager, the
  connection handlers, the UART interrupt and the start-up.
\<close>

section \<open>Settings\<close>

text \<open>A settings update works on the configuration object and the world.\<close>

definition on_settings ::
  "(ble_host_config \<times> 'w \<Rightarrow> rc \<times> ble_host_config \<times> 'w) \<Rightarrow> ('w, 'r) sys \<Rightarrow> rc \<times> ('w, 'r) sys" where
  "on_settings f s = (let (rc, cfg, w) = f (g_config s, world s) in (rc, s\<lparr>world := w, g_config := cfg\<rparr>))"

section \<open>Operations\<close>

definition op_start_scan ::
  "('u, 'w, 'r) env \<Rightarrow> u16 \<Rightarrow> string option \<Rightarrow> ('w, 'r) sys \<Rightarrow> rc \<times> ('w, 'r) sys" where
  "op_start_scan e duration_s filter_name s =
     (if current_conn s \<noteq> None then (RC_ERR EALREADY, s)
      else if app_state s = APP_STATE_CONNECTING \<or> app_state s = APP_STATE_DISCONNECTING
      then (RC_ERR EBUSY, s)
      else if app_state s = APP_STATE_SCANNING then (RC_OK, s)
      else
        let s1 = (clear_scan_cache s)\<lparr>scan_filter_name := []\<rparr>;
            s2 = (case filter_name of
                    None \<Rightarrow> s1
                  | Some f \<Rightarrow> if f \<noteq> []
                              then s1\<lparr>scan_filter_name := snprintk BLE_HOST_SCAN_FILTER_MAX_LEN f\<rparr>
                              else s1);
            (err, s3) = sys_call (bt_le_scan_start (os e)) s2
        in if err \<noteq> RC_OK then (err, s3)
           else (RC_OK, os_do (k_work_schedule (os e) SCAN_STOP_WORK (unat duration_s * 1000))
                          (set_state APP_STATE_SCANNING s3)))"

definition op_connect ::
  "('u, 'w, 'r) env \<Rightarrow> string \<Rightarrow> u8 \<Rightarrow> ('w, 'r) sys \<Rightarrow> rc \<times> ('w, 'r) sys" where
  "op_connect e mac addr_ty s =
     (let config = g_config s;
          conn_param = \<lparr> interval_min = conn_interval_min config, interval_max = conn_interval_max config,
                         param_latency = cfg_latency config, param_timeout = cfg_timeout config \<rparr>
      in if current_conn s \<noteq> None then (RC_ERR EALREADY, s)
         else if app_state s = APP_STATE_CONNECTING \<or> app_state s = APP_STATE_DISCONNECTING
         then (RC_ERR EBUSY, s)
         else
           case ble_host_addr_type_from_wlt addr_ty of
             None \<Rightarrow> (RC_ERR EINVAL, s)
           | Some bt_addr_type \<Rightarrow>
               (case parse_connect_mac e (Some mac) of
                  None \<Rightarrow> (RC_ERR EINVAL, s)
                | Some a \<Rightarrow>
                    let peer = \<lparr> addr_type = bt_addr_type, addr_a = a \<rparr>;
                        (err, s1) = (if app_state s = APP_STATE_SCANNING
                                     then stop_scan_internal e False s else (RC_OK, s))
                    in if err \<noteq> RC_OK then (err, s1)
                       else
                         let (err, conn, w) = bt_conn_le_create (os e) peer conn_param (world s1);
                             s2 = s1\<lparr>world := w, current_conn := conn\<rparr>
                         in if err \<noteq> RC_OK then (err, s2\<lparr>current_conn := None\<rparr>)
                            else (RC_OK, set_state APP_STATE_CONNECTING s2)))"

definition op_disconnect :: "('u, 'w, 'r) env \<Rightarrow> u8 \<Rightarrow> ('w, 'r) sys \<Rightarrow> rc \<times> ('w, 'r) sys" where
  "op_disconnect e conn_index s =
     (if conn_index \<noteq> 0 then (RC_ERR EINVAL, s)
      else case current_conn s of
             None \<Rightarrow> (RC_OK, s)
           | Some c \<Rightarrow> sys_call (bt_conn_disconnect (os e) c BT_HCI_ERR_REMOTE_USER_TERM_CONN)
                         (set_state APP_STATE_DISCONNECTING s))"

definition op_send_payload ::
  "('u, 'w, 'r) env \<Rightarrow> u8 \<Rightarrow> u8 list \<Rightarrow> ('w, 'r) sys \<Rightarrow> rc \<times> ('w, 'r) sys" where
  "op_send_payload e conn_index data s =
     (if conn_index \<noteq> 0 then (RC_ERR EINVAL, s) else profile_manager_send (gatt e) data s)"

definition op_get_status :: "('u, 'w, 'r) env \<Rightarrow> ('w, 'r) sys \<Rightarrow> ble_host_status" where
  "op_get_status e s =
     (case current_conn s of
        None \<Rightarrow> \<lparr> st_connected = False, st_ready = False, st_mac = [], conn_count = 0, st_data_len = 0 \<rparr>
      | Some c \<Rightarrow> \<lparr> st_connected = True, st_ready = profile_manager_is_ready s,
                    st_mac = bt_addr_to_str (os e) (bt_conn_get_dst (os e) c (world s)) BT_ADDR_LE_STR_LEN,
                    conn_count = 1, st_data_len = profile_manager_get_payload_len s \<rparr>)"

definition op_get_profile :: "('w, 'r) sys \<Rightarrow> ble_profile" where
  "op_get_profile s = active_profile (g_config s)"

definition op_set_profile ::
  "('u, 'w, 'r) env \<Rightarrow> string \<Rightarrow> string \<Rightarrow> string \<Rightarrow> ('w, 'r) sys \<Rightarrow> rc \<times> ('w, 'r) sys" where
  "op_set_profile e service notify write s =
     (let (err, s1) = on_settings (ble_host_settings_update_profile (flash e) service notify write) s
      in if err \<noteq> RC_OK then (err, s1)
         else (RC_OK, profile_manager_set_config (gatt e) (Some G_CONFIG) s1))"

definition op_set_mtu :: "('u, 'w, 'r) env \<Rightarrow> u16 \<Rightarrow> ('w, 'r) sys \<Rightarrow> rc \<times> ('w, 'r) sys" where
  "op_set_mtu e mtu s =
     (let (err, s1) = on_settings (ble_host_settings_update_mtu (flash e) mtu) s
      in if err \<noteq> RC_OK then (err, s1)
         else (RC_OK, profile_manager_set_config (gatt e) (Some G_CONFIG) s1))"

definition op_get_mtu :: "('w, 'r) sys \<Rightarrow> u16" where
  "op_get_mtu s = cfg_mtu (g_config s)"

definition op_set_conn_params ::
  "('u, 'w, 'r) env \<Rightarrow> u8 \<Rightarrow> u16 \<Rightarrow> u16 \<Rightarrow> u16 \<Rightarrow> u16 \<Rightarrow> ('w, 'r) sys \<Rightarrow> rc \<times> ('w, 'r) sys" where
  "op_set_conn_params e conn_index min_interval max_interval latency timeout s =
     (let param = \<lparr> interval_min = min_interval, interval_max = max_interval,
                    param_latency = latency, param_timeout = timeout \<rparr>
      in if conn_index \<noteq> 0 then (RC_ERR EINVAL, s)
         else case current_conn s of
                None \<Rightarrow> (RC_ERR ENOTCONN, s)
              | Some c \<Rightarrow>
                  let (err, s1) = sys_call (bt_conn_le_param_update (os e) c param) s
                  in if err \<noteq> RC_OK then (err, s1)
                     else on_settings (ble_host_settings_update_conn_params (flash e)
                            min_interval max_interval latency timeout) s1)"

definition op_enter_data_mode :: "u8 \<Rightarrow> ('w, 'r) sys \<Rightarrow> rc \<times> ('w, 'r) sys" where
  "op_enter_data_mode conn_index s =
     (if conn_index \<noteq> 0 then (RC_ERR EINVAL, s)
      else if current_conn s = None \<or> \<not> allow_data_mode (g_config s) then (RC_ERR ENOTSUP, s)
      else if app_state s = APP_STATE_DATA_MODE \<or> data_mode_pending_enter s then (RC_ERR EALREADY, s)
      else if \<not> profile_manager_can_enter_data_mode s then (RC_ERR EACCES, s)
      else (RC_OK, s\<lparr>data_mode_pending_enter := True\<rparr>))"

definition op_get_stream_stats :: "('w, 'r) sys \<Rightarrow> ble_stream_stats" where
  "op_get_stream_stats s = stream_stats s"

section \<open>Callbacks of the profile manager\<close>

definition profile_ready :: "('u, 'w, 'r) env \<Rightarrow> ('w, 'r) sys \<Rightarrow> ('w, 'r) sys" where
  "profile_ready e s =
     at_host_notify_ready (Some (at_tx e))
       (if app_state s \<noteq> APP_STATE_DATA_MODE \<and> \<not> data_mode_pending_enter s
        then set_state APP_STATE_CONTROL_READY s else s)"

definition profile_payload_received :: "('u, 'w, 'r) env \<Rightarrow> u8 list \<Rightarrow> ('w, 'r) sys \<Rightarrow> ('w, 'r) sys" where
  "profile_payload_received e data s =
     (let s1 = stats_upd (\<lambda>st. st\<lparr>notify_ops := notify_ops st + 1,
                                 bytes_ble_to_host := bytes_ble_to_host st + word_of_nat (length data)\<rparr>) s
      in if app_state s1 = APP_STATE_DATA_MODE then queue_data_bytes e data s1
         else at_host_notify_receive (Some (at_tx e)) (Some data) s1)"

definition profile_mtu_updated :: "('u, 'w, 'r) env \<Rightarrow> u16 \<Rightarrow> ('w, 'r) sys \<Rightarrow> ('w, 'r) sys" where
  "profile_mtu_updated e len s = at_host_notify_mtu (Some (at_tx e)) len s"

definition profile_error ::
  "('u, 'w, 'r) env \<Rightarrow> profile_manager_error \<Rightarrow> ('w, 'r) sys \<Rightarrow> ('w, 'r) sys" where
  "profile_error e error s =
     at_host_notify_function_error (Some (at_tx e))
       (if current_conn s \<noteq> None \<and> app_state s \<noteq> APP_STATE_DATA_MODE
        then set_state APP_STATE_CONTROL_READY s else s)"

definition profile_callbacks :: "('u, 'w, 'r) env \<Rightarrow> ('w, 'r) sys profile_manager_callbacks" where
  "profile_callbacks e =
     \<lparr> cb_ready = Some (profile_ready e), cb_payload_received = Some (profile_payload_received e),
       cb_mtu_updated = Some (profile_mtu_updated e), cb_error = Some (profile_error e) \<rparr>"

abbreviation main_cbs :: "('u, 'w, 'r) env \<Rightarrow> ('w, 'r) sys profile_manager_callbacks option" where
  "main_cbs e \<equiv> Some (profile_callbacks e)"

definition op_request_mtu :: "('u, 'w, 'r) env \<Rightarrow> u8 \<Rightarrow> ('w, 'r) sys \<Rightarrow> rc \<times> ('w, 'r) sys" where
  "op_request_mtu e conn_index s =
     (if conn_index \<noteq> 0 then (RC_ERR EINVAL, s) else profile_manager_request_mtu (gatt e) (main_cbs e) s)"

definition at_ops :: "('u, 'w, 'r) env \<Rightarrow> ('w, 'r) sys at_host_ops" where
  "at_ops e =
     \<lparr> ops_start_scan = op_start_scan e, ops_connect = op_connect e, ops_disconnect = op_disconnect e,
       ops_send_payload = op_send_payload e, ops_get_status = op_get_status e,
       ops_get_profile = op_get_profile, ops_set_profile = op_set_profile e,
       ops_set_mtu = op_set_mtu e, ops_get_mtu = op_get_mtu, ops_request_mtu = op_request_mtu e,
       ops_set_conn_params = op_set_conn_params e, ops_enter_data_mode = Some op_enter_data_mode,
       ops_get_stream_stats = Some op_get_stream_stats \<rparr>"

section \<open>Connection handlers\<close>

definition connected :: "('u, 'w, 'r) env \<Rightarrow> bt_conn \<Rightarrow> u8 \<Rightarrow> ('w, 'r) sys \<Rightarrow> ('w, 'r) sys" where
  "connected e conn err s =
     (let config = g_config s
      in if err \<noteq> 0 then
           let s1 = (case current_conn s of
                       None \<Rightarrow> s
                     | Some c \<Rightarrow> (os_do (bt_conn_unref (os e) c) s)\<lparr>current_conn := None\<rparr>)
           in at_host_notify_function_error (Some (at_tx e)) (set_state APP_STATE_IDLE s1)
         else
           let s1 = at_host_notify_connected (Some (at_tx e)) (set_state APP_STATE_CONNECTING s);
               (rc, s2) = profile_manager_start (gatt e) (main_cbs e) (Some conn) s1
           in if rc \<noteq> RC_OK then at_host_notify_function_error (Some (at_tx e)) s2
              else
                let s3 = (if auto_mtu config then snd (profile_manager_request_mtu (gatt e) (main_cbs e) s2) else s2);
                    s4 = (if prefer_dle config then snd (profile_manager_request_data_len (gatt e) s3) else s3)
                in if prefer_2m_phy config then snd (profile_manager_request_phy (gatt e) s4) else s4)"

definition disconnected :: "('u, 'w, 'r) env \<Rightarrow> bt_conn \<Rightarrow> u8 \<Rightarrow> ('w, 'r) sys \<Rightarrow> ('w, 'r) sys" where
  "disconnected e conn reason s =
     (let s1 = (if reason \<noteq> BT_HCI_ERR_REMOTE_USER_TERM_CONN
                then stats_upd (\<lambda>st. st\<lparr>unexpected_disconnect_count := unexpected_disconnect_count st + 1\<rparr>) s
                else s);
          s2 = (if current_conn s1 = Some conn
                then (os_do (bt_conn_unref (os e) conn)
                        (profile_manager_handle_disconnected (gatt e) (Some conn) s1))\<lparr>current_conn := None\<rparr>
                else s1);
          s3 = clear_data_mode_session e False
                 (s2\<lparr>host_to_ble_ring := ring_reset_bytes e (host_to_ble_ring s2)\<rparr>);
          s4 = at_host_notify_disconnected (Some (at_tx e)) (set_state APP_STATE_IDLE s3)
      in refresh_uart_rx_flow_control e s4)"

definition le_param_updated ::
  "('u, 'w, 'r) env \<Rightarrow> bt_conn \<Rightarrow> u16 \<Rightarrow> u16 \<Rightarrow> u16 \<Rightarrow> ('w, 'r) sys \<Rightarrow> ('w, 'r) sys" where
  "le_param_updated e conn interval latency timeout s =
     (if Some conn = current_conn s
      then at_host_notify_link_params (Some (at_tx e)) interval latency timeout s else s)"

section \<open>The UART interrupt\<close>

text \<open>The received bytes go to data mode or to the AT host, whose state stands beside the rest.\<close>

definition control_uart_rx :: "('u, 'w, 'r) env \<Rightarrow> u8 list \<Rightarrow> at_host_state \<times> ('w, 'r) sys \<Rightarrow> at_host_state \<times> ('w, 'r) sys" where
  "control_uart_rx e data m =
     (if app_state (snd m) = APP_STATE_DATA_MODE then (fst m, handle_data_mode_rx e data (snd m))
      else at_host_rx_bytes (at_ops e) (Some (at_tx e)) data m)"

text \<open>A status query of the UART.\<close>

definition uart_query :: "('w \<Rightarrow> bool \<times> 'w) \<Rightarrow> ('w, 'r) sys \<Rightarrow> bool \<times> ('w, 'r) sys" where
  "uart_query f s = (let (b, w) = f (world s) in (b, s\<lparr>world := w\<rparr>))"

text \<open>
  One evaluation of the loop condition of the interrupt handler and, if it holds, of the body.
\<close>

definition control_uart_isr_step ::
  "('u, 'w, 'r) env \<Rightarrow> at_host_state \<times> ('w, 'r) sys \<Rightarrow> bool \<times> at_host_state \<times> ('w, 'r) sys" where
  "control_uart_isr_step e m =
     (let (st, s) = m;
          (updated, s1) = uart_query (uart_irq_update (os e)) s;
          (pending, s2) = (if updated then uart_query (uart_irq_is_pending (os e)) s1 else (False, s1))
      in if \<not> (updated \<and> pending) then (False, st, s2)
         else
           let (tx_ready, s3) = uart_query (uart_irq_tx_ready (os e)) s2;
               s4 = (if tx_ready then service_uart_tx e s3 else s3);
               (rx_ready, s5) = uart_query (uart_irq_rx_ready (os e)) s4
           in if \<not> rx_ready then (True, st, s5)
              else if app_state s5 = APP_STATE_DATA_MODE \<and>
                      ring_space_bytes e (host_to_ble_ring s5) < CONTROL_UART_RX_CHUNK then
                (True, st, os_do (uart_irq_rx_disable (os e))
                   (stats_upd (\<lambda>st. st\<lparr>usb_backpressure_count := usb_backpressure_count st + 1\<rparr>)
                      (s5\<lparr>control_rx_paused := True\<rparr>)))
              else
                let (received, buffer, w) = uart_fifo_read (os e) CONTROL_UART_RX_CHUNK (world s5);
                    s6 = s5\<lparr>world := w\<rparr>
                in if received \<le> 0 then (True, st, s6)
                   else (True, control_uart_rx e (take (nat received) buffer) (st, s6)))"

partial_function (option) control_uart_isr ::
  "('u, 'w, 'r) env \<Rightarrow> at_host_state \<times> ('w, 'r) sys \<Rightarrow> (at_host_state \<times> ('w, 'r) sys) option" where
  "control_uart_isr e m =
     (case control_uart_isr_step e m of
        (continue, m') \<Rightarrow> if continue then control_uart_isr e m' else Some m')"

text \<open>The change of the DTR line, the only USB message with an effect on the memory.\<close>

definition usb_dtr_changed :: "('u, 'w, 'r) env \<Rightarrow> u32 \<Rightarrow> ('w, 'r) sys \<Rightarrow> ('w, 'r) sys" where
  "usb_dtr_changed e dtr s =
     (if dtr = 0 then os_do (uart_irq_tx_disable (os e)) (s\<lparr>control_dtr_ready := False\<rparr>)
      else kick_uart_tx e (s\<lparr>control_dtr_ready := True\<rparr>))"

section \<open>Start-up\<close>

text \<open>The memory before \<open>main\<close>: the statics are zero, the rings are given.\<close>

definition sys_0 :: "'r \<Rightarrow> 'r \<Rightarrow> 'r \<Rightarrow> 'w \<Rightarrow> ('w, 'r) sys" where
  "sys_0 r1 r2 r3 w =
     \<lparr> world = w, g_config = g_config_init, g_state = pm_state_0,
       host_to_ble_ring = r1, ble_to_host_ring = r2, ctrl_tx_ring = r3, current_conn = None,
       scanned_devices = replicate MAX_SCANNED_DEVICES scanned_device_entry_0,
       stream_stats = stream_stats_0, scan_filter_name = [], control_dtr_ready = False,
       control_rx_paused = False, data_mode_pending_enter = False, data_mode_tx_flush_due = False,
       escape_state = \<lparr> esc_active = False, esc_count = 0 \<rparr>, app_state = APP_STATE_IDLE,
       next_scan_index = 0, last_host_rx_time_ms = 0 \<rparr>"

text \<open>
  The part of \<open>main\<close> up to the start of USB and Bluetooth: the clock, the settings, the AT host and
  the profile manager.  An error of the settings ends \<open>main\<close>.
\<close>

definition main_init ::
  "('u, 'w, 'r) env \<Rightarrow> char list \<Rightarrow> ('w, 'r) sys \<Rightarrow> rc \<times> at_host_state \<times> ('w, 'r) sys" where
  "main_init e uninit s0 =
     (let (now, s1) = uptime e s0;
          s2 = s1\<lparr>last_host_rx_time_ms := now\<rparr>;
          (err, s3) = on_settings (ble_host_settings_init (flash e) uninit) s2
      in if err \<noteq> RC_OK then (err, at_host_init, s3)
         else (RC_OK, at_host_init, profile_manager_init (gatt e) (Some G_CONFIG) s3))"

end
