(* ===== verification/Main_Inv.thy ===== *)
theory Main_Inv
  imports Main_Ops Pm_Lemmas
begin

text \<open>
  The invariant of the application and the proof that every handler keeps it; the contracts of
  the AT host and of the profile manager, interpreted on the tables of \<open>main.c\<close>.
\<close>

section \<open>Frames\<close>

text \<open>What calls of the system and output to the control ring leave alone.\<close>

lemma os_do_frame [sys_frame, simp]:
  "g_config (os_do f s) = g_config s" "g_state (os_do f s) = g_state s"
  "host_to_ble_ring (os_do f s) = host_to_ble_ring s"
  "ble_to_host_ring (os_do f s) = ble_to_host_ring s" "current_conn (os_do f s) = current_conn s"
  "scanned_devices (os_do f s) = scanned_devices s" "stream_stats (os_do f s) = stream_stats s"
  "scan_filter_name (os_do f s) = scan_filter_name s"
  "control_dtr_ready (os_do f s) = control_dtr_ready s"
  "control_rx_paused (os_do f s) = control_rx_paused s"
  "data_mode_pending_enter (os_do f s) = data_mode_pending_enter s"
  "data_mode_tx_flush_due (os_do f s) = data_mode_tx_flush_due s"
  "escape_state (os_do f s) = escape_state s" "app_state (os_do f s) = app_state s"
  "next_scan_index (os_do f s) = next_scan_index s"
  "last_host_rx_time_ms (os_do f s) = last_host_rx_time_ms s"
  by (simp_all add: os_do_def)

lemma os_do_ctrl [simp]: "ctrl_tx_ring (os_do f s) = ctrl_tx_ring s"
  by (simp add: os_do_def)

lemma uptime_frame [sys_frame, simp]:
  "g_config (snd (uptime e s)) = g_config s" "g_state (snd (uptime e s)) = g_state s"
  "host_to_ble_ring (snd (uptime e s)) = host_to_ble_ring s"
  "ble_to_host_ring (snd (uptime e s)) = ble_to_host_ring s"
  "current_conn (snd (uptime e s)) = current_conn s"
  "scanned_devices (snd (uptime e s)) = scanned_devices s"
  "stream_stats (snd (uptime e s)) = stream_stats s"
  "scan_filter_name (snd (uptime e s)) = scan_filter_name s"
  "control_dtr_ready (snd (uptime e s)) = control_dtr_ready s"
  "control_rx_paused (snd (uptime e s)) = control_rx_paused s"
  "data_mode_pending_enter (snd (uptime e s)) = data_mode_pending_enter s"
  "data_mode_tx_flush_due (snd (uptime e s)) = data_mode_tx_flush_due s"
  "escape_state (snd (uptime e s)) = escape_state s" "app_state (snd (uptime e s)) = app_state s"
  "next_scan_index (snd (uptime e s)) = next_scan_index s"
  "last_host_rx_time_ms (snd (uptime e s)) = last_host_rx_time_ms s"
  by (simp_all add: uptime_def split: prod.split)

lemma kick_frame [sys_frame, simp]:
  "g_config (kick_uart_tx e s) = g_config s" "g_state (kick_uart_tx e s) = g_state s"
  "host_to_ble_ring (kick_uart_tx e s) = host_to_ble_ring s"
  "ble_to_host_ring (kick_uart_tx e s) = ble_to_host_ring s"
  "current_conn (kick_uart_tx e s) = current_conn s"
  "scanned_devices (kick_uart_tx e s) = scanned_devices s"
  "stream_stats (kick_uart_tx e s) = stream_stats s"
  "scan_filter_name (kick_uart_tx e s) = scan_filter_name s"
  "control_dtr_ready (kick_uart_tx e s) = control_dtr_ready s"
  "control_rx_paused (kick_uart_tx e s) = control_rx_paused s"
  "data_mode_pending_enter (kick_uart_tx e s) = data_mode_pending_enter s"
  "data_mode_tx_flush_due (kick_uart_tx e s) = data_mode_tx_flush_due s"
  "escape_state (kick_uart_tx e s) = escape_state s" "app_state (kick_uart_tx e s) = app_state s"
  "next_scan_index (kick_uart_tx e s) = next_scan_index s"
  "last_host_rx_time_ms (kick_uart_tx e s) = last_host_rx_time_ms s"
  by (simp_all add: kick_uart_tx_def)

lemma queue_bytes_frame [sys_frame, simp]:
  "g_config (queue_ctrl_bytes e d s) = g_config s" "g_state (queue_ctrl_bytes e d s) = g_state s"
  "host_to_ble_ring (queue_ctrl_bytes e d s) = host_to_ble_ring s"
  "ble_to_host_ring (queue_ctrl_bytes e d s) = ble_to_host_ring s"
  "current_conn (queue_ctrl_bytes e d s) = current_conn s"
  "scanned_devices (queue_ctrl_bytes e d s) = scanned_devices s"
  "stream_stats (queue_ctrl_bytes e d s) = stream_stats s"
  "scan_filter_name (queue_ctrl_bytes e d s) = scan_filter_name s"
  "control_dtr_ready (queue_ctrl_bytes e d s) = control_dtr_ready s"
  "control_rx_paused (queue_ctrl_bytes e d s) = control_rx_paused s"
  "data_mode_pending_enter (queue_ctrl_bytes e d s) = data_mode_pending_enter s"
  "data_mode_tx_flush_due (queue_ctrl_bytes e d s) = data_mode_tx_flush_due s"
  "escape_state (queue_ctrl_bytes e d s) = escape_state s"
  "app_state (queue_ctrl_bytes e d s) = app_state s"
  "next_scan_index (queue_ctrl_bytes e d s) = next_scan_index s"
  "last_host_rx_time_ms (queue_ctrl_bytes e d s) = last_host_rx_time_ms s"
  by (simp_all add: queue_ctrl_bytes_def)

lemma queue_line_frame [sys_frame, simp]:
  "g_config (queue_ctrl_line e l s) = g_config s" "g_state (queue_ctrl_line e l s) = g_state s"
  "host_to_ble_ring (queue_ctrl_line e l s) = host_to_ble_ring s"
  "ble_to_host_ring (queue_ctrl_line e l s) = ble_to_host_ring s"
  "current_conn (queue_ctrl_line e l s) = current_conn s"
  "scanned_devices (queue_ctrl_line e l s) = scanned_devices s"
  "stream_stats (queue_ctrl_line e l s) = stream_stats s"
  "scan_filter_name (queue_ctrl_line e l s) = scan_filter_name s"
  "control_dtr_ready (queue_ctrl_line e l s) = control_dtr_ready s"
  "control_rx_paused (queue_ctrl_line e l s) = control_rx_paused s"
  "data_mode_pending_enter (queue_ctrl_line e l s) = data_mode_pending_enter s"
  "data_mode_tx_flush_due (queue_ctrl_line e l s) = data_mode_tx_flush_due s"
  "escape_state (queue_ctrl_line e l s) = escape_state s"
  "app_state (queue_ctrl_line e l s) = app_state s"
  "next_scan_index (queue_ctrl_line e l s) = next_scan_index s"
  "last_host_rx_time_ms (queue_ctrl_line e l s) = last_host_rx_time_ms s"
  by (simp_all add: queue_ctrl_line_def)

lemma tx_line_frame [sys_frame, simp]:
  "g_config (tx_line (Some (at_tx e)) l s) = g_config s"
  "g_state (tx_line (Some (at_tx e)) l s) = g_state s"
  "host_to_ble_ring (tx_line (Some (at_tx e)) l s) = host_to_ble_ring s"
  "ble_to_host_ring (tx_line (Some (at_tx e)) l s) = ble_to_host_ring s"
  "current_conn (tx_line (Some (at_tx e)) l s) = current_conn s"
  "scanned_devices (tx_line (Some (at_tx e)) l s) = scanned_devices s"
  "stream_stats (tx_line (Some (at_tx e)) l s) = stream_stats s"
  "scan_filter_name (tx_line (Some (at_tx e)) l s) = scan_filter_name s"
  "control_dtr_ready (tx_line (Some (at_tx e)) l s) = control_dtr_ready s"
  "control_rx_paused (tx_line (Some (at_tx e)) l s) = control_rx_paused s"
  "data_mode_pending_enter (tx_line (Some (at_tx e)) l s) = data_mode_pending_enter s"
  "data_mode_tx_flush_due (tx_line (Some (at_tx e)) l s) = data_mode_tx_flush_due s"
  "escape_state (tx_line (Some (at_tx e)) l s) = escape_state s"
  "app_state (tx_line (Some (at_tx e)) l s) = app_state s"
  "next_scan_index (tx_line (Some (at_tx e)) l s) = next_scan_index s"
  "last_host_rx_time_ms (tx_line (Some (at_tx e)) l s) = last_host_rx_time_ms s"
  by (simp_all add: tx_line_def at_tx_def uart_send_line_def)

lemma tx_raw_frame [sys_frame, simp]:
  "g_config (tx_raw (Some (at_tx e)) d s) = g_config s"
  "g_state (tx_raw (Some (at_tx e)) d s) = g_state s"
  "host_to_ble_ring (tx_raw (Some (at_tx e)) d s) = host_to_ble_ring s"
  "ble_to_host_ring (tx_raw (Some (at_tx e)) d s) = ble_to_host_ring s"
  "current_conn (tx_raw (Some (at_tx e)) d s) = current_conn s"
  "scanned_devices (tx_raw (Some (at_tx e)) d s) = scanned_devices s"
  "stream_stats (tx_raw (Some (at_tx e)) d s) = stream_stats s"
  "scan_filter_name (tx_raw (Some (at_tx e)) d s) = scan_filter_name s"
  "control_dtr_ready (tx_raw (Some (at_tx e)) d s) = control_dtr_ready s"
  "control_rx_paused (tx_raw (Some (at_tx e)) d s) = control_rx_paused s"
  "data_mode_pending_enter (tx_raw (Some (at_tx e)) d s) = data_mode_pending_enter s"
  "data_mode_tx_flush_due (tx_raw (Some (at_tx e)) d s) = data_mode_tx_flush_due s"
  "escape_state (tx_raw (Some (at_tx e)) d s) = escape_state s"
  "app_state (tx_raw (Some (at_tx e)) d s) = app_state s"
  "next_scan_index (tx_raw (Some (at_tx e)) d s) = next_scan_index s"
  "last_host_rx_time_ms (tx_raw (Some (at_tx e)) d s) = last_host_rx_time_ms s"
  by (simp_all add: tx_raw_def at_tx_def uart_send_raw_def)

lemma sys_call_sys [sys_frame, simp]:
  "g_config (snd (sys_call f s)) = g_config s" "g_state (snd (sys_call f s)) = g_state s"
  "host_to_ble_ring (snd (sys_call f s)) = host_to_ble_ring s"
  "ble_to_host_ring (snd (sys_call f s)) = ble_to_host_ring s"
  "current_conn (snd (sys_call f s)) = current_conn s"
  "scanned_devices (snd (sys_call f s)) = scanned_devices s"
  "stream_stats (snd (sys_call f s)) = stream_stats s"
  "scan_filter_name (snd (sys_call f s)) = scan_filter_name s"
  "control_dtr_ready (snd (sys_call f s)) = control_dtr_ready s"
  "control_rx_paused (snd (sys_call f s)) = control_rx_paused s"
  "data_mode_pending_enter (snd (sys_call f s)) = data_mode_pending_enter s"
  "data_mode_tx_flush_due (snd (sys_call f s)) = data_mode_tx_flush_due s"
  "escape_state (snd (sys_call f s)) = escape_state s"
  "app_state (snd (sys_call f s)) = app_state s"
  "next_scan_index (snd (sys_call f s)) = next_scan_index s"
  "last_host_rx_time_ms (snd (sys_call f s)) = last_host_rx_time_ms s"
  by (simp_all add: sys_call_world)

lemmas notify_defs =
  at_host_notify_scan_result_def at_host_notify_scan_complete_def at_host_notify_connected_def
  at_host_notify_disconnected_def at_host_notify_ready_def at_host_notify_mtu_def
  at_host_notify_link_params_def at_host_notify_data_mode_def at_host_notify_function_error_def
  emit_error_def

lemma notify_receive_frame [sys_frame, simp]:
  "g_config (at_host_notify_receive (Some (at_tx e)) d s) = g_config s"
  "g_state (at_host_notify_receive (Some (at_tx e)) d s) = g_state s"
  "host_to_ble_ring (at_host_notify_receive (Some (at_tx e)) d s) = host_to_ble_ring s"
  "ble_to_host_ring (at_host_notify_receive (Some (at_tx e)) d s) = ble_to_host_ring s"
  "current_conn (at_host_notify_receive (Some (at_tx e)) d s) = current_conn s"
  "scanned_devices (at_host_notify_receive (Some (at_tx e)) d s) = scanned_devices s"
  "stream_stats (at_host_notify_receive (Some (at_tx e)) d s) = stream_stats s"
  "scan_filter_name (at_host_notify_receive (Some (at_tx e)) d s) = scan_filter_name s"
  "control_dtr_ready (at_host_notify_receive (Some (at_tx e)) d s) = control_dtr_ready s"
  "control_rx_paused (at_host_notify_receive (Some (at_tx e)) d s) = control_rx_paused s"
  "data_mode_pending_enter (at_host_notify_receive (Some (at_tx e)) d s) = data_mode_pending_enter s"
  "data_mode_tx_flush_due (at_host_notify_receive (Some (at_tx e)) d s) = data_mode_tx_flush_due s"
  "escape_state (at_host_notify_receive (Some (at_tx e)) d s) = escape_state s"
  "app_state (at_host_notify_receive (Some (at_tx e)) d s) = app_state s"
  "next_scan_index (at_host_notify_receive (Some (at_tx e)) d s) = next_scan_index s"
  "last_host_rx_time_ms (at_host_notify_receive (Some (at_tx e)) d s) = last_host_rx_time_ms s"
  by (simp_all add: at_host_notify_receive_def split: option.split)

section \<open>The invariant\<close>

text \<open>
  The cache of scanned devices: the valid entries are the first \<open>next_scan_index\<close> ones, each holds
  its position as its index, their names fit, and no address occurs twice.
\<close>

definition scan_ok :: "scanned_device_entry list \<Rightarrow> u8 \<Rightarrow> bool" where
  "scan_ok devs next \<longleftrightarrow>
     length devs = MAX_SCANNED_DEVICES \<and> unat next \<le> MAX_SCANNED_DEVICES \<and>
     (\<forall>i < length devs. sd_valid (devs ! i) = (i < unat next)) \<and>
     (\<forall>i < unat next. sd_index (devs ! i) = word_of_nat i \<and>
        length (sd_name (devs ! i)) < BLE_HOST_NAME_MAX_LEN) \<and>
     distinct (map sd_addr (take (unat next) devs))"

definition esc_ok :: "data_mode_escape_state \<Rightarrow> bool" where
  "esc_ok es \<longleftrightarrow> esc_count es \<le> 3 \<and> (esc_active es \<longleftrightarrow> 0 < esc_count es)"

text \<open>
  Data mode has a connection, scanning has none, the escape counter stays within its three
  characters, the profile is normalised and the cache is in order.
\<close>

definition main_inv :: "('w, 'r) sys \<Rightarrow> bool" where
  "main_inv s \<longleftrightarrow>
     (app_state s = APP_STATE_DATA_MODE \<longrightarrow> current_conn s \<noteq> None) \<and>
     (app_state s = APP_STATE_SCANNING \<longrightarrow> current_conn s = None) \<and>
     esc_ok (escape_state s) \<and> config_ok (g_config s) \<and>
     scan_ok (scanned_devices s) (next_scan_index s)"

text \<open>Two memories that agree on what the invariant reads.\<close>

lemma main_inv_cong:
  "app_state t = app_state s \<Longrightarrow> current_conn t = current_conn s \<Longrightarrow> escape_state t = escape_state s \<Longrightarrow>
   g_config t = g_config s \<Longrightarrow> scanned_devices t = scanned_devices s \<Longrightarrow>
   next_scan_index t = next_scan_index s \<Longrightarrow> main_inv t = main_inv s"
  by (simp add: main_inv_def)

lemma main_inv_output [simp]:
  "main_inv (tx_line (Some (at_tx e)) l s) = main_inv s"
  "main_inv (tx_raw (Some (at_tx e)) d s) = main_inv s"
  "main_inv (at_host_notify_receive (Some (at_tx e)) b s) = main_inv s"
  "main_inv (os_do f s) = main_inv s" "main_inv (snd (uptime e s)) = main_inv s"
  "main_inv (kick_uart_tx e s) = main_inv s" "main_inv (snd (sys_call g s)) = main_inv s"
  "main_inv (stats_upd h s) = main_inv s" "main_inv (s\<lparr>host_to_ble_ring := r\<rparr>) = main_inv s"
  "main_inv (s\<lparr>ble_to_host_ring := r\<rparr>) = main_inv s" "main_inv (s\<lparr>ctrl_tx_ring := r\<rparr>) = main_inv s"
  "main_inv (s\<lparr>world := w\<rparr>) = main_inv s" "main_inv (s\<lparr>g_state := p\<rparr>) = main_inv s"
  "main_inv (s\<lparr>control_rx_paused := c\<rparr>) = main_inv s"
  "main_inv (s\<lparr>data_mode_tx_flush_due := c\<rparr>) = main_inv s"
  "main_inv (s\<lparr>data_mode_pending_enter := c\<rparr>) = main_inv s"
  "main_inv (s\<lparr>control_dtr_ready := c\<rparr>) = main_inv s"
  "main_inv (s\<lparr>last_host_rx_time_ms := t\<rparr>) = main_inv s"
  "main_inv (s\<lparr>scan_filter_name := nm\<rparr>) = main_inv s"
  by (rule main_inv_cong; simp)+

lemma main_inv_notify [simp]:
  "main_inv (at_host_notify_scan_result (Some (at_tx e)) i m n a r s) = main_inv s"
  "main_inv (at_host_notify_scan_complete (Some (at_tx e)) s) = main_inv s"
  "main_inv (at_host_notify_connected (Some (at_tx e)) s) = main_inv s"
  "main_inv (at_host_notify_disconnected (Some (at_tx e)) s) = main_inv s"
  "main_inv (at_host_notify_ready (Some (at_tx e)) s) = main_inv s"
  "main_inv (at_host_notify_mtu (Some (at_tx e)) l s) = main_inv s"
  "main_inv (at_host_notify_link_params (Some (at_tx e)) x y z s) = main_inv s"
  "main_inv (at_host_notify_data_mode (Some (at_tx e)) b s) = main_inv s"
  "main_inv (at_host_notify_function_error (Some (at_tx e)) s) = main_inv s"
  by (simp_all add: notify_defs)

lemma main_inv_set_state:
  "main_inv s \<Longrightarrow> st = APP_STATE_IDLE \<or> st = APP_STATE_CONNECTING \<or> st = APP_STATE_CONTROL_READY \<or>
     st = APP_STATE_DISCONNECTING \<or> (st = APP_STATE_SCANNING \<and> current_conn s = None) \<or>
     (st = APP_STATE_DATA_MODE \<and> current_conn s \<noteq> None) \<Longrightarrow> main_inv (set_state st s)"
  by (auto simp: main_inv_def set_state_def)

lemma linked_state_cases: "linked_state s = APP_STATE_IDLE \<or> linked_state s = APP_STATE_CONTROL_READY"
  by (simp add: linked_state_def)

lemma main_inv_linked [simp]: "main_inv s \<Longrightarrow> main_inv (set_state (linked_state t) s)"
  using linked_state_cases [of t] by (auto intro: main_inv_set_state)

lemma main_inv_idle [simp]:
  "main_inv s \<Longrightarrow> main_inv (set_state APP_STATE_IDLE s)"
  "main_inv s \<Longrightarrow> main_inv (set_state APP_STATE_CONNECTING s)"
  "main_inv s \<Longrightarrow> main_inv (set_state APP_STATE_CONTROL_READY s)"
  "main_inv s \<Longrightarrow> main_inv (set_state APP_STATE_DISCONNECTING s)"
  by (auto intro: main_inv_set_state)

section \<open>The scan cache\<close>

lemma scan_ok_0: "scan_ok (replicate MAX_SCANNED_DEVICES scanned_device_entry_0) 0"
  by (simp add: scan_ok_def scanned_device_entry_0_def)

lemma first_index_Some:
  "first_index P xs = Some i \<Longrightarrow> i < length xs \<and> P (xs ! i) \<and> (\<forall>j < i. \<not> P (xs ! j))"
proof (induction xs arbitrary: i)
  case (Cons x xs)
  then show ?case
    by (auto split: if_splits simp: nth_Cons')
qed simp

lemma first_index_None: "first_index P xs = None \<longleftrightarrow> (\<forall>x \<in> set xs. \<not> P x)"
  by (induction xs) auto

lemma scan_ok_rssi:
  assumes ok: "scan_ok devs next" and i: "i < length devs"
  shows "scan_ok (devs[i := (devs ! i)\<lparr>sd_rssi := rssi\<rparr>]) next"
proof -
  have "map sd_addr (take n (devs[i := (devs ! i)\<lparr>sd_rssi := rssi\<rparr>])) = map sd_addr (take n devs)" for n
    using i by (intro nth_equalityI) (auto simp: nth_list_update)
  then show ?thesis using ok i by (auto simp: scan_ok_def nth_list_update)
qed

lemma scan_ok_new:
  assumes ok: "scan_ok devs next"
    and free: "first_index (\<lambda>en. \<not> sd_valid en) devs = Some i"
    and new: "first_index (\<lambda>en. sd_valid en \<and> sd_addr en = sd_addr entry) devs = None"
    and entry: "sd_valid entry" "sd_index entry = next" "length (sd_name entry) < BLE_HOST_NAME_MAX_LEN"
  shows "scan_ok (devs[i := entry]) (next + 1)"
proof -
  have len: "length devs = 32" and le: "unat next \<le> 32" and valid: "\<And>j. j < 32 \<Longrightarrow> sd_valid (devs ! j) = (j < unat next)"
    using ok by (auto simp: scan_ok_def MAX_SCANNED_DEVICES_def)
  have i: "i < 32" "\<not> sd_valid (devs ! i)" "\<forall>j < i. sd_valid (devs ! j)"
    using first_index_Some [OF free] len by auto
  have "\<not> i < unat next" using valid [OF i(1)] i(2) by simp
  moreover have "\<not> unat next < i" using valid [of "unat next"] i by auto
  ultimately have "i = unat next" by simp
  have n1: "unat (next + 1) = Suc i"
  proof -
    have "unat next < 255" using \<open>i = unat next\<close> i(1) by simp
    then show ?thesis using \<open>i = unat next\<close> unat_lt [of "next"]
      by (simp add: unat_word_ariths)
  qed
  have fresh: "sd_addr entry \<notin> set (map sd_addr (take i devs))"
  proof
    assume "sd_addr entry \<in> set (map sd_addr (take i devs))"
    then obtain j where "j < i" "sd_addr (devs ! j) = sd_addr entry"
      using len i(1) by (auto simp: in_set_conv_nth)
    then have "devs ! j \<in> set devs" "sd_valid (devs ! j) \<and> sd_addr (devs ! j) = sd_addr entry"
      using i len by auto
    then show False using new by (auto simp: first_index_None)
  qed
  have tk: "take (Suc i) (devs[i := entry]) = take i devs @ [entry]"
    using len i(1) by (simp add: take_Suc_conv_app_nth)
  show ?thesis
    unfolding scan_ok_def n1 tk
    using ok i len fresh entry \<open>i = unat next\<close> valid
    by (auto simp: scan_ok_def nth_list_update less_Suc_eq MAX_SCANNED_DEVICES_def)
qed

section \<open>The callbacks of the profile manager\<close>

lemma notify_g_state [simp]:
  "g_state (at_host_notify_ready (Some (at_tx e)) s) = g_state s"
  "g_state (at_host_notify_mtu (Some (at_tx e)) l s) = g_state s"
  "g_state (at_host_notify_function_error (Some (at_tx e)) s) = g_state s"
  "g_state (set_state st s) = g_state s"
  by (simp_all add: notify_defs set_state_def)

lemma queue_data_frame [simp]:
  "g_state (queue_data_bytes e d s) = g_state s" "main_inv (queue_data_bytes e d s) = main_inv s"
  by (simp_all add: queue_data_bytes_def Let_def split: prod.split)

lemma callback_facts:
  "g_state (profile_ready e s) = g_state s" "main_inv s \<Longrightarrow> main_inv (profile_ready e s)"
  "g_state (profile_payload_received e d s) = g_state s"
  "main_inv s \<Longrightarrow> main_inv (profile_payload_received e d s)"
  "g_state (profile_mtu_updated e m s) = g_state s" "main_inv s \<Longrightarrow> main_inv (profile_mtu_updated e m s)"
  "g_state (profile_error e x s) = g_state s" "main_inv s \<Longrightarrow> main_inv (profile_error e x s)"
  by (simp_all add: profile_ready_def profile_payload_received_def profile_mtu_updated_def
      profile_error_def Let_def)

interpretation main: profile_client "main_cbs e" main_inv
  for e :: "('u, 'w, 'r) env"
  by unfold_locales (auto simp: profile_callbacks_def callback_facts)

definition sys_ok :: "bool \<Rightarrow> ('w, 'r) sys \<Rightarrow> bool" where
  "sys_ok lk s \<longleftrightarrow> pm_ok lk (g_state s) \<and> main_inv s"

lemma sys_ok_client: "main.ok = sys_ok"
  by (simp add: fun_eq_iff main.ok_def sys_ok_def)

lemmas client_ok =
  main.start_ok [unfolded sys_ok_client] main.disconnected_ok [unfolded sys_ok_client]
  main.set_config_ok [unfolded sys_ok_client] main.request_mtu_ok [unfolded sys_ok_client]
  main.request_link_ok [unfolded sys_ok_client] main.send_ok [unfolded sys_ok_client]

section \<open>The handlers keep the invariant\<close>

lemma sys_ok_output [simp]:
  "sys_ok lk (tx_line (Some (at_tx e)) l s) = sys_ok lk s"
  "sys_ok lk (tx_raw (Some (at_tx e)) d s) = sys_ok lk s"
  "sys_ok lk (at_host_notify_receive (Some (at_tx e)) b s) = sys_ok lk s"
  "sys_ok lk (os_do f s) = sys_ok lk s" "sys_ok lk (snd (uptime e s)) = sys_ok lk s"
  "sys_ok lk (kick_uart_tx e s) = sys_ok lk s" "sys_ok lk (snd (sys_call g s)) = sys_ok lk s"
  "sys_ok lk (stats_upd h s) = sys_ok lk s" "sys_ok lk (s\<lparr>host_to_ble_ring := r\<rparr>) = sys_ok lk s"
  "sys_ok lk (s\<lparr>ble_to_host_ring := r\<rparr>) = sys_ok lk s" "sys_ok lk (s\<lparr>ctrl_tx_ring := r\<rparr>) = sys_ok lk s"
  "sys_ok lk (s\<lparr>world := w\<rparr>) = sys_ok lk s" "sys_ok lk (s\<lparr>control_rx_paused := c\<rparr>) = sys_ok lk s"
  "sys_ok lk (s\<lparr>data_mode_tx_flush_due := c\<rparr>) = sys_ok lk s"
  "sys_ok lk (s\<lparr>data_mode_pending_enter := c\<rparr>) = sys_ok lk s"
  "sys_ok lk (s\<lparr>control_dtr_ready := c\<rparr>) = sys_ok lk s"
  "sys_ok lk (s\<lparr>last_host_rx_time_ms := t\<rparr>) = sys_ok lk s"
  "sys_ok lk (s\<lparr>scan_filter_name := nm\<rparr>) = sys_ok lk s"
  by (simp_all add: sys_ok_def)

lemma sys_ok_states [simp]:
  "sys_ok lk s \<Longrightarrow> sys_ok lk (set_state APP_STATE_IDLE s)" "sys_ok lk s \<Longrightarrow> sys_ok lk (set_state APP_STATE_CONNECTING s)"
  "sys_ok lk s \<Longrightarrow> sys_ok lk (set_state APP_STATE_CONTROL_READY s)"
  "sys_ok lk s \<Longrightarrow> sys_ok lk (set_state APP_STATE_DISCONNECTING s)"
  "sys_ok lk s \<Longrightarrow> sys_ok lk (set_state (linked_state t) s)"
  by (simp_all add: sys_ok_def)

lemma sys_ok_notify [simp]:
  "sys_ok lk (at_host_notify_scan_complete (Some (at_tx e)) s) = sys_ok lk s"
  "sys_ok lk (at_host_notify_scan_result (Some (at_tx e)) i m n a r s) = sys_ok lk s"
  "sys_ok lk (at_host_notify_connected (Some (at_tx e)) s) = sys_ok lk s"
  "sys_ok lk (at_host_notify_disconnected (Some (at_tx e)) s) = sys_ok lk s"
  "sys_ok lk (at_host_notify_link_params (Some (at_tx e)) x y z s) = sys_ok lk s"
  "sys_ok lk (at_host_notify_data_mode (Some (at_tx e)) b s) = sys_ok lk s"
  "sys_ok lk (at_host_notify_function_error (Some (at_tx e)) s) = sys_ok lk s"
  by (simp_all add: notify_defs)

text \<open>Uniform shapes: a call that returns a pair, and the clock.\<close>

lemma uptime_world: "uptime e s = (fst (k_uptime_get (os e) (world s)), s\<lparr>world := snd (k_uptime_get (os e) (world s))\<rparr>)"
  by (simp add: uptime_def split: prod.split)

text \<open>Data mode.\<close>

lemma refresh_ok [simp]: "sys_ok lk (refresh_uart_rx_flow_control e s) = sys_ok lk s"
  by (simp add: refresh_uart_rx_flow_control_def)

lemma schedule_ok [simp]:
  "sys_ok lk (schedule_ble_write_pump e d s) = sys_ok lk s" "sys_ok lk (schedule_data_mode_ble_tx e s) = sys_ok lk s"
  by (simp_all add: schedule_ble_write_pump_def schedule_data_mode_ble_tx_def Let_def)

lemma note_depth_ok [simp]: "sys_ok lk (note_host_to_ble_depth e s) = sys_ok lk s"
  by (simp add: note_host_to_ble_depth_def)

lemma sys_ok_escape: "sys_ok lk s \<Longrightarrow> esc_ok x \<Longrightarrow> sys_ok lk (s\<lparr>escape_state := x\<rparr>)"
  by (simp add: sys_ok_def main_inv_def)

lemma esc_ok_values [simp]:
  "esc_ok \<lparr> esc_active = False, esc_count = 0 \<rparr>" "esc_ok \<lparr> esc_active = True, esc_count = 1 \<rparr>"
  by (simp_all add: esc_ok_def)

lemma esc_ok_next: "esc_ok x \<Longrightarrow> esc_active x \<Longrightarrow> esc_count x < 3 \<Longrightarrow> esc_ok (x\<lparr>esc_count := esc_count x + 1\<rparr>)"
proof -
  assume x: "esc_ok x" "esc_active x" "esc_count x < 3"
  then have "unat (esc_count x) < 3" by (simp add: word_less_nat_alt)
  then have "unat (esc_count x + 1) = unat (esc_count x) + 1"
    by (simp add: unat_word_ariths)
  then show ?thesis using x by (simp add: esc_ok_def word_le_nat_alt word_less_nat_alt)
qed

lemma clear_session_ok: "sys_ok lk s \<Longrightarrow> sys_ok lk (clear_data_mode_session e b s)"
  by (simp add: clear_data_mode_session_def Let_def sys_ok_escape)

lemma flush_ok: "sys_ok lk s \<Longrightarrow> sys_ok lk (flush_escape_candidate_as_payload e s)"
  by (auto simp: flush_escape_candidate_as_payload_def Let_def uptime_world sys_ok_escape split: prod.split)

lemma exit_ok: "sys_ok lk s \<Longrightarrow> sys_ok lk (exit_data_mode e s)"
  by (simp add: exit_data_mode_def clear_session_ok)

lemma guard_handler_ok: "sys_ok lk s \<Longrightarrow> sys_ok lk (escape_guard_work_handler e s)"
  by (simp add: escape_guard_work_handler_def Let_def uptime_world exit_ok flush_ok)

lemma flush_escape [simp]:
  "escape_state (schedule_data_mode_ble_tx e s) = escape_state s"
  by (simp add: schedule_data_mode_ble_tx_def schedule_ble_write_pump_def Let_def)

lemma rx_byte_ok: "sys_ok lk s \<Longrightarrow> sys_ok lk (data_mode_rx_byte e ch s)"
proof -
  assume ok: "sys_ok lk s"
  then have esc: "esc_ok (escape_state s)" by (simp add: sys_ok_def main_inv_def)
  show ?thesis
    using ok esc flush_ok
    by (auto simp: data_mode_rx_byte_def Let_def uptime_world sys_ok_escape esc_ok_next flush_ok split: prod.split)
qed

lemma fold_rx_ok: "sys_ok lk s \<Longrightarrow> sys_ok lk (fold (data_mode_rx_byte e) data s)"
  by (induction data arbitrary: s) (simp_all add: rx_byte_ok)

lemma handle_rx_ok: "sys_ok lk s \<Longrightarrow> sys_ok lk (handle_data_mode_rx e data s)"
  by (simp add: handle_data_mode_rx_def fold_rx_ok)

lemma pump_step_ok: "sys_ok lk s \<Longrightarrow> sys_ok lk (snd (ble_write_step e s))"
proof -
  assume ok: "sys_ok lk s"
  have send: "sys_ok lk t \<Longrightarrow> profile_manager_send (gatt e) d t = (err, t') \<Longrightarrow> sys_ok lk t'" for t d err t'
    using client_ok(7) [of lk t "gatt e" d] by simp
  show ?thesis using ok
    by (auto simp: ble_write_step_def Let_def split: prod.split) (auto dest: send [rotated])
qed

lemma sys_ok_data_mode:
  "sys_ok lk s \<Longrightarrow> current_conn s \<noteq> None \<Longrightarrow> sys_ok lk (set_state APP_STATE_DATA_MODE s)"
  "sys_ok lk s \<Longrightarrow> current_conn s = None \<Longrightarrow> sys_ok lk (set_state APP_STATE_SCANNING s)"
  by (auto simp: sys_ok_def set_state_def main_inv_def)

lemma activate_ok: "sys_ok lk s \<Longrightarrow> sys_ok lk (activate_pending_data_mode_if_ready e s)"
  by (auto simp: activate_pending_data_mode_if_ready_def Let_def uptime_world
      intro!: sys_ok_data_mode sys_ok_escape)

lemma service_tx_ok: "sys_ok lk s \<Longrightarrow> sys_ok lk (service_uart_tx e s)"
  by (auto simp: service_uart_tx_def Let_def activate_ok split: prod.split)

text \<open>Scanning.\<close>

lemma sys_ok_scan:
  "sys_ok lk s \<Longrightarrow> scan_ok ds n \<Longrightarrow> sys_ok lk (s\<lparr>scanned_devices := ds, next_scan_index := n\<rparr>)"
  "sys_ok lk s \<Longrightarrow> scan_ok ds n \<Longrightarrow> sys_ok lk (s\<lparr>next_scan_index := n, scanned_devices := ds\<rparr>)"
  "sys_ok lk s \<Longrightarrow> scan_ok ds (next_scan_index s) \<Longrightarrow> sys_ok lk (s\<lparr>scanned_devices := ds\<rparr>)"
  by (simp_all add: sys_ok_def main_inv_def)

lemma stop_scan_ok: "sys_ok lk s \<Longrightarrow> sys_ok lk (snd (stop_scan_internal e b s))"
  by (simp add: stop_scan_internal_def Let_def sys_call_world)

lemma device_found_ok: "sys_ok lk s \<Longrightarrow> sys_ok lk (device_found e addr rssi type ad s)"
proof -
  assume ok: "sys_ok lk s"
  then have sc: "scan_ok (scanned_devices s) (next_scan_index s)" by (simp add: sys_ok_def main_inv_def)
  have known: "find_scan_entry addr s = Some i \<Longrightarrow> i < length (scanned_devices s)" for i
    unfolding find_scan_entry_def by (blast dest: first_index_Some)
  have name: "length (snprintk BLE_HOST_NAME_MAX_LEN n) < BLE_HOST_NAME_MAX_LEN" for n
    by (rule length_snprintk) (simp add: BLE_HOST_NAME_MAX_LEN_def)
  have seen: "find_scan_entry addr s = Some i \<Longrightarrow>
      sys_ok lk (s\<lparr>scanned_devices := (scanned_devices s)[i := (scanned_devices s ! i)\<lparr>sd_rssi := rssi\<rparr>]\<rparr>)" for i
    by (rule sys_ok_scan(3) [OF ok scan_ok_rssi [OF sc known]])
  show ?thesis
    using ok sc name
    by (auto simp: device_found_def Let_def seen intro!: sys_ok_scan(2) scan_ok_new split: option.split)
      (auto simp: find_scan_entry_def)
qed

text \<open>Operations.\<close>

lemma start_scan_ok: "sys_ok lk s \<Longrightarrow> sys_ok lk (snd (op_start_scan e d f s))"
proof -
  assume ok: "sys_ok lk s"
  have "sys_ok lk (clear_scan_cache s)"
    using ok unfolding clear_scan_cache_def by (rule sys_ok_scan(1)) (rule scan_ok_0)
  moreover have "current_conn (clear_scan_cache s) = current_conn s" by (simp add: clear_scan_cache_def)
  ultimately show ?thesis using ok
    by (auto simp: op_start_scan_def Let_def sys_call_world intro!: sys_ok_data_mode split: option.split)
qed

lemma sys_ok_conn_None: "sys_ok lk s \<Longrightarrow> app_state s \<noteq> APP_STATE_DATA_MODE \<Longrightarrow> sys_ok lk (s\<lparr>current_conn := None\<rparr>)"
  by (simp add: sys_ok_def main_inv_def)

lemma sys_ok_connecting: "sys_ok lk s \<Longrightarrow> sys_ok lk (set_state APP_STATE_CONNECTING (s\<lparr>world := w, current_conn := c\<rparr>))"
  by (simp add: sys_ok_def main_inv_def set_state_def)

lemma stop_scan_state:
  "app_state s = APP_STATE_SCANNING \<Longrightarrow> stop_scan_internal e False s = (RC_OK, t) \<Longrightarrow>
     current_conn t = current_conn s \<and> app_state t \<noteq> APP_STATE_SCANNING \<and> app_state t \<noteq> APP_STATE_DATA_MODE"
  using linked_state_cases
  by (auto simp: stop_scan_internal_def Let_def sys_call_world set_state_def linked_state_def split: if_splits)

lemma connect_ok: "sys_ok lk s \<Longrightarrow> sys_ok lk (snd (op_connect e mac a s))"
proof -
  assume ok: "sys_ok lk s"
  define pre where "pre = (if app_state s = APP_STATE_SCANNING then stop_scan_internal e False s else (RC_OK, s))"
  obtain err s1 where p: "pre = (err, s1)" by (cases pre)
  have s1: "sys_ok lk s1"
    using p ok stop_scan_ok [OF ok, of e False] by (auto simp: pre_def split: if_splits)
  have dm: "current_conn s = None \<Longrightarrow> err = RC_OK \<Longrightarrow> app_state s1 \<noteq> APP_STATE_DATA_MODE"
    using p ok stop_scan_state [of s e s1] by (auto simp: pre_def sys_ok_def main_inv_def split: if_splits)
  have none: "current_conn s = None \<Longrightarrow> err = RC_OK \<Longrightarrow>
      sys_ok lk (s1\<lparr>world := w, current_conn := None\<rparr>)" for w
    using sys_ok_conn_None [of lk "s1\<lparr>world := w\<rparr>"] s1 dm by simp
  have twice: "s1\<lparr>world := w, current_conn := c, current_conn := None\<rparr> = s1\<lparr>world := w, current_conn := None\<rparr>" for w c
    by simp
  show ?thesis
    unfolding op_connect_def Let_def pre_def [symmetric] p prod.case
    using ok s1 none sys_ok_connecting [OF s1] by (auto split: option.split prod.split)
qed

lemma disconnect_ok: "sys_ok lk s \<Longrightarrow> sys_ok lk (snd (op_disconnect e i s))"
  by (simp add: op_disconnect_def split: option.split)

lemma send_payload_ok: "sys_ok lk s \<Longrightarrow> sys_ok lk (snd (op_send_payload e i d s))"
  by (simp add: op_send_payload_def client_ok(7))

lemma op_request_mtu_ok: "sys_ok lk s \<Longrightarrow> sys_ok lk (snd (op_request_mtu e i s))"
  by (simp add: op_request_mtu_def client_ok(4))

text \<open>Settings updates keep the profile normalised, whatever saving returns.\<close>

lemma on_settings_ok:
  assumes "sys_ok lk s" and "\<And>cfg w rc cfg' w'. config_ok cfg \<Longrightarrow> f (cfg, w) = (rc, cfg', w') \<Longrightarrow> config_ok cfg'"
  shows "sys_ok lk (snd (on_settings f s))"
proof -
  obtain rc cfg w where f: "f (g_config s, world s) = (rc, cfg, w)" by (cases "f (g_config s, world s)")
  then have "config_ok cfg" using assms by (auto simp: sys_ok_def main_inv_def)
  then show ?thesis using assms(1) by (simp add: on_settings_def f sys_ok_def main_inv_def)
qed

lemma settings_ok:
  "sys_ok lk s \<Longrightarrow> sys_ok lk (snd (on_settings (ble_host_settings_update_profile api x y z) s))"
  "sys_ok lk s \<Longrightarrow> sys_ok lk (snd (on_settings (ble_host_settings_update_mtu api m) s))"
  "sys_ok lk s \<Longrightarrow> sys_ok lk (snd (on_settings (ble_host_settings_update_conn_params api mn mx la ti) s))"
  "sys_ok lk s \<Longrightarrow> sys_ok lk (snd (on_settings (ble_host_settings_init api uninit) s))"
  by (erule on_settings_ok, blast intro: update_profile_ok update_mtu_ok update_conn_params_ok
      ble_host_settings_init_ok)+

lemma set_profile_ok: "sys_ok lk s \<Longrightarrow> sys_ok lk (snd (op_set_profile e x y z s))"
  using settings_ok(1) [of lk s "flash e" x y z]
  by (auto simp: op_set_profile_def client_ok(3) split: prod.split)

lemma set_mtu_ok: "sys_ok lk s \<Longrightarrow> sys_ok lk (snd (op_set_mtu e m s))"
  using settings_ok(2) [of lk s "flash e" m]
  by (auto simp: op_set_mtu_def client_ok(3) split: prod.split)

lemma set_conn_params_ok: "sys_ok lk s \<Longrightarrow> sys_ok lk (snd (op_set_conn_params e i mn mx la ti s))"
  by (simp add: op_set_conn_params_def Let_def sys_call_world settings_ok(3) split: option.split)

lemma enter_data_mode_ok: "sys_ok lk s \<Longrightarrow> sys_ok lk (snd (op_enter_data_mode i s))"
  by (simp add: op_enter_data_mode_def)

interpretation backend: at_host_backend "at_ops e" "Some (at_tx e)" "sys_ok lk"
  for e :: "('u, 'w, 'r) env" and lk :: bool
  by unfold_locales
    (auto simp: at_ops_def start_scan_ok connect_ok disconnect_ok send_payload_ok set_profile_ok
      set_mtu_ok op_request_mtu_ok set_conn_params_ok enter_data_mode_ok)

text \<open>Connections.\<close>

lemma sys_ok_idle_any:
  "sys_ok lk s \<Longrightarrow> sys_ok lk (set_state APP_STATE_IDLE (s\<lparr>current_conn := c\<rparr>))"
  by (simp add: sys_ok_def main_inv_def set_state_def)

lemma connected_ok: "sys_ok lk s \<Longrightarrow> sys_ok lk (connected e c err s)"
proof -
  assume ok: "sys_ok lk s"
  have start: "sys_ok lk t \<Longrightarrow> profile_manager_start (gatt e) (main_cbs e) (Some c) t = (rc, t') \<Longrightarrow> sys_ok lk t'" for t rc t'
    using client_ok(1) [of lk t "gatt e" e c] by simp
  show ?thesis using ok
    by (auto simp: connected_def Let_def sys_ok_idle_any client_ok(4,5,6) split: option.split prod.split)
      (auto dest: start [rotated] simp: client_ok(4,5,6))
qed

lemma conn_gone_ok: "sys_ok lk s \<Longrightarrow> sys_ok lk (disconnected e c reason s)"
proof -
  assume ok: "sys_ok lk s"
  have *: "sys_ok lk t \<Longrightarrow> sys_ok lk (set_state APP_STATE_IDLE
      (clear_data_mode_session e False ((t\<lparr>current_conn := x\<rparr>)\<lparr>host_to_ble_ring := r\<rparr>)))" for t x r
  proof -
    assume t: "sys_ok lk t"
    have "set_state APP_STATE_IDLE (clear_data_mode_session e False ((t\<lparr>current_conn := x\<rparr>)\<lparr>host_to_ble_ring := r\<rparr>)) =
        clear_data_mode_session e False ((set_state APP_STATE_IDLE (t\<lparr>current_conn := x\<rparr>))\<lparr>host_to_ble_ring := r\<rparr>)"
      by (simp add: set_state_def clear_data_mode_session_def Let_def os_do_def)
    then show ?thesis by (simp add: clear_session_ok sys_ok_idle_any t)
  qed
  show ?thesis using ok
    by (simp add: disconnected_def Let_def * client_ok(2) clear_session_ok)
qed

lemma le_param_ok: "sys_ok lk s \<Longrightarrow> sys_ok lk (le_param_updated e c i l t s)"
  by (simp add: le_param_updated_def)

lemma dtr_ok: "sys_ok lk s \<Longrightarrow> sys_ok lk (usb_dtr_changed e d s)"
  by (simp add: usb_dtr_changed_def)

section \<open>Steps of the whole firmware\<close>

text \<open>
  The state of the AT host beside the memory.  The events are the work items, the handlers of the
  Bluetooth stack and one iteration of the UART interrupt handler; the pump advances by one
  iteration of its loop.  \<open>may\<close> says which events of the profile manager's interface can happen in
  which state; a stack that is not restricted at all has \<open>\<lambda>_ _. True\<close>.
\<close>

type_synonym ('w, 'r) machine = "at_host_state \<times> ('w, 'r) sys"

inductive sys_step ::
  "(pm_state \<Rightarrow> 'u pm_event \<Rightarrow> bool) \<Rightarrow> ('u, 'w, 'r) env \<Rightarrow> ('w, 'r) machine \<Rightarrow> ('w, 'r) machine \<Rightarrow> bool"
  for may e where
  uart_isr: "control_uart_isr_step e m = (b, m') \<Longrightarrow> sys_step may e m m'"
| device: "sys_step may e (st, s) (st, device_found e addr rssi ty ad s)"
| scan_stop: "sys_step may e (st, s) (st, scan_stop_work_handler e s)"
| pump: "ble_write_step e s = (b, s') \<Longrightarrow> sys_step may e (st, s) (st, s')"
| coalesce: "sys_step may e (st, s) (st, ble_write_coalesce_work_handler e s)"
| retry: "sys_step may e (st, s) (st, ble_write_retry_work_handler e s)"
| guard: "sys_step may e (st, s) (st, escape_guard_work_handler e s)"
| conn: "sys_step may e (st, s) (st, connected e c err s)"
| disconn: "sys_step may e (st, s) (st, disconnected e c reason s)"
| param: "sys_step may e (st, s) (st, le_param_updated e c interval latency timeout s)"
| dtr: "sys_step may e (st, s) (st, usb_dtr_changed e d s)"
| stack: "may (g_state s) ev \<Longrightarrow> pm_step (gatt e) (main_cbs e) s ev s' \<Longrightarrow> sys_step may e (st, s) (st, s')"

inductive_cases sys_step_cases: "sys_step may e m m'"

definition machine_ok :: "bool \<Rightarrow> ('w, 'r) machine \<Rightarrow> bool" where
  "machine_ok lk m \<longleftrightarrow> at_inv (fst m) \<and> sys_ok lk (snd m)"

lemma uart_rx_ok: "machine_ok lk m \<Longrightarrow> machine_ok lk (control_uart_rx e data m)"
proof (cases "app_state (snd m) = APP_STATE_DATA_MODE")
  case True
  assume "machine_ok lk m"
  then show ?thesis using True by (simp add: control_uart_rx_def machine_ok_def handle_rx_ok)
next
  case False
  assume ok: "machine_ok lk m"
  obtain st s where m: "m = (st, s)" by (cases m)
  obtain st' s' where r: "at_host_rx_bytes (at_ops e) (Some (at_tx e)) data (st, s) = (st', s')"
    by (cases "at_host_rx_bytes (at_ops e) (Some (at_tx e)) data (st, s)")
  from backend.rx_bytes_inv [where lk = lk, OF _ _ r] show ?thesis
    using ok False by (simp add: control_uart_rx_def machine_ok_def m r)
qed

lemma uart_query_world: "uart_query f s = (fst (f (world s)), s\<lparr>world := snd (f (world s))\<rparr>)"
  by (simp add: uart_query_def split: prod.split)

lemma uart_query_ok [simp]: "sys_ok lk (snd (uart_query f s)) = sys_ok lk s"
  by (simp add: uart_query_world)

lemma isr_ok: "machine_ok lk m \<Longrightarrow> machine_ok lk (snd (control_uart_isr_step e m))"
proof -
  assume ok: "machine_ok lk m"
  obtain st s where m: "m = (st, s)" by (cases m)
  have at: "at_inv st" and s: "sys_ok lk s" using ok by (simp_all add: machine_ok_def m)
  have rx: "sys_ok lk t \<Longrightarrow> at_inv (fst (control_uart_rx e d (st, t)))"
    "sys_ok lk t \<Longrightarrow> sys_ok lk (snd (control_uart_rx e d (st, t)))" for t d
    using uart_rx_ok [of lk "(st, t)" e d] at by (simp_all add: machine_ok_def)
  show ?thesis
    unfolding control_uart_isr_step_def m machine_ok_def
    by (simp add: at s rx service_tx_ok Let_def case_prod_beta)
qed

theorem machine_step_ok:
  "sys_step may e m m' \<Longrightarrow> (lk \<Longrightarrow> \<forall>p ev. may p ev \<longrightarrow> reports_linked p ev) \<Longrightarrow> machine_ok lk m \<Longrightarrow> machine_ok lk m'"
proof (induction rule: sys_step.induct)
  case (uart_isr m b m')
  then show ?case using isr_ok [of lk m e] by simp
next
  case (pump s b s' st)
  then show ?case using pump_step_ok [of lk s e] by (simp add: machine_ok_def)
next
  case (stack s ev s' st)
  have "sys_ok lk s'"
    by (rule main.step_ok [OF stack(2), unfolded sys_ok_client]) (use stack in \<open>auto simp: machine_ok_def\<close>)
  then show ?case using stack by (simp add: machine_ok_def)
qed (simp_all add: machine_ok_def device_found_ok scan_stop_work_handler_def stop_scan_ok
      ble_write_coalesce_work_handler_def ble_write_retry_work_handler_def guard_handler_ok connected_ok
      conn_gone_ok le_param_ok dtr_ok)

end
