(* ===== verification/Main_Env.thy ===== *)
theory Main_Env
  imports Main_Inv Pm_Properties
begin

text \<open>
  Environments: the lifting of every interface to a world with an observer, the recorder of the calls
  of the stack, the documented behaviour of the ring buffers, and a plain environment for closed
  examples.  An observer stands in front of any environment whatsoever.
\<close>

section \<open>Lifting the interfaces to a larger world\<close>

definition lift_u :: "('w \<Rightarrow> 'w) \<Rightarrow> 'w \<times> 'l \<Rightarrow> 'w \<times> 'l" where
  "lift_u f wl = (f (fst wl), snd wl)"

definition lift_r :: "('w \<Rightarrow> 'a \<times> 'w) \<Rightarrow> 'w \<times> 'l \<Rightarrow> 'a \<times> 'w \<times> 'l" where
  "lift_r f wl = (fst (f (fst wl)), snd (f (fst wl)), snd wl)"

definition lift_r2 :: "('w \<Rightarrow> 'a \<times> 'b \<times> 'w) \<Rightarrow> 'w \<times> 'l \<Rightarrow> 'a \<times> 'b \<times> 'w \<times> 'l" where
  "lift_r2 f wl = (fst (f (fst wl)), fst (snd (f (fst wl))), snd (snd (f (fst wl))), snd wl)"

definition lift_os :: "'w sys_api \<Rightarrow> ('w \<times> 'l) sys_api" where
  "lift_os api =
     \<lparr> k_uptime_get = lift_r (k_uptime_get api),
       k_work_submit = (\<lambda>x. lift_u (k_work_submit api x)),
       k_work_schedule = (\<lambda>x t. lift_u (k_work_schedule api x t)),
       k_work_reschedule = (\<lambda>x t. lift_u (k_work_reschedule api x t)),
       k_work_cancel_delayable = (\<lambda>x. lift_u (k_work_cancel_delayable api x)),
       device_is_ready = (\<lambda>wl. device_is_ready api (fst wl)),
       uart_irq_tx_enable = lift_u (uart_irq_tx_enable api),
       uart_irq_tx_disable = lift_u (uart_irq_tx_disable api),
       uart_irq_rx_enable = lift_u (uart_irq_rx_enable api),
       uart_irq_rx_disable = lift_u (uart_irq_rx_disable api),
       uart_fifo_fill = (\<lambda>d. lift_r (uart_fifo_fill api d)),
       uart_fifo_read = (\<lambda>n. lift_r2 (uart_fifo_read api n)),
       uart_irq_update = lift_r (uart_irq_update api),
       uart_irq_is_pending = lift_r (uart_irq_is_pending api),
       uart_irq_tx_ready = lift_r (uart_irq_tx_ready api),
       uart_irq_rx_ready = lift_r (uart_irq_rx_ready api),
       bt_le_scan_start = lift_r (bt_le_scan_start api),
       bt_le_scan_stop = lift_r (bt_le_scan_stop api),
       bt_conn_le_create = (\<lambda>a p. lift_r2 (bt_conn_le_create api a p)),
       bt_conn_disconnect = (\<lambda>c r. lift_r (bt_conn_disconnect api c r)),
       bt_conn_le_param_update = (\<lambda>c p. lift_r (bt_conn_le_param_update api c p)),
       bt_conn_unref = (\<lambda>c. lift_u (bt_conn_unref api c)),
       bt_conn_get_dst = (\<lambda>c wl. bt_conn_get_dst api c (fst wl)),
       bt_addr_to_str = bt_addr_to_str api, bt_addr_from_str = bt_addr_from_str api \<rparr>"

definition lift_flash :: "'w settings_api \<Rightarrow> ('w \<times> 'l) settings_api" where
  "lift_flash api =
     \<lparr> settings_subsys_init = lift_r (settings_subsys_init api),
       settings_load_subtree = (\<lambda>r. lift_r2 (settings_load_subtree api r)),
       settings_save_one = (\<lambda>k d. lift_r (settings_save_one api k d)),
       settings_name_steq = settings_name_steq api \<rparr>"

definition lift_gatt :: "('u, 'w) gatt_api \<Rightarrow> ('u, 'w \<times> 'l) gatt_api" where
  "lift_gatt api =
     \<lparr> bt_gatt_get_mtu = (\<lambda>c wl. bt_gatt_get_mtu api c (fst wl)),
       bt_gatt_discover = (\<lambda>c d. lift_r (bt_gatt_discover api c d)),
       bt_gatt_subscribe = (\<lambda>c p. lift_r (bt_gatt_subscribe api c p)),
       bt_gatt_unsubscribe = (\<lambda>c p. lift_r (bt_gatt_unsubscribe api c p)),
       bt_gatt_exchange_mtu = (\<lambda>c p. lift_r (bt_gatt_exchange_mtu api c p)),
       bt_gatt_write = (\<lambda>c p d. lift_r (bt_gatt_write api c p d)),
       bt_gatt_write_without_response = (\<lambda>c h d b. lift_r (bt_gatt_write_without_response api c h d b)),
       bt_conn_le_data_len_update = (\<lambda>c. lift_r (bt_conn_le_data_len_update api c)),
       bt_conn_le_phy_update = (\<lambda>c. lift_r (bt_conn_le_phy_update api c)),
       bt_uuid_to_str = bt_uuid_to_str api,
       CONFIG_BT_USER_DATA_LEN_UPDATE = CONFIG_BT_USER_DATA_LEN_UPDATE api,
       CONFIG_BT_USER_PHY_UPDATE = CONFIG_BT_USER_PHY_UPDATE api \<rparr>"

lemma lift_simps [simp]:
  "snd (lift_u f wl) = snd wl" "fst (lift_u f wl) = f (fst wl)"
  "snd (snd (lift_r g wl)) = snd wl" "fst (lift_r g wl) = fst (g (fst wl))"
  "fst (snd (lift_r g wl)) = snd (g (fst wl))"
  "snd (snd (snd (lift_r2 h wl))) = snd wl"
  by (simp_all add: lift_u_def lift_r_def lift_r2_def)

text \<open>The calls of the stack are recorded.\<close>

definition log_env :: "('u, 'w, 'r) env \<Rightarrow> ('u, 'w \<times> gatt_call list, 'r) env" where
  "log_env e = \<lparr> gatt = log_gatt (gatt e), flash = lift_flash (flash e), os = lift_os (os e),
                 rings = rings e \<rparr>"

section \<open>Ring buffers\<close>

text \<open>
  The documented behaviour, over a view of a ring as its unread bytes and the number of them that
  are claimed and not finished, and over the capacity each ring was declared with: \<open>put\<close> stores what
  fits; \<open>get_claim\<close> hands out a contiguous part of the bytes behind those already claimed, some if
  there are any; \<open>get_finish\<close> removes bytes from the front and releases all claims, if not more than
  claimed are finished; no operation changes the capacity.
\<close>

definition ring_laws :: "'r ring_api \<Rightarrow> ('r \<Rightarrow> u8 list \<times> nat) \<Rightarrow> ('r \<Rightarrow> nat) \<Rightarrow> bool" where
  "ring_laws api view cap \<longleftrightarrow>
     (\<forall>d r. fst (ring_buf_put api d r) = min (length d) (cap r - length (fst (view r))) \<and>
        view (snd (ring_buf_put api d r)) =
          (fst (view r) @ take (cap r - length (fst (view r))) d, snd (view r)) \<and>
        cap (snd (ring_buf_put api d r)) = cap r) \<and>
     (\<forall>n r. \<exists>k. fst (ring_buf_get_claim api n r) = take k (drop (snd (view r)) (fst (view r))) \<and>
        k \<le> n \<and> k \<le> length (fst (view r)) - snd (view r) \<and>
        (0 < n \<and> snd (view r) < length (fst (view r)) \<longrightarrow> 0 < k) \<and>
        view (snd (ring_buf_get_claim api n r)) = (fst (view r), snd (view r) + k) \<and>
        cap (snd (ring_buf_get_claim api n r)) = cap r) \<and>
     (\<forall>n r. (n \<le> snd (view r) \<longrightarrow> fst (ring_buf_get_finish api n r) = RC_OK \<and>
        view (snd (ring_buf_get_finish api n r)) = (drop n (fst (view r)), 0)) \<and>
        cap (snd (ring_buf_get_finish api n r)) = cap r) \<and>
     (\<forall>r. ring_buf_size_get api r = length (fst (view r)) - snd (view r)) \<and>
     (\<forall>r. ring_buf_space_get api r = cap r - length (fst (view r))) \<and>
     (\<forall>r. view (ring_buf_reset api r) = ([], 0) \<and> cap (ring_buf_reset api r) = cap r)"

text \<open>A ring as a list with its claims and its capacity, for closed examples.\<close>

type_synonym list_ring = "u8 list \<times> nat \<times> nat"

definition list_view :: "list_ring \<Rightarrow> u8 list \<times> nat" where "list_view r = (fst r, fst (snd r))"
definition list_cap :: "list_ring \<Rightarrow> nat" where "list_cap r = snd (snd r)"

lemma list_view_simps [simp]: "list_view (x, c, n) = (x, c)" "list_cap (x, c, n) = n"
  by (simp_all add: list_view_def list_cap_def)

definition list_rings :: "list_ring ring_api" where
  "list_rings =
     \<lparr> ring_buf_put = (\<lambda>d (x, c, cap). (min (length d) (cap - length x), (x @ take (cap - length x) d, c, cap))),
       ring_buf_get_claim = (\<lambda>n (x, c, cap). (take n (drop c x), (x, c + min n (length x - c), cap))),
       ring_buf_get_finish = (\<lambda>n (x, c, cap).
         if n \<le> c then (RC_OK, (drop n x, 0, cap)) else (RC_ERR EINVAL, (x, c, cap))),
       ring_buf_size_get = (\<lambda>(x, c, cap). length x - c), ring_buf_space_get = (\<lambda>(x, c, cap). cap - length x),
       ring_buf_reset = (\<lambda>(x, c, cap). ([], 0, cap)) \<rparr>"

lemma list_rings_laws: "ring_laws list_rings list_view list_cap"
proof -
  have "\<exists>k. fst (ring_buf_get_claim list_rings n r) = take k (drop (snd (list_view r)) (fst (list_view r))) \<and>
        k \<le> n \<and> k \<le> length (fst (list_view r)) - snd (list_view r) \<and>
        (0 < n \<and> snd (list_view r) < length (fst (list_view r)) \<longrightarrow> 0 < k) \<and>
        list_view (snd (ring_buf_get_claim list_rings n r)) = (fst (list_view r), snd (list_view r) + k) \<and>
        list_cap (snd (ring_buf_get_claim list_rings n r)) = list_cap r" for n r
    by (cases r) (rule exI [of _ "min n (length (fst (list_view r)) - snd (list_view r))"], auto simp: list_rings_def min_def)
  then show ?thesis
    unfolding ring_laws_def by (auto simp: list_rings_def)
qed

lemma ring_rules:
  assumes "ring_laws api view cap"
  shows "fst (ring_buf_put api d r) = min (length d) (cap r - length (fst (view r)))"
    "view (snd (ring_buf_put api d r)) = (fst (view r) @ take (cap r - length (fst (view r))) d, snd (view r))"
    "ring_buf_size_get api r = length (fst (view r)) - snd (view r)"
    "ring_buf_space_get api r = cap r - length (fst (view r))"
    "view (ring_buf_reset api r) = ([], 0)"
    "n \<le> snd (view r) \<Longrightarrow> view (snd (ring_buf_get_finish api n r)) = (drop n (fst (view r)), 0)"
    "cap (snd (ring_buf_put api d r)) = cap r" "cap (snd (ring_buf_get_claim api n r)) = cap r"
    "cap (snd (ring_buf_get_finish api n r)) = cap r" "cap (ring_buf_reset api r) = cap r"
proof -
  show "cap (snd (ring_buf_get_claim api n r)) = cap r" using assms unfolding ring_laws_def by metis
qed (use assms in \<open>simp_all add: ring_laws_def\<close>)

lemma ring_claim:
  assumes "ring_laws api view cap"
  obtains k where "fst (ring_buf_get_claim api n r) = take k (drop (snd (view r)) (fst (view r)))"
    "k \<le> n" "k \<le> length (fst (view r)) - snd (view r)"
    "0 < n \<Longrightarrow> snd (view r) < length (fst (view r)) \<Longrightarrow> 0 < k"
    "view (snd (ring_buf_get_claim api n r)) = (fst (view r), snd (view r) + k)"
  using assms unfolding ring_laws_def by metis

section \<open>A plain environment\<close>

text \<open>
  The clock is the world: it advances by a second at each reading.  Every call succeeds and rings
  are lists.
\<close>

definition plain_os :: "nat sys_api" where
  "plain_os =
     \<lparr> k_uptime_get = (\<lambda>w. (word_of_nat w, w + 1000)), k_work_submit = (\<lambda>_ w. w),
       k_work_schedule = (\<lambda>_ _ w. w), k_work_reschedule = (\<lambda>_ _ w. w),
       k_work_cancel_delayable = (\<lambda>_ w. w), device_is_ready = (\<lambda>_. True),
       uart_irq_tx_enable = (\<lambda>w. w), uart_irq_tx_disable = (\<lambda>w. w),
       uart_irq_rx_enable = (\<lambda>w. w), uart_irq_rx_disable = (\<lambda>w. w),
       uart_fifo_fill = (\<lambda>d w. (int (length d), w)), uart_fifo_read = (\<lambda>_ w. (0, [], w)),
       uart_irq_update = (\<lambda>w. (True, w)), uart_irq_is_pending = (\<lambda>w. (True, w)),
       uart_irq_tx_ready = (\<lambda>w. (True, w)), uart_irq_rx_ready = (\<lambda>w. (True, w)),
       bt_le_scan_start = (\<lambda>w. (RC_OK, w)), bt_le_scan_stop = (\<lambda>w. (RC_OK, w)),
       bt_conn_le_create = (\<lambda>_ _ w. (RC_OK, Some 7, w)), bt_conn_disconnect = (\<lambda>_ _ w. (RC_OK, w)),
       bt_conn_le_param_update = (\<lambda>_ _ w. (RC_OK, w)), bt_conn_unref = (\<lambda>_ w. w),
       bt_conn_get_dst = (\<lambda>_ _. [1, 2, 3, 4, 5, 6]),
       bt_addr_to_str = (\<lambda>_ _. ''06:05:04:03:02:01''), bt_addr_from_str = (\<lambda>_. None) \<rparr>"

definition plain_flash :: "nat settings_api" where
  "plain_flash = \<lparr> settings_subsys_init = (\<lambda>w. (RC_OK, w)), settings_load_subtree = (\<lambda>_ w. ([], RC_OK, w)),
     settings_save_one = (\<lambda>_ _ w. (RC_OK, w)), settings_name_steq = (=) \<rparr>"

definition ok_gatt :: "(string, nat) gatt_api" where
  "ok_gatt =
     \<lparr> bt_gatt_get_mtu = (\<lambda>_ _. 247), bt_gatt_discover = (\<lambda>_ _ w. (RC_OK, w)),
       bt_gatt_subscribe = (\<lambda>_ _ w. (RC_OK, w)), bt_gatt_unsubscribe = (\<lambda>_ _ w. (RC_OK, w)),
       bt_gatt_exchange_mtu = (\<lambda>_ _ w. (RC_OK, w)), bt_gatt_write = (\<lambda>_ _ _ w. (RC_OK, w)),
       bt_gatt_write_without_response = (\<lambda>_ _ _ _ w. (RC_OK, w)),
       bt_conn_le_data_len_update = (\<lambda>_ w. (RC_OK, w)), bt_conn_le_phy_update = (\<lambda>_ w. (RC_OK, w)),
       bt_uuid_to_str = (\<lambda>u n. snprintk n u),
       CONFIG_BT_USER_DATA_LEN_UPDATE = True, CONFIG_BT_USER_PHY_UPDATE = True \<rparr>"

definition plain_env :: "(string, nat, list_ring) env" where
  "plain_env = \<lparr> gatt = ok_gatt, flash = plain_flash, os = plain_os, rings = list_rings \<rparr>"

lemma plain_env_rings: "ring_laws (rings plain_env) list_view list_cap"
  using list_rings_laws by (simp add: plain_env_def)

text \<open>The memory before \<open>main\<close>, with three rings of the sizes of the firmware that hold some bytes.\<close>

definition boot_sys :: "u8 list \<Rightarrow> u8 list \<Rightarrow> u8 list \<Rightarrow> 'w \<Rightarrow> ('w, list_ring) sys" where
  "boot_sys x y z w = sys_0 (x, 0, HOST_TO_BLE_RING_SIZE) (y, 0, BLE_TO_HOST_RING_SIZE) (z, 0, CTRL_TX_RING_SIZE) w"

end
