(* ===== verification/Main_Data_Props.thy ===== *)
theory Main_Data_Props
  imports Main_Env
begin

text \<open>
  Data mode from the host's side: the transparency of the escape detection and the escape sequence.
  The documented behaviour of the ring buffers is the hypothesis \<open>ring_laws\<close>.
\<close>

section \<open>Frames of the data mode helpers\<close>

lemma refresh_frame [sys_frame, simp]:
  "host_to_ble_ring (refresh_uart_rx_flow_control e s) = host_to_ble_ring s"
  "escape_state (refresh_uart_rx_flow_control e s) = escape_state s"
  "app_state (refresh_uart_rx_flow_control e s) = app_state s"
  "current_conn (refresh_uart_rx_flow_control e s) = current_conn s"
  "g_state (refresh_uart_rx_flow_control e s) = g_state s"
  "g_config (refresh_uart_rx_flow_control e s) = g_config s"
  "data_mode_tx_flush_due (refresh_uart_rx_flow_control e s) = data_mode_tx_flush_due s"
  "data_mode_pending_enter (refresh_uart_rx_flow_control e s) = data_mode_pending_enter s"
  by (simp_all add: refresh_uart_rx_flow_control_def)

lemma schedule_frame [sys_frame, simp]:
  "host_to_ble_ring (schedule_data_mode_ble_tx e s) = host_to_ble_ring s"
  "app_state (schedule_data_mode_ble_tx e s) = app_state s"
  "current_conn (schedule_data_mode_ble_tx e s) = current_conn s"
  "g_state (schedule_data_mode_ble_tx e s) = g_state s"
  "g_config (schedule_data_mode_ble_tx e s) = g_config s"
  "last_host_rx_time_ms (schedule_data_mode_ble_tx e s) = last_host_rx_time_ms s"
  by (simp_all add: schedule_data_mode_ble_tx_def schedule_ble_write_pump_def Let_def)

lemma note_depth_frame [sys_frame, simp]:
  "host_to_ble_ring (note_host_to_ble_depth e s) = host_to_ble_ring s"
  "escape_state (note_host_to_ble_depth e s) = escape_state s"
  by (simp_all add: note_host_to_ble_depth_def)

section \<open>Transparency\<close>

text \<open>The characters of an escape candidate that are held back.\<close>

definition held_back :: "data_mode_escape_state \<Rightarrow> u8 list" where
  "held_back es = (if esc_active es then replicate (unat (esc_count es)) PLUS else [])"

text \<open>All bytes from the host that are still to be sent: the ring and the candidate.\<close>

definition host_stream :: "('r \<Rightarrow> u8 list \<times> nat) \<Rightarrow> ('w, 'r) sys \<Rightarrow> u8 list" where
  "host_stream view s = fst (view (host_to_ble_ring s)) @ held_back (escape_state s)"

lemma flush_stream:
  assumes ring: "ring_laws (rings e) view cap" and esc: "esc_ok (escape_state s)"
    and room: "length (host_stream view s) \<le> cap (host_to_ble_ring s)"
  shows "fst (view (host_to_ble_ring (flush_escape_candidate_as_payload e s))) = host_stream view s \<and>
         snd (view (host_to_ble_ring (flush_escape_candidate_as_payload e s))) = snd (view (host_to_ble_ring s)) \<and>
         cap (host_to_ble_ring (flush_escape_candidate_as_payload e s)) = cap (host_to_ble_ring s) \<and>
         \<not> esc_active (escape_state (flush_escape_candidate_as_payload e s)) \<and>
         esc_ok (escape_state (flush_escape_candidate_as_payload e s))"
proof (cases "esc_active (escape_state s)")
  case True
  then have c: "esc_count (escape_state s) \<noteq> 0" "unat (esc_count (escape_state s)) \<le> 3"
    using esc by (auto simp: esc_ok_def word_le_nat_alt)
  have tk: "take (unat (esc_count (escape_state s))) (replicate 3 PLUS) = held_back (escape_state s)"
    using c True by (simp add: held_back_def min_def)
  have fit: "length (held_back (escape_state s)) \<le> cap (host_to_ble_ring s) - length (fst (view (host_to_ble_ring s)))"
    using room by (simp add: host_stream_def)
  show ?thesis
    using True c fit
    by (simp add: flush_escape_candidate_as_payload_def tk Let_def uptime_world case_prod_beta
        ring_rules [OF ring] host_stream_def del: take_replicate)
next
  case False
  then show ?thesis using esc
    by (simp add: flush_escape_candidate_as_payload_def host_stream_def held_back_def)
qed

lemma unat_esc_next: "c < 3 \<Longrightarrow> unat ((c :: u8) + 1) = unat c + 1"
proof -
  assume "c < 3"
  then have "unat c < 3" by (simp add: word_less_nat_alt)
  then show ?thesis by (simp add: unat_word_ariths)
qed

lemma rx_byte_stream:
  assumes ring: "ring_laws (rings e) view cap" and esc: "esc_ok (escape_state s)"
    and room: "length (host_stream view s) < cap (host_to_ble_ring s)"
  shows "host_stream view (data_mode_rx_byte e ch s) = host_stream view s @ [ch] \<and>
         snd (view (host_to_ble_ring (data_mode_rx_byte e ch s))) = snd (view (host_to_ble_ring s)) \<and>
         cap (host_to_ble_ring (data_mode_rx_byte e ch s)) = cap (host_to_ble_ring s) \<and>
         esc_ok (escape_state (data_mode_rx_byte e ch s))"
proof -
  define t where "t = snd (uptime e s)"
  define now where "now = fst (uptime e s)"
  define s1 where "s1 = (if esc_active (escape_state t) then cancel e ESCAPE_GUARD_WORK t else t)"
  have s1: "escape_state s1 = escape_state s" "host_to_ble_ring s1 = host_to_ble_ring s"
    by (simp_all add: s1_def t_def)
  have u: "uptime e s = (now, t)" by (simp add: now_def t_def)
  show ?thesis
  proof (cases "esc_active (escape_state s) \<and> ch = PLUS \<and> esc_count (escape_state s) < 3")
    case True
    then have r: "replicate (unat (esc_count (escape_state s) + 1)) PLUS =
        replicate (unat (esc_count (escape_state s))) PLUS @ [PLUS]"
      by (simp add: unat_esc_next replicate_append_same)
    have "escape_state (data_mode_rx_byte e ch s) = (escape_state s)\<lparr>esc_count := esc_count (escape_state s) + 1\<rparr>"
        "host_to_ble_ring (data_mode_rx_byte e ch s) = host_to_ble_ring s"
      using True by (simp_all add: data_mode_rx_byte_def u s1_def [symmetric] s1 Let_def)
    then show ?thesis
      using True r esc_ok_next [OF esc] by (simp add: host_stream_def held_back_def)
  next
    case no: False
    define s2 where "s2 = (if esc_active (escape_state s1) then flush_escape_candidate_as_payload e s1 else s1)"
    have st1: "host_stream view s1 = host_stream view s" by (simp add: host_stream_def s1)
    have s2: "fst (view (host_to_ble_ring s2)) = host_stream view s"
        "snd (view (host_to_ble_ring s2)) = snd (view (host_to_ble_ring s))"
        "cap (host_to_ble_ring s2) = cap (host_to_ble_ring s)"
        "\<not> esc_active (escape_state s2)" "esc_ok (escape_state s2)"
      using flush_stream [OF ring, of s1] esc room st1 s1
      by (auto simp: s2_def host_stream_def held_back_def)
    have eq: "data_mode_rx_byte e ch s =
       (if ch = PLUS \<and> \<not> within_guard now s2 then
          reschedule e ESCAPE_GUARD_WORK (unat (stream_guard_time_ms (g_config s)))
            (s2\<lparr>escape_state := \<lparr> esc_active = True, esc_count = 1 \<rparr>, last_host_rx_time_ms := now\<rparr>)
        else
          let (written, r) = ring_put_bytes e [ch] (host_to_ble_ring s2);
              s3 = s2\<lparr>host_to_ble_ring := r\<rparr>;
              s4 = (if written \<noteq> 1
                    then stats_upd (\<lambda>st. st\<lparr>usb_backpressure_count := usb_backpressure_count st + 1\<rparr>) s3
                    else note_host_to_ble_depth e s3)
          in s4\<lparr>last_host_rx_time_ms := now\<rparr>)"
    proof -
      have c: "\<not> (esc_active (escape_state s1) \<and> ch = PLUS \<and> esc_count (escape_state s1) < 3)"
        using no s1 by simp
      have u': "uptime e s = (now, t)" by (rule u)
      show ?thesis
        unfolding data_mode_rx_byte_def u' Let_def prod.case s1_def [symmetric] s2_def [symmetric] if_not_P [OF c]
        by (rule refl)
    qed
    have fit: "cap (host_to_ble_ring s) - length (host_stream view s) \<noteq> 0" using room by simp
    show ?thesis
      using s2 fit unfolding eq
      by (auto simp: host_stream_def [of view "os_do _ _"] held_back_def case_prod_beta Let_def
          ring_rules [OF ring] host_stream_def [of view "_\<lparr>last_host_rx_time_ms := _\<rparr>"] esc_ok_def)
  qed
qed

text \<open>
  C25: Data mode is transparent: whatever bytes arrive, in whatever blocks and at whatever times, the
  bytes still to be sent to the peer (the ring, then the held-back part of an escape candidate)
  grow by exactly these bytes, in order, as long as the ring has room for them; what the pump has
  claimed stays claimed.
\<close>

theorem data_mode_transparent:
  assumes ring: "ring_laws (rings e) view cap" and esc: "esc_ok (escape_state s)"
    and room: "length (host_stream view s) + length data \<le> cap (host_to_ble_ring s)"
  shows "host_stream view (handle_data_mode_rx e data s) = host_stream view s @ data \<and>
         snd (view (host_to_ble_ring (handle_data_mode_rx e data s))) = snd (view (host_to_ble_ring s))"
proof -
  have "host_stream view (fold (data_mode_rx_byte e) data s) = host_stream view s @ data \<and>
        snd (view (host_to_ble_ring (fold (data_mode_rx_byte e) data s))) = snd (view (host_to_ble_ring s))"
    using esc room
  proof (induction data arbitrary: s)
    case (Cons ch data)
    then show ?case using rx_byte_stream [OF ring, of s ch] by simp
  qed simp
  then show ?thesis
    by (simp add: handle_data_mode_rx_def host_stream_def)
qed

text \<open>A machine in data mode on connection 7.\<close>

definition data_sys :: "(nat, list_ring) sys" where
  "data_sys = (boot_sys [] [] [] 1000)
     \<lparr> app_state := APP_STATE_DATA_MODE, current_conn := Some 7 \<rparr>"

theorem data_mode_transparent_witness:
  "host_stream list_view (handle_data_mode_rx plain_env [43, 43, 65, 43] data_sys) = [43, 43, 65, 43]"
proof -
  have "host_stream list_view data_sys = []" "esc_ok (escape_state data_sys)"
    by (simp_all add: host_stream_def held_back_def data_sys_def boot_sys_def sys_0_def)
  moreover have "list_cap (host_to_ble_ring data_sys) = 16384"
    by (simp add: data_sys_def boot_sys_def sys_0_def HOST_TO_BLE_RING_SIZE_def)
  ultimately show ?thesis
    using data_mode_transparent [of plain_env list_view list_cap data_sys "[43, 43, 65, 43]"] plain_env_rings
    by simp
qed

section \<open>The escape sequence\<close>

lemma schedule_last [simp]: "last_host_rx_time_ms (refresh_uart_rx_flow_control e s) = last_host_rx_time_ms s"
  by (simp add: refresh_uart_rx_flow_control_def)

lemma rx_plus:
  assumes "esc_active (escape_state s) \<Longrightarrow> esc_count (escape_state s) < 3"
    and "\<not> esc_active (escape_state s) \<Longrightarrow> \<not> within_guard (fst (uptime e s)) s"
  shows "escape_state (data_mode_rx_byte e PLUS s) =
           \<lparr> esc_active = True, esc_count = (if esc_active (escape_state s) then esc_count (escape_state s) + 1 else 1) \<rparr> \<and>
         host_to_ble_ring (data_mode_rx_byte e PLUS s) = host_to_ble_ring s \<and>
         app_state (data_mode_rx_byte e PLUS s) = app_state s \<and>
         current_conn (data_mode_rx_byte e PLUS s) = current_conn s"
  using assms by (auto simp: data_mode_rx_byte_def Let_def uptime_world within_guard_def)

lemma rx_plus_3:
  assumes idle: "\<not> esc_active (escape_state s)" and silent: "\<not> within_guard (fst (uptime e s)) s"
  shows "escape_state (handle_data_mode_rx e [PLUS, PLUS, PLUS] s) = \<lparr> esc_active = True, esc_count = 3 \<rparr> \<and>
         host_to_ble_ring (handle_data_mode_rx e [PLUS, PLUS, PLUS] s) = host_to_ble_ring s \<and>
         app_state (handle_data_mode_rx e [PLUS, PLUS, PLUS] s) = app_state s \<and>
         current_conn (handle_data_mode_rx e [PLUS, PLUS, PLUS] s) = current_conn s"
proof -
  define a where "a = data_mode_rx_byte e PLUS s"
  define b where "b = data_mode_rx_byte e PLUS a"
  have a: "escape_state a = \<lparr> esc_active = True, esc_count = 1 \<rparr>" "host_to_ble_ring a = host_to_ble_ring s"
    "app_state a = app_state s" "current_conn a = current_conn s"
    using rx_plus [of s e] idle silent by (simp_all add: a_def)
  have b: "escape_state b = \<lparr> esc_active = True, esc_count = 2 \<rparr>" "host_to_ble_ring b = host_to_ble_ring s"
    "app_state b = app_state s" "current_conn b = current_conn s"
    using rx_plus [of a e] a by (simp_all add: b_def)
  show ?thesis
    using rx_plus [of b e] b
    by (simp add: handle_data_mode_rx_def a_def [symmetric] b_def [symmetric])
qed

lemma exit_state: "app_state (exit_data_mode e s) = linked_state s"
  by (simp add: exit_data_mode_def at_host_notify_data_mode_def clear_data_mode_session_def Let_def
      set_state_def linked_state_def)

lemma linked_not_data [simp]: "linked_state s \<noteq> APP_STATE_DATA_MODE"
  by (simp add: linked_state_def)

lemma exit_ring: "host_to_ble_ring (exit_data_mode e s) = host_to_ble_ring s"
  by (simp add: exit_data_mode_def at_host_notify_data_mode_def clear_data_mode_session_def Let_def set_state_def)

lemma flush_app_state: "app_state (flush_escape_candidate_as_payload e s) = app_state s"
  by (simp add: flush_escape_candidate_as_payload_def Let_def uptime_world case_prod_beta
      note_host_to_ble_depth_def)

text \<open>
  C39: The escape sequence leaves data mode: three plus signs after at least the guard time without
  data, followed by the guard time without data when the timer fires, bring the connection back to
  command mode, and none of the three reaches the bytes for the peer.
\<close>

theorem escape_sequence_exits:
  assumes mode: "app_state s = APP_STATE_DATA_MODE" "current_conn s = Some c"
    and idle: "\<not> esc_active (escape_state s)" and before: "\<not> within_guard (fst (uptime e s)) s"
    and s': "s' = handle_data_mode_rx e [PLUS, PLUS, PLUS] s"
    and after: "\<not> within_guard (fst (uptime e s')) s'"
  shows "app_state s' = APP_STATE_DATA_MODE \<and> host_to_ble_ring s' = host_to_ble_ring s \<and>
         app_state (escape_guard_work_handler e s') = APP_STATE_CONTROL_READY \<and>
         host_to_ble_ring (escape_guard_work_handler e s') = host_to_ble_ring s"
proof -
  have r: "escape_state s' = \<lparr> esc_active = True, esc_count = 3 \<rparr>" "host_to_ble_ring s' = host_to_ble_ring s"
    "app_state s' = APP_STATE_DATA_MODE" "current_conn s' = Some c"
    using rx_plus_3 [OF idle before] mode by (simp_all add: s')
  have w: "\<not> within_guard (fst (uptime e s')) (snd (uptime e s'))"
    using after by (simp add: within_guard_def)
  have "escape_guard_work_handler e s' = exit_data_mode e (snd (uptime e s'))"
    using r w by (simp add: escape_guard_work_handler_def case_prod_beta)
  then show ?thesis
    using r by (simp add: exit_state exit_ring linked_state_def)
qed

theorem escape_sequence_exits_witness:
  "app_state (escape_guard_work_handler plain_env (handle_data_mode_rx plain_env [PLUS, PLUS, PLUS]
     (data_sys\<lparr>world := 5000\<rparr>))) = APP_STATE_CONTROL_READY"
proof -
  let ?s = "data_sys\<lparr>world := 5000\<rparr>"
  have t: "fst (uptime plain_env s) = word_of_nat (world s)" for s :: "(nat, list_ring) sys"
    by (simp add: uptime_world plain_env_def plain_os_def)
  have s': "handle_data_mode_rx plain_env [PLUS, PLUS, PLUS] ?s =
      ?s\<lparr>world := 8000, escape_state := \<lparr> esc_active = True, esc_count = 3 \<rparr>, last_host_rx_time_ms := 7000\<rparr>"
    by (simp add: handle_data_mode_rx_def data_mode_rx_byte_def data_sys_def boot_sys_def sys_0_def uptime_world os_do_def
        plain_env_def plain_os_def within_guard_def g_config_init_def refresh_uart_rx_flow_control_def
        schedule_data_mode_ble_tx_def profile_manager_can_enter_data_mode_def list_rings_def pm_state_0_def
        PLUS_def HOST_TO_BLE_RING_SIZE_def CONTROL_UART_RX_CHUNK_def)
  show ?thesis
    using escape_sequence_exits [of ?s 7 plain_env, OF _ _ _ _ refl]
    unfolding s' t
    by (simp add: data_sys_def boot_sys_def sys_0_def within_guard_def g_config_init_def)
qed

text \<open>
  C40: Nothing else leaves data mode: when the escape timer fires, data mode ends exactly if three
  plus signs are held back and the guard time has passed since the last of them; in every other
  case the bytes for the peer, held-back ones included, stay the same.
\<close>

theorem escape_timer_decides:
  assumes ring: "ring_laws (rings e) view cap" and esc: "esc_ok (escape_state s)"
    and room: "length (host_stream view s) \<le> cap (host_to_ble_ring s)" and mode: "app_state s = APP_STATE_DATA_MODE"
  shows "(app_state (escape_guard_work_handler e s) \<noteq> APP_STATE_DATA_MODE \<longleftrightarrow>
           esc_active (escape_state s) \<and> esc_count (escape_state s) = 3 \<and>
           \<not> within_guard (fst (uptime e s)) s) \<and>
         (app_state (escape_guard_work_handler e s) = APP_STATE_DATA_MODE \<longrightarrow>
           host_stream view (escape_guard_work_handler e s) = host_stream view s)"
proof -
  have w: "within_guard t (snd (uptime e s)) = within_guard t s" for t
    by (simp add: within_guard_def)
  have f: "host_stream view (flush_escape_candidate_as_payload e s) = host_stream view s"
    using flush_stream [OF ring esc room] by (auto simp: host_stream_def held_back_def)
  show ?thesis
    using mode f
    by (auto simp: escape_guard_work_handler_def case_prod_beta w exit_state flush_app_state host_stream_def)
qed

theorem escape_timer_decides_witness:
  "app_state (escape_guard_work_handler plain_env
     (data_sys\<lparr>escape_state := \<lparr> esc_active = True, esc_count = 2 \<rparr>\<rparr>)) = APP_STATE_DATA_MODE"
proof -
  let ?s = "data_sys\<lparr>escape_state := \<lparr> esc_active = True, esc_count = 2 \<rparr>\<rparr>"
  have "esc_ok (escape_state ?s)" "length (host_stream list_view ?s) \<le> list_cap (host_to_ble_ring ?s)"
    "app_state ?s = APP_STATE_DATA_MODE"
    by (simp_all add: esc_ok_def host_stream_def held_back_def data_sys_def boot_sys_def sys_0_def HOST_TO_BLE_RING_SIZE_def)
  from escape_timer_decides [OF plain_env_rings this] show ?thesis by simp
qed

end
