(* ===== verification/Pump_Props.thy ===== *)
theory Pump_Props
  imports Main_Data_Props
begin

text \<open>
  The pump from the host ring to the peer: one iteration when data is ready, delivery of the whole
  ring when the stack accepts every write, and what a refused write does to the bytes that were
  claimed for it.  \<open>log_env\<close> records the writes that reach the stack.
\<close>

section \<open>One iteration\<close>

text \<open>Data is ready to be sent: the guards of the loop body are passed.\<close>

definition pump_ready :: "('r \<Rightarrow> u8 list \<times> nat) \<Rightarrow> ('w, 'r) sys \<Rightarrow> bool" where
  "pump_ready view s \<longleftrightarrow>
     current_conn s \<noteq> None \<and> profile_manager_can_enter_data_mode s \<and> pm_inv (g_state s) \<and>
     snd (view (host_to_ble_ring s)) < length (fst (view (host_to_ble_ring s))) \<and>
     (app_state s \<noteq> APP_STATE_DATA_MODE \<or> data_mode_tx_flush_due s \<or>
      unat (profile_manager_get_payload_len s)
        \<le> length (fst (view (host_to_ble_ring s))) - snd (view (host_to_ble_ring s)))"

text \<open>The memory after a write that the stack accepted.\<close>

definition pump_sent :: "('u, 'w, 'r) env \<Rightarrow> nat \<Rightarrow> ('w, 'r) sys \<Rightarrow> ('w, 'r) sys" where
  "pump_sent e n s =
     refresh_uart_rx_flow_control e
       ((stats_upd (\<lambda>st. st\<lparr>bytes_host_to_ble := bytes_host_to_ble st + word_of_nat n, write_ops := write_ops st + 1\<rparr>)
          (s\<lparr>host_to_ble_ring := snd (ring_buf_get_finish (rings e) n (host_to_ble_ring s))\<rparr>))
        \<lparr>data_mode_tx_flush_due := False\<rparr>)"

text \<open>Handing a block to the stack, and what each result leads to.\<close>

definition pump_try :: "('u, 'w, 'r) env \<Rightarrow> bt_conn \<Rightarrow> u8 list \<Rightarrow> ('w, 'r) sys \<Rightarrow> bool \<times> ('w, 'r) sys" where
  "pump_try e conn data s =
     (let (err, s2) = sys_call (bt_gatt_write_without_response (gatt e) conn (write_value_handle (g_state s)) data False) s
      in if err = RC_OK then (True, pump_sent e (length data) s2)
         else if err = RC_ERR ENOMEM \<or> err = RC_ERR EAGAIN \<or> err = RC_ERR EBUSY \<or> err = RC_ERR EACCES
         then (False, schedule_ble_write_pump e 2 s2)
         else (False, s2))"

lemma pump_iteration:
  assumes ring: "ring_laws (rings e) view cap" and ready: "pump_ready view s"
    and x: "view (host_to_ble_ring s) = (x, c)"
  shows "\<exists>conn k m r. pm_conn (g_state s) = Some conn \<and> view r = (x, c + m) \<and>
    0 < k \<and> k \<le> m \<and> k \<le> 256 \<and> m \<le> unat (profile_manager_get_payload_len s) \<and> c + m \<le> length x \<and>
    ble_write_step e s = pump_try e conn (take k (drop c x)) (s\<lparr>host_to_ble_ring := r\<rparr>)"
proof -
  let ?p = "unat (profile_manager_get_payload_len s)"
  have pos: "0 < ?p"
    using ready by (simp add: pump_ready_def pm_inv_def profile_manager_get_payload_len_def word_less_nat_alt)
  have avail: "c < length x" using ready x by (simp add: pump_ready_def)
  obtain m where m: "fst (ring_buf_get_claim (rings e) ?p (host_to_ble_ring s)) = take m (drop c x)"
    "m \<le> ?p" "m \<le> length x - c" "0 < m"
    "view (snd (ring_buf_get_claim (rings e) ?p (host_to_ble_ring s))) = (x, c + m)"
    using ring_claim [OF ring, of ?p "host_to_ble_ring s"] x pos avail by auto
  define r where "r = snd (ring_buf_get_claim (rings e) ?p (host_to_ble_ring s))"
  have claim: "ring_buf_get_claim (rings e) ?p (host_to_ble_ring s) = (take m (drop c x), r)"
    using m(1) by (simp add: r_def prod_eq_iff)
  define k where "k = min m 256"
  have k: "0 < k" "k \<le> m" "k \<le> 256" "k \<le> ?p" using m by (auto simp: k_def)
  have len: "length (take k (drop c x)) = k" using k m by simp
  have claim_len: "min (length (take m (drop c x))) BLE_HOST_SEND_MAX_LEN = k"
    using m by (simp add: BLE_HOST_SEND_MAX_LEN_def k_def)
  have tk: "take k (take m (drop c x)) = take k (drop c x)" using k by simp
  have s1: "pm_inv (g_state (s\<lparr>host_to_ble_ring := r\<rparr>))" "profile_manager_can_enter_data_mode (s\<lparr>host_to_ble_ring := r\<rparr>)"
    using ready by (simp_all add: pump_ready_def profile_manager_can_enter_data_mode_def)
  have "\<exists>conn. pm_conn (g_state s) = Some conn \<and>
      profile_manager_send (gatt e) (take k (drop c x)) (s\<lparr>host_to_ble_ring := r\<rparr>) =
      sys_call (bt_gatt_write_without_response (gatt e) conn (write_value_handle (g_state s)) (take k (drop c x)) False)
        (s\<lparr>host_to_ble_ring := r\<rparr>)"
    using data_mode_direct [OF s1, of "take k (drop c x)" "gatt e"] k len avail
    by (simp add: profile_manager_get_payload_len_def)
  then obtain conn where conn: "pm_conn (g_state s) = Some conn"
    and send: "profile_manager_send (gatt e) (take k (drop c x)) (s\<lparr>host_to_ble_ring := r\<rparr>) =
      sys_call (bt_gatt_write_without_response (gatt e) conn (write_value_handle (g_state s)) (take k (drop c x)) False)
        (s\<lparr>host_to_ble_ring := r\<rparr>)"
    by blast
  have size: "ring_size_bytes e (host_to_ble_ring s) = length x - c" by (simp add: ring_rules [OF ring] x)
  have "ble_write_step e s =
      pump_try e conn (take k (drop c x)) (s\<lparr>host_to_ble_ring := r\<rparr>)"
    unfolding ble_write_step_def Let_def size claim prod.case claim_len tk send
    using ready x k(1) avail len by (auto simp: pump_ready_def pump_sent_def pump_try_def case_prod_beta)
  then show ?thesis
    using conn k m r_def by (intro exI [of _ conn] exI [of _ k] exI [of _ m] exI [of _ r]) auto
qed


section \<open>Delivery\<close>

lemma pump_sent_frame [simp]:
  "host_to_ble_ring (pump_sent e n s) = snd (ring_buf_get_finish (rings e) n (host_to_ble_ring s))"
  "current_conn (pump_sent e n s) = current_conn s" "app_state (pump_sent e n s) = app_state s"
  "g_state (pump_sent e n s) = g_state s" "\<not> data_mode_tx_flush_due (pump_sent e n s)"
  by (simp_all add: pump_sent_def)

lemma log_env_parts [simp]:
  "rings (log_env e) = rings e" "gatt (log_env e) = log_gatt (gatt e)" "os (log_env e) = lift_os (os e)"
  by (simp_all add: log_env_def)

lemma refresh_log [simp]: "snd (world (refresh_uart_rx_flow_control (log_env e) s)) = snd (world s)"
  by (simp add: refresh_uart_rx_flow_control_def os_do_def lift_os_def)

lemma pump_sent_log [simp]: "snd (world (pump_sent (log_env e) n s)) = snd (world s)"
  by (simp add: pump_sent_def)

lemma log_write:
  "bt_gatt_write_without_response (log_gatt api) c h d b =
     logged (GWriteCmd c h d) (bt_gatt_write_without_response api c h d b)"
  by (simp add: log_gatt_def)

lemma pump_stops:
  assumes ring: "ring_laws (rings e) view cap" and no: "\<not> pump_ready view s" and inv: "pm_inv (g_state s)"
    and "current_conn s \<noteq> None" "profile_manager_can_enter_data_mode s"
  shows "ble_write_step (log_env e) s = (False, snd (ble_write_step (log_env e) s)) \<and>
    snd (world (snd (ble_write_step (log_env e) s))) = snd (world s) \<and>
    host_to_ble_ring (snd (ble_write_step (log_env e) s)) = host_to_ble_ring s"
proof -
  have l: "ring_laws (rings (log_env e)) view cap" using ring by simp
  show ?thesis
    using assms(3-) no
    by (auto simp: pump_ready_def ble_write_step_def Let_def ring_rules [OF ring] os_do_def lift_os_def)
qed

lemma pump_runs:
  assumes ring: "ring_laws (rings e) view cap" and inv: "pm_inv (g_state s)"
    and can: "current_conn s \<noteq> None" "profile_manager_can_enter_data_mode s"
    and conn: "pm_conn (g_state s) = Some c"
    and ok: "\<And>h d w. fst (bt_gatt_write_without_response (gatt e) c h d False w) = RC_OK"
    and x: "view (host_to_ble_ring s) = (x, 0)"
  shows "\<exists>s' chunks. ble_write_work_handler (log_env e) s = Some s' \<and>
    snd (world s') = snd (world s) @ map (GWriteCmd c (write_value_handle (g_state s))) chunks \<and>
    concat chunks @ fst (view (host_to_ble_ring s')) = x \<and> snd (view (host_to_ble_ring s')) = 0 \<and>
    (\<forall>d \<in> set chunks. 0 < length d \<and> length d \<le> min 256 (unat (profile_manager_get_payload_len s))) \<and>
    length (fst (view (host_to_ble_ring s'))) < unat (profile_manager_get_payload_len s) \<and>
    (app_state s \<noteq> APP_STATE_DATA_MODE \<longrightarrow> fst (view (host_to_ble_ring s')) = []) \<and>
    (data_mode_tx_flush_due s \<and> x \<noteq> [] \<longrightarrow> chunks \<noteq> [])"
  using inv can conn x
proof (induction "length x" arbitrary: x s rule: less_induct)
  case less
  let ?p = "unat (profile_manager_get_payload_len s)"
  have pos: "0 < ?p"
    using less.prems by (simp add: pm_inv_def profile_manager_get_payload_len_def word_less_nat_alt)
  have l: "ring_laws (rings (log_env e)) view cap" using ring by simp
  show ?case
  proof (cases "pump_ready view s")
    case False
    let ?s = "snd (ble_write_step (log_env e) s)"
    note stop = pump_stops [OF ring False less.prems(1-3)]
    have "fst (ble_write_step (log_env e) s) = False" using stop by (metis fst_conv)
    then have "ble_write_work_handler (log_env e) s = Some ?s"
      by (subst ble_write_work_handler.simps) (simp add: case_prod_beta)
    moreover have "length x < ?p \<and> (app_state s \<noteq> APP_STATE_DATA_MODE \<longrightarrow> x = []) \<and>
        (data_mode_tx_flush_due s \<longrightarrow> x = [])"
      using False less.prems pos by (auto simp: pump_ready_def)
    ultimately show ?thesis
      using stop less.prems(5) by (intro exI [of _ ?s] exI [of _ "[]"]) auto
  next
    case True
    obtain conn k m r where it: "pm_conn (g_state s) = Some conn" "view r = (x, m)"
      "0 < k" "k \<le> m" "k \<le> 256" "m \<le> ?p" "m \<le> length x"
      "ble_write_step (log_env e) s =
        pump_try (log_env e) conn (take k x) (s\<lparr>host_to_ble_ring := r\<rparr>)"
      using pump_iteration [OF l True less.prems(5)] by auto
    have cc: "conn = c" using it(1) less.prems(4) by simp
    define t where "t = pump_sent (log_env e) k (snd (sys_call (bt_gatt_write_without_response (log_gatt (gatt e)) c
        (write_value_handle (g_state s)) (take k x) False) (s\<lparr>host_to_ble_ring := r\<rparr>)))"
    have step: "ble_write_step (log_env e) s = (True, t)"
      using it(3,4,7,8) by (simp add: cc t_def pump_try_def log_write logged_def sys_call_world ok)
    have tf: "g_state t = g_state s" "current_conn t = current_conn s" "app_state t = app_state s"
      "view (host_to_ble_ring t) = (drop k x, 0)" "\<not> data_mode_tx_flush_due t"
      "snd (world t) = snd (world s) @ [GWriteCmd c (write_value_handle (g_state s)) (take k x)]"
      using it(2,4) by (simp_all add: t_def ring_rules [OF ring] log_write logged_def sys_call_world)
    have can: "profile_manager_can_enter_data_mode t" "profile_manager_get_payload_len t = profile_manager_get_payload_len s"
      using less.prems(3) tf(1) by (simp_all add: profile_manager_can_enter_data_mode_def profile_manager_get_payload_len_def)
    have "length (drop k x) < length x" using it by simp
    from less.hyps [OF this, of t] obtain s' chunks where IH: "ble_write_work_handler (log_env e) t = Some s'"
      "snd (world s') = snd (world t) @ map (GWriteCmd c (write_value_handle (g_state t))) chunks"
      "concat chunks @ fst (view (host_to_ble_ring s')) = drop k x" "snd (view (host_to_ble_ring s')) = 0"
      "\<forall>d \<in> set chunks. 0 < length d \<and> length d \<le> min 256 ?p"
      "length (fst (view (host_to_ble_ring s'))) < ?p"
      "app_state t \<noteq> APP_STATE_DATA_MODE \<longrightarrow> fst (view (host_to_ble_ring s')) = []"
      using less.prems tf can by auto
    have "ble_write_work_handler (log_env e) s = Some s'"
      using IH(1) step by (subst ble_write_work_handler.simps) simp
    moreover have "length (take k x) = k" using it by simp
    ultimately show ?thesis
      using IH tf it by (intro exI [of _ s'] exI [of _ "take k x # chunks"]) auto
  qed
qed


text \<open>
  C29: The pump delivers: with a stack that accepts every write, each run of the pump returns, and
  what it hands to the stack, block after block on the connection and to the discovered handle, is
  a prefix of the ring whose rest is what stays there; every block fits the payload length, less
  than one block stays, nothing stays outside of data mode, and at least one block is sent when the
  coalescing time is over.
\<close>

theorem pump_delivers:
  assumes "ring_laws (rings e) view cap" and "pm_inv (g_state s)"
    and "current_conn s \<noteq> None" "profile_manager_can_enter_data_mode s" and "pm_conn (g_state s) = Some c"
    and "\<And>h d w. fst (bt_gatt_write_without_response (gatt e) c h d False w) = RC_OK"
    and "view (host_to_ble_ring s) = (x, 0)"
  shows "\<exists>s' chunks. ble_write_work_handler (log_env e) s = Some s' \<and>
    snd (world s') = snd (world s) @ map (GWriteCmd c (write_value_handle (g_state s))) chunks \<and>
    concat chunks @ fst (view (host_to_ble_ring s')) = x \<and> snd (view (host_to_ble_ring s')) = 0 \<and>
    (\<forall>d \<in> set chunks. 0 < length d \<and> length d \<le> min 256 (unat (profile_manager_get_payload_len s))) \<and>
    length (fst (view (host_to_ble_ring s'))) < unat (profile_manager_get_payload_len s) \<and>
    (app_state s \<noteq> APP_STATE_DATA_MODE \<longrightarrow> fst (view (host_to_ble_ring s')) = []) \<and>
    (data_mode_tx_flush_due s \<and> x \<noteq> [] \<longrightarrow> chunks \<noteq> [])"
  by (rule pump_runs [OF assms])

text \<open>A machine in data mode with a discovered profile, some bytes in the ring and a log.\<close>

definition pump_sys :: "(nat \<times> gatt_call list, list_ring) sys" where
  "pump_sys = (boot_sys [1, 2, 3, 4, 5] [] [] (1000, []))
     \<lparr> app_state := APP_STATE_DATA_MODE, current_conn := Some 7,
       g_state := (g_state mem_ready)\<lparr>payload_len := 2\<rparr> \<rparr>"

lemma pump_sys_facts:
  "pm_inv (g_state pump_sys)" "profile_manager_can_enter_data_mode pump_sys"
  "pm_conn (g_state pump_sys) = Some 7" "write_value_handle (g_state pump_sys) = 21"
  "profile_manager_get_payload_len pump_sys = 2"
proof -
  show "pm_inv (g_state pump_sys)"
    using mem_ready_inv by (simp add: pump_sys_def pm_inv_def pm_idle_def write_in_flight_def)
qed (simp_all add: pump_sys_def mem_ready_def profile_manager_can_enter_data_mode_def
      BT_GATT_CHRC_WRITE_WITHOUT_RESP_def profile_manager_get_payload_len_def)

theorem pump_delivers_witness:
  "\<exists>s' chunks. ble_write_work_handler (log_env plain_env) pump_sys = Some s' \<and>
     snd (world s') = map (GWriteCmd 7 21) chunks \<and>
     concat chunks @ fst (list_view (host_to_ble_ring s')) = [1, 2, 3, 4, 5] \<and>
     length (fst (list_view (host_to_ble_ring s'))) < 2"
proof -
  have "list_view (host_to_ble_ring pump_sys) = ([1, 2, 3, 4, 5], 0)" "current_conn pump_sys \<noteq> None" "snd (world pump_sys) = []"
    by (simp_all add: pump_sys_def boot_sys_def sys_0_def)
  moreover have "fst (bt_gatt_write_without_response (gatt plain_env) 7 h d False w) = RC_OK" for h d w
    by (simp add: plain_env_def ok_gatt_def)
  ultimately show ?thesis
    using pump_delivers [OF plain_env_rings, of pump_sys 7 "[1, 2, 3, 4, 5]"] pump_sys_facts by auto
qed

section \<open>A refused write\<close>

text \<open>
  C38: A refused write loses data: the pump leaves the refused bytes claimed, so when the retry finds
  the stack ready again, it sends the bytes behind them, and finishing that write removes as many
  bytes from the front of the ring: bytes that the stack never accepted are dropped, and the bytes
  just sent are still in the ring.
\<close>

theorem pump_refused_write_loses:
  assumes ring: "ring_laws (rings e) view cap" and inv: "pm_inv (g_state s)"
    and can: "current_conn s \<noteq> None" "profile_manager_can_enter_data_mode s"
    and conn: "pm_conn (g_state s) = Some c" and x: "view (host_to_ble_ring s) = (x, 0)"
    and enough: "2 * unat (profile_manager_get_payload_len s) \<le> length x"
    and busy: "\<And>h d. fst (bt_gatt_write_without_response (gatt e) c h d False (fst (world s))) = RC_ERR ENOMEM"
    and s': "s' = snd (ble_write_step (log_env e) s)"
    and free: "\<And>h d. fst (bt_gatt_write_without_response (gatt e) c h d False (fst (world s'))) = RC_OK"
  shows "\<exists>k m n. 0 < k \<and> 0 < m \<and> 0 < n \<and>
    snd (world s') = snd (world s) @ [GWriteCmd c (write_value_handle (g_state s)) (take k x)] \<and>
    view (host_to_ble_ring s') = (x, m) \<and>
    snd (world (snd (ble_write_step (log_env e) s'))) =
      snd (world s') @ [GWriteCmd c (write_value_handle (g_state s)) (take n (drop m x))] \<and>
    view (host_to_ble_ring (snd (ble_write_step (log_env e) s'))) = (drop n x, 0)"
proof -
  let ?p = "unat (profile_manager_get_payload_len s)"
  have pos: "0 < ?p"
    using inv by (simp add: pm_inv_def profile_manager_get_payload_len_def word_less_nat_alt)
  have l: "ring_laws (rings (log_env e)) view cap" using ring by simp
  have "0 < length x" using enough pos by linarith
  then have r: "pump_ready view s" using can inv x enough pos by (simp add: pump_ready_def)
  obtain conn k m r where it: "pm_conn (g_state s) = Some conn" "view r = (x, m)"
      "0 < k" "k \<le> m" "m \<le> ?p" "m \<le> length x"
      "ble_write_step (log_env e) s =
        pump_try (log_env e) conn (take k x) (s\<lparr>host_to_ble_ring := r\<rparr>)"
    using pump_iteration [OF l r x] by auto
  have cc: "conn = c" using it(1) conn by simp
  have tf: "g_state s' = g_state s" "current_conn s' = current_conn s" "app_state s' = app_state s"
    "view (host_to_ble_ring s') = (x, m)"
    "snd (world s') = snd (world s) @ [GWriteCmd c (write_value_handle (g_state s)) (take k x)]"
    using it(2,7) busy
    by (simp_all add: s' cc pump_try_def log_write logged_def sys_call_world schedule_ble_write_pump_def os_do_def lift_os_def)
  have can': "profile_manager_can_enter_data_mode s'" "profile_manager_get_payload_len s' = profile_manager_get_payload_len s"
    using can tf(1) by (simp_all add: profile_manager_can_enter_data_mode_def profile_manager_get_payload_len_def)
  have "m < length x" "?p \<le> length x - m" using enough pos it(5) by linarith+
  then have r': "pump_ready view s'" using can inv tf can' by (simp add: pump_ready_def)
  obtain conn' n m' r2 where it2: "pm_conn (g_state s') = Some conn'" "view r2 = (x, m + m')"
      "0 < n" "n \<le> m'" "m + m' \<le> length x"
      "ble_write_step (log_env e) s' =
        pump_try (log_env e) conn' (take n (drop m x)) (s'\<lparr>host_to_ble_ring := r2\<rparr>)"
    using pump_iteration [OF l r' tf(4)] can' by auto
  have "snd (world (snd (ble_write_step (log_env e) s'))) =
      snd (world s') @ [GWriteCmd c (write_value_handle (g_state s)) (take n (drop m x))]"
    "view (host_to_ble_ring (snd (ble_write_step (log_env e) s'))) = (drop n x, 0)"
    using it2 conn tf(1) free
    by (simp_all add: pump_try_def log_write logged_def sys_call_world ring_rules [OF ring])
  then show ?thesis using it it2 tf by (intro exI [of _ k] exI [of _ m] exI [of _ n]) (auto)
qed


text \<open>A stack that refuses the first write.\<close>

definition busy_env :: "(string, nat, list_ring) env" where
  "busy_env = plain_env\<lparr> gatt := ok_gatt\<lparr> bt_gatt_write_without_response :=
     (\<lambda>_ _ _ _ w. if w = 1000 then (RC_ERR ENOMEM, 1001) else (RC_OK, w)) \<rparr>\<rparr>"

theorem pump_refused_write_loses_witness:
  "\<exists>n. 0 < n \<and> fst (list_view (host_to_ble_ring (snd (ble_write_step (log_env busy_env)
     (snd (ble_write_step (log_env busy_env) pump_sys)))))) = drop n [1, 2, 3, 4, 5]"
proof -
  let ?s' = "snd (ble_write_step (log_env busy_env) pump_sys)"
  have ring: "ring_laws (rings busy_env) list_view list_cap" using plain_env_rings by (simp add: busy_env_def)
  have w: "list_view (host_to_ble_ring pump_sys) = ([1, 2, 3, 4, 5], 0)" "current_conn pump_sys \<noteq> None"
    "fst (world pump_sys) = 1000"
    by (simp_all add: pump_sys_def boot_sys_def sys_0_def)
  have r: "ring_laws (rings (log_env busy_env)) list_view list_cap" using ring by simp
  have "pump_ready list_view pump_sys" using w pump_sys_facts by (simp add: pump_ready_def del: list_view_simps)
  from pump_iteration [OF r this w(1)] obtain k r' where
    "ble_write_step (log_env busy_env) pump_sys = pump_try (log_env busy_env) 7 (take k [1, 2, 3, 4, 5])
       (pump_sys\<lparr>host_to_ble_ring := r'\<rparr>)"
    using pump_sys_facts by auto
  then have "fst (world ?s') = 1001"
    using w by (simp add: pump_try_def sys_call_world log_write logged_def busy_env_def
        schedule_ble_write_pump_def os_do_def lift_os_def plain_env_def plain_os_def)
  then have free: "fst (bt_gatt_write_without_response (gatt busy_env) 7 h d False (fst (world ?s'))) = RC_OK" for h d
    by (simp add: busy_env_def)
  have busy: "fst (bt_gatt_write_without_response (gatt busy_env) 7 h d False (fst (world pump_sys))) = RC_ERR ENOMEM" for h d
    using w by (simp add: busy_env_def)
  have enough: "2 * unat (profile_manager_get_payload_len pump_sys) \<le> length [1, 2, 3, 4, 5 :: u8]"
    using pump_sys_facts by simp
  show ?thesis
    using pump_refused_write_loses [OF ring pump_sys_facts(1) w(2) pump_sys_facts(2,3) w(1) enough busy refl free]
    by (metis fst_conv)
qed

section \<open>Termination\<close>

text \<open>
  C30: The pump returns: whatever the stack answers and whatever is claimed, the loop of the pump
  ends, because every iteration that goes on has removed bytes from the ring.
\<close>

theorem pump_returns:
  assumes ring: "ring_laws (rings e) view cap" and inv: "pm_inv (g_state s)"
  shows "\<exists>s'. ble_write_work_handler e s = Some s'"
  using inv
proof (induction "length (fst (view (host_to_ble_ring s)))" arbitrary: s rule: less_induct)
  case less
  obtain b t where bt: "ble_write_step e s = (b, t)" by (cases "ble_write_step e s")
  show ?case
  proof (cases b)
    case False
    then show ?thesis using bt by (subst ble_write_work_handler.simps) simp
  next
    case True
    obtain x c where x: "view (host_to_ble_ring s) = (x, c)" by (cases "view (host_to_ble_ring s)")
    have "pump_ready view s"
      using bt True less.prems x
      by (auto simp: ble_write_step_def pump_ready_def Let_def ring_rules [OF ring] split: if_splits)
    from pump_iteration [OF ring this x] obtain conn k m r where it: "view r = (x, c + m)"
      "0 < k" "k \<le> m" "c + m \<le> length x"
      "ble_write_step e s = pump_try e conn (take k (drop c x)) (s\<lparr>host_to_ble_ring := r\<rparr>)"
      by auto
    have "view (host_to_ble_ring t) = (drop k x, 0)" "g_state t = g_state s"
      using it bt True
      by (auto simp: pump_try_def sys_call_world ring_rules [OF ring] split: if_splits)
    then have "\<exists>s'. ble_write_work_handler e t = Some s'"
      using less.hyps [of t] less.prems it x by auto
    then show ?thesis using bt True by (subst ble_write_work_handler.simps) simp
  qed
qed

theorem pump_returns_witness: "\<exists>s'. ble_write_work_handler (log_env busy_env) pump_sys = Some s'"
proof -
  have "ring_laws (rings (log_env busy_env)) list_view list_cap"
    using plain_env_rings by (simp add: busy_env_def)
  from pump_returns [OF this pump_sys_facts(1)] show ?thesis .
qed

end
