(* ===== verification/Rx_Stall.thy ===== *)
theory Rx_Stall
  imports Main_Env
begin

text \<open>
  The pause of the UART receiver.  The end of a data mode session forgets that the receiver is
  paused without enabling it again; the theorem at the end says that nothing enables it later.
\<close>

section \<open>Changing the driver's enable function\<close>

definition with_rx_enable :: "('w \<Rightarrow> 'w) \<Rightarrow> ('u, 'w, 'r) env \<Rightarrow> ('u, 'w, 'r) env" where
  "with_rx_enable f e = e\<lparr>os := (os e)\<lparr>uart_irq_rx_enable := f\<rparr>\<rparr>"

lemma with_rx_enable_parts [simp]:
  "gatt (with_rx_enable f e) = gatt e" "flash (with_rx_enable f e) = flash e"
  "rings (with_rx_enable f e) = rings e"
  "os (with_rx_enable f e) = (os e)\<lparr>uart_irq_rx_enable := f\<rparr>"
  by (simp_all add: with_rx_enable_def)

lemma kick_indep [simp]: "kick_uart_tx (with_rx_enable f e) = kick_uart_tx e"
  by (simp add: fun_eq_iff kick_uart_tx_def)

lemma queue_indep [simp]:
  "queue_ctrl_bytes (with_rx_enable f e) = queue_ctrl_bytes e"
  "queue_ctrl_line (with_rx_enable f e) = queue_ctrl_line e"
  "queue_data_bytes (with_rx_enable f e) = queue_data_bytes e"
  by (simp_all add: fun_eq_iff queue_ctrl_bytes_def queue_ctrl_line_def queue_data_bytes_def)

lemma at_tx_indep [simp]: "at_tx (with_rx_enable f e) = at_tx e"
  by (simp add: at_tx_def fun_eq_iff uart_send_line_def uart_send_raw_def)

lemma callbacks_indep [simp]: "profile_callbacks (with_rx_enable f e) = profile_callbacks e"
  by (simp add: profile_callbacks_def fun_eq_iff profile_ready_def profile_payload_received_def
      profile_mtu_updated_def profile_error_def Let_def)

lemma uptime_indep [simp]: "uptime (with_rx_enable f e) = uptime e"
  by (simp add: fun_eq_iff uptime_def)

lemma session_indep [simp]: "clear_data_mode_session (with_rx_enable f e) = clear_data_mode_session e"
  by (simp add: fun_eq_iff clear_data_mode_session_def)

lemma schedule_indep [simp]:
  "schedule_ble_write_pump (with_rx_enable f e) = schedule_ble_write_pump e"
  "schedule_data_mode_ble_tx (with_rx_enable f e) = schedule_data_mode_ble_tx e"
  by (simp_all add: fun_eq_iff schedule_ble_write_pump_def schedule_data_mode_ble_tx_def Let_def)

lemma flush_indep [simp]:
  "flush_escape_candidate_as_payload (with_rx_enable f e) = flush_escape_candidate_as_payload e"
  by (simp add: fun_eq_iff flush_escape_candidate_as_payload_def note_host_to_ble_depth_def
      Let_def case_prod_beta)

lemma scan_indep [simp]:
  "stop_scan_internal (with_rx_enable f e) = stop_scan_internal e"
  "device_found (with_rx_enable f e) = device_found e"
  by (simp_all add: fun_eq_iff stop_scan_internal_def device_found_def Let_def case_prod_beta
      cong: option.case_cong)

section \<open>Quiet states\<close>

text \<open>The receiver counts as not paused, and data mode is neither on nor requested.\<close>

definition quiet :: "('w, 'r) sys \<Rightarrow> bool" where
  "quiet s \<longleftrightarrow> \<not> control_rx_paused s \<and> \<not> data_mode_pending_enter s \<and> app_state s \<noteq> APP_STATE_DATA_MODE"

lemma quiet_refresh [simp]: "quiet s \<Longrightarrow> refresh_uart_rx_flow_control e s = s"
  by (simp add: quiet_def refresh_uart_rx_flow_control_def)

lemma quiet_frame [simp]:
  "quiet (tx_line (Some (at_tx e)) l s) = quiet s" "quiet (tx_raw (Some (at_tx e)) d s) = quiet s"
  "quiet (at_host_notify_receive (Some (at_tx e)) b s) = quiet s"
  "quiet (os_do f s) = quiet s" "quiet (snd (uptime e s)) = quiet s" "quiet (kick_uart_tx e s) = quiet s"
  "quiet (snd (sys_call g s)) = quiet s" "quiet (stats_upd h s) = quiet s"
  "quiet (s\<lparr>host_to_ble_ring := r\<rparr>) = quiet s" "quiet (s\<lparr>ble_to_host_ring := r\<rparr>) = quiet s"
  "quiet (s\<lparr>ctrl_tx_ring := r\<rparr>) = quiet s" "quiet (s\<lparr>world := w\<rparr>) = quiet s"
  "quiet (s\<lparr>g_state := p\<rparr>) = quiet s" "quiet (s\<lparr>current_conn := c\<rparr>) = quiet s"
  "quiet (s\<lparr>data_mode_tx_flush_due := b'\<rparr>) = quiet s" "quiet (s\<lparr>control_dtr_ready := b'\<rparr>) = quiet s"
  "quiet (s\<lparr>last_host_rx_time_ms := t\<rparr>) = quiet s" "quiet (s\<lparr>escape_state := x\<rparr>) = quiet s"
  "quiet (s\<lparr>scanned_devices := ds\<rparr>) = quiet s" "quiet (s\<lparr>next_scan_index := n\<rparr>) = quiet s"
  by (simp_all add: quiet_def)

lemma quiet_state [simp]:
  "quiet s \<Longrightarrow> st \<noteq> APP_STATE_DATA_MODE \<Longrightarrow> quiet (set_state st s)"
  "quiet s \<Longrightarrow> quiet (set_state (linked_state t) s)"
  by (simp_all add: quiet_def set_state_def linked_state_def)

lemma quiet_notify [simp]:
  "quiet (at_host_notify_scan_result (Some (at_tx e)) i m n a r s) = quiet s"
  "quiet (at_host_notify_scan_complete (Some (at_tx e)) s) = quiet s"
  "quiet (at_host_notify_connected (Some (at_tx e)) s) = quiet s"
  "quiet (at_host_notify_disconnected (Some (at_tx e)) s) = quiet s"
  "quiet (at_host_notify_ready (Some (at_tx e)) s) = quiet s"
  "quiet (at_host_notify_mtu (Some (at_tx e)) l s) = quiet s"
  "quiet (at_host_notify_link_params (Some (at_tx e)) x y z s) = quiet s"
  "quiet (at_host_notify_data_mode (Some (at_tx e)) b s) = quiet s"
  "quiet (at_host_notify_function_error (Some (at_tx e)) s) = quiet s"
  by (simp_all add: notify_defs)

text \<open>Leaving data mode or losing the connection makes the state quiet, whatever it was.\<close>

lemma quiet_session [simp]: "quiet (clear_data_mode_session e True s)"
  "app_state s \<noteq> APP_STATE_DATA_MODE \<Longrightarrow> quiet (clear_data_mode_session e False s)"
  by (simp_all add: quiet_def clear_data_mode_session_def Let_def set_state_def linked_state_def)

lemma quiet_idle_session [simp]: "quiet (set_state APP_STATE_IDLE (clear_data_mode_session e b s))"
  by (simp add: quiet_def clear_data_mode_session_def Let_def set_state_def)

lemma disconnected_quiet: "quiet (disconnected e c reason s)"
  by (simp add: disconnected_def Let_def)

lemma disconnected_indep: "disconnected (with_rx_enable f e) c reason s = disconnected e c reason s"
  by (simp add: disconnected_def Let_def)

lemma exit_quiet: "quiet (exit_data_mode e s)" "exit_data_mode (with_rx_enable f e) s = exit_data_mode e s"
  by (simp_all add: exit_data_mode_def)

section \<open>Steps from quiet states\<close>

lemma quiet_callbacks:
  "quiet s \<Longrightarrow> quiet (profile_ready e s)" "quiet s \<Longrightarrow> quiet (profile_payload_received e d s)"
  "quiet s \<Longrightarrow> quiet (profile_mtu_updated e m s)" "quiet s \<Longrightarrow> quiet (profile_error e x s)"
proof -
  assume q: "quiet s"
  then have dm: "app_state s \<noteq> APP_STATE_DATA_MODE" by (simp add: quiet_def)
  show "quiet (profile_ready e s)" "quiet (profile_payload_received e d s)"
    "quiet (profile_mtu_updated e m s)" "quiet (profile_error e x s)"
    using q dm by (simp_all add: profile_ready_def profile_payload_received_def profile_mtu_updated_def
        profile_error_def Let_def)
qed

interpretation quiet_client: profile_client "main_cbs e" quiet
  for e :: "('u, 'w, 'r) env"
  by unfold_locales (auto simp: profile_callbacks_def callback_facts quiet_callbacks)

text \<open>Each handler of the application keeps a quiet state quiet, and does not enable the receiver.\<close>

lemma quiet_scan: "quiet s \<Longrightarrow> quiet (snd (stop_scan_internal e b s))"
  by (simp add: stop_scan_internal_def Let_def sys_call_world)

lemma quiet_device: "quiet s \<Longrightarrow> quiet (device_found e addr rssi ty ad s)"
  by (auto simp: device_found_def Let_def split: option.split)

lemma quiet_send: "quiet (snd (profile_manager_send api d s)) = quiet s"
  by (simp add: profile_manager_send_def Let_def sys_call_world split: option.split)

lemma quiet_pump:
  assumes q: "quiet s"
  shows "quiet (snd (ble_write_step e s)) \<and> ble_write_step (with_rx_enable f e) s = ble_write_step e s"
proof -
  obtain claimed r where c: "ring_buf_get_claim (rings e) (unat (profile_manager_get_payload_len s))
      (host_to_ble_ring s) = (claimed, r)" by (meson surj_pair)
  define n where "n = min (length claimed) BLE_HOST_SEND_MAX_LEN"
  obtain err t where t: "profile_manager_send (gatt e) (take n claimed)
      (s\<lparr>host_to_ble_ring := r\<rparr>) = (err, t)" by (meson surj_pair)
  have qt: "quiet t" using quiet_send [of "gatt e"] t q by (metis quiet_frame(9) snd_conv)
  show ?thesis
    unfolding ble_write_step_def Let_def with_rx_enable_parts c prod.case n_def [symmetric] t schedule_indep
    using q qt by (auto simp: schedule_ble_write_pump_def)
qed

lemma quiet_flush: "quiet s \<Longrightarrow> quiet (flush_escape_candidate_as_payload e s)"
  by (simp add: flush_escape_candidate_as_payload_def Let_def case_prod_beta
      note_host_to_ble_depth_def schedule_data_mode_ble_tx_def schedule_ble_write_pump_def)

lemma quiet_guard:
  assumes q: "quiet s"
  shows "quiet (escape_guard_work_handler e s) \<and>
         escape_guard_work_handler (with_rx_enable f e) s = escape_guard_work_handler e s"
  using q by (simp add: escape_guard_work_handler_def case_prod_beta exit_quiet quiet_flush)

lemma quiet_activate: "quiet s \<Longrightarrow> activate_pending_data_mode_if_ready e s = s"
  by (simp add: activate_pending_data_mode_if_ready_def quiet_def)

lemma quiet_tx:
  assumes q: "quiet s"
  shows "quiet (service_uart_tx e s) \<and> service_uart_tx (with_rx_enable f e) s = service_uart_tx e s"
proof -
  have "\<not> tx_ring_is_data e s" "\<not> tx_ring_is_data (with_rx_enable f e) s"
    using q by (simp_all add: tx_ring_is_data_def quiet_def)
  then show ?thesis
    using q by (simp add: service_uart_tx_def Let_def case_prod_beta quiet_activate)
qed


lemma conn_indep [simp]:
  "connected (with_rx_enable f e) = connected e" "le_param_updated (with_rx_enable f e) = le_param_updated e"
  "usb_dtr_changed (with_rx_enable f e) = usb_dtr_changed e"
  "ble_write_coalesce_work_handler (with_rx_enable f e) = ble_write_coalesce_work_handler e"
  "ble_write_retry_work_handler (with_rx_enable f e) = ble_write_retry_work_handler e"
  "scan_stop_work_handler (with_rx_enable f e) = scan_stop_work_handler e"
  by (simp_all add: fun_eq_iff connected_def le_param_updated_def usb_dtr_changed_def Let_def case_prod_beta
      ble_write_coalesce_work_handler_def ble_write_retry_work_handler_def scan_stop_work_handler_def
      cong: option.case_cong)

lemma quiet_ok: "quiet_client.ok lk s \<longleftrightarrow> pm_ok lk (g_state s) \<and> quiet s"
  by (simp add: quiet_client.ok_def)

lemma quiet_if_ok: "quiet_client.ok lk s \<Longrightarrow> quiet s"
  by (simp add: quiet_ok)

lemma connected_quiet:
  assumes "quiet_client.ok lk s"
  shows "quiet (connected e c err s)"
proof -
  have note_ok: "quiet_client.ok lk (at_host_notify_connected (Some (at_tx e)) (set_state APP_STATE_CONNECTING s))"
    using assms by (simp add: quiet_ok notify_defs)
  have start: "profile_manager_start (gatt e) (main_cbs e) (Some c)
      (at_host_notify_connected (Some (at_tx e)) (set_state APP_STATE_CONNECTING s)) = (rc, t) \<Longrightarrow>
      quiet_client.ok lk t" for rc t
    using quiet_client.start_ok [OF note_ok, of "gatt e" e c] by simp
  have mtu: "quiet_client.ok lk t \<Longrightarrow> quiet_client.ok lk (snd (profile_manager_request_mtu (gatt e) (main_cbs e) t))" for t
    by (rule quiet_client.request_mtu_ok)
  note link = quiet_client.request_link_ok [of lk _ "gatt e"]
  show ?thesis
    using quiet_if_ok [OF assms]
    by (auto simp: connected_def Let_def split: option.split prod.split)
      (auto dest!: start intro!: quiet_if_ok [where lk = lk] link mtu simp: quiet_if_ok [where lk = lk])
qed

lemma quiet_query [simp]: "quiet (snd (uart_query g s)) = quiet s"
  by (simp add: uart_query_world)

lemma quiet_isr:
  assumes q: "quiet s" and deaf: "\<And>w. \<not> fst (uart_irq_rx_ready (os e) w)"
  shows "fst (snd (control_uart_isr_step e (st, s))) = st \<and> quiet (snd (snd (control_uart_isr_step e (st, s)))) \<and>
         control_uart_isr_step (with_rx_enable f e) (st, s) = control_uart_isr_step e (st, s)"
proof -
  have nr: "\<not> fst (uart_query (uart_irq_rx_ready (os e)) t)" for t
    using deaf by (simp add: uart_query_world)
  show ?thesis
    using q by (simp add: control_uart_isr_step_def Let_def case_prod_beta nr quiet_tx)
qed


lemma quiet_step:
  assumes step: "sys_step may (with_rx_enable f e) m m'" and ok: "sys_ok lk (snd m)" and q: "quiet (snd m)"
    and deaf: "\<And>w. \<not> fst (uart_irq_rx_ready (os e) w)"
  shows "fst m' = fst m \<and> quiet (snd m') \<and> sys_step may (with_rx_enable g e) m m'"
  using step ok q
proof (induction rule: sys_step.induct)
  case (uart_isr m b m')
  obtain st s where m: "m = (st, s)" by (cases m)
  have qs: "quiet s" using uart_isr m by simp
  have i: "control_uart_isr_step e (st, s) = (b, m')"
    using quiet_isr [where f = f, OF qs deaf, of st] uart_isr(1) m by simp
  then have "control_uart_isr_step (with_rx_enable g e) (st, s) = (b, m')"
    using quiet_isr [where f = g, OF qs deaf, of st] by simp
  then show ?case using quiet_isr [OF qs deaf, of st] i m by (auto intro: sys_step.uart_isr)
next
  case (pump s b s' st)
  then have "ble_write_step e s = (b, s')" using quiet_pump [of s e f] by simp
  moreover from this have "ble_write_step (with_rx_enable g e) s = (b, s')" using quiet_pump [of s e g] pump by simp
  ultimately show ?case using quiet_pump [of s e g] pump by (auto intro: sys_step.pump)
next
  case (guard st s)
  have "escape_guard_work_handler (with_rx_enable f e) s = escape_guard_work_handler (with_rx_enable g e) s"
    using quiet_guard [of s e f] quiet_guard [of s e g] guard by simp
  then show ?case
    using quiet_guard [of s e f] guard sys_step.guard [of may "with_rx_enable g e" st s] by simp
next
  case (device st s addr rssi ty ad)
  then show ?case
    using sys_step.device [of may "with_rx_enable g e" st s addr rssi ty ad] by (simp add: quiet_device)
next
  case (scan_stop st s)
  then show ?case
    using sys_step.scan_stop [of may "with_rx_enable g e" st s] by (simp add: scan_stop_work_handler_def quiet_scan)
next
  case (coalesce st s)
  then show ?case
    using sys_step.coalesce [of may "with_rx_enable g e" st s] by (simp add: ble_write_coalesce_work_handler_def)
next
  case (retry st s)
  then show ?case
    using sys_step.retry [of may "with_rx_enable g e" st s] by (simp add: ble_write_retry_work_handler_def)
next
  case (conn st s c err)
  then have "quiet_client.ok lk s" by (simp add: quiet_ok sys_ok_def)
  then show ?case
    using sys_step.conn [of may "with_rx_enable g e" st s c err] by (simp add: connected_quiet)
next
  case (disconn st s c reason)
  then show ?case
    using sys_step.disconn [of may "with_rx_enable g e" st s c reason] by (simp add: disconnected_indep disconnected_quiet)
next
  case (param st s c interval latency timeout)
  then show ?case
    using sys_step.param [of may "with_rx_enable g e" st s c interval latency timeout]
    by (simp add: le_param_updated_def)
next
  case (dtr st s d)
  then show ?case
    using sys_step.dtr [of may "with_rx_enable g e" st s d] by (simp add: usb_dtr_changed_def)
next
  case (stack s ev s' st)
  then have p: "pm_step (gatt e) (main_cbs e) s ev s'" and ok: "quiet_client.ok False s"
    by (simp_all add: quiet_ok sys_ok_def pm_ok_def)
  have "quiet s'" by (rule quiet_if_ok [OF quiet_client.step_ok [OF p _ ok]]) simp
  then show ?case using p stack(1) by (auto intro: sys_step.stack)
qed

text \<open>
  C37: A pause of the receiver is forgotten: after a disconnection or the end of data mode, whatever
  the state was, the receiver does not count as paused, and as long as the driver delivers no bytes
  (as a driver whose receiver is disabled) nothing that happens ever enables the receiver: every
  run stays out of data mode with the receiver counted as not paused, leaves the AT host as it is,
  and is the same run whatever \<open>uart_irq_rx_enable\<close> does, so the function is never called.  If the
  receiver was paused, the host cannot talk to the firmware any more.
\<close>

theorem rx_pause_forgotten:
  assumes deaf: "\<And>w. \<not> fst (uart_irq_rx_ready (os e) w)" and ok: "machine_ok lk (st, s)"
    and s0: "s0 = disconnected (with_rx_enable f e) c reason s \<or> s0 = exit_data_mode (with_rx_enable f e) s"
    and run: "(sys_step may (with_rx_enable f e))\<^sup>*\<^sup>* (st, s0) (st', s')"
  shows "(s0 = disconnected (with_rx_enable g e) c reason s \<or> s0 = exit_data_mode (with_rx_enable g e) s) \<and>
    (sys_step may (with_rx_enable g e))\<^sup>*\<^sup>* (st, s0) (st', s') \<and>
    st' = st \<and> \<not> control_rx_paused s' \<and> app_state s' \<noteq> APP_STATE_DATA_MODE"
proof -
  have ok': "machine_ok False (st, s)" using ok by (simp add: machine_ok_def sys_ok_def pm_ok_def)
  have start: "machine_ok False (st, s0)" "quiet s0"
    using ok' s0 by (auto simp: machine_ok_def conn_gone_ok exit_ok disconnected_quiet exit_quiet)
  have "(sys_step may (with_rx_enable g e))\<^sup>*\<^sup>* (st, s0) m \<and> fst m = st \<and> quiet (snd m) \<and> machine_ok False m"
    if "(sys_step may (with_rx_enable f e))\<^sup>*\<^sup>* (st, s0) m" for m
    using that
  proof (induction rule: rtranclp_induct)
    case base
    then show ?case using start by simp
  next
    case (step m m')
    then have mo: "machine_ok False m'" using machine_step_ok [of may _ m m' False] by blast
    have "fst m' = fst m \<and> quiet (snd m') \<and> sys_step may (with_rx_enable g e) m m'"
      using quiet_step [OF step(2) _ _ deaf] step(3) by (auto simp: machine_ok_def)
    then show ?case using step mo by (auto intro: rtranclp.rtrancl_into_rtrancl)
  qed
  from this [OF run] show ?thesis
    using s0 by (auto simp: quiet_def disconnected_indep exit_quiet(2))
qed


text \<open>A firmware in data mode whose receiver is paused, with a driver that delivers nothing.\<close>

definition paused_sys :: "(nat, list_ring) sys" where
  "paused_sys = (boot_sys [] [] [] 1000)
     \<lparr> app_state := APP_STATE_DATA_MODE, current_conn := Some 7, g_state := g_state mem_ready,
       control_rx_paused := True \<rparr>"

definition deaf_env :: "(string, nat, list_ring) env" where
  "deaf_env = plain_env\<lparr>os := plain_os\<lparr>uart_irq_rx_ready := (\<lambda>w. (False, w))\<rparr>\<rparr>"

lemma paused_sys_ok: "machine_ok True (at_host_init, paused_sys)"
  using mem_ready_inv g_config_init_ok at_inv_init scan_ok_0
  by (simp add: machine_ok_def sys_ok_def pm_ok_True main_inv_def paused_sys_def boot_sys_def sys_0_def esc_ok_def)

theorem rx_pause_forgotten_witness:
  "control_rx_paused paused_sys \<and>
   \<not> control_rx_paused (disconnected (with_rx_enable Suc deaf_env) 7 8 paused_sys)"
proof -
  have "\<not> fst (uart_irq_rx_ready (os deaf_env) w)" for w by (simp add: deaf_env_def)
  from rx_pause_forgotten [OF this paused_sys_ok, of "disconnected (with_rx_enable Suc deaf_env) 7 8 paused_sys" Suc 7 8
      "\<lambda>_ _. True" "at_host_init" _ id]
  show ?thesis by (simp add: paused_sys_def)
qed

end
