(* ===== verification/Main_Boot.thy ===== *)
theory Main_Boot
  imports Main_Inv
begin

text \<open>
  Start-up: the USB messages, the control UART and the thread \<open>main\<close>, which waits for two
  semaphores and is therefore a machine with a program counter.  The whole firmware is this thread
  together with the handlers of \<open>Main_Inv\<close>.
\<close>

section \<open>USB and UART interfaces\<close>

text \<open>
  \<open>uart_line_ctrl_get\<close> for DTR gets the initial value of the variable and returns its value after
  the call.
\<close>

datatype line_ctrl = UART_LINE_CTRL_DCD | UART_LINE_CTRL_DSR

datatype usbd_msg =
    USBD_MSG_VBUS_READY | USBD_MSG_VBUS_REMOVED | USBD_MSG_CDC_ACM_CONTROL_LINE_STATE | USBD_MSG_OTHER

record 'w usb_api =
  sample_usbd_init_device :: "'w \<Rightarrow> nat option \<times> 'w"
  usbd_can_detect_vbus :: "nat \<Rightarrow> bool"
  usbd_enable :: "nat \<Rightarrow> 'w \<Rightarrow> rc \<times> 'w"
  usbd_disable :: "nat \<Rightarrow> 'w \<Rightarrow> rc \<times> 'w"
  uart_line_ctrl_get_dtr :: "u32 \<Rightarrow> 'w \<Rightarrow> u32 \<times> 'w"
  uart_line_ctrl_set :: "line_ctrl \<Rightarrow> u32 \<Rightarrow> 'w \<Rightarrow> rc \<times> 'w"
  uart_irq_callback_set :: "'w \<Rightarrow> 'w"
  bt_enable :: "'w \<Rightarrow> rc \<times> 'w"

section \<open>State\<close>

text \<open>
  Where \<open>main\<close> stands: before its first statement, at the two semaphores, in \<open>k_msleep\<close>, between
  \<open>init_control_uart\<close> and \<open>set_state\<close>, in the final loop, or returned.
\<close>

datatype main_pc =
    MainInit | MainWaitBle | MainWaitUsb | MainSleep | MainUartOn | MainReady | MainReturned

record ('w, 'r) firmware =
  fw_main :: main_pc
  sample_usbd :: "nat option"
  usb_ready_sem :: bool
  ble_ready_sem :: bool
  fw_host :: at_host_state
  fw_sys :: "('w, 'r) sys"

text \<open>At power-on; the static state of the AT host is zero, as \<open>at_host_init\<close> leaves it.\<close>

definition firmware_0 :: "'r \<Rightarrow> 'r \<Rightarrow> 'r \<Rightarrow> 'w \<Rightarrow> ('w, 'r) firmware" where
  "firmware_0 r1 r2 r3 w =
     \<lparr> fw_main = MainInit, sample_usbd = None, usb_ready_sem = False, ble_ready_sem = False,
       fw_host = at_host_init, fw_sys = sys_0 r1 r2 r3 w \<rparr>"

section \<open>Handlers\<close>

definition usb_message_cb ::
  "('u, 'w, 'r) env \<Rightarrow> 'w usb_api \<Rightarrow> nat \<Rightarrow> usbd_msg \<Rightarrow> ('w, 'r) firmware \<Rightarrow> ('w, 'r) firmware" where
  "usb_message_cb e usb ctx msg fw =
     (let s = fw_sys fw;
          s1 = (if usbd_can_detect_vbus usb ctx then
                  if msg = USBD_MSG_VBUS_READY then snd (sys_call (usbd_enable usb ctx) s)
                  else if msg = USBD_MSG_VBUS_REMOVED then snd (sys_call (usbd_disable usb ctx) s)
                  else s
                else s)
      in if msg = USBD_MSG_CDC_ACM_CONTROL_LINE_STATE then
           let (dtr, w) = uart_line_ctrl_get_dtr usb 0 (world s1);
               s2 = usb_dtr_changed e dtr (s1\<lparr>world := w\<rparr>)
           in fw\<lparr>fw_sys := s2, usb_ready_sem := (if dtr = 0 then usb_ready_sem fw else True)\<rparr>
         else fw\<lparr>fw_sys := s1\<rparr>)"

definition bluetooth_ready :: "int \<Rightarrow> ('w, 'r) firmware \<Rightarrow> ('w, 'r) firmware" where
  "bluetooth_ready err fw = (if err = 0 then fw\<lparr>ble_ready_sem := True\<rparr> else fw)"

section \<open>The thread main\<close>

definition enable_usb_device_next :: "'w usb_api \<Rightarrow> ('w, 'r) firmware \<Rightarrow> rc \<times> ('w, 'r) firmware" where
  "enable_usb_device_next usb fw =
     (let (ctx, w) = sample_usbd_init_device usb (world (fw_sys fw));
          fw1 = fw\<lparr>sample_usbd := ctx, fw_sys := (fw_sys fw)\<lparr>world := w\<rparr>\<rparr>
      in case ctx of
           None \<Rightarrow> (RC_ERR ENODEV, fw1)
         | Some c \<Rightarrow>
             if \<not> usbd_can_detect_vbus usb c then
               let (err, s) = sys_call (usbd_enable usb c) (fw_sys fw1)
               in (err, fw1\<lparr>fw_sys := s\<rparr>)
             else (RC_OK, fw1))"

definition init_control_uart :: "('u, 'w, 'r) env \<Rightarrow> 'w usb_api \<Rightarrow> ('w, 'r) sys \<Rightarrow> rc \<times> ('w, 'r) sys" where
  "init_control_uart e usb s =
     (if \<not> device_is_ready (os e) (world s) then (RC_ERR ENODEV, s)
      else
        let s1 = snd (sys_call (uart_line_ctrl_set usb UART_LINE_CTRL_DCD 1) s);
            s2 = snd (sys_call (uart_line_ctrl_set usb UART_LINE_CTRL_DSR 1) s1)
        in (RC_OK, os_do (uart_irq_rx_enable (os e)) (os_do (uart_irq_callback_set usb) s2)))"

text \<open>\<open>main\<close> from where it stands to its next wait; a thread that waits in vain stays where it is.\<close>

definition main_step ::
  "('u, 'w, 'r) env \<Rightarrow> 'w usb_api \<Rightarrow> char list \<Rightarrow> ('w, 'r) firmware \<Rightarrow> ('w, 'r) firmware" where
  "main_step e usb uninit fw =
     (case fw_main fw of
        MainInit \<Rightarrow>
          let (err, host, s) = main_init e uninit (fw_sys fw);
              fw1 = fw\<lparr>fw_host := host, fw_sys := s\<rparr>
          in if err \<noteq> RC_OK then fw1\<lparr>fw_main := MainReturned\<rparr>
             else
               let (err, fw2) = enable_usb_device_next usb fw1
               in if err \<noteq> RC_OK then fw2\<lparr>fw_main := MainReturned\<rparr>
                  else
                    let (err, s) = sys_call (bt_enable usb) (fw_sys fw2)
                    in fw2\<lparr>fw_sys := s, fw_main := (if err \<noteq> RC_OK then MainReturned else MainWaitBle)\<rparr>
      | MainWaitBle \<Rightarrow>
          if ble_ready_sem fw then fw\<lparr>ble_ready_sem := False, fw_main := MainWaitUsb\<rparr> else fw
      | MainWaitUsb \<Rightarrow>
          if usb_ready_sem fw then fw\<lparr>usb_ready_sem := False, fw_main := MainSleep\<rparr> else fw
      | MainSleep \<Rightarrow>
          let (err, s) = init_control_uart e usb (fw_sys fw)
          in fw\<lparr>fw_sys := s, fw_main := (if err \<noteq> RC_OK then MainReturned else MainUartOn)\<rparr>
      | MainUartOn \<Rightarrow> fw\<lparr>fw_sys := set_state APP_STATE_IDLE (fw_sys fw), fw_main := MainReady\<rparr>
      | MainReady \<Rightarrow> fw
      | MainReturned \<Rightarrow> fw)"

section \<open>The firmware\<close>

text \<open>
  Main runs; the USB stack reports after the device was initialised; Bluetooth reports after it was
  enabled; the handlers of the application run once the UART has its interrupt handler, since
  without commands nothing is ever requested from the stack.
\<close>

inductive fw_step ::
  "(pm_state \<Rightarrow> 'u pm_event \<Rightarrow> bool) \<Rightarrow> ('u, 'w, 'r) env \<Rightarrow> 'w usb_api \<Rightarrow>
     ('w, 'r) firmware \<Rightarrow> ('w, 'r) firmware \<Rightarrow> bool" for may e usb where
  main: "fw_step may e usb fw (main_step e usb uninit fw)"
| usb: "sample_usbd fw = Some ctx \<Longrightarrow> fw_step may e usb fw (usb_message_cb e usb ctx msg fw)"
| ble: "fw_main fw \<noteq> MainInit \<Longrightarrow> fw_step may e usb fw (bluetooth_ready err fw)"
| app: "fw_main fw = MainUartOn \<or> fw_main fw = MainReady \<Longrightarrow>
     sys_step may e (fw_host fw, fw_sys fw) (host, s) \<Longrightarrow>
     fw_step may e usb fw (fw\<lparr>fw_host := host, fw_sys := s\<rparr>)"

inductive_cases fw_step_cases: "fw_step may e usb fw fw'"

end
