(* ===== verification/Main_Props.thy ===== *)
theory Main_Props
  imports Main_Boot Main_Env
begin

text \<open>
  Properties of the firmware as a whole: its invariant over everything that can happen after
  power-on, the completion of the start-up and what it may overwrite, and what the loss of a
  connection leaves behind.
\<close>

section \<open>Invariant\<close>

lemma main_init_ok:
  assumes r: "main_init e uninit (sys_0 r1 r2 r3 w) = (err, host, s)"
  shows "at_inv host \<and> main_inv s \<and> (g_state s = pm_state_0 \<or> pm_ok lk (g_state s)) \<and>
    (err = RC_OK \<longrightarrow> machine_ok lk (host, s))"
proof -
  obtain now s1 where u: "uptime e (sys_0 r1 r2 r3 w) = (now, s1)" by (meson surj_pair)
  have s1: "main_inv s1" "g_state s1 = pm_state_0"
    using u scan_ok_0 g_config_init_ok by (simp_all add: uptime_world sys_0_def main_inv_def esc_ok_def) auto
  obtain err' s2 where v: "on_settings (ble_host_settings_init (flash e) uninit) (s1\<lparr>last_host_rx_time_ms := now\<rparr>) = (err', s2)"
    by (meson surj_pair)
  obtain rc cfg w' where f: "ble_host_settings_init (flash e) uninit
      (g_config (s1\<lparr>last_host_rx_time_ms := now\<rparr>), world (s1\<lparr>last_host_rx_time_ms := now\<rparr>)) = (rc, cfg, w')"
    by (metis surj_pair)
  have "config_ok cfg" using ble_host_settings_init_ok [OF _ f] s1 by (simp add: main_inv_def)
  then have s2: "main_inv s2" "g_state s2 = pm_state_0" using s1 v f by (auto simp: on_settings_def main_inv_def)
  have "host = at_host_init \<and> (s = s2 \<and> err \<noteq> RC_OK \<or> s = profile_manager_init (gatt e) (Some G_CONFIG) s2)"
    using r by (auto simp: main_init_def u v split: if_splits)
  then show ?thesis
    using s2 pm_ok_init [of lk "gatt e" s2] at_inv_init
    by (auto simp: machine_ok_def sys_ok_def profile_manager_init_def update_payload_len_eq)
qed

lemma usb_message_frame [simp]:
  "fw_main (usb_message_cb e usb ctx msg fw) = fw_main fw"
  "ble_ready_sem (usb_message_cb e usb ctx msg fw) = ble_ready_sem fw"
  "fw_host (usb_message_cb e usb ctx msg fw) = fw_host fw"
  "sample_usbd (usb_message_cb e usb ctx msg fw) = sample_usbd fw"
  "g_state (fw_sys (usb_message_cb e usb ctx msg fw)) = g_state (fw_sys fw)"
  "usb_ready_sem fw \<Longrightarrow> usb_ready_sem (usb_message_cb e usb ctx msg fw)"
  by (simp_all add: usb_message_cb_def usb_dtr_changed_def Let_def case_prod_beta)

lemma dtr_main_inv: "main_inv (usb_dtr_changed e d s) = main_inv s"
  by (simp add: usb_dtr_changed_def)

lemma usb_message_ok:
  "main_inv (fw_sys fw) \<Longrightarrow> main_inv (fw_sys (usb_message_cb e usb ctx msg fw))"
  "sys_ok lk (fw_sys fw) \<Longrightarrow> sys_ok lk (fw_sys (usb_message_cb e usb ctx msg fw))"
  by (simp_all add: usb_message_cb_def Let_def case_prod_beta dtr_ok dtr_main_inv)

lemma init_control_uart_ok:
  "main_inv s \<Longrightarrow> main_inv (snd (init_control_uart e usb s))"
  "g_state (snd (init_control_uart e usb s)) = g_state s"
  "sys_ok lk s \<Longrightarrow> sys_ok lk (snd (init_control_uart e usb s))"
  by (simp_all add: init_control_uart_def Let_def)

text \<open>
  Before its first statement \<open>main\<close> has the memory of power-on.  A start-up that fails before the
  profile manager is initialised leaves the manager's memory as it was at power-on; the USB and
  Bluetooth stacks can still report then.
\<close>

definition firmware_ok :: "bool \<Rightarrow> ('w, 'r) firmware \<Rightarrow> bool" where
  "firmware_ok lk fw \<longleftrightarrow>
     (fw_main fw = MainInit \<longrightarrow> (\<exists>r1 r2 r3 w. fw_sys fw = sys_0 r1 r2 r3 w) \<and> sample_usbd fw = None) \<and>
     at_inv (fw_host fw) \<and> main_inv (fw_sys fw) \<and>
     (g_state (fw_sys fw) = pm_state_0 \<or> pm_ok lk (g_state (fw_sys fw))) \<and>
     (fw_main fw \<noteq> MainInit \<and> fw_main fw \<noteq> MainReturned \<longrightarrow> pm_ok lk (g_state (fw_sys fw)))"

lemma main_step_ok:
  assumes "firmware_ok lk fw"
  shows "firmware_ok lk (main_step e usb uninit fw)"
proof (cases "fw_main fw")
  case MainInit
  then obtain r1 r2 r3 w where s: "fw_sys fw = sys_0 r1 r2 r3 w" using assms by (auto simp: firmware_ok_def)
  obtain err host s1 where m: "main_init e uninit (fw_sys fw) = (err, host, s1)" by (metis surj_pair)
  have ok: "at_inv host" "main_inv s1" "g_state s1 = pm_state_0 \<or> pm_ok lk (g_state s1)"
    "err = RC_OK \<Longrightarrow> pm_ok lk (g_state s1)"
    using main_init_ok [of e uninit r1 r2 r3 w err host s1 lk] m by (simp_all add: s machine_ok_def sys_ok_def)
  then show ?thesis
    using MainInit
    by (auto simp: main_step_def m Let_def firmware_ok_def enable_usb_device_next_def case_prod_beta
        split: option.split)
next
  case MainSleep
  then show ?thesis
    using assms init_control_uart_ok [where s = "fw_sys fw" and e = e and usb = usb]
    by (auto simp: main_step_def firmware_ok_def case_prod_beta)
qed (use assms in \<open>auto simp: main_step_def firmware_ok_def\<close>)

lemma firmware_step_ok:
  "fw_step may e usb fw fw' \<Longrightarrow> (lk \<Longrightarrow> \<forall>p ev. may p ev \<longrightarrow> reports_linked p ev) \<Longrightarrow>
   firmware_ok lk fw \<Longrightarrow> firmware_ok lk fw'"
proof (induction rule: fw_step.induct)
  case (main fw uninit)
  then show ?case by (simp add: main_step_ok)
next
  case (usb fw ctx msg)
  then show ?case
    using usb_message_ok(1) [of fw e usb ctx msg] by (auto simp: firmware_ok_def)
next
  case (ble fw err)
  then show ?case by (simp add: firmware_ok_def bluetooth_ready_def)
next
  case (app fw host s)
  then have "machine_ok lk (fw_host fw, fw_sys fw)" by (auto simp: firmware_ok_def machine_ok_def sys_ok_def)
  then have "machine_ok lk (host, s)" using machine_step_ok [OF app(2)] app(3) by blast
  then show ?case using app by (auto simp: firmware_ok_def machine_ok_def sys_ok_def)
qed

lemma firmware_reach_ok:
  assumes "(fw_step may e usb)\<^sup>*\<^sup>* (firmware_0 r1 r2 r3 w) fw" and "lk \<Longrightarrow> \<forall>p ev. may p ev \<longrightarrow> reports_linked p ev"
  shows "firmware_ok lk fw"
  using assms(1)
proof (induction rule: rtranclp_induct)
  case base
  then show ?case
    using scan_ok_0 g_config_init_ok at_inv_init
    by (auto simp: firmware_ok_def firmware_0_def sys_0_def main_inv_def esc_ok_def)
next
  case (step fw fw')
  then show ?case using firmware_step_ok assms(2) by blast
qed

text \<open>
  C2: The invariant of the firmware, in every state that the steps of \<open>main\<close>, USB and Bluetooth
  reports, work items, stack callbacks and UART interrupts can reach from power-on in any order, a
  failed start-up included, whatever the stack, the flash and the drivers answer and whatever the
  stack reports (\<open>may\<close> is arbitrary): the receiver of the AT host is within its buffers, data mode
  has a connection, scanning has none, at most three characters of an escape sequence are held back,
  the configured UUIDs are normalised, and the cache of scanned devices has its valid entries in
  front, numbered from 0 and without a repeated address.  The profile manager's memory is the one of
  power-on or it has its configuration, its buffer of full length, a payload length above 0, an
  intact request behind a write in progress and its handler behind an MTU exchange in progress; it
  is the latter whenever \<open>main\<close> has initialised the application and has not returned.  There is no session
  without a connection if the stack reports attributes and subscriptions only to a connected
  profile manager, which the code does not check itself.
\<close>

theorem firmware_invariant:
  assumes reach: "(fw_step may e usb)\<^sup>*\<^sup>* (firmware_0 r1 r2 r3 w) fw"
  shows "at_inv (fw_host fw) \<and>
    (app_state (fw_sys fw) = APP_STATE_DATA_MODE \<longrightarrow> current_conn (fw_sys fw) \<noteq> None) \<and>
    (app_state (fw_sys fw) = APP_STATE_SCANNING \<longrightarrow> current_conn (fw_sys fw) = None) \<and>
    unat (esc_count (escape_state (fw_sys fw))) \<le> 3 \<and>
    profile_ok (active_profile (g_config (fw_sys fw))) \<and>
    scan_ok (scanned_devices (fw_sys fw)) (next_scan_index (fw_sys fw)) \<and>
    (g_state (fw_sys fw) = pm_state_0 \<or> pm_core (g_state (fw_sys fw))) \<and>
    (fw_main fw \<noteq> MainInit \<and> fw_main fw \<noteq> MainReturned \<longrightarrow> pm_core (g_state (fw_sys fw))) \<and>
    ((\<forall>p ev. may p ev \<longrightarrow> reports_linked p ev) \<and> pm_conn (g_state (fw_sys fw)) = None \<longrightarrow>
       pm_idle (g_state (fw_sys fw)))"
proof -
  have any: "firmware_ok False fw" by (rule firmware_reach_ok [OF reach]) simp
  have "firmware_ok True fw" if "\<forall>p ev. may p ev \<longrightarrow> reports_linked p ev"
    by (rule firmware_reach_ok [OF reach]) (rule that)
  moreover have "pm_idle pm_state_0" by (simp add: pm_idle_def pm_state_0_def)
  ultimately have "pm_idle (g_state (fw_sys fw))"
    if "\<forall>p ev. may p ev \<longrightarrow> reports_linked p ev" "pm_conn (g_state (fw_sys fw)) = None"
    using that by (fastforce simp: firmware_ok_def pm_ok_def)
  then show ?thesis
    using any by (auto simp: firmware_ok_def pm_ok_def main_inv_def esc_ok_def config_ok_def word_le_nat_alt)
qed


text \<open>A USB device stack for closed examples: everything succeeds and the host raises DTR.\<close>

definition plain_usb :: "nat usb_api" where
  "plain_usb = \<lparr> sample_usbd_init_device = (\<lambda>w. (Some 1, w)), usbd_can_detect_vbus = (\<lambda>_. False),
     usbd_enable = (\<lambda>_ w. (RC_OK, w)), usbd_disable = (\<lambda>_ w. (RC_OK, w)),
     uart_line_ctrl_get_dtr = (\<lambda>_ w. (1, w)), uart_line_ctrl_set = (\<lambda>_ _ w. (RC_OK, w)),
     uart_irq_callback_set = (\<lambda>w. w), bt_enable = (\<lambda>w. (RC_OK, w)) \<rparr>"

definition power_on :: "(nat, list_ring) firmware" where
  "power_on = firmware_0 ([], 0, HOST_TO_BLE_RING_SIZE) ([], 0, BLE_TO_HOST_RING_SIZE) ([], 0, CTRL_TX_RING_SIZE) 0"

definition plain_firmware :: "(nat, list_ring) firmware" where
  "plain_firmware = main_step plain_env plain_usb [] power_on"

lemmas main_run_defs = main_step_def power_on_def firmware_0_def main_init_def on_settings_def plain_env_def
  plain_flash_def ble_host_settings_init_def uptime_def Let_def case_prod_beta enable_usb_device_next_def
  plain_usb_def sys_call_world

lemma plain_firmware_waits: "fw_main plain_firmware = MainWaitBle" "sample_usbd plain_firmware = Some 1"
  by (simp_all add: plain_firmware_def main_run_defs)

text \<open>The stack is not restricted, and \<open>main\<close> waits; without a device, \<open>main\<close> has returned.\<close>

theorem firmware_invariant_witness:
  "pm_core (g_state (fw_sys plain_firmware)) \<and>
   scan_ok (scanned_devices (fw_sys plain_firmware)) (next_scan_index (fw_sys plain_firmware)) \<and>
   profile_ok (active_profile (g_config (fw_sys (main_step plain_env
     (plain_usb\<lparr>sample_usbd_init_device := (\<lambda>w. (None, w))\<rparr>) [] power_on))))"
proof -
  have run: "(fw_step (\<lambda>_ _. True) plain_env usb)\<^sup>*\<^sup>* power_on (main_step plain_env usb [] power_on)" for usb
    by (rule r_into_rtranclp) (rule fw_step.main)
  note inv = firmware_invariant [OF run [unfolded power_on_def], folded power_on_def]
  from inv [of plain_usb] inv [of "plain_usb\<lparr>sample_usbd_init_device := (\<lambda>w. (None, w))\<rparr>"]
  show ?thesis by (simp add: plain_firmware_waits plain_firmware_def [symmetric])
qed


section \<open>Start-up\<close>

text \<open>What happens during the start-up: the thread is scheduled, and the two stacks report.\<close>

datatype startup_event = RunMain | BleReady int | UsbMessage usbd_msg

fun boot_event :: "('u, 'w, 'r) env \<Rightarrow> 'w usb_api \<Rightarrow> char list \<Rightarrow> startup_event \<Rightarrow> ('w, 'r) firmware \<Rightarrow> ('w, 'r) firmware" where
  "boot_event e usb uninit RunMain fw = main_step e usb uninit fw"
| "boot_event e usb uninit (BleReady err) fw = bluetooth_ready err fw"
| "boot_event e usb uninit (UsbMessage msg) fw =
     (case sample_usbd fw of None \<Rightarrow> fw | Some ctx \<Rightarrow> usb_message_cb e usb ctx msg fw)"

text \<open>The thread has not failed, has seen Bluetooth, and has seen the host.\<close>

definition booting :: "('w, 'r) firmware \<Rightarrow> bool" where
  "booting fw \<longleftrightarrow> fw_main fw \<noteq> MainInit \<and> fw_main fw \<noteq> MainReturned \<and> sample_usbd fw \<noteq> None"

definition ble_seen :: "('w, 'r) firmware \<Rightarrow> bool" where
  "ble_seen fw \<longleftrightarrow> ble_ready_sem fw \<or> fw_main fw \<noteq> MainWaitBle"

definition usb_seen :: "('w, 'r) firmware \<Rightarrow> bool" where
  "usb_seen fw \<longleftrightarrow> usb_ready_sem fw \<or> (fw_main fw \<noteq> MainWaitBle \<and> fw_main fw \<noteq> MainWaitUsb)"

lemma boot_event_keeps:
  assumes b: "booting fw" and dev: "\<And>w. device_is_ready (os e) w"
  shows "booting (boot_event e usb uninit ev fw) \<and>
    (ble_seen fw \<longrightarrow> ble_seen (boot_event e usb uninit ev fw)) \<and>
    (usb_seen fw \<longrightarrow> usb_seen (boot_event e usb uninit ev fw))"
proof (cases ev)
  case RunMain
  then show ?thesis
    using b dev by (cases "fw_main fw") (auto simp: main_step_def booting_def ble_seen_def usb_seen_def
        init_control_uart_def Let_def)
next
  case (BleReady err)
  then show ?thesis using b by (auto simp: bluetooth_ready_def booting_def ble_seen_def usb_seen_def)
next
  case (UsbMessage msg)
  then show ?thesis
    using b by (auto simp: booting_def ble_seen_def usb_seen_def)
qed

lemma boot_events_keep:
  assumes dev: "\<And>w. device_is_ready (os e) w" and b: "booting fw"
  shows "booting (fold (boot_event e usb uninit) evs fw) \<and>
    (ble_seen fw \<longrightarrow> ble_seen (fold (boot_event e usb uninit) evs fw)) \<and>
    (usb_seen fw \<longrightarrow> usb_seen (fold (boot_event e usb uninit) evs fw))"
  using b
proof (induction evs arbitrary: fw)
  case (Cons ev evs)
  then show ?case using boot_event_keeps [OF Cons.prems dev, of usb uninit ev] by auto
qed simp

lemma dtr_seen:
  "fst (uart_line_ctrl_get_dtr usb 0 (world (fw_sys fw))) \<noteq> 0 \<Longrightarrow>
   usb_ready_sem (usb_message_cb e usb ctx USBD_MSG_CDC_ACM_CONTROL_LINE_STATE fw)"
  by (simp add: usb_message_cb_def Let_def case_prod_beta)

lemma ble_seen_in_run:
  assumes dev: "\<And>w. device_is_ready (os e) w" and b: "booting fw" and ev: "BleReady 0 \<in> set evs"
  shows "ble_seen (fold (boot_event e usb uninit) evs fw)"
proof -
  obtain pre post where evs: "evs = pre @ BleReady 0 # post" using ev by (auto dest: split_list)
  let ?fw = "boot_event e usb uninit (BleReady 0) (fold (boot_event e usb uninit) pre fw)"
  have "booting (fold (boot_event e usb uninit) pre fw)" using boot_events_keep [OF dev b] by blast
  then have "booting ?fw" "ble_seen ?fw"
    by (simp_all add: bluetooth_ready_def ble_seen_def booting_def)
  then show ?thesis using boot_events_keep [OF dev, of ?fw usb uninit post] by (simp add: evs)
qed

lemma usb_seen_in_run:
  assumes dev: "\<And>w. device_is_ready (os e) w" and b: "booting fw"
    and dtr: "fst (uart_line_ctrl_get_dtr usb 0 (world (fw_sys (fold (boot_event e usb uninit) pre fw)))) \<noteq> 0"
  shows "usb_seen (fold (boot_event e usb uninit)
    (pre @ UsbMessage USBD_MSG_CDC_ACM_CONTROL_LINE_STATE # post) fw)"
proof -
  let ?pre = "fold (boot_event e usb uninit) pre fw"
  let ?fw = "boot_event e usb uninit (UsbMessage USBD_MSG_CDC_ACM_CONTROL_LINE_STATE) ?pre"
  have "booting ?pre" using boot_events_keep [OF dev b] by blast
  then have "booting ?fw" "usb_seen ?fw"
    using dtr_seen [of usb ?pre e, OF dtr] by (auto simp: usb_seen_def booting_def)
  then show ?thesis using boot_events_keep [OF dev, of ?fw usb uninit post] by simp
qed

lemma main_runs_to_ready:
  assumes dev: "\<And>w. device_is_ready (os e) w" and "booting fw" "ble_seen fw" "usb_seen fw"
  shows "fw_main ((main_step e usb uninit ^^ 4) fw) = MainReady"
  using assms
  by (cases "fw_main fw")
    (auto simp: numeral_eq_Suc main_step_def booting_def ble_seen_def usb_seen_def init_control_uart_def Let_def)

text \<open>
  C31: The start-up completes: when the first run of \<open>main\<close> has succeeded and the UART device is
  ready, then for every sequence of events in which Bluetooth reports success and the host is seen
  to raise DTR at least once, in either order, with anything in between, before or after, failures
  that Bluetooth reports, other USB messages and any number of reports with DTR low included, \<open>main\<close>
  reaches its final loop within four further runs.  A later report with DTR low does not undo
  the readiness.
\<close>

theorem boot_completes:
  assumes dev: "\<And>w. device_is_ready (os e) w"
    and fw1: "fw1 = main_step e usb uninit (firmware_0 r1 r2 r3 w)"
    and started: "fw_main fw1 = MainWaitBle" "sample_usbd fw1 \<noteq> None"
    and evs: "evs = pre @ UsbMessage USBD_MSG_CDC_ACM_CONTROL_LINE_STATE # post" "BleReady 0 \<in> set evs"
    and dtr: "fst (uart_line_ctrl_get_dtr usb 0 (world (fw_sys (fold (boot_event e usb uninit) pre fw1)))) \<noteq> 0"
  shows "fw_main (fold (boot_event e usb uninit) (evs @ replicate 4 RunMain) fw1) = MainReady"
proof -
  have b: "booting fw1" using started by (simp add: booting_def)
  define fw where "fw = fold (boot_event e usb uninit) evs fw1"
  have "booting fw" "ble_seen fw" "usb_seen fw"
    using boot_events_keep [OF dev b, of usb uninit evs] ble_seen_in_run [OF dev b evs(2), of usb uninit]
      usb_seen_in_run [OF dev b dtr, of post] evs(1)
    by (simp_all add: fw_def)
  then have "fw_main ((main_step e usb uninit ^^ 4) fw) = MainReady"
    by (rule main_runs_to_ready [OF dev])
  moreover have "fold (boot_event e usb uninit) (replicate 4 RunMain) fw = (main_step e usb uninit ^^ 4) fw"
    by (simp add: numeral_eq_Suc)
  ultimately show ?thesis by (simp add: fw_def)
qed

text \<open>A host that lowers DTR, raises it and lowers it again: every reading changes the line.\<close>

definition blink_usb :: "nat usb_api" where
  "blink_usb = plain_usb\<lparr>uart_line_ctrl_get_dtr := (\<lambda>_ w. (if odd w then 1 else 0, Suc w))\<rparr>"

theorem boot_completes_witness:
  "fw_main (fold (boot_event plain_env blink_usb [])
     (([UsbMessage USBD_MSG_CDC_ACM_CONTROL_LINE_STATE] @ UsbMessage USBD_MSG_CDC_ACM_CONTROL_LINE_STATE #
       [UsbMessage USBD_MSG_CDC_ACM_CONTROL_LINE_STATE, BleReady 5, BleReady 0]) @ replicate 4 RunMain)
     (main_step plain_env blink_usb [] power_on)) = MainReady"
proof -
  let ?fw1 = "main_step plain_env blink_usb [] power_on"
  have d: "device_is_ready (os plain_env) w" for w by (simp add: plain_env_def plain_os_def)
  have w: "fw_main ?fw1 = MainWaitBle" "sample_usbd ?fw1 = Some 1" "world (fw_sys ?fw1) = 1000"
    by (simp_all add: main_run_defs blink_usb_def plain_os_def sys_0_def profile_manager_init_def update_payload_len_eq)
  have "world (fw_sys (usb_message_cb plain_env blink_usb 1 USBD_MSG_CDC_ACM_CONTROL_LINE_STATE ?fw1)) = 1001"
    using w(3) by (simp add: usb_message_cb_def Let_def case_prod_beta blink_usb_def plain_usb_def usb_dtr_changed_def
        os_do_def plain_env_def plain_os_def)
  then have h: "fst (uart_line_ctrl_get_dtr blink_usb 0 (world (fw_sys (fold (boot_event plain_env blink_usb [])
      [UsbMessage USBD_MSG_CDC_ACM_CONTROL_LINE_STATE] ?fw1)))) \<noteq> 0"
    using w(2) by (simp add: blink_usb_def)
  show ?thesis
    by (rule boot_completes [OF d power_on_def [THEN arg_cong] _ _ refl _ h]) (simp_all add: w)
qed

text \<open>
  The UART is on before the final \<open>set_state\<close>: a scan that a command has started in between is
  forgotten, and the timer that should stop it does nothing.
\<close>

lemma boot_forgets_scan:
  "fw_main fw = MainUartOn \<Longrightarrow> app_state (fw_sys fw) = APP_STATE_SCANNING \<Longrightarrow>
   scan_stop_work_handler e (fw_sys (main_step e usb uninit fw)) = fw_sys (main_step e usb uninit fw)"
  by (simp add: main_step_def scan_stop_work_handler_def stop_scan_internal_def set_state_def)

text \<open>The link is asked to change its parameters before they are validated.\<close>

lemma params_sent_before_check:
  assumes "current_conn s = Some c" "\<not> conn_params_valid mn mx la ti"
    and "bt_conn_le_param_update (os e) c
      \<lparr> interval_min = mn, interval_max = mx, param_latency = la, param_timeout = ti \<rparr> (world s) = (RC_OK, w)"
  shows "op_set_conn_params e 0 mn mx la ti s = (RC_ERR EINVAL, s\<lparr>world := w\<rparr>)"
  using assms by (simp add: op_set_conn_params_def sys_call_world on_settings_def ble_host_settings_update_conn_params_def)

section \<open>Loss of the connection\<close>

text \<open>
  C33: The loss of the connection resets the session: whatever was going on, afterwards the
  application is idle without a connection, the buffers in both directions are empty, no data mode
  is on or requested, no part of an escape sequence is held back, the profile manager has no
  connection and nothing of the profile, sending and entering data mode are refused.  The counter of
  unexpected disconnections grows by one unless the reason is 0x13, the peer's user: a
  disconnection that the host has requested itself, reason 0x16, is counted with them.
\<close>

theorem link_loss_resets:
  assumes ring: "ring_laws (rings e) view cap" and conn: "current_conn s = Some conn" "pm_conn (g_state s) = Some conn"
    and s': "s' = disconnected e conn reason s"
  shows "app_state s' = APP_STATE_IDLE \<and> current_conn s' = None \<and>
    view (host_to_ble_ring s') = ([], 0) \<and> view (ble_to_host_ring s') = ([], 0) \<and>
    \<not> data_mode_pending_enter s' \<and> \<not> data_mode_tx_flush_due s' \<and> \<not> esc_active (escape_state s') \<and>
    pm_conn (g_state s') = None \<and> pm_idle (g_state s') \<and>
    op_send_payload e 0 d s' = (RC_ERR ENOTCONN, s') \<and> op_enter_data_mode 0 s' = (RC_ERR ENOTSUP, s') \<and>
    unexpected_disconnect_count (stream_stats s') =
      unexpected_disconnect_count (stream_stats s) + (if reason = 0x13 then 0 else 1)"
proof -
  define t where "t = (if reason \<noteq> BT_HCI_ERR_REMOTE_USER_TERM_CONN
                then stats_upd (\<lambda>st. st\<lparr>unexpected_disconnect_count := unexpected_disconnect_count st + 1\<rparr>) s
                else s)"
  define u where "u = profile_manager_handle_disconnected (gatt e) (Some conn) t"
  have t: "pm_conn (g_state t) = Some conn" "current_conn t = Some conn"
    "unexpected_disconnect_count (stream_stats t) =
      unexpected_disconnect_count (stream_stats s) + (if reason = 0x13 then 0 else 1)"
    using conn by (auto simp: t_def BT_HCI_ERR_REMOTE_USER_TERM_CONN_def)
  have "stream_stats (profile_manager_reset (gatt e) t) = stream_stats t"
    by (simp add: profile_manager_reset_def Let_def update_payload_len_eq sys_call_world split: option.split)
  then have u: "pm_conn (g_state u) = None" "pm_idle (g_state u)" "stream_stats u = stream_stats t"
    using t reset_idle [of "gatt e" t] by (simp_all add: u_def profile_manager_handle_disconnected_def pm_idle_def)
  have s'_eq: "s' = refresh_uart_rx_flow_control e (at_host_notify_disconnected (Some (at_tx e)) (set_state APP_STATE_IDLE
      (clear_data_mode_session e False ((os_do (bt_conn_unref (os e) conn) u)\<lparr>current_conn := None,
         host_to_ble_ring := ring_reset_bytes e (host_to_ble_ring (os_do (bt_conn_unref (os e) conn) u))\<rparr>))))"
    using t by (simp add: s' disconnected_def Let_def t_def [symmetric] u_def [symmetric])
  have q: "\<not> control_rx_paused (clear_data_mode_session e False v)" for v
    by (simp add: clear_data_mode_session_def Let_def)
  show ?thesis
    using u t ring_rules(5) [OF ring]
    by (simp add: s'_eq refresh_uart_rx_flow_control_def at_host_notify_disconnected_def set_state_def
        clear_data_mode_session_def Let_def op_send_payload_def profile_manager_send_def op_enter_data_mode_def)
qed


text \<open>A firmware in data mode on connection 7 with a ready profile and bytes in both directions.\<close>

definition busy_sys :: "(nat, list_ring) sys" where
  "busy_sys = (boot_sys [1, 2] [3] [] 1000)
     \<lparr> app_state := APP_STATE_DATA_MODE, current_conn := Some 7, g_state := g_state mem_ready \<rparr>"

text \<open>After a disconnection that the host has requested, the session is over and it is counted.\<close>

theorem link_loss_resets_witness:
  "app_state (disconnected plain_env 7 0x16 busy_sys) = APP_STATE_IDLE \<and>
   list_view (host_to_ble_ring (disconnected plain_env 7 0x16 busy_sys)) = ([], 0) \<and>
   unexpected_disconnect_count (stream_stats (disconnected plain_env 7 0x16 busy_sys)) =
     unexpected_disconnect_count (stream_stats busy_sys) + 1"
proof -
  have "current_conn busy_sys = Some 7" "pm_conn (g_state busy_sys) = Some 7"
    by (simp_all add: busy_sys_def mem_ready_def)
  from link_loss_resets [OF plain_env_rings this refl, of "0x16"] show ?thesis by simp
qed


section \<open>The buffer of a write with response\<close>

text \<open>
  C32: The stack can rely on the buffer of a write: while a write with response is in progress, no
  call and no event of the interface between the application and the stack changes the pending
  bytes; and until the stack reports the end of the write, a connection starts, or the profile
  manager's connection ends, none of them changes the length of the bytes, the parameters that
  point to them, or the flag that protects them.  Each of these three ends the protection, the last
  two without a report of the stack, but none of them changes the bytes.
\<close>

theorem write_buffer_stable:
  assumes "pm_step api (main_cbs e) s ev s'" "write_in_progress (g_state s)"
  shows "pending_write (g_state s') = pending_write (g_state s) \<and>
    (\<not> ends_write (g_state s) ev \<longrightarrow>
       write_in_progress (g_state s') \<and> pending_write_len (g_state s') = pending_write_len (g_state s) \<and>
       pm_write_params (g_state s') = pm_write_params (g_state s)) \<and>
    (ends_write (g_state s) ev \<and> pm_config (g_state s) \<noteq> None \<longrightarrow> \<not> write_in_progress (g_state s'))"
  using main.in_flight_stable [OF assms] main.pending_bytes_kept [OF assms] main.write_ended [OF assms(1)] assms(2)
  by (auto simp: in_flight_def)

text \<open>Another send during the write, and the end of the write.\<close>

theorem write_buffer_stable_witness:
  "write_in_progress (g_state (snd (profile_manager_send ok_gatt [1]
     (busy_sys\<lparr>g_state := (g_state mem_ready)\<lparr>write_in_progress := True\<rparr>\<rparr>)))) \<and>
   \<not> write_in_progress (g_state (profile_manager_handle_disconnected ok_gatt (Some 7)
     (busy_sys\<lparr>g_state := (g_state mem_ready)\<lparr>write_in_progress := True\<rparr>\<rparr>)))"
proof -
  let ?s = "busy_sys\<lparr>g_state := (g_state mem_ready)\<lparr>write_in_progress := True\<rparr>\<rparr>"
  have "pm_step ok_gatt (main_cbs plain_env) ?s (PmSend [1]) (snd (profile_manager_send ok_gatt [1] ?s))"
    "pm_step ok_gatt (main_cbs plain_env) ?s (PmDisconnected 7) (profile_manager_handle_disconnected ok_gatt (Some 7) ?s)"
    by (rule pm_step.intros)+
  note both = this
  have "pm_conn (g_state ?s) = Some 7" "pm_config (g_state ?s) = Some G_CONFIG"
    using mem_ready_inv by (simp_all add: mem_ready_def pm_inv_def)
  with write_buffer_stable [OF both(1)] write_buffer_stable [OF both(2)] show ?thesis by simp
qed

end
