(* ===== verification/Scan_Props.thy ===== *)
theory Scan_Props
  imports Main_Env
begin

text \<open>
  Scanning: the parser of advertising data against a specification over structured data, the cache
  of devices as a refinement of a bounded list of distinct addresses, and the address of
  AT+STARTCON.
\<close>

section \<open>Advertising data\<close>

text \<open>Advertising data is a sequence of fields: a length, a type and the value.\<close>

fun ad_field :: "u8 \<times> u8 list \<Rightarrow> u8 list" where
  "ad_field (ty, v) = word_of_nat (length v + 1) # ty # v"

fun is_name_field :: "u8 \<times> u8 list \<Rightarrow> bool" where
  "is_name_field (ty, v) \<longleftrightarrow> ty = BT_DATA_NAME_COMPLETE \<or> ty = BT_DATA_NAME_SHORTENED"

lemma ad_loop_fields:
  assumes "\<forall>f \<in> set fs. length (snd f) \<le> 254" and pad: "pad = [] \<or> hd pad = 0"
  shows "ad_name_loop (concat (map ad_field fs) @ pad) n =
    (case find is_name_field fs of None \<Rightarrow> [] | Some f \<Rightarrow> take (n - 1) (snd f))"
  using assms(1)
proof (induction fs)
  case Nil
  show ?case
  proof (cases pad)
    case (Cons p ps)
    then show ?thesis using pad by (cases ps) auto
  qed simp
next
  case (Cons f fs)
  obtain ty v where f: "f = (ty, v)" by (cases f)
  have v: "length v \<le> 254" using Cons.prems f by simp
  have n: "unat (word_of_nat (length v + 1) :: u8) = length v + 1"
    unfolding unat_of_nat using v by simp
  then have nz: "(word_of_nat (length v + 1) :: u8) \<noteq> 0" by (metis Suc_eq_plus1 nat.distinct(1) unat_0)
  have step: "ad_name_loop (word_of_nat (length v + 1) # ty # v @ rest) n =
      (if is_name_field (ty, v) then take (n - 1) v else ad_name_loop rest n)" for rest
    using n nz by (subst ad_name_loop.simps) (auto simp: Let_def min_def)
  have "ad_name_loop (concat (map ad_field (f # fs)) @ pad) n =
      (if is_name_field (ty, v) then take (n - 1) v else ad_name_loop (concat (map ad_field fs) @ pad) n)"
    using step [of "concat (map ad_field fs) @ pad"]
    by (simp only: f list.map concat.simps ad_field.simps append_Cons append_assoc)
  then show ?case using Cons by (simp add: f del: is_name_field.simps)
qed

text \<open>
  C35: The name in an advertisement is found: for every sequence of fields, with or without zero
  padding behind it, the parser returns the value of the first complete or shortened name field,
  cut to the size of the buffer and at the first NUL, and the empty name if there is none.
\<close>

theorem device_name_spec:
  assumes "\<forall>f \<in> set fs. length (snd f) \<le> 254" "pad = [] \<or> hd pad = 0"
  shows "parse_device_name (concat (map ad_field fs) @ pad) n =
    cstr (chars_of (case find is_name_field fs of None \<Rightarrow> [] | Some f \<Rightarrow> take (n - 1) (snd f)))"
  by (simp add: parse_device_name_def ad_loop_fields [OF assms])

theorem device_name_spec_witness:
  "parse_device_name [2, 1, 6, 5, 9, 85, 65, 82, 84, 0, 0] 32 = ''UART''"
proof -
  have e: "concat (map ad_field [(1, [6]), (9, [85, 65, 82, 84])]) @ [0, 0] = [2, 1, 6, 5, 9, 85, 65, 82, 84, 0, 0]"
    by simp
  have c: "cstr (chars_of [85, 65, 82, 84]) = ''UART''" by code_simp
  show ?thesis
    using device_name_spec [of "[(1, [6]), (9, [85, 65, 82, 84])]" "[0, 0]" 32] c
    unfolding e by (simp add: BT_DATA_NAME_COMPLETE_def BT_DATA_NAME_SHORTENED_def)
qed

section \<open>The cache\<close>

text \<open>The addresses in the cache, and the specification: the first 32 distinct addresses.\<close>

definition cached :: "('w, 'r) sys \<Rightarrow> bt_addr_le list" where
  "cached s = map sd_addr (take (unat (next_scan_index s)) (scanned_devices s))"

definition cache_add :: "bt_addr_le \<Rightarrow> bt_addr_le list \<Rightarrow> bt_addr_le list" where
  "cache_add a l = (if a \<in> set l \<or> 32 \<le> length l then l else l @ [a])"

lemma scan_ok_len: "scan_ok devs n \<Longrightarrow> length devs = 32 \<and> unat n \<le> 32"
  by (simp add: scan_ok_def MAX_SCANNED_DEVICES_def)

lemma scan_ok_valid: "scan_ok devs n \<Longrightarrow> i < 32 \<Longrightarrow> sd_valid (devs ! i) = (i < unat n)"
  by (simp add: scan_ok_def MAX_SCANNED_DEVICES_def)

lemma first_index_known:
  assumes "scan_ok devs n"
  shows "first_index (\<lambda>en. sd_valid en \<and> sd_addr en = a) devs = None \<longleftrightarrow>
         a \<notin> set (map sd_addr (take (unat n) devs))"
proof -
  have "(\<exists>en \<in> set devs. sd_valid en \<and> sd_addr en = a) \<longleftrightarrow> (\<exists>i < 32. sd_valid (devs ! i) \<and> sd_addr (devs ! i) = a)"
    using scan_ok_len [OF assms] by (metis in_set_conv_nth)
  also have "\<dots> \<longleftrightarrow> (\<exists>i < unat n. sd_addr (devs ! i) = a)"
    using scan_ok_valid [OF assms] scan_ok_len [OF assms] by (metis less_le_trans)
  also have "\<dots> \<longleftrightarrow> a \<in> set (map sd_addr (take (unat n) devs))"
  proof -
    have "length (map sd_addr (take (unat n) devs)) = unat n"
      "i < unat n \<Longrightarrow> map sd_addr (take (unat n) devs) ! i = sd_addr (devs ! i)" for i
      using scan_ok_len [OF assms] by simp_all
    then show ?thesis by (metis in_set_conv_nth)
  qed
  finally show ?thesis by (auto simp: first_index_None)
qed

lemma first_index_free:
  assumes "scan_ok devs n"
  shows "first_index (\<lambda>en. \<not> sd_valid en) devs = (if unat n = 32 then None else Some (unat n))"
proof (cases "first_index (\<lambda>en. \<not> sd_valid en) devs")
  case None
  then have "\<forall>i < 32. sd_valid (devs ! i)" using scan_ok_len [OF assms] by (auto simp: first_index_None)
  then have "\<forall>i < 32. i < unat n" using scan_ok_valid [OF assms] by simp
  then have "31 < unat n" by simp
  then show ?thesis using None scan_ok_len [OF assms] by simp
next
  case (Some i)
  have i: "i < 32" "\<not> sd_valid (devs ! i)" "\<forall>j < i. sd_valid (devs ! j)"
    using first_index_Some [OF Some] scan_ok_len [OF assms] by auto
  have "\<not> i < unat n" using scan_ok_valid [OF assms i(1)] i(2) by simp
  moreover have "\<not> unat n < i"
  proof
    assume lt: "unat n < i"
    then show False using scan_ok_valid [OF assms, of "unat n"] i by simp
  qed
  ultimately show ?thesis using Some i by auto
qed


text \<open>What a report must be to count: a connectable or scan response type and a name the filter allows.\<close>

definition report_accepted :: "string \<Rightarrow> u8 \<Rightarrow> u8 list \<Rightarrow> bool" where
  "report_accepted filter_name type ad \<longleftrightarrow>
     type \<in> {0, 1, 4, 5} \<and>
     take (length filter_name) (parse_device_name ad BLE_HOST_NAME_MAX_LEN) = filter_name"

lemma matches_filter: "matches_scan_filter (Some n) s \<longleftrightarrow> take (length (scan_filter_name s)) n = scan_filter_name s"
  by (auto simp: matches_scan_filter_def Let_def)

lemmas adv_types = BT_GAP_ADV_TYPE_ADV_IND_def BT_GAP_ADV_TYPE_ADV_DIRECT_IND_def
  BT_GAP_ADV_TYPE_SCAN_RSP_def BT_GAP_ADV_TYPE_EXT_ADV_def

lemma device_found_frame:
  "app_state (device_found e addr rssi type ad s) = app_state s"
  "scan_filter_name (device_found e addr rssi type ad s) = scan_filter_name s"
  by (simp_all add: device_found_def at_host_notify_scan_result_def Let_def split: option.split)

lemma device_found_cached:
  assumes ok: "scan_ok (scanned_devices s) (next_scan_index s)" and scan: "app_state s = APP_STATE_SCANNING"
  shows "cached (device_found e addr rssi type ad s) =
    (if report_accepted (scan_filter_name s) type ad then cache_add addr (cached s) else cached s)"
proof (cases "report_accepted (scan_filter_name s) type ad")
  case False
  then show ?thesis
    using scan by (auto simp: device_found_def report_accepted_def matches_filter adv_types Let_def)
next
  case True
  let ?devs = "scanned_devices s" and ?n = "next_scan_index s"
  have len: "length ?devs = 32" "unat ?n \<le> 32" using scan_ok_len [OF ok] by auto
  have lc: "length (cached s) = unat ?n" using len by (simp add: cached_def)
  have acc: "(type = 0 \<or> type = 1 \<or> type = 4 \<or> type = 5)"
    "matches_scan_filter (Some (parse_device_name ad BLE_HOST_NAME_MAX_LEN)) s"
    using True by (auto simp: report_accepted_def matches_filter)
  show ?thesis
  proof (cases "find_scan_entry addr s")
    case (Some i)
    then have i: "i < 32" using first_index_Some len by (fastforce simp: find_scan_entry_def)
    have "addr \<in> set (cached s)"
      using first_index_known [OF ok, of addr] Some by (auto simp: find_scan_entry_def cached_def)
    moreover have "map sd_addr (take (unat ?n) (?devs[i := (?devs ! i)\<lparr>sd_rssi := rssi\<rparr>])) = map sd_addr (take (unat ?n) ?devs)"
      using i len by (intro nth_equalityI) (auto simp: nth_list_update)
    ultimately show ?thesis
      using Some scan acc True by (auto simp: device_found_def Let_def adv_types cached_def cache_add_def)
  next
    case None
    then have new: "addr \<notin> set (cached s)"
      using first_index_known [OF ok, of addr] by (simp add: find_scan_entry_def cached_def)
    show ?thesis
    proof (cases "unat ?n = 32")
      case True
      then show ?thesis
        using None scan acc \<open>report_accepted _ _ _\<close> lc new first_index_free [OF ok]
        by (auto simp: device_found_def Let_def adv_types cache_add_def)
    next
      case False
      have n: "unat ?n < 32" using False len by simp
      then have n1: "unat (?n + 1) = Suc (unat ?n)"
        by (simp add: unat_word_ariths)
      have tk: "take (Suc (unat ?n)) (?devs[unat ?n := x]) = take (unat ?n) ?devs @ [x]" for x
        using n len by (simp add: take_Suc_conv_app_nth)
      show ?thesis
        using None scan acc True lc new first_index_free [OF ok] n False tk n1
        by (auto simp: device_found_def Let_def adv_types cache_add_def cached_def at_host_notify_scan_result_def)
    qed
  qed
qed

text \<open>
  C34: The scan cache implements a bounded set in order of arrival: for every sequence of advertising
  reports during a scan, the addresses in the cache are the ones cached before and then the
  accepted ones in the order of their first report, without repetition, at most 32 in all; a
  report is accepted if its type is one of the four handled ones and its name starts with the
  filter.
\<close>

theorem scan_cache_refines:
  assumes "sys_ok lk s" "app_state s = APP_STATE_SCANNING"
  shows "cached (fold (\<lambda>(addr, rssi, type, ad). device_found e addr rssi type ad) reports s) =
    fold cache_add
      (map fst (filter (\<lambda>(addr, rssi, type, ad). report_accepted (scan_filter_name s) type ad) reports)) (cached s)"
  using assms
proof (induction reports arbitrary: s)
  case (Cons r reports)
  obtain addr rssi type ad where r: "r = (addr, rssi, type, ad)" by (cases r)
  let ?s = "device_found e addr rssi type ad s"
  have "scan_ok (scanned_devices s) (next_scan_index s)" using Cons.prems by (simp add: sys_ok_def main_inv_def)
  note c = device_found_cached [OF this Cons.prems(2), of e addr rssi type ad]
  have "sys_ok lk ?s" "app_state ?s = APP_STATE_SCANNING"
    using device_found_ok [OF Cons.prems(1)] Cons.prems(2) by (simp_all add: device_found_frame)
  from Cons.IH [OF this] show ?case by (simp add: r c device_found_frame)
qed simp

definition scan_sys :: "(nat, list_ring) sys" where
  "scan_sys = (boot_sys [] [] [] 1000)\<lparr> app_state := APP_STATE_SCANNING, g_state := g_state mem_ready \<rparr>"

theorem scan_cache_refines_witness:
  "cached (fold (\<lambda>(addr, rssi, type, ad). device_found plain_env addr rssi type ad)
     [(\<lparr> addr_type = 1, addr_a = [1, 2, 3, 4, 5, 6] \<rparr>, 200, 0, []),
      (\<lparr> addr_type = 1, addr_a = [1, 2, 3, 4, 5, 6] \<rparr>, 201, 0, [])] scan_sys) =
   [\<lparr> addr_type = 1, addr_a = [1, 2, 3, 4, 5, 6] \<rparr>]"
proof -
  have ok: "sys_ok True scan_sys"
    using mem_ready_inv g_config_init_ok scan_ok_0
    by (simp add: sys_ok_def pm_ok_True main_inv_def scan_sys_def boot_sys_def sys_0_def esc_ok_def)
  have st: "app_state scan_sys = APP_STATE_SCANNING" "cached scan_sys = []" "scan_filter_name scan_sys = []"
    by (simp_all add: scan_sys_def boot_sys_def sys_0_def cached_def)
  show ?thesis
    by (simp add: scan_cache_refines [OF ok st(1)] st report_accepted_def cache_add_def del: fold.simps) (simp add: cache_add_def)
qed

section \<open>The address of AT+STARTCON\<close>

lemma sscanf_2_digits:
  assumes "c_isxdigit a" "c_isxdigit b"
  shows "c_sscanf_2x (a # b # rest) = Some (word_of_nat (16 * hex_digit a + hex_digit b))"
proof -
  have a: "\<not> c_isspace a" "a \<noteq> CHR ''-''" "a \<noteq> CHR ''+''" using assms(1) xdigit_not_space
    by (auto simp: c_isxdigit_def Let_def)
  have b: "b \<noteq> CHR ''x''" "b \<noteq> CHR ''X''" using assms(2) by (auto simp: c_isxdigit_def Let_def)
  show ?thesis
    using assms a b by (simp add: c_sscanf_2x_def hex_value_def)
qed

lemma hex_digit_less: "c_isxdigit c \<Longrightarrow> hex_digit c < 16"
  by (auto simp: c_isxdigit_def hex_digit_def Let_def)

text \<open>The bytes that a text of pairs of hexadecimal digits denotes, first pair first.\<close>

fun hex_pairs :: "string \<Rightarrow> u8 list" where
  "hex_pairs (a # b # cs) = word_of_nat (16 * hex_digit a + hex_digit b) # hex_pairs cs"
| "hex_pairs cs = []"

lemma byte_of_u32: "m < 256 \<Longrightarrow> (ucast (word_of_nat m :: u32) :: u8) = word_of_nat m"
  by (simp add: word_eq_iff_unsigned unsigned_ucast_eq take_bit_eq_mod unsigned_of_nat)

lemma parse_hex_pairs:
  "length cs = 2 * n \<Longrightarrow> \<forall>c \<in> set cs. c_isxdigit c \<Longrightarrow> parse_hex_bytes n cs = Some (rev (hex_pairs cs))"
proof (induction n arbitrary: cs)
  case (Suc n)
  then obtain a b ds where cs: "cs = a # b # ds" by (metis length_Suc_conv mult_Suc_right add_2_eq_Suc)
  have "hex_digit a < 16" "hex_digit b < 16" using Suc.prems cs hex_digit_less by auto
  then have "(ucast (word_of_nat (16 * hex_digit a + hex_digit b) :: u32) :: u8) = word_of_nat (16 * hex_digit a + hex_digit b)"
    by (intro byte_of_u32) simp
  then show ?case using Suc.IH [of ds] Suc.prems by (simp add: cs sscanf_2_digits del: of_nat_add of_nat_mult)
qed simp

text \<open>
  C36: The address of AT+STARTCON is read as written: after the prefix 0x or 0X, twelve hexadecimal
  digits in any letter case give the six bytes they denote, most significant byte first in the text
  and last in the address.
\<close>

theorem connect_mac_spec:
  assumes "length cs = 12" "\<forall>c \<in> set cs. c_isxdigit c" "x = CHR ''x'' \<or> x = CHR ''X''"
  shows "parse_connect_mac e (Some (CHR ''0'' # x # cs)) = Some (rev (hex_pairs cs))"
  using assms parse_hex_pairs [of cs 6] by (auto simp: parse_connect_mac_def)

theorem connect_mac_spec_witness:
  "parse_connect_mac plain_env (Some ''0xA1b2C3d4E5f6'') = Some [0xF6, 0xE5, 0xD4, 0xC3, 0xB2, 0xA1]"
proof -
  have "length ''A1b2C3d4E5f6'' = 12" "\<forall>c \<in> set ''A1b2C3d4E5f6''. c_isxdigit c" by code_simp+
  moreover have "rev (hex_pairs ''A1b2C3d4E5f6'') = [0xF6, 0xE5, 0xD4, 0xC3, 0xB2, 0xA1]" by code_simp
  ultimately show ?thesis using connect_mac_spec [of "''A1b2C3d4E5f6''" "CHR ''x''" plain_env] by simp
qed

end
