(* ===== verification/End_To_End.thy ===== *)
theory End_To_End
  imports At_Properties Main_Env
begin

text \<open>
  The components together: AT+SEND on the UART down to the write that reaches the stack, AT+SETMTU
  down to the settings and the session, and the answers back in the ring of the transmitter.
\<close>

section \<open>Output to the control ring\<close>

lemma queue_ctrl_view:
  assumes ring: "ring_laws (rings e) view cap" and room: "length (fst (view (ctrl_tx_ring s))) + length d \<le> cap (ctrl_tx_ring s)"
  shows "fst (view (ctrl_tx_ring (queue_ctrl_bytes e d s))) = fst (view (ctrl_tx_ring s)) @ d"
  using room by (simp add: queue_ctrl_bytes_def kick_uart_tx_def ring_rules [OF ring])

lemma queue_ctrl_cap:
  "ring_laws (rings e) view cap \<Longrightarrow> cap (ctrl_tx_ring (queue_ctrl_bytes e d s)) = cap (ctrl_tx_ring s)"
  by (simp add: queue_ctrl_bytes_def kick_uart_tx_def ring_rules)

lemma tx_cap:
  assumes "ring_laws (rings e) view cap"
  shows "cap (ctrl_tx_ring (tx_raw (Some (at_tx e)) d s)) = cap (ctrl_tx_ring s)"
    "cap (ctrl_tx_ring (tx_line (Some (at_tx e)) l s)) = cap (ctrl_tx_ring s)"
  by (simp_all add: tx_raw_def tx_line_def at_tx_def uart_send_raw_def uart_send_line_def queue_ctrl_line_def
      queue_ctrl_cap [OF assms])

lemma tx_view:
  assumes "ring_laws (rings e) view cap"
  shows "length (fst (view (ctrl_tx_ring s))) + length d \<le> cap (ctrl_tx_ring s) \<Longrightarrow>
      fst (view (ctrl_tx_ring (tx_raw (Some (at_tx e)) d s))) = fst (view (ctrl_tx_ring s)) @ d"
    "length (fst (view (ctrl_tx_ring s))) + length (bytes_of l) + 2 \<le> cap (ctrl_tx_ring s) \<Longrightarrow>
      fst (view (ctrl_tx_ring (tx_line (Some (at_tx e)) l s))) = fst (view (ctrl_tx_ring s)) @ bytes_of l @ [13, 10]"
  using assms
  by (simp_all add: tx_raw_def tx_line_def at_tx_def uart_send_raw_def uart_send_line_def queue_ctrl_line_def
      queue_ctrl_view queue_ctrl_cap)

lemma log_env_queue [simp]: "snd (world (queue_ctrl_bytes (log_env e) d s)) = snd (world s)"
  by (simp add: queue_ctrl_bytes_def kick_uart_tx_def os_do_def log_env_def lift_os_def)

lemma log_env_tx [simp]:
  "snd (world (tx_raw (Some (at_tx (log_env e))) d s)) = snd (world s)"
  "snd (world (tx_line (Some (at_tx (log_env e))) l s)) = snd (world s)"
  by (simp_all add: tx_raw_def tx_line_def at_tx_def uart_send_raw_def uart_send_line_def queue_ctrl_line_def)

section \<open>AT+SEND down to the stack\<close>

text \<open>
  C3: AT+SEND reaches the peer: outside of data mode, with an idle AT host and a ready profile whose
  peer takes writes without response, the UART block with the command line and the UART block with
  1 to 256 payload bytes within the payload length lead, through the AT host, the operation table
  and the profile manager, to exactly one write of exactly these bytes to the discovered handle on
  the session's connection; when the stack accepts it, the transmitter's ring receives the prompt
  and then the line +OK, and the AT host is idle again.
\<close>

theorem at_send_reaches_stack:
  assumes ring: "ring_laws (rings e) view cap" and wf: "at_wf st" "at_abs st = Line []"
    and mode: "app_state s \<noteq> APP_STATE_DATA_MODE" and inv: "pm_inv (g_state s)" "pm_conn (g_state s) = Some c"
    and can: "profile_manager_can_enter_data_mode s"
    and d: "d \<noteq> []" "length d \<le> 256" "length d \<le> unat (profile_manager_get_payload_len s)"
    and room: "length (fst (view (ctrl_tx_ring s))) + 6 \<le> cap (ctrl_tx_ring s)"
    and ok: "\<And>w. fst (bt_gatt_write_without_response (gatt e) c (write_value_handle (g_state s)) d False w) = RC_OK"
    and m': "m' = control_uart_rx (log_env e) d (control_uart_rx (log_env e) (bytes_of (send_line 0 (length d)) @ [13, 10]) (st, s))"
  shows "at_abs (fst m') = Line [] \<and>
    snd (world (snd m')) = snd (world s) @ [GWriteCmd c (write_value_handle (g_state s)) d] \<and>
    fst (view (ctrl_tx_ring (snd m'))) = fst (view (ctrl_tx_ring s)) @ bytes_of ''>'' @ bytes_of ''+OK'' @ [13, 10]"
proof -
  let ?e = "log_env e" and ?tx = "Some (at_tx (log_env e))"
  define t where "t = tx_raw ?tx (bytes_of ''>'') s"
  have e: "is_eol 13" "\<forall>x \<in> set [10]. is_eol x" by (simp_all add: is_eol_def)
  have tf: "g_state t = g_state s" "app_state t = app_state s" "snd (world t) = snd (world s)"
    by (simp_all add: t_def)
  have r': "ring_laws (rings ?e) view cap" using ring by (simp add: log_env_def)
  have tv: "fst (view (ctrl_tx_ring t)) = fst (view (ctrl_tx_ring s)) @ bytes_of ''>''"
    unfolding t_def using room by (intro tx_view(1) [OF r']) (simp add: bytes_of_def)
  obtain err u where su: "profile_manager_send (gatt ?e) d t = (err, u)" by (meson surj_pair)
  have "profile_manager_can_enter_data_mode t" "profile_manager_get_payload_len t = profile_manager_get_payload_len s"
    using can tf by (simp_all add: profile_manager_can_enter_data_mode_def profile_manager_get_payload_len_def)
  then have send: "err = RC_OK" "snd (world u) = snd (world s) @ [GWriteCmd c (write_value_handle (g_state s)) d]"
      "ctrl_tx_ring u = ctrl_tx_ring t"
    using data_mode_direct [of t d "gatt ?e"] inv d tf su ok
    by (auto simp: sys_call_world log_env_def log_gatt_def logged_def)
  have op: "ops_send_payload (at_ops ?e) 0 d t = (err, u)"
    using su by (simp add: at_ops_def op_send_payload_def)
  have first: "snd (at_host_rx_bytes (at_ops ?e) ?tx (bytes_of (send_line 0 (length d)) @ [13, 10]) (st, s)) = t"
  proof -
    obtain st1 s1 where r: "at_host_rx_bytes (at_ops ?e) ?tx (bytes_of (send_line 0 (length d)) @ [13, 10]) (st, s) = (st1, s1)"
      by (meson surj_pair)
    have n: "0 < length d" using d by simp
    from at_refine_rx [OF wf(1) r] rx_send_line [OF wf n d(2) e, of "at_ops ?e" ?tx 0 s] show ?thesis
      by (simp add: at_spec_rx_def wf(2) r t_def)
  qed
  have both: "map_prod at_abs id m' = (Line [], reply ?tx (err, u))"
    using send_both_blocks [OF wf d(1,2) e refl, of "at_ops ?e" ?tx 0 s] op first mode tf
    by (simp add: m' control_uart_rx_def t_def)
  have "length (fst (view (ctrl_tx_ring u))) + length (bytes_of ''+OK'') + 2 \<le> cap (ctrl_tx_ring u)"
    using send(3) tv room tx_cap(1) [OF r', of _ s] by (simp add: bytes_of_def t_def)
  then have "fst (view (ctrl_tx_ring (tx_line ?tx ''+OK'' u))) = fst (view (ctrl_tx_ring u)) @ bytes_of ''+OK'' @ [13, 10]"
    by (rule tx_view(2) [OF r'])
  moreover have "reply ?tx (err, u) = tx_line ?tx ''+OK'' u" using send(1) by (simp add: reply_def)
  ultimately show ?thesis
    using both send tv by (cases m') auto
qed


text \<open>A connected firmware in command mode with a ready profile and an empty log.\<close>

definition ready_sys :: "(nat \<times> gatt_call list, list_ring) sys" where
  "ready_sys = (boot_sys [] [] [] (1000, []))
     \<lparr> app_state := APP_STATE_CONTROL_READY, current_conn := Some 7, g_state := g_state mem_ready \<rparr>"

theorem at_send_reaches_stack_witness:
  "snd (world (snd (control_uart_rx (log_env plain_env) [0, 255, 10]
     (control_uart_rx (log_env plain_env) (bytes_of ''AT+SEND=0,3'' @ [13, 10]) (at_host_init, ready_sys))))) =
   [GWriteCmd 7 21 [0, 255, 10]]"
proof -
  have l: "bytes_of (send_line 0 (length [0 :: u8, 255, 10])) = bytes_of ''AT+SEND=0,3''" by code_simp
  have s: "app_state ready_sys \<noteq> APP_STATE_DATA_MODE" "pm_inv (g_state ready_sys)" "pm_conn (g_state ready_sys) = Some 7"
    using mem_ready_inv by (simp_all add: ready_sys_def mem_ready_def)
  have can: "profile_manager_can_enter_data_mode ready_sys" "write_value_handle (g_state ready_sys) = 21"
    "profile_manager_get_payload_len ready_sys = 244" "ctrl_tx_ring ready_sys = ([], 0, CTRL_TX_RING_SIZE)" "snd (world ready_sys) = []"
    by (simp_all add: profile_manager_can_enter_data_mode_def profile_manager_get_payload_len_def ready_sys_def
        mem_ready_def BT_GATT_CHRC_WRITE_WITHOUT_RESP_def boot_sys_def sys_0_def)
  have ok: "fst (bt_gatt_write_without_response (gatt plain_env) 7 (write_value_handle (g_state ready_sys)) [0, 255, 10] False w) = RC_OK" for w
    by (simp add: plain_env_def ok_gatt_def)
  show ?thesis
    using at_send_reaches_stack [OF plain_env_rings at_wf_init at_abs_init s can(1) _ _ _ _ ok refl, unfolded l] can
    by (simp add: CTRL_TX_RING_SIZE_def)
qed


section \<open>AT+SETMTU down to the session\<close>

text \<open>A command line of an idle receiver, with its two line endings.\<close>

lemma rx_line_exec:
  assumes wf: "at_wf st" and idle: "at_abs st = Line []"
    and l: "CR \<notin> set l" "LF \<notin> set l" "NUL \<notin> set l" "l \<noteq> []" "length l \<le> 159"
    and e: "at_exec ops tx l s = (None, s')"
  shows "map_prod at_abs id (at_host_rx_bytes ops tx (bytes_of l @ [13, 10]) (st, s)) = (Line [], s')"
proof -
  have "at_spec_loop ops tx ((bytes_of l @ [13]) @ [10]) (False, Line [], s) =
      at_spec_loop ops tx [10] (at_spec_loop ops tx (bytes_of l @ [13]) (False, Line [], s))"
    by (rule at_spec_loop_append)
  also have "\<dots> = at_spec_loop ops tx [10] (False, Line [], s')"
    using spec_line [OF l, of 13 ops tx False s] by (simp add: e is_eol_def)
  also have "\<dots> = (False, Line [], s')" by (simp add: at_spec_byte_def is_eol_def)
  finally show ?thesis by (simp add: rx_abs_eq [OF wf, symmetric] at_spec_rx_def idle)
qed

definition mtu_line :: "u16 \<Rightarrow> string" where "mtu_line m = ''AT+SETMTU='' @ dec m"

lemma mtu_line_exec:
  "at_exec ops tx (mtu_line m) s = (None, reply tx (ops_set_mtu ops m s))"
  "CR \<notin> set (mtu_line m)" "LF \<notin> set (mtu_line m)" "NUL \<notin> set (mtu_line m)"
  "mtu_line m \<noteq> []" "length (mtu_line m) \<le> 159"
proof -
  have a: "arg_ok (dec m)" by (rule arg_ok_dec)
  have len: "length (mtu_line m) \<le> 15" using fmt_u_u16 [of m] by (simp add: mtu_line_def)
  then show "length (mtu_line m) \<le> 159" by simp
  have k: "map c_toupper ''AT+SETMTU='' = keyword (CmdSetMtu m)" by (simp del: list.map)
  have "trim_whitespace ([] @ (''AT+SETMTU='' @ dec m) @ []) = ''AT+SETMTU='' @ dec m"
    using a by (intro trim_surrounded) (auto simp: arg_ok_def c_isspace_def)
  then have "trim_whitespace (snprintk 160 (mtu_line m)) = ''AT+SETMTU='' @ join_comma (cmd_args (CmdSetMtu m))"
    using len by (simp add: snprintk_fits mtu_line_def)
  from parse_args_exec [OF _ this k] show "at_exec ops tx (mtu_line m) s = (None, reply tx (ops_set_mtu ops m s))"
    by simp
  have "c \<in> set (mtu_line m) \<Longrightarrow> c \<noteq> CR \<and> c \<noteq> LF \<and> c \<noteq> NUL" for c
    using fmt_u_digits [of "unat m"] digit_char_facts [of c] by (auto simp: mtu_line_def)
  then show "CR \<notin> set (mtu_line m)" "LF \<notin> set (mtu_line m)" "NUL \<notin> set (mtu_line m)"
    by auto
qed (simp add: mtu_line_def)

text \<open>What follows a settings update that was refused, saved or not saved.\<close>

lemma mtu_update_cases:
  assumes save: "settings_save_one (flash e) (settings_key ''mtu'') (u16_bytes m) (world s) = (rc, w)"
  shows "op_set_mtu e m s =
    (if unat m < 23 \<or> 259 < unat m then (RC_ERR EINVAL, s)
     else if rc \<noteq> RC_OK then (rc, s\<lparr>world := w, g_config := (g_config s)\<lparr>cfg_mtu := m\<rparr>\<rparr>)
     else (RC_OK, profile_manager_set_config (gatt e) (Some G_CONFIG)
            (s\<lparr>world := w, g_config := (g_config s)\<lparr>cfg_mtu := m\<rparr>\<rparr>)))"
  using save by (simp add: op_set_mtu_def on_settings_def ble_host_settings_update_mtu_def Let_def word_less_nat_alt)

lemma long_send_refused:
  assumes "unat (payload_len (g_state s)) < length d"
  shows "\<exists>err. op_send_payload e i d s = (RC_ERR err, s)"
  using assms by (auto simp: op_send_payload_def profile_manager_send_def Let_def split: option.split)

lemma error_view:
  assumes ring: "ring_laws (rings e) view cap" and room: "length (fst (view (ctrl_tx_ring s))) + 25 \<le> cap (ctrl_tx_ring s)"
  shows "\<exists>k. fst (view (ctrl_tx_ring (emit_error_from_errno (Some (at_tx e)) err s))) =
    fst (view (ctrl_tx_ring s)) @ bytes_of (error_text k) @ [13, 10]"
proof -
  have le: "length (bytes_of (error_text k)) \<le> 23" for k by (cases k) (simp_all add: bytes_of_def)
  have "fst (view (ctrl_tx_ring (tx_line (Some (at_tx e)) (error_text k) s))) =
      fst (view (ctrl_tx_ring s)) @ bytes_of (error_text k) @ [13, 10]" for k
    using room le [of k] by (intro tx_view(2) [OF ring]) linarith
  moreover have "\<exists>k. emit_error_from_errno (Some (at_tx e)) err s = tx_line (Some (at_tx e)) (error_text k) s"
    unfolding emit_error_from_errno_def emit_error_def by (cases "err = RC_ERR EINVAL \<or> err = RC_ERR ENOENT \<or>
        err = RC_ERR ERANGE \<or> err = RC_ERR EMSGSIZE") (simp_all only: if_True if_False, blast+)
  ultimately show ?thesis by metis
qed

text \<open>
  C16: AT+SETMTU takes effect at once: outside of data mode, with an idle AT host, the line
  AT+SETMTU=m on the UART leads through the parser, the operation table, the settings and the
  profile manager to one of three results.  Outside of 23 to 259 nothing is saved and neither the
  configuration nor the session changes, and the answer is the parameter error.  Otherwise the
  configured MTU is m, and if saving it fails, the session keeps its payload length and an error is
  answered.  If saving it succeeds, the payload length is m or the ATT MTU, the smaller one,
  less three, the answer is +OK, and every send of more bytes is refused with an error and without
  any effect; the ATT MTU is the one of the connection, at least 4, or 23 without a connection.
\<close>

theorem setmtu_takes_effect:
  assumes ring: "ring_laws (rings e) view cap" and wf: "at_wf st" "at_abs st = Line []"
    and mode: "app_state s \<noteq> APP_STATE_DATA_MODE"
    and room: "length (fst (view (ctrl_tx_ring s))) + 25 \<le> cap (ctrl_tx_ring s)"
    and save: "settings_save_one (flash e) (settings_key ''mtu'') (u16_bytes m) (world s) = (rc, w)"
    and att: "att = (case pm_conn (g_state s) of None \<Rightarrow> 23 | Some c \<Rightarrow> bt_gatt_get_mtu (gatt e) c w)" "3 < att"
    and m': "(st', s') = control_uart_rx e (bytes_of (''AT+SETMTU='' @ fmt_u (unat m)) @ [13, 10]) (st, s)"
  shows "at_abs st' = Line [] \<and>
    (if unat m < 23 \<or> 259 < unat m then
       g_config s' = g_config s \<and> g_state s' = g_state s \<and>
       fst (view (ctrl_tx_ring s')) = fst (view (ctrl_tx_ring s)) @ bytes_of ''+ERR=Invalid Parameters'' @ [13, 10]
     else
       g_config s' = (g_config s)\<lparr>cfg_mtu := m\<rparr> \<and>
       (if rc \<noteq> RC_OK then
          g_state s' = g_state s \<and>
          (\<exists>k. fst (view (ctrl_tx_ring s')) = fst (view (ctrl_tx_ring s)) @ bytes_of (error_text k) @ [13, 10])
        else
          unat (payload_len (g_state s')) = min (unat att) (unat m) - 3 \<and>
          g_state s' = (g_state s)\<lparr>pm_config := Some G_CONFIG, payload_len := payload_len (g_state s')\<rparr> \<and>
          fst (view (ctrl_tx_ring s')) = fst (view (ctrl_tx_ring s)) @ bytes_of ''+OK'' @ [13, 10] \<and>
          (\<forall>i d. min (unat att) (unat m) < length d + 3 \<longrightarrow>
             (\<exists>err. op_send_payload e i d s' = (RC_ERR err, s')))))"
proof -
  let ?tx = "Some (at_tx e)" and ?cfg = "(g_config s)\<lparr>cfg_mtu := m\<rparr>"
  define t where "t = s\<lparr>world := w, g_config := ?cfg\<rparr>"
  define v where "v = profile_manager_set_config (gatt e) (Some G_CONFIG) t"
  have op: "ops_set_mtu (at_ops e) m s =
      (if unat m < 23 \<or> 259 < unat m then (RC_ERR EINVAL, s) else if rc \<noteq> RC_OK then (rc, t) else (RC_OK, v))"
    using mtu_update_cases [OF save] by (simp add: at_ops_def t_def v_def)
  have rx: "at_abs st' = Line []" "s' = reply ?tx (ops_set_mtu (at_ops e) m s)"
    using rx_line_exec [OF wf mtu_line_exec(2-6) mtu_line_exec(1), of "at_ops e" ?tx m s] mode m'
    by (auto simp: control_uart_rx_def mtu_line_def map_prod_def split: prod.splits)
  have t: "g_state t = g_state s" "ctrl_tx_ring t = ctrl_tx_ring s" by (simp_all add: t_def)
  have len: "payload_len (g_state v) = word_of_nat (payload_limit (unat att) (unat m))"
    using att by (simp add: v_def t_def profile_manager_set_config_def update_payload_len_eq
        pm_att_mtu_def pm_preferred_def split: option.splits)
  have lim: "unat (payload_len (g_state v)) = min (unat att) (unat m) - 3" if "\<not> unat m < 23"
    using that att(2) unfolding len unat_payload_limit by (simp add: payload_limit_def Let_def word_less_nat_alt)
  have v: "g_state v = (g_state s)\<lparr>pm_config := Some G_CONFIG, payload_len := payload_len (g_state v)\<rparr>"
      "g_config v = ?cfg" "ctrl_tx_ring v = ctrl_tx_ring s"
    by (simp_all add: v_def t_def profile_manager_set_config_def update_payload_len_eq)
  consider (range) "unat m < 23 \<or> 259 < unat m" | (failed) "\<not> (unat m < 23 \<or> 259 < unat m)" "rc \<noteq> RC_OK"
    | (saved) "\<not> (unat m < 23 \<or> 259 < unat m)" "rc = RC_OK" by blast
  then show ?thesis
  proof cases
    case range
    have "s' = tx_line ?tx ''+ERR=Invalid Parameters'' s"
      using rx(2) op range by (simp add: reply_def emit_error_from_errno_def emit_error_def)
    then show ?thesis using rx(1) range room tx_view(2) [OF ring, of s "''+ERR=Invalid Parameters''"]
      by (simp add: bytes_of_def)
  next
    case failed
    have s': "s' = emit_error_from_errno ?tx rc t" using rx(2) op failed by (simp add: reply_def)
    have "g_config s' = ?cfg" "g_state s' = g_state s"
      by (simp_all add: s' emit_error_from_errno_def emit_error_def t) (simp_all add: t_def)
    then show ?thesis using rx(1) failed error_view [OF ring, of t rc] room by (simp add: t s')
  next
    case saved
    have s': "s' = tx_line ?tx ''+OK'' v" using rx(2) op saved by (simp add: reply_def)
    have g: "g_state s' = g_state v" "g_config s' = ?cfg" using v(2) by (simp_all add: s')
    have "\<exists>err. op_send_payload e i d s' = (RC_ERR err, s')" if "min (unat att) (unat m) < length d + 3" for i d
    proof (rule long_send_refused)
      have "3 < unat att" using att(2) by (simp add: word_less_nat_alt)
      then show "unat (payload_len (g_state s')) < length d" using that lim saved by (simp add: g) linarith
    qed
    moreover have "fst (view (ctrl_tx_ring s')) = fst (view (ctrl_tx_ring s)) @ bytes_of ''+OK'' @ [13, 10]"
      using tx_view(2) [OF ring, of v "''+OK''"] room v(3) by (simp add: s' bytes_of_def)
    ultimately show ?thesis using rx(1) saved lim v(1) g by simp
  qed
qed

text \<open>An MTU of 100 on the connection of \<open>ready_sys\<close>, whose ATT MTU is 247.\<close>

theorem setmtu_takes_effect_witness:
  "unat (payload_len (g_state (snd (control_uart_rx (log_env plain_env)
     (bytes_of (''AT+SETMTU='' @ fmt_u (unat (100 :: u16))) @ [13, 10]) (at_host_init, ready_sys))))) = 97 \<and>
   fst (list_view (ctrl_tx_ring (snd (control_uart_rx (log_env plain_env)
     (bytes_of (''AT+SETMTU='' @ fmt_u (unat (100 :: u16))) @ [13, 10]) (at_host_init, ready_sys))))) =
     bytes_of ''+OK'' @ [13, 10]"
proof -
  have ring: "ring_laws (rings (log_env plain_env)) list_view list_cap" using plain_env_rings by (simp add: log_env_def)
  have save: "settings_save_one (flash (log_env plain_env)) k b (world ready_sys) = (RC_OK, world ready_sys)" for k b
    by (simp add: log_env_def lift_flash_def lift_r_def plain_env_def plain_flash_def)
  have s: "app_state ready_sys \<noteq> APP_STATE_DATA_MODE" "pm_conn (g_state ready_sys) = Some 7"
    "ctrl_tx_ring ready_sys = ([], 0, CTRL_TX_RING_SIZE)"
    by (simp_all add: ready_sys_def mem_ready_def boot_sys_def sys_0_def)
  have att: "(247 :: u16) = (case pm_conn (g_state ready_sys) of None \<Rightarrow> 23
      | Some c \<Rightarrow> bt_gatt_get_mtu (gatt (log_env plain_env)) c (world ready_sys))"
    using s(2) by (simp add: log_env_def log_gatt_def plain_env_def ok_gatt_def)
  show ?thesis
    using setmtu_takes_effect [OF ring at_wf_init at_abs_init s(1) _ save att _ surjective_pairing [symmetric], of 100] s(3)
    by (simp add: CTRL_TX_RING_SIZE_def)
qed


section \<open>Text in data mode\<close>

text \<open>
  A parameter update of the link in data mode puts a text line into the control ring, and the
  transmitter then sends that ring before any data.
\<close>

lemma indication_in_data_mode:
  assumes ring: "ring_laws (rings e) view cap" and mode: "app_state s = APP_STATE_DATA_MODE" "current_conn s = Some conn"
    and room: "length (fst (view (ctrl_tx_ring s))) + 65 \<le> cap (ctrl_tx_ring s)"
    and claims: "snd (view (ctrl_tx_ring s)) \<le> length (fst (view (ctrl_tx_ring s)))"
  shows "\<exists>l. l \<noteq> [] \<and> fst (view (ctrl_tx_ring (le_param_updated e conn interval latency timeout s))) =
      fst (view (ctrl_tx_ring s)) @ l \<and> \<not> tx_ring_is_data e (le_param_updated e conn interval latency timeout s)"
proof -
  define txt_line where "txt_line = snprintk 64 (''+IND=LINKPARA,0,'' @ fmt_u (unat interval) @ '','' @ fmt_u (unat latency) @ '','' @
        fmt_u (unat timeout))"
  have len: "length (bytes_of txt_line) < 64"
    using length_snprintk [of 64] by (simp add: bytes_of_def txt_line_def)
  have u: "le_param_updated e conn interval latency timeout s = tx_line (Some (at_tx e)) txt_line s"
    using mode by (simp add: le_param_updated_def at_host_notify_link_params_def txt_line_def)
  have v: "fst (view (ctrl_tx_ring (tx_line (Some (at_tx e)) txt_line s))) = fst (view (ctrl_tx_ring s)) @ bytes_of txt_line @ [13, 10]"
    using room len by (intro tx_view(2) [OF ring]) simp
  have "snd (view (ctrl_tx_ring (queue_ctrl_bytes e d t))) = snd (view (ctrl_tx_ring t))" for d t
    by (simp add: queue_ctrl_bytes_def kick_uart_tx_def ring_rules [OF ring])
  then have "snd (view (ctrl_tx_ring (tx_line (Some (at_tx e)) txt_line s))) = snd (view (ctrl_tx_ring s))"
    by (simp add: tx_line_def at_tx_def uart_send_line_def queue_ctrl_line_def)
  then show ?thesis
    using v claims by (intro exI [of _ "bytes_of txt_line @ [13, 10]"]) (simp add: u tx_ring_is_data_def ring_rules [OF ring])
qed

end
