(* ===== verification/Uart_Props.thy ===== *)
theory Uart_Props
  imports End_To_End Main_Props
begin

text \<open>
  From the peer to the host: notifications into the data ring, the transmitter that empties the two
  rings into the UART, and the entry into data mode, which waits for the transmitter.  \<open>wire_env\<close>
  records the bytes that the UART has taken.
\<close>

section \<open>The bytes on the wire\<close>

definition wire_env :: "('u, 'w, 'r) env \<Rightarrow> ('u, 'w \<times> u8 list, 'r) env" where
  "wire_env e =
     \<lparr> gatt = lift_gatt (gatt e), flash = lift_flash (flash e),
       os = (lift_os (os e))
         \<lparr> uart_fifo_fill := (\<lambda>d wl. (fst (uart_fifo_fill (os e) d (fst wl)), snd (uart_fifo_fill (os e) d (fst wl)),
                                      snd wl @ take (nat (fst (uart_fifo_fill (os e) d (fst wl)))) d)) \<rparr>,
       rings = rings e \<rparr>"

lemma wire_env_rings [simp]: "rings (wire_env e) = rings e"
  by (simp add: wire_env_def)

lemma refresh_wire [simp]: "snd (world (refresh_uart_rx_flow_control (wire_env e) s)) = snd (world s)"
  by (simp add: refresh_uart_rx_flow_control_def os_do_def wire_env_def lift_os_def)

lemma activate_facts:
  "ctrl_tx_ring (activate_pending_data_mode_if_ready e s) = ctrl_tx_ring s"
  "ble_to_host_ring (activate_pending_data_mode_if_ready e s) = ble_to_host_ring s"
  by (simp_all add: activate_pending_data_mode_if_ready_def Let_def case_prod_beta set_state_def
      refresh_uart_rx_flow_control_def uptime_world)

lemma activate_wire [simp]:
  "snd (world (activate_pending_data_mode_if_ready (wire_env e) s)) = snd (world s)"
  by (simp add: activate_pending_data_mode_if_ready_def Let_def uptime_world set_state_def)
    (simp add: os_do_def wire_env_def lift_os_def)

lemma tx_disable_wire: "snd (world (os_do (uart_irq_tx_disable (os (wire_env e))) s)) = snd (world s)"
  by (simp add: os_do_def wire_env_def lift_os_def)

lemma activate_in_data_mode:
  "app_state s = APP_STATE_DATA_MODE \<Longrightarrow> activate_pending_data_mode_if_ready e s = s"
  by (simp add: activate_pending_data_mode_if_ready_def)

text \<open>
  C26: The transmitter preserves order: one run of it takes a block from the front of one ring, and
  what the UART accepts of it is what leaves the ring; nothing is lost, repeated or reordered, and
  nothing stays claimed.  Data from the peer is sent only in data mode and only when no control text
  is left; if the UART accepts at least a byte and control text is waiting, some of it is sent.
\<close>

theorem tx_in_order:
  fixes e :: "('u, 'w, 'r) env" and s :: "('w \<times> u8 list, 'r) sys"
  assumes ring: "ring_laws (rings e) view cap"
    and fill: "\<And>d w. fst (uart_fifo_fill (os e) d w) \<le> int (length d)"
    and claims: "view (ctrl_tx_ring s) = (x, 0)" "view (ble_to_host_ring s) = (y, 0)"
    and s': "s' = service_uart_tx (wire_env e) s"
  shows "\<exists>sent x' y'. snd (world s') = snd (world s) @ sent \<and>
    view (ctrl_tx_ring s') = (x', 0) \<and> view (ble_to_host_ring s') = (y', 0) \<and>
    x = (if x = [] then [] else sent) @ x' \<and> y = (if x = [] then sent else []) @ y' \<and>
    (x = [] \<and> app_state s' \<noteq> APP_STATE_DATA_MODE \<longrightarrow> sent = []) \<and>
    (x \<noteq> [] \<and> (\<forall>d w. d \<noteq> [] \<longrightarrow> 0 < fst (uart_fifo_fill (os e) d w)) \<longrightarrow> sent \<noteq> [])"
proof -
  define t where "t = activate_pending_data_mode_if_ready (wire_env e) s"
  have t: "view (ctrl_tx_ring t) = (x, 0)" "view (ble_to_host_ring t) = (y, 0)" "snd (world t) = snd (world s)"
    using claims by (simp_all add: t_def activate_facts)
  define isd where "isd = tx_ring_is_data (wire_env e) t"
  have isd: "isd \<longleftrightarrow> app_state t = APP_STATE_DATA_MODE \<and> x = []"
    using t(1) by (simp add: isd_def tx_ring_is_data_def ring_rules [OF ring])
  define r where "r = (if isd then ble_to_host_ring t else ctrl_tx_ring t)"
  have r: "view r = (if isd then y else x, 0)" using t by (simp add: r_def)
  obtain k where k: "fst (ring_buf_get_claim (rings e) UART_TX_CHUNK r) = take k (if isd then y else x)"
    "k \<le> length (if isd then y else x)" "(if isd then y else x) \<noteq> [] \<Longrightarrow> 0 < k"
    "view (snd (ring_buf_get_claim (rings e) UART_TX_CHUNK r)) = (if isd then y else x, k)"
    using ring_claim [OF ring, of UART_TX_CHUNK r] r by (auto simp: UART_TX_CHUNK_def)
  define data where "data = take k (if isd then y else x)"
  define r1 where "r1 = snd (ring_buf_get_claim (rings e) UART_TX_CHUNK r)"
  have claim: "ring_buf_get_claim (rings e) UART_TX_CHUNK r = (data, r1)"
    using k(1) by (simp add: r1_def data_def prod_eq_iff)
  define put where "put = (\<lambda>q (v :: ('w \<times> u8 list, 'r) sys).
      if isd then v\<lparr>ble_to_host_ring := q\<rparr> else v\<lparr>ctrl_tx_ring := q\<rparr>)"
  have put: "snd (world (put q v)) = snd (world v)" "app_state (put q v) = app_state v"
    "ctrl_tx_ring (put q v) = (if isd then ctrl_tx_ring v else q)"
    "ble_to_host_ring (put q v) = (if isd then q else ble_to_host_ring v)" for q v
    by (simp_all add: put_def)
  show ?thesis
  proof (cases "data = []")
    case True
    have s'_eq: "s' = os_do (uart_irq_tx_disable (os (wire_env e))) (put r1 t)"
      unfolding s' service_uart_tx_def Let_def t_def [symmetric] isd_def [symmetric] wire_env_rings
        r_def [symmetric] claim put_def using True by simp
    have e: "(if isd then y else x) = []"
    proof (rule ccontr)
      assume ne: "(if isd then y else x) \<noteq> []"
      then have "0 < k" by (rule k(3))
      then show False using True ne by (simp add: data_def)
    qed
    then have "k = 0" using k(2) by simp
    then show ?thesis
      using e isd t k(4)
      by (intro exI [of _ "[]"] exI [of _ x] exI [of _ y])
        (auto simp: s'_eq put r1_def os_do_def wire_env_def lift_os_def split: if_splits)
  next
    case False
    define n where "n = nat (fst (uart_fifo_fill (os e) data (fst (world t))))"
    have n: "n \<le> k" using fill [of data "fst (world t)"] k(2) by (auto simp: n_def data_def)
    define u where "u = put (snd (ring_buf_get_finish (rings e) n r1))
      (t\<lparr>world := snd (uart_fifo_fill (os (wire_env e)) data (world t))\<rparr>)"
    have u: "snd (world u) = snd (world s) @ take n data" "app_state u = app_state t"
      "view (ctrl_tx_ring u) = (if isd then x else drop n x, 0)"
      "view (ble_to_host_ring u) = (if isd then drop n y else y, 0)"
      using t k(4) n by (auto simp: u_def put wire_env_def n_def ring_rules [OF ring] r1_def)
    have s'_cases: "s' = os_do (uart_irq_tx_disable (os (wire_env e))) u \<or>
        s' = activate_pending_data_mode_if_ready (wire_env e) u"
    proof -
      have "(if 0 < fst (uart_fifo_fill (os (wire_env e)) data (world t))
          then nat (fst (uart_fifo_fill (os (wire_env e)) data (world t))) else 0) = n"
        by (simp add: n_def wire_env_def)
      then show ?thesis
        unfolding s' service_uart_tx_def Let_def t_def [symmetric] isd_def [symmetric] wire_env_rings
          r_def [symmetric] claim u_def put_def using False by (auto simp: case_prod_beta)
    qed
    have v: "snd (world s') = snd (world u)" "view (ctrl_tx_ring s') = view (ctrl_tx_ring u)"
      "view (ble_to_host_ring s') = view (ble_to_host_ring u)"
      "app_state u = APP_STATE_DATA_MODE \<Longrightarrow> app_state s' = APP_STATE_DATA_MODE"
      using s'_cases by (auto simp: activate_facts tx_disable_wire activate_in_data_mode)
    have tk: "take n data = take n (if isd then y else x)" using n by (simp add: data_def min_def)
    have x: "isd \<Longrightarrow> x = []" "\<not> isd \<Longrightarrow> x \<noteq> []"
      using isd False k(2) by (auto simp: data_def)
    have "take n data \<noteq> []" if "\<forall>d w. d \<noteq> [] \<longrightarrow> 0 < fst (uart_fifo_fill (os e) d w)"
      using that False by (simp add: n_def not_le)
    note progress = this
    show ?thesis
    proof (cases isd)
      case True
      have "x = []" using x True by simp
      moreover have "snd (world s') = snd (world s) @ take n y" "view (ctrl_tx_ring s') = ([], 0)"
        "view (ble_to_host_ring s') = (drop n y, 0)" "app_state s' = APP_STATE_DATA_MODE"
        using u(1) v tk u(2-4) isd True \<open>x = []\<close> by simp_all
      ultimately show ?thesis
        by (intro exI [of _ "take n y"] exI [of _ "[]"] exI [of _ "drop n y"]) simp
    next
      case False
      have "x \<noteq> []" using x False by simp
      moreover have "snd (world s') = snd (world s) @ take n x" "view (ctrl_tx_ring s') = (drop n x, 0)"
        "view (ble_to_host_ring s') = (y, 0)" "take n data = take n x"
        using u(1) v(1-3) tk u(3,4) False by simp_all
      ultimately show ?thesis
        using progress by (intro exI [of _ "take n x"] exI [of _ "drop n x"] exI [of _ y]) auto
    qed
  qed
qed


text \<open>A firmware in data mode with bytes from the peer and no control text.\<close>

definition forward_sys :: "(nat \<times> u8 list, list_ring) sys" where
  "forward_sys = (boot_sys [] [1, 2, 3] [] (1000, []))
     \<lparr> app_state := APP_STATE_DATA_MODE, current_conn := Some 7, g_state := g_state mem_ready \<rparr>"

theorem tx_in_order_witness:
  "\<exists>sent y'. snd (world (service_uart_tx (wire_env plain_env) forward_sys)) = sent \<and> [1, 2, 3] = sent @ y' \<and>
     list_view (ble_to_host_ring (service_uart_tx (wire_env plain_env) forward_sys)) = (y', 0)"
proof -
  have f: "fst (uart_fifo_fill (os plain_env) d w) \<le> int (length d)" for d w
    by (simp add: plain_env_def plain_os_def)
  have "list_view (ctrl_tx_ring forward_sys) = ([], 0)" "list_view (ble_to_host_ring forward_sys) = ([1, 2, 3], 0)"
      "snd (world forward_sys) = []"
    by (simp_all add: forward_sys_def boot_sys_def sys_0_def)
  then show ?thesis
    using tx_in_order [OF plain_env_rings f _ _ refl, of forward_sys "[]" "[1, 2, 3]"] by auto
qed

section \<open>Notifications\<close>

text \<open>
  C27: Notifications are forwarded unchanged: in data mode the value of a notification is appended,
  whole and as it is, to the ring for the host as long as there is room, no text is produced, and
  the statistics count it; the profile manager is asked for nothing else.
\<close>

theorem notification_forwarded:
  assumes ring: "ring_laws (rings e) view cap" and mode: "app_state s = APP_STATE_DATA_MODE"
    and room: "length (fst (view (ble_to_host_ring s))) + length d \<le> cap (ble_to_host_ring s)"
    and s': "s' = snd (notify_handler (main_cbs e) (Some d) s)"
  shows "fst (view (ble_to_host_ring s')) = fst (view (ble_to_host_ring s)) @ d \<and>
    snd (view (ble_to_host_ring s')) = snd (view (ble_to_host_ring s)) \<and>
    ctrl_tx_ring s' = ctrl_tx_ring s \<and> g_state s' = g_state s \<and> app_state s' = APP_STATE_DATA_MODE \<and>
    notify_ops (stream_stats s') = notify_ops (stream_stats s) + 1 \<and>
    bytes_ble_to_host (stream_stats s') = bytes_ble_to_host (stream_stats s) + word_of_nat (length d) \<and>
    usb_backpressure_count (stream_stats s') = usb_backpressure_count (stream_stats s)"
  using mode room
  by (simp add: s' notify_handler_def profile_callbacks_def profile_payload_received_def queue_data_bytes_def
      Let_def case_prod_beta ring_rules [OF ring] kick_uart_tx_def)

theorem notification_forwarded_witness:
  "fst (list_view (ble_to_host_ring (snd (notify_handler (main_cbs (wire_env plain_env)) (Some [9, 0, 13])
     forward_sys)))) =
     [1, 2, 3, 9, 0, 13]"
proof -
  have "app_state forward_sys = APP_STATE_DATA_MODE" "ble_to_host_ring forward_sys = ([1, 2, 3], 0, 16384)"
    by (simp_all add: forward_sys_def boot_sys_def sys_0_def BLE_TO_HOST_RING_SIZE_def)
  moreover have "ring_laws (rings (wire_env plain_env)) list_view list_cap" using plain_env_rings by simp
  ultimately show ?thesis
    using notification_forwarded [of "wire_env plain_env" list_view list_cap forward_sys "[9, 0, 13]", OF _ _ _ refl]
    by (simp add: list_view_def)
qed


section \<open>Entering data mode\<close>

lemma enter_line_exec:
  "at_exec ops tx ''AT+ENTERDATAMODE=0'' s = exec_command ops tx (CmdEnterDataMode 0) s"
proof -
  have t: "trim_whitespace (snprintk 160 ''AT+ENTERDATAMODE=0'') =
      ''AT+ENTERDATAMODE='' @ join_comma (cmd_args (CmdEnterDataMode 0))" by code_simp
  have k: "map c_toupper ''AT+ENTERDATAMODE='' = keyword (CmdEnterDataMode 0)" by code_simp
  show ?thesis by (rule parse_args_exec [OF _ t k]) simp
qed

lemma rx_enter_line:
  assumes wf: "at_wf st" and idle: "at_abs st = Line []"
    and e: "exec_command ops tx (CmdEnterDataMode 0) s = (None, s')"
  shows "map_prod at_abs id (at_host_rx_bytes ops tx (bytes_of ''AT+ENTERDATAMODE=0'' @ [13, 10]) (st, s)) = (Line [], s')"
proof -
  have l: "CR \<notin> set ''AT+ENTERDATAMODE=0''" "LF \<notin> set ''AT+ENTERDATAMODE=0''" "NUL \<notin> set ''AT+ENTERDATAMODE=0''"
    "''AT+ENTERDATAMODE=0'' \<noteq> []" "length ''AT+ENTERDATAMODE=0'' \<le> 159" by code_simp+
  show ?thesis by (rule rx_line_exec [OF wf idle l]) (simp add: enter_line_exec e del: exec_command.simps)
qed

text \<open>
  C28: Data mode is entered after the answer: AT+ENTERDATAMODE=0 on a connection with a ready profile
  that can take writes without response is answered with +OK and +IND=DATAMODE,1, the request is
  remembered, and the mode does not change while any of the answer is in the transmitter's ring;
  from every later state with the request and the connection in which that ring is empty, the next
  run of the transmitter's check starts data mode with no escape sequence begun.
\<close>

theorem data_mode_entry:
  fixes e :: "('u, 'w, 'r) env" and t :: "('w, 'r) sys"
  assumes ring: "ring_laws (rings e) view cap" and wf: "at_wf st" "at_abs st = Line []"
    and mode: "app_state s \<noteq> APP_STATE_DATA_MODE" "\<not> data_mode_pending_enter s" "current_conn s = Some c"
    and can: "allow_data_mode (g_config s)" "profile_manager_can_enter_data_mode s"
    and view: "view (ctrl_tx_ring s) = (x, 0)" "length x + 22 \<le> cap (ctrl_tx_ring s)"
    and m': "m' = control_uart_rx e (bytes_of ''AT+ENTERDATAMODE=0'' @ [13, 10]) (st, s)"
    and t: "data_mode_pending_enter t" "current_conn t = Some c" "view (ctrl_tx_ring t) = ([], 0)"
      "app_state t \<noteq> APP_STATE_DATA_MODE"
  shows "at_abs (fst m') = Line [] \<and> app_state (snd m') = app_state s \<and> data_mode_pending_enter (snd m') \<and>
    current_conn (snd m') = Some c \<and>
    fst (view (ctrl_tx_ring (snd m'))) = x @ bytes_of ''+OK'' @ [13, 10] @ bytes_of ''+IND=DATAMODE,1'' @ [13, 10] \<and>
    activate_pending_data_mode_if_ready e (snd m') = snd m' \<and>
    app_state (activate_pending_data_mode_if_ready e t) = APP_STATE_DATA_MODE \<and>
    \<not> esc_active (escape_state (activate_pending_data_mode_if_ready e t))"
proof -
  let ?tx = "Some (at_tx e)"
  define u where "u = tx_line ?tx ''+IND=DATAMODE,1'' (tx_line ?tx ''+OK'' (s\<lparr>data_mode_pending_enter := True\<rparr>))"
  have "exec_command (at_ops e) ?tx (CmdEnterDataMode 0) s = (None, u)"
    using mode can by (simp add: at_ops_def op_enter_data_mode_def u_def)
  from rx_enter_line [OF wf this] have m: "at_abs (fst m') = Line []" "snd m' = u"
    using mode(1) by (auto simp: m' control_uart_rx_def map_prod_def split: prod.splits)
  have ok: "fst (view (ctrl_tx_ring (tx_line ?tx ''+OK'' (s\<lparr>data_mode_pending_enter := True\<rparr>)))) = x @ bytes_of ''+OK'' @ [13, 10]"
    using tx_view(2) [OF ring, of "s\<lparr>data_mode_pending_enter := True\<rparr>" "''+OK''"] view by (simp add: bytes_of_def)
  have ind: "fst (view (ctrl_tx_ring u)) = x @ bytes_of ''+OK'' @ [13, 10] @ bytes_of ''+IND=DATAMODE,1'' @ [13, 10]"
    using tx_view(2) [OF ring, of "tx_line ?tx ''+OK'' (s\<lparr>data_mode_pending_enter := True\<rparr>)" "''+IND=DATAMODE,1''"] view
    by (simp add: u_def ok bytes_of_def tx_cap [OF ring])
  have cl: "snd (view (ctrl_tx_ring (tx_line ?tx l v))) = snd (view (ctrl_tx_ring v))" for l v
    by (simp add: tx_line_def at_tx_def uart_send_line_def queue_ctrl_line_def queue_ctrl_bytes_def
        kick_uart_tx_def ring_rules [OF ring])
  have "ring_size_bytes e (ctrl_tx_ring u) \<noteq> 0"
    using ind view by (simp add: ring_rules [OF ring]) (simp add: u_def cl)
  then have "activate_pending_data_mode_if_ready e u = u"
    by (simp add: activate_pending_data_mode_if_ready_def)
  moreover have "app_state (activate_pending_data_mode_if_ready e t) = APP_STATE_DATA_MODE"
    "\<not> esc_active (escape_state (activate_pending_data_mode_if_ready e t))"
    using t by (simp_all add: activate_pending_data_mode_if_ready_def Let_def case_prod_beta set_state_def
        ring_rules [OF ring] refresh_uart_rx_flow_control_def)
  ultimately show ?thesis using m ind mode by (simp add: u_def)
qed


theorem data_mode_entry_witness:
  "data_mode_pending_enter (snd (control_uart_rx plain_env (bytes_of ''AT+ENTERDATAMODE=0'' @ [13, 10])
     (at_host_init, busy_sys\<lparr>app_state := APP_STATE_CONTROL_READY\<rparr>)))"
proof -
  let ?s = "busy_sys\<lparr>app_state := APP_STATE_CONTROL_READY\<rparr>"
  let ?t = "?s\<lparr>data_mode_pending_enter := True\<rparr>"
  have s: "app_state ?s \<noteq> APP_STATE_DATA_MODE" "\<not> data_mode_pending_enter ?s" "current_conn ?s = Some 7"
    "allow_data_mode (g_config ?s)" "profile_manager_can_enter_data_mode ?s" "list_view (ctrl_tx_ring ?s) = ([], 0)" "length ([] :: u8 list) + 22 \<le> list_cap (ctrl_tx_ring ?s)"
    by (simp_all add: busy_sys_def boot_sys_def sys_0_def CTRL_TX_RING_SIZE_def g_config_init_def profile_manager_can_enter_data_mode_def mem_ready_def
        BT_GATT_CHRC_WRITE_WITHOUT_RESP_def)
  have t: "data_mode_pending_enter ?t" "current_conn ?t = Some 7" "list_view (ctrl_tx_ring ?t) = ([], 0)"
      "app_state ?t \<noteq> APP_STATE_DATA_MODE"
    using s by simp_all
  show ?thesis
    using data_mode_entry [OF plain_env_rings at_wf_init at_abs_init s refl t] by simp
qed

end
