(* ===== verification/Spec2Isabelle.thy ===== *)
theory Spec2Isabelle
  imports Settings At_Properties Pm_Properties Main_Data_Props Pump_Props Rx_Stall Main_Props Scan_Props End_To_End
    Uart_Props
begin

text \<open>
  A verification development for the nRF52840 BLE AT host firmware
  (\<open>apps/nrf52840_ble_at_host/src\<close>): a USB dongle that takes AT commands on a serial port, connects
  as a BLE central to one peer, discovers a configured service with a notify and a write
  characteristic, and bridges bytes between the serial port and the peer, in single transfers
  (AT+SEND) or in a transparent data mode.

  \<^bold>\<open>The program's parts and the theories that model them.\<close>

  \<^item> \<open>app_common.c/.h\<close>: the shared records and the text form of UUIDs. Theory \<open>App_Common\<close>; the C
    library functions it needs are in \<open>Prelude\<close>.
  \<^item> \<open>settings.c\<close>: the configuration object \<open>g_config\<close>, the handler that loads it from flash, the
    three updates that validate, assign and save. Theory \<open>Settings\<close>.
  \<^item> \<open>at_host.c/.h\<close>: the line editor of the serial port, the command parser with one \<open>cmd_\<close>
    definition for each branch of \<open>process_command\<close>, the payload mode of AT+SEND and the indications.
    Theories \<open>At_Parse\<close> (text helpers) and \<open>At_Host\<close>; its two tables of function pointers are the
    records \<open>at_host_ops\<close> and \<open>at_host_tx\<close> over an arbitrary application state.
  \<^item> \<open>profile_manager.c/.h\<close>: the GATT client with its static \<open>g_state\<close>. Theory \<open>Profile_Manager\<close>.
  \<^item> \<open>main.c\<close>: theories \<open>Main_State\<close> (the static variables as the record \<open>sys\<close>, which extends
    the memory of the other files, and the ring helpers), \<open>Main_Scan\<close> (advertising data, cache of
    devices, address parser), \<open>Main_Data\<close> (flow control, escape sequence, pump, transmitter),
    \<open>Main_Ops\<close> (the operations of the AT host, the callbacks of the profile manager, the connection
    handlers, the UART interrupt) and \<open>Main_Boot\<close> (USB messages and the thread \<open>main\<close>).

  Definitions have the name of the C function; a loop body or a branch that is a definition of its
  own has a name derived from it. Static variables are fields of the state record, \<open>NULL\<close> is
  \<open>None\<close>, negative error codes are \<open>RC_ERR\<close>, integers have the width of the C type where they can
  wrap, lengths are natural numbers, and an array is a list with the array's length.

  \<^bold>\<open>What is a parameter.\<close> The Zephyr kernel and its Bluetooth, settings, UART and USB APIs are
  records of functions over a world \<open>'w\<close> (\<open>gatt_api\<close>, \<open>settings_api\<close>, \<open>sys_api\<close>, \<open>usb_api\<close>) and over ring
  states \<open>'r\<close> (\<open>ring_api\<close>). A property that depends on the documented behaviour of one has it as a
  hypothesis: \<open>ring_laws\<close> for the ring buffers, each with the capacity it was declared with, that a
  call succeeds, or that the driver delivers nothing; its witness instantiates the parameter, with
  rings of the firmware's sizes. \<open>log_env\<close> puts a recorder of the calls in front of any stack.
  Which stored entries \<open>settings_load_subtree\<close> hands to the loader, and how often, is the parameter's
  choice. \<open>c_sscanf_2x\<close> follows the C standard, where a lone prefix 0x is a failed conversion of \<open>%2x\<close>;
  C libraries differ on it.

  \<^bold>\<open>What the stack may report.\<close> \<open>pm_step\<close> has every call and every handler of the profile manager at any
  time and with any argument. \<open>sys_step\<close> and \<open>fw_step\<close> have a parameter \<open>may\<close>, which events are possible
  in which state of the profile manager; \<open>\<lambda>_ _. True\<close> leaves the stack free, and the properties hold
  for every \<open>may\<close>. The one thing the code leaves to the stack is stated as \<open>reports_linked\<close>: attributes and
  a successful subscription only when there is a connection; \<open>subscribe_handler\<close> does not check it,
  and without it a session can count as ready with no connection (\<open>pm_core\<close> still holds).

  \<^bold>\<open>How the parts interact.\<close> The UART interrupt (\<open>control_uart_isr_step\<close>) hands received bytes to the AT
  host or, in data mode, to \<open>handle_data_mode_rx\<close>. The AT host calls the operations of \<open>at_ops\<close>; they
  call the settings and the profile manager, which call the stack. The stack calls back through the
  connection handlers and the handlers of the profile manager, which call \<open>profile_callbacks\<close>.
  \<open>sys_step\<close> is one step of all this, \<open>fw_step\<close> adds the start-up; handlers run one after the other.

  \<^bold>\<open>The library.\<close> Two interfaces are locales. \<open>at_host_backend\<close> (\<open>At_Host\<close>) is what the AT host relies on:
  operations and output keep an invariant of the application; it is interpreted as \<open>backend\<close> on the
  tables of \<open>main.c\<close> in \<open>Main_Inv\<close>. \<open>profile_client\<close> (\<open>Pm_Lemmas\<close>) is what the profile manager relies on:
  callbacks leave \<open>g_state\<close> alone and keep an invariant; it is interpreted in \<open>Main_Inv\<close> as \<open>main\<close> and,
  with another invariant, in \<open>Rx_Stall\<close> as \<open>quiet_client\<close>.

  \<^bold>\<open>What the lemmas show.\<close>

  \<^item> \<open>App_Common\<close>, \<open>Settings\<close>: UUID normalisation meets its specification; accepted settings survive a
    restart; the profile is normalised at first and in every configuration that can be reached.
  \<^item> \<open>At_Protocol\<close>, \<open>At_Syntax\<close>, \<open>At_Properties\<close>: the byte-level receiver refines an abstract one whose
    state is the text collected so far; every command of the language is executed with exactly its
    arguments; each gets one reply, and only AT+SEND asks for a payload; AT+SEND transfers exactly its
    payload.
  \<^item> \<open>Pm_Lemmas\<close>, \<open>Pm_Properties\<close>: the invariant of \<open>g_state\<close>, guarded sending, the two discoveries from
    the first report to the end, the end of a session, the MTU exchange over whole runs.
  \<^item> \<open>Main_Inv\<close>, \<open>Main_Props\<close>: every handler keeps the invariant of the application, hence it holds in
    every reachable state, a failed start-up included; the start-up completes, also when DTR goes up
    and down; a lost connection resets the session; the buffer of a write is stable.
  \<^item> \<open>Main_Data_Props\<close>, \<open>Pump_Props\<close>: data mode is transparent; the escape sequence leaves it; the pump
    ends, and delivers when the stack accepts; a refused write loses data.
  \<^item> \<open>Rx_Stall\<close>: a paused receiver is not enabled again after a session ends. \<open>Scan_Props\<close>: the cache of
    devices and the two parsers. \<open>End_To_End\<close>: AT+SEND from the UART to the stack, AT+SETMTU from the UART
    to the settings and the session. \<open>Uart_Props\<close>: notifications into the ring for the host, the
    transmitter, and the entry into data mode.

  \<^bold>\<open>Bounds and fuel.\<close> Loops over data are structural recursion; \<open>ad_name_loop\<close> has its measure. The loops
  of the pump and of the UART interrupt are \<open>partial_function\<close>s; the pump is proved to return
  (\<open>pump_returns\<close>), while the interrupt loop depends on what the driver reports, so only its steps
  are reasoned about. No definition has fuel.

  \<^bold>\<open>Not modelled.\<close> Logging; spin locks and true concurrency (a handler runs to its end, although the
  UART interrupt may interrupt a work item); the binding of work items to their handlers
  (\<open>k_work_init\<close>), which is fixed; a handler that the stack calls from within an API call: a call
  returns first and its handlers are later steps. The Python scripts, the build scripts and the
  published image are not part of the firmware's logic.
\<close>

end
